(* ===== verification/Prelude.thy ===== *)
theory Prelude
  imports Complex_Main "HOL-Library.Multiset"
begin

text \<open>
  The shared layer of the development: the error values of the services, the program
  combinators that give a service method its meaning (state that survives a thrown exception,
  try/catch, database transactions with rollback), SQL-like operations on tables held as lists
  of rows, and the decimal rounding of the ledger. The collections \<open>prog_simps\<close>,
  \<open>keeps\<close> and \<open>money\<close> carry the component proofs.
\<close>

named_theorems prog_simps "equations of the program combinators"
named_theorems keeps "introduction rules for preservation of a state predicate"
named_theorems money "fixed-scale decimal facts"
named_theorems wp "weakest preconditions of the program combinators"

section \<open>Errors\<close>

text \<open>
  One constructor per exception class the services throw; the string is the constant text of
  the message (interpolated identifiers and amounts are left out). \<open>Failure\<close> is a plain
  \<open>Error\<close>.
\<close>

datatype error = NotFound string | BadRequest string | Conflict string | Failure string

fun is_bad_request :: "error \<Rightarrow> bool" where
  "is_bad_request (BadRequest m) = True"
| "is_bad_request e = False"

section \<open>Programs\<close>

text \<open>
  A method maps a state to an error or a value, together with the state it leaves behind: what
  was written before a \<open>throw\<close> stays written, unless a transaction rolls it back.
\<close>

type_synonym ('s, 'a) prog = "'s \<Rightarrow> (error + 'a) \<times> 's"

definition ret :: "'a \<Rightarrow> ('s, 'a) prog" where
  "ret x = (\<lambda>s. (Inr x, s))"

definition throw :: "error \<Rightarrow> ('s, 'a) prog" where
  "throw e = (\<lambda>s. (Inl e, s))"

definition bnd :: "('s, 'a) prog \<Rightarrow> ('a \<Rightarrow> ('s, 'b) prog) \<Rightarrow> ('s, 'b) prog" where
  "bnd m k = (\<lambda>s. case m s of (Inl e, t) \<Rightarrow> (Inl e, t) | (Inr x, t) \<Rightarrow> k x t)"

definition ask :: "('s \<Rightarrow> 'a) \<Rightarrow> ('s, 'a) prog" where
  "ask f = (\<lambda>s. (Inr (f s), s))"

definition tell :: "('s \<Rightarrow> 's) \<Rightarrow> ('s, unit) prog" where
  "tell f = (\<lambda>s. (Inr (), f s))"

definition guard :: "bool \<Rightarrow> error \<Rightarrow> ('s, unit) prog" where
  "guard b e = (if b then ret () else throw e)"

definition lift_result :: "error + 'a \<Rightarrow> ('s, 'a) prog" where
  "lift_result r = (\<lambda>s. (r, s))"

definition require :: "'a option \<Rightarrow> error \<Rightarrow> ('s, 'a) prog" where
  "require x e = (case x of None \<Rightarrow> throw e | Some y \<Rightarrow> ret y)"

text \<open>\<open>try { m } catch {}\<close>: the error is swallowed, the writes made before it stay.\<close>

definition attempt :: "('s, 'a) prog \<Rightarrow> ('s, 'a option) prog" where
  "attempt m = (\<lambda>s. case m s of (Inl e, t) \<Rightarrow> (Inr None, t) | (Inr x, t) \<Rightarrow> (Inr (Some x), t))"

text \<open>\<open>try { m } catch (e) { h e }\<close>.\<close>

definition handle :: "('s, 'a) prog \<Rightarrow> (error \<Rightarrow> ('s, 'a) prog) \<Rightarrow> ('s, 'a) prog" where
  "handle m h = (\<lambda>s. case m s of (Inl e, t) \<Rightarrow> h e t | (Inr x, t) \<Rightarrow> (Inr x, t))"

text \<open>\<open>db.transaction(m)\<close>: an error restores the state at the start.\<close>

definition transact :: "('s, 'a) prog \<Rightarrow> ('s, 'a) prog" where
  "transact m = (\<lambda>s. case m s of (Inl e, t) \<Rightarrow> (Inl e, s) | (Inr x, t) \<Rightarrow> (Inr x, t))"

fun for_each :: "'a list \<Rightarrow> ('a \<Rightarrow> ('s, unit) prog) \<Rightarrow> ('s, unit) prog" where
  "for_each [] f = ret ()"
| "for_each (x # xs) f = bnd (f x) (\<lambda>_. for_each xs f)"

fun collect :: "'a list \<Rightarrow> ('a \<Rightarrow> ('s, 'b) prog) \<Rightarrow> ('s, 'b list) prog" where
  "collect [] f = ret []"
| "collect (x # xs) f = bnd (f x) (\<lambda>y. bnd (collect xs f) (\<lambda>ys. ret (y # ys)))"

lemma ret_apply [simp, prog_simps]: "ret x s = (Inr x, s)"
  by (simp add: ret_def)

lemma throw_apply [simp, prog_simps]: "throw e s = (Inl e, s)"
  by (simp add: throw_def)

lemma ask_apply [simp, prog_simps]: "ask f s = (Inr (f s), s)"
  by (simp add: ask_def)

lemma tell_apply [simp, prog_simps]: "tell f s = (Inr (), f s)"
  by (simp add: tell_def)

lemma guard_apply [prog_simps]: "guard b e s = (if b then Inr () else Inl e, s)"
  by (simp add: guard_def)

lemma lift_result_apply [simp, prog_simps]: "lift_result r s = (r, s)"
  by (simp add: lift_result_def)

lemma require_simps [simp, prog_simps]:
  "require None e = throw e" "require (Some y) e = ret y"
  by (simp_all add: require_def)

lemma bnd_Inl [prog_simps]: "m s = (Inl e, t) \<Longrightarrow> bnd m k s = (Inl e, t)"
  by (simp add: bnd_def)

lemma bnd_Inr [prog_simps]: "m s = (Inr x, t) \<Longrightarrow> bnd m k s = k x t"
  by (simp add: bnd_def)

lemma bnd_ret_left [simp]: "bnd (ret x) k s = k x s"
  by (simp add: bnd_def)

lemma bnd_throw [simp]: "bnd (throw e) k s = (Inl e, s)"
  by (simp add: bnd_def)

lemma bnd_ask [simp]: "bnd (ask f) k s = k (f s) s"
  by (simp add: bnd_def)

lemma bnd_tell [simp]: "bnd (tell f) k s = k () (f s)"
  by (simp add: bnd_def)

lemma bnd_lift_Inl [simp]: "bnd (lift_result (Inl e)) k s = (Inl e, s)"
  by (simp add: bnd_def)

lemma bnd_lift_Inr [simp]: "bnd (lift_result (Inr y)) k s = k y s"
  by (simp add: bnd_def)

lemma bnd_guard [simp]: "bnd (guard b e) k s = (if b then k () s else (Inl e, s))"
  by (simp add: bnd_def guard_def)

lemma bnd_require [simp]:
  "bnd (require x e) k s = (case x of None \<Rightarrow> (Inl e, s) | Some y \<Rightarrow> k y s)"
  by (cases x) simp_all

lemma bnd_assoc: "bnd (bnd m k) h = bnd m (\<lambda>x. bnd (k x) h)"
  by (rule ext) (simp add: bnd_def split: prod.splits sum.splits)

lemma bnd_ret_right [simp]: "bnd m ret = m"
  by (rule ext) (simp add: bnd_def split: prod.splits sum.splits)

lemma bnd_InrE [elim]:
  assumes "bnd m k s = (Inr y, u)"
  obtains x t where "m s = (Inr x, t)" and "k x t = (Inr y, u)"
  using assms by (auto simp: bnd_def split: prod.splits sum.splits)

lemma bnd_Inr_iff:
  "bnd m k s = (Inr y, u) \<longleftrightarrow> (\<exists>x t. m s = (Inr x, t) \<and> k x t = (Inr y, u))"
  by (auto simp: bnd_def split: prod.splits sum.splits)

lemma bnd_Inl_iff:
  "bnd m k s = (Inl e, u) \<longleftrightarrow>
     m s = (Inl e, u) \<or> (\<exists>x t. m s = (Inr x, t) \<and> k x t = (Inl e, u))"
  by (auto simp: bnd_def split: prod.splits sum.splits)

lemma guard_Inr_iff [simp]: "guard b e s = (Inr u, t) \<longleftrightarrow> b \<and> t = s"
  by (auto simp: guard_def)

lemma guard_Inl_iff [simp]: "guard b e s = (Inl e', t) \<longleftrightarrow> \<not> b \<and> e' = e \<and> t = s"
  by (auto simp: guard_def)

lemma require_Inr_iff [simp]: "require x e s = (Inr y, t) \<longleftrightarrow> x = Some y \<and> t = s"
  by (cases x) auto

lemma attempt_not_Inl [simp]: "attempt m s \<noteq> (Inl e, t)"
  by (auto simp: attempt_def split: prod.splits sum.splits)

lemma attempt_state: "snd (attempt m s) = snd (m s)"
  by (auto simp: attempt_def split: prod.splits sum.splits)

lemma transact_Inr_iff [simp]: "transact m s = (Inr x, t) \<longleftrightarrow> m s = (Inr x, t)"
  by (auto simp: transact_def split: prod.splits sum.splits)

lemma transact_InlD: "transact m s = (Inl e, t) \<Longrightarrow> t = s"
  by (auto simp: transact_def split: prod.splits sum.splits)

section \<open>Preservation of a state predicate\<close>

text \<open>
  \<open>keeps_inv I m\<close>: a program started where \<open>I\<close> holds ends where \<open>I\<close> holds, whether it returns
  or throws. The rules follow the combinators, so the preservation of an invariant by a method
  is a matter of its individual writes.
\<close>

definition keeps_inv :: "('s \<Rightarrow> bool) \<Rightarrow> ('s, 'a) prog \<Rightarrow> bool" where
  "keeps_inv I m \<longleftrightarrow> (\<forall>s. I s \<longrightarrow> I (snd (m s)))"

lemma keeps_invD: "keeps_inv I m \<Longrightarrow> I s \<Longrightarrow> I (snd (m s))"
  by (simp add: keeps_inv_def)

lemma keeps_ret [keeps]: "keeps_inv I (ret x)"
  by (simp add: keeps_inv_def)

lemma keeps_throw [keeps]: "keeps_inv I (throw e)"
  by (simp add: keeps_inv_def)

lemma keeps_ask [keeps]: "keeps_inv I (ask f)"
  by (simp add: keeps_inv_def)

lemma keeps_guard [keeps]: "keeps_inv I (guard b e)"
  by (simp add: keeps_inv_def guard_def)

lemma keeps_require [keeps]: "keeps_inv I (require x e)"
  by (cases x) (simp_all add: keeps_inv_def)

lemma keeps_lift_result [keeps]: "keeps_inv I (lift_result r)"
  by (simp add: keeps_inv_def)

lemma keeps_tell: "(\<And>s. I s \<Longrightarrow> I (f s)) \<Longrightarrow> keeps_inv I (tell f)"
  by (simp add: keeps_inv_def)

lemma keeps_bnd [keeps]:
  assumes "keeps_inv I m" and "\<And>x. keeps_inv I (k x)"
  shows "keeps_inv I (bnd m k)"
  using assms by (fastforce simp: keeps_inv_def bnd_def split: prod.splits sum.splits)

lemma keeps_attempt [keeps]: "keeps_inv I m \<Longrightarrow> keeps_inv I (attempt m)"
  by (simp add: keeps_inv_def attempt_state)

lemma keeps_handle [keeps]:
  assumes "keeps_inv I m" and "\<And>e. keeps_inv I (h e)"
  shows "keeps_inv I (handle m h)"
  using assms by (fastforce simp: keeps_inv_def handle_def split: prod.splits sum.splits)

lemma keeps_transact [keeps]: "keeps_inv I m \<Longrightarrow> keeps_inv I (transact m)"
  by (fastforce simp: keeps_inv_def transact_def split: prod.splits sum.splits)

lemma keeps_for_each [keeps]: "(\<And>x. keeps_inv I (f x)) \<Longrightarrow> keeps_inv I (for_each xs f)"
  by (induction xs) (auto intro: keeps_ret keeps_bnd)

lemma keeps_collect [keeps]: "(\<And>x. keeps_inv I (f x)) \<Longrightarrow> keeps_inv I (collect xs f)"
  by (induction xs) (auto intro!: keeps_ret keeps_bnd)

lemma keeps_if [keeps]:
  "keeps_inv I m \<Longrightarrow> keeps_inv I n \<Longrightarrow> keeps_inv I (if b then m else n)"
  by simp

lemma keeps_case_option [keeps]:
  "keeps_inv I m \<Longrightarrow> (\<And>x. keeps_inv I (k x)) \<Longrightarrow> keeps_inv I (case_option m k v)"
  by (cases v) simp_all

lemma keeps_case_sum [keeps]:
  "(\<And>x. keeps_inv I (f x)) \<Longrightarrow> (\<And>x. keeps_inv I (g x)) \<Longrightarrow> keeps_inv I (case_sum f g v)"
  by (cases v) simp_all

lemma keeps_case_prod [keeps]:
  "(\<And>x y. keeps_inv I (f x y)) \<Longrightarrow> keeps_inv I (case_prod f p)"
  by (cases p) simp

lemma keeps_Let [keeps]: "keeps_inv I (f x) \<Longrightarrow> keeps_inv I (Let x f)"
  by simp

section \<open>Weakest preconditions\<close>

text \<open>
  \<open>ends m Q E s\<close>: run from \<open>s\<close>, the program returns a value and a state related by \<open>Q\<close> or throws
  an error in a state related by \<open>E\<close>. The equations \<open>wp\<close> push it through the combinators, so a
  statement about a method becomes one about its guards and writes.
\<close>

definition ends :: "('s, 'a) prog \<Rightarrow> ('a \<Rightarrow> 's \<Rightarrow> bool) \<Rightarrow> (error \<Rightarrow> 's \<Rightarrow> bool) \<Rightarrow> 's \<Rightarrow> bool" where
  "ends m Q E s = (case m s of (Inl e, t) \<Rightarrow> E e t | (Inr x, t) \<Rightarrow> Q x t)"

lemma endsI: "(\<And>x t. m s = (Inr x, t) \<Longrightarrow> Q x t) \<Longrightarrow> (\<And>e t. m s = (Inl e, t) \<Longrightarrow> E e t) \<Longrightarrow> ends m Q E s"
  by (simp add: ends_def split: prod.split sum.split)

lemma ends_InrD: "ends m Q E s \<Longrightarrow> m s = (Inr x, t) \<Longrightarrow> Q x t"
  by (simp add: ends_def)

lemma ends_InlD: "ends m Q E s \<Longrightarrow> m s = (Inl e, t) \<Longrightarrow> E e t"
  by (simp add: ends_def)

lemma ends_weaken:
  "ends m Q E s \<Longrightarrow> (\<And>x t. Q x t \<Longrightarrow> Q' x t) \<Longrightarrow> (\<And>e t. E e t \<Longrightarrow> E' e t) \<Longrightarrow> ends m Q' E' s"
  by (simp add: ends_def split: prod.splits sum.splits)

lemma keeps_inv_ends: "keeps_inv I m \<longleftrightarrow> (\<forall>s. I s \<longrightarrow> ends m (\<lambda>x. I) (\<lambda>e. I) s)"
proof -
  have "ends m (\<lambda>x. I) (\<lambda>e. I) s \<longleftrightarrow> I (snd (m s))" for s
    by (simp add: ends_def split: prod.split sum.split)
  then show ?thesis by (simp add: keeps_inv_def)
qed

lemma keeps_inv_endsD: "keeps_inv I m \<Longrightarrow> I s \<Longrightarrow> ends m (\<lambda>x. I) (\<lambda>e. I) s"
  by (simp add: keeps_inv_ends)

lemma ends_conj:
  "ends m (\<lambda>x t. Q x t \<and> Q' x t) (\<lambda>e t. E e t \<and> E' e t) s \<longleftrightarrow> ends m Q E s \<and> ends m Q' E' s"
  by (simp add: ends_def split: prod.split sum.split)

lemma ends_bnd [wp]: "ends (bnd m k) Q E s = ends m (\<lambda>x. ends (k x) Q E) E s"
  by (simp add: ends_def bnd_def split: prod.split sum.split)

lemma ends_bnd_fun: "ends (bnd m k) Q E = ends m (\<lambda>x. ends (k x) Q E) E"
  by (rule ext) (rule ends_bnd)

lemma ends_ret [wp]: "ends (ret x) Q E s = Q x s"
  by (simp add: ends_def)

lemma ends_ret_fun: "ends (ret x) Q E = Q x"
  by (rule ext) (rule ends_ret)

lemmas ends_fun = ends_bnd_fun ends_ret_fun

lemma ends_throw [wp]: "ends (throw e) Q E s = E e s"
  by (simp add: ends_def)

lemma ends_Pair [wp]: "ends (Pair r) Q E s = (case r of Inl e \<Rightarrow> E e s | Inr x \<Rightarrow> Q x s)"
  by (simp add: ends_def)

lemma ends_ask [wp]: "ends (ask f) Q E s = Q (f s) s"
  by (simp add: ends_def)

lemma ends_tell [wp]: "ends (tell f) Q E s = Q () (f s)"
  by (simp add: ends_def)

lemma ends_guard [wp]: "ends (guard b e) Q E s = (if b then Q () s else E e s)"
  by (simp add: ends_def guard_def)

lemma ends_require [wp]:
  "ends (require v e) Q E s = (case v of None \<Rightarrow> E e s | Some x \<Rightarrow> Q x s)"
  by (cases v) (simp_all add: ends_def)

lemma ends_lift_result [wp]:
  "ends (lift_result r) Q E s = (case r of Inl e \<Rightarrow> E e s | Inr x \<Rightarrow> Q x s)"
  by (simp add: ends_def)

lemma ends_attempt [wp]: "ends (attempt m) Q E s = ends m (\<lambda>x. Q (Some x)) (\<lambda>e. Q None) s"
  by (simp add: ends_def attempt_def split: prod.split sum.split)

lemma ends_handle [wp]: "ends (handle m h) Q E s = ends m Q (\<lambda>e. ends (h e) Q E) s"
  by (simp add: ends_def handle_def split: prod.split sum.split)

lemma ends_transact [wp]: "ends (transact m) Q E s = ends m Q (\<lambda>e t. E e s) s"
  by (simp add: ends_def transact_def split: prod.split sum.split)

lemma ends_if [wp]: "ends (if b then m else n) Q E s = (if b then ends m Q E s else ends n Q E s)"
  by simp

lemma ends_case_option [wp]:
  "ends (case_option m k v) Q E s = (case v of None \<Rightarrow> ends m Q E s | Some x \<Rightarrow> ends (k x) Q E s)"
  by (cases v) simp_all

lemma ends_case_prod [wp]: "ends (case_prod f p) Q E s = (case p of (a, b) \<Rightarrow> ends (f a b) Q E s)"
  by (cases p) simp

lemma ends_for_each:
  assumes "P s" and "\<And>x t. x \<in> set xs \<Longrightarrow> P t \<Longrightarrow> ends (f x) (\<lambda>_. P) E t"
  shows "ends (for_each xs f) (\<lambda>_. P) E s"
  using assms
proof (induction xs arbitrary: s)
  case Nil
  then show ?case by (simp add: wp)
next
  case (Cons x xs)
  have "ends (f x) (\<lambda>_. P) E s" using Cons.prems by simp
  then show ?case unfolding for_each.simps ends_bnd
    by (rule ends_weaken) (use Cons in auto)
qed

lemma ends_collect:
  assumes "P s" and "\<And>x t. x \<in> set xs \<Longrightarrow> P t \<Longrightarrow> ends (f x) (\<lambda>_. P) E t"
  shows "ends (collect xs f) (\<lambda>_. P) E s"
  using assms
proof (induction xs arbitrary: s)
  case Nil
  then show ?case by (simp add: wp)
next
  case (Cons x xs)
  have "ends (f x) (\<lambda>_. P) E s" using Cons.prems by simp
  then show ?case unfolding collect.simps ends_bnd
  proof (rule ends_weaken)
    fix y t assume "P t"
    have "ends (collect xs f) (\<lambda>_. P) E t" using Cons.prems by (intro Cons.IH \<open>P t\<close>) simp
    then show "ends (collect xs f) (\<lambda>x. ends (ret (y # x)) (\<lambda>_. P) E) E t"
      by (rule ends_weaken) (simp_all add: wp)
  qed
qed

lemma keeps_conj: "keeps_inv I m \<Longrightarrow> keeps_inv J m \<Longrightarrow> keeps_inv (\<lambda>s. I s \<and> J s) m"
  by (simp add: keeps_inv_def)

lemma keeps_true: "keeps_inv (\<lambda>_. True) m"
  by (simp add: keeps_inv_def)

text \<open>Running something whose effect does not matter, or keeps a view, before the rest.\<close>

lemma ends_then: "keeps_inv I m \<Longrightarrow> I s \<Longrightarrow> (\<And>x t. I t \<Longrightarrow> ends (k x) Q E t) \<Longrightarrow> (\<And>e t. I t \<Longrightarrow> E e t) \<Longrightarrow>
   ends (bnd m k) Q E s"
  unfolding ends_bnd by (rule ends_weaken [OF keeps_inv_endsD])

section \<open>Tables\<close>

text \<open>
  A table is the list of its rows in insertion order. \<open>select\<close>, \<open>update\<close> and \<open>insert\<close> of the
  query builder are the list functions below; \<open>const [row] = await \<dots>\<close> takes the first row.
\<close>

definition sel :: "('r \<Rightarrow> bool) \<Rightarrow> 'r list \<Rightarrow> 'r list" where
  "sel c t = filter c t"

definition upd :: "('r \<Rightarrow> bool) \<Rightarrow> ('r \<Rightarrow> 'r) \<Rightarrow> 'r list \<Rightarrow> 'r list" where
  "upd c f t = map (\<lambda>r. if c r then f r else r) t"

fun first_row :: "'r list \<Rightarrow> 'r option" where
  "first_row [] = None"
| "first_row (r # rs) = Some r"

definition count_rows :: "('r \<Rightarrow> bool) \<Rightarrow> 'r list \<Rightarrow> nat" where
  "count_rows c t = length (filter c t)"

lemma first_row_Some_in: "first_row xs = Some r \<Longrightarrow> r \<in> set xs"
  by (cases xs) auto

lemma first_row_map [simp]: "first_row (map f xs) = map_option f (first_row xs)"
  by (cases xs) simp_all

lemma first_row_None_iff: "first_row xs = None \<longleftrightarrow> xs = []"
  by (cases xs) auto

lemma first_sel_SomeD: "first_row (sel c t) = Some r \<Longrightarrow> r \<in> set t \<and> c r"
  using first_row_Some_in [of "sel c t" r] by (auto simp: sel_def)

lemma sel_Nil_iff: "sel c t = [] \<longleftrightarrow> (\<forall>r \<in> set t. \<not> c r)"
  by (auto simp: sel_def filter_empty_conv)

lemma first_sel_None_iff: "first_row (sel c t) = None \<longleftrightarrow> (\<forall>r \<in> set t. \<not> c r)"
  by (simp add: first_row_None_iff sel_Nil_iff)

lemma sel_upd_disjoint:
  "(\<And>r. r \<in> set t \<Longrightarrow> c r \<Longrightarrow> \<not> d (f r)) \<Longrightarrow> (\<And>r. r \<in> set t \<Longrightarrow> c r \<Longrightarrow> \<not> d r) \<Longrightarrow>
   sel d (upd c f t) = sel d t"
  by (induction t) (auto simp: sel_def upd_def)

lemma length_upd [simp]: "length (upd c f t) = length t"
  by (simp add: upd_def)

lemma first_sel_upd:
  assumes "\<And>r. d (f r) = d r"
  shows "first_row (sel d (upd c f t)) = map_option (\<lambda>r. if c r then f r else r) (first_row (sel d t))"
proof -
  have "sel d (upd c f t) = map (\<lambda>r. if c r then f r else r) (sel d t)"
    using assms by (induction t) (auto simp: sel_def upd_def)
  then show ?thesis by simp
qed

lemma map_upd_key: "(\<And>r. c r \<Longrightarrow> k (f r) = k r) \<Longrightarrow> map k (upd c f t) = map k t"
  by (auto simp: upd_def)

lemma set_upd: "set (upd c f t) = f ` {r \<in> set t. c r} \<union> {r \<in> set t. \<not> c r}"
  by (auto simp: upd_def)

lemma upd_none: "(\<And>r. r \<in> set t \<Longrightarrow> \<not> c r) \<Longrightarrow> upd c f t = t"
  by (simp add: upd_def map_idI)

lemma distinct_key_unique:
  "distinct (map k t) \<Longrightarrow> r \<in> set t \<Longrightarrow> q \<in> set t \<Longrightarrow> k r = k q \<Longrightarrow> r = q"
  by (metis distinct_map inj_onD)

lemma key_not_in_tail:
  assumes "distinct (map k (x # t))" and "c x" and "\<And>q. c q \<Longrightarrow> k q = k x"
  shows "\<forall>q \<in> set t. \<not> c q"
proof
  fix q assume "q \<in> set t"
  then have "k q \<in> set (map k t)" by simp
  moreover have "k x \<notin> set (map k t)" using assms(1) by simp
  ultimately have "k q \<noteq> k x" by metis
  then show "\<not> c q" using assms(3) by blast
qed

lemma first_sel_key:
  "distinct (map k t) \<Longrightarrow> r \<in> set t \<Longrightarrow> c r \<Longrightarrow> (\<And>q. c q \<Longrightarrow> k q = k r) \<Longrightarrow>
   first_row (sel c t) = Some r"
proof (induction t)
  case Nil
  then show ?case by simp
next
  case (Cons x t)
  show ?case
  proof (cases "c x")
    case True
    have "k r = k x" using Cons.prems(4) [OF True] by simp
    then have "r = x" using distinct_key_unique [OF Cons.prems(1,2), of x] by simp
    with True show ?thesis by (simp add: sel_def)
  next
    case False
    with Cons.prems(2,3) have "r \<in> set t" by auto
    from Cons.IH [OF _ this Cons.prems(3,4)] Cons.prems(1) have "first_row (sel c t) = Some r"
      by simp
    with False show ?thesis by (simp add: sel_def)
  qed
qed

lemma sum_list_upd_one:
  fixes v :: "'r \<Rightarrow> 'n::ab_group_add"
  assumes "distinct (map k t)" and "r \<in> set t" and "c r" and "\<And>q. c q \<Longrightarrow> k q = k r"
  shows "sum_list (map v (upd c f t)) = sum_list (map v t) - v r + v (f r)"
  using assms
proof (induction t)
  case Nil
  then show ?case by simp
next
  case (Cons x t)
  show ?case
  proof (cases "x = r")
    case True
    have "\<forall>q \<in> set t. \<not> c q"
    proof (rule key_not_in_tail [OF Cons.prems(1)])
      show "c x" using True Cons.prems(3) by simp
      show "k q = k x" if "c q" for q using Cons.prems(4) [OF that] True by simp
    qed
    then have "upd c f t = t" by (simp add: upd_none)
    with True Cons.prems(3) show ?thesis by (simp add: upd_def)
  next
    case False
    have "\<not> c x"
    proof
      assume "c x"
      then have "k x = k r" by (rule Cons.prems(4))
      with distinct_key_unique [OF Cons.prems(1) _ Cons.prems(2)] False show False by simp
    qed
    moreover have "sum_list (map v (upd c f t)) = sum_list (map v t) - v r + v (f r)"
    proof (rule Cons.IH)
      show "distinct (map k t)" using Cons.prems(1) by simp
      show "r \<in> set t" using False Cons.prems(2) by auto
    qed (fact Cons.prems)+
    ultimately show ?thesis by (simp add: upd_def)
  qed
qed

end
