(* ===== verification/Money.thy ===== *)
theory Money
  imports Prelude
begin

text \<open>
  Decimal values. The services hold amounts as decimal strings and compute with decimal.js; here
  a decimal is a rational. The operations used on them (\<open>plus\<close>, \<open>minus\<close>, \<open>times\<close>, comparison)
  are exact on the ledger's values: its columns are \<open>numeric(12,2)\<close> and \<open>numeric(8,4)\<close>, so
  every sum and product stays within the library's default 20 significant digits.
  \<open>toFixed\<close>/\<open>toDecimalPlaces\<close> round half away from zero, the library's default mode, as
  PostgreSQL does when it stores a value in a scale-two column.
\<close>

type_synonym decimal = rat

definition half_up :: "rat \<Rightarrow> int" where
  "half_up x = (if 0 \<le> x then \<lfloor>x + 1 / 2\<rfloor> else - \<lfloor>1 / 2 - x\<rfloor>)"

definition to_fixed :: "nat \<Rightarrow> decimal \<Rightarrow> decimal" where
  "to_fixed n x = of_int (half_up (x * 10 ^ n)) / 10 ^ n"

text \<open>\<open>decimalPlaces() <= n\<close>.\<close>

definition fits :: "nat \<Rightarrow> decimal \<Rightarrow> bool" where
  "fits n x \<longleftrightarrow> of_int \<lfloor>x * 10 ^ n\<rfloor> = x * 10 ^ n"

abbreviation cents :: "decimal \<Rightarrow> decimal" where
  "cents \<equiv> to_fixed 2"

lemma floor_rat_numerals [simp]:
  "\<lfloor>numeral a / numeral b :: rat\<rfloor> = numeral a div numeral b"
  "\<lfloor>1 / numeral b :: rat\<rfloor> = 1 div numeral b"
  by (metis floor_divide_of_int_eq of_int_numeral)
    (metis floor_divide_of_int_eq of_int_1 of_int_numeral)

lemma floor_rat_neg_numerals [simp]:
  "\<lfloor>- (numeral a / numeral b) :: rat\<rfloor> = - numeral a div numeral b"
  by (metis floor_divide_of_int_eq minus_divide_left of_int_minus of_int_numeral)

lemma fits_iff: "fits n x \<longleftrightarrow> (\<exists>k. x = of_int k / 10 ^ n)"
proof
  assume "fits n x"
  then have "x = of_int \<lfloor>x * 10 ^ n\<rfloor> / 10 ^ n" unfolding fits_def by (metis
        nonzero_mult_div_cancel_right power_not_zero zero_neq_numeral)
  then show "\<exists>k. x = of_int k / 10 ^ n" by blast
qed (auto simp: fits_def)

lemma half_up_of_int [simp]: "half_up (of_int k) = k"
proof (cases "0 \<le> k")
  case True
  have "\<lfloor>of_int k + 1 / 2 :: rat\<rfloor> = k" by (simp add: floor_unique)
  with True show ?thesis by (simp add: half_up_def)
next
  case False
  have "\<lfloor>1 / 2 - of_int k :: rat\<rfloor> = - k" by (rule floor_unique) simp_all
  with False show ?thesis by (simp add: half_up_def)
qed

lemma half_up_uminus: "half_up (- x) = - half_up x"
proof (cases "x = 0")
  case True
  have "half_up (0 :: rat) = 0" using half_up_of_int [of 0] by simp
  with True show ?thesis by simp
next
  case False
  then show ?thesis by (auto simp: half_up_def algebra_simps)
qed

lemma half_up_bounds: "of_int (half_up x) \<le> x + 1 / 2 \<and> x - 1 / 2 \<le> of_int (half_up x)"
proof (cases "0 \<le> x")
  case True
  have "of_int \<lfloor>x + 1 / 2\<rfloor> \<le> x + 1 / 2" by simp
  moreover have "x + 1 / 2 < of_int \<lfloor>x + 1 / 2\<rfloor> + 1" by linarith
  ultimately show ?thesis using True by (simp add: half_up_def)
next
  case False
  have "of_int \<lfloor>1 / 2 - x\<rfloor> \<le> 1 / 2 - x" by simp
  moreover have "1 / 2 - x < of_int \<lfloor>1 / 2 - x\<rfloor> + 1" by linarith
  ultimately show ?thesis using False by (simp add: half_up_def) linarith
qed

lemma half_up_nonneg: "0 \<le> x \<Longrightarrow> 0 \<le> half_up x"
  by (simp add: half_up_def)

lemma half_up_mono: "x \<le> y \<Longrightarrow> half_up x \<le> half_up y"
proof -
  assume le: "x \<le> y"
  show ?thesis
  proof (cases "x < 0 \<and> 0 \<le> y")
    case True
    then have "0 \<le> \<lfloor>1 / 2 - x\<rfloor>" and "0 \<le> \<lfloor>y + 1 / 2\<rfloor>" by simp_all
    then have "- \<lfloor>1 / 2 - x\<rfloor> \<le> \<lfloor>y + 1 / 2\<rfloor>" by linarith
    then show ?thesis using True unfolding half_up_def by simp
  next
    case False
    with le show ?thesis by (auto simp: half_up_def intro: floor_mono)
  qed
qed

lemma to_fixed_id [money]: "fits n x \<Longrightarrow> to_fixed n x = x"
  by (auto simp: fits_iff to_fixed_def)

lemma fits_to_fixed [simp, money]: "fits n (to_fixed n x)"
  by (auto simp: fits_iff to_fixed_def)

lemma to_fixed_idem [simp]: "to_fixed n (to_fixed n x) = to_fixed n x"
  by (simp add: to_fixed_id)

lemma fits_0 [simp, money]: "fits n 0"
  by (simp add: fits_def)

lemma to_fixed_0 [simp]: "to_fixed n 0 = 0"
  by (simp add: to_fixed_id)

lemma fits_of_int [simp, money]: "fits n (of_int k)"
  unfolding fits_iff by (rule exI [of _ "k * 10 ^ n"]) simp

lemma fits_add [simp, money]: "fits n x \<Longrightarrow> fits n y \<Longrightarrow> fits n (x + y)"
  unfolding fits_iff by (metis add_divide_distrib of_int_add)

lemma fits_uminus [simp, money]: "fits n x \<Longrightarrow> fits n (- x)"
  unfolding fits_iff by (metis minus_divide_left of_int_minus)

lemma fits_diff [simp, money]: "fits n x \<Longrightarrow> fits n y \<Longrightarrow> fits n (x - y)"
  using fits_add [of n x "- y"] by simp

lemma fits_abs [simp, money]: "fits n x \<Longrightarrow> fits n \<bar>x\<bar>"
  by (auto simp: abs_if)

lemma fits_max [simp, money]: "fits n x \<Longrightarrow> fits n y \<Longrightarrow> fits n (max x y)"
  by (auto simp: max_def)

lemma fits_min [simp, money]: "fits n x \<Longrightarrow> fits n y \<Longrightarrow> fits n (min x y)"
  by (auto simp: min_def)

lemma fits_sum_list [money]: "(\<And>x. x \<in> set xs \<Longrightarrow> fits n (f x)) \<Longrightarrow> fits n (sum_list (map f xs))"
  by (induction xs) auto

lemma fits_of_nat_mult [money]: "fits n x \<Longrightarrow> fits n (x * of_nat k)"
  unfolding fits_iff by (metis of_int_mult of_int_of_nat_eq times_divide_eq_left)

lemma fits_mono: "fits m x \<Longrightarrow> m \<le> n \<Longrightarrow> fits n x"
proof -
  assume "fits m x" and le: "m \<le> n"
  then obtain k where x: "x = of_int k / 10 ^ m" by (auto simp: fits_iff)
  have "(10 :: rat) ^ n = 10 ^ m * 10 ^ (n - m)" using le by (simp flip: power_add)
  then have "x = of_int (k * 10 ^ (n - m)) / 10 ^ n" using x by simp
  then show "fits n x" unfolding fits_iff by blast
qed

lemma to_fixed_uminus: "to_fixed n (- x) = - to_fixed n x"
  by (simp add: to_fixed_def half_up_uminus)

lemma to_fixed_nonneg [simp, money]: "0 \<le> x \<Longrightarrow> 0 \<le> to_fixed n x"
  by (simp add: to_fixed_def half_up_nonneg)

lemma to_fixed_mono: "x \<le> y \<Longrightarrow> to_fixed n x \<le> to_fixed n y"
  by (simp add: to_fixed_def divide_right_mono half_up_mono mult_right_mono)

lemma to_fixed_le_fits: "x \<le> y \<Longrightarrow> fits n y \<Longrightarrow> to_fixed n x \<le> y"
  using to_fixed_mono [of x y n] by (simp add: to_fixed_id)

lemma to_fixed_error: "\<bar>to_fixed n x - x\<bar> \<le> 1 / (2 * 10 ^ n)"
proof -
  have "\<bar>of_int (half_up (x * 10 ^ n)) - x * 10 ^ n\<bar> \<le> 1 / 2"
    using half_up_bounds [of "x * 10 ^ n"] unfolding abs_le_iff by linarith
  then have "\<bar>of_int (half_up (x * 10 ^ n)) - x * 10 ^ n\<bar> / 10 ^ n \<le> (1 / 2) / 10 ^ n"
    by (rule divide_right_mono) simp
  moreover have "to_fixed n x - x = (of_int (half_up (x * 10 ^ n)) - x * 10 ^ n) / 10 ^ n"
    by (simp add: to_fixed_def diff_divide_distrib)
  ultimately show ?thesis by (simp add: abs_divide)
qed

lemma fits_gt_0_ge_cent: "fits 2 x \<Longrightarrow> 0 < x \<Longrightarrow> 1 / 100 \<le> x"
  by (auto simp: fits_iff divide_le_cancel zero_less_divide_iff)

text \<open>Sums over rows.\<close>

definition total :: "('r \<Rightarrow> decimal) \<Rightarrow> 'r list \<Rightarrow> decimal" where
  "total f rs = fold (\<lambda>r acc. acc + f r) rs 0"

lemma fold_plus: "fold (\<lambda>r acc. acc + f r) rs (a :: decimal) = a + sum_list (map f rs)"
  by (induction rs arbitrary: a) simp_all

lemma total_eq [money]: "total f rs = sum_list (map f rs)"
  by (simp add: total_def fold_plus)

lemma total_simps [simp]:
  "total f [] = 0"
  "total f (r # rs) = f r + total f rs"
  "total f (rs @ qs) = total f rs + total f qs"
  by (simp_all add: total_eq)

lemma total_nonneg: "(\<And>r. r \<in> set rs \<Longrightarrow> 0 \<le> f r) \<Longrightarrow> 0 \<le> total f rs"
  by (induction rs) auto

lemma total_cong: "(\<And>r. r \<in> set rs \<Longrightarrow> f r = g r) \<Longrightarrow> total f rs = total g rs"
  by (induction rs) auto

lemma fits_total [money]: "(\<And>r. r \<in> set rs \<Longrightarrow> fits n (f r)) \<Longrightarrow> fits n (total f rs)"
  by (induction rs) auto

lemma total_filter_le:
  "(\<And>r. r \<in> set rs \<Longrightarrow> 0 \<le> f r) \<Longrightarrow> total f (filter p rs) \<le> total f rs"
  by (induction rs) (auto simp: add_increasing)

lemma total_partition: "total f (filter p rs) + total f (filter (\<lambda>r. \<not> p r) rs) = total f rs"
  by (induction rs) auto

end
