(* ===== verification/Schema.thy ===== *)
theory Schema
  imports Money
begin

text \<open>
  The data model: the rows of the tables the modelled services read and write
  (\<open>packages/database/src/schema/\<close>) and the state of one deployment, a record with one list
  of rows per table. UUIDs are natural numbers drawn from a counter, date columns are day
  numbers (justified in theory \<open>Calendar\<close>), timestamps are milliseconds since the epoch,
  \<open>numeric\<close> columns are decimals. Columns no modelled operation reads are left out. A
  webhook emission appends its name, entity and property to the event log.
\<close>

type_synonym ident = nat
type_synonym date = nat
type_synonym timestamp = int

section \<open>Enumerations\<close>

datatype reservation_status =
  Pending | Confirmed | Assigned | CheckedIn | Stayover | DueOut | CheckedOut | NoShow | Cancelled

datatype room_status =
  VacantClean | VacantDirty | Clean | Inspected | GuestReady | Occupied | OutOfOrder | OutOfService

datatype folio_status = FolioOpen | FolioSettled | FolioClosed

datatype folio_type = GuestFolio | MasterFolio | CityLedgerFolio

datatype charge_type =
  ChRoom | ChTax | ChFoodBeverage | ChMinibar | ChPhone | ChLaundry | ChParking | ChSpa
| ChIncidental | ChFee | ChAdjustment | ChPackage

datatype payment_method =
  CreditCard | DebitCard | Cash | BankTransfer | Pix | CityLedger | Vcc | OtherMethod

datatype payment_status =
  PayPending | PayAuthorized | PayCaptured | PaySettled | PayRefunded | PayPartiallyRefunded
| PayFailed | PayVoided

datatype tax_rule_type = PercentageTax | FlatPerNight | FlatPerStay | SplitComponent

text \<open>An entry of \<open>applies_to_charge_types\<close>: the wildcard or a charge type.\<close>

datatype tax_scope = AnyCharge | OnCharge charge_type

datatype penalty_type = NoPenalty | FirstNight | PercentagePenalty | FullPenalty

datatype deposit_handling = RefundIfRefundable | AlwaysForfeit | AlwaysRefund

datatype deposit_status = DepositHeld | DepositApplied | DepositRefunded | DepositForfeited

datatype account_kind = RetailAccount | VendorAccount | InternalAccount | OtherAccount

datatype open_status = IsOpen | IsClosed

datatype movement_type = CashPayment | CashRefund | CashPaidOut | CashDrop

text \<open>
  The posting rule of a service. A frozen price carries the rule as text; \<open>OtherPosting\<close> stands
  for text that names none of the four.
\<close>

datatype posting_rule = PostOnce | PostPerNight | PostOnConsumption | IncludedInRate | OtherPosting string

datatype service_status = ServiceQuoted | ServiceConfirmed | ServicePosted | ServiceCancelled

datatype request_status = RequestPending | RequestAccepted | RequestDenied

datatype milestone = OnDate | OnArrival | OnCheckout | Manually

datatype installment_status = InstallmentUnpaid | InstallmentPartial | InstallmentPaid

datatype resolution_type = RefundResolution | ExternalReturn | RetainedMoney

datatype resolution_status = ResolutionPending | ResolutionCompleted | ResolutionFailed

datatype delivery_kind = PaymentMail | RefundMail | FailureMail

text \<open>
  The source keys of the charge ledger: \<open>accepted-pricing:reservation:<id>:night:<date>\<close>,
  \<open>accepted-pricing:reservation-service:<id>:\<dots>\<close>, the keys of amendment corrections, and any
  key outside the \<open>accepted-pricing:\<close> namespace.
\<close>

datatype component = BasePart charge_type | TaxPart | CustomPart

datatype source_key =
  NightKey ident date
| ServiceNightKey ident date
| ServiceOnceKey ident date
| AmendmentKey ident ident ident component
| OtherKey string

section \<open>Accepted pricing\<close>

record priced_night =
  pn_date :: date
  pn_room :: decimal
  pn_tax :: decimal

record service_line =
  sl_date :: date
  sl_amount :: decimal
  sl_tax :: decimal

record priced_service =
  ps_service :: ident
  ps_code :: string
  ps_name :: string
  ps_rule :: posting_rule
  ps_charge_type :: charge_type
  ps_currency :: string
  ps_unit_price :: decimal
  ps_quantity :: nat
  ps_line_total :: decimal
  ps_tax_total :: decimal
  ps_lines :: "service_line list"

record price_adjustment =
  pa_amount :: decimal
  pa_reason :: string
  pa_date :: date

datatype price_source = SubmittedPrice | CurrentPrice | CustomPrice | PriorPrice

record snapshot =
  sn_source :: price_source
  sn_currency :: string
  sn_grand_total :: decimal
  sn_room_total :: decimal
  sn_tax_total :: decimal
  sn_nights :: "priced_night list"
  sn_services :: "priced_service list"
  sn_services_total :: decimal
  sn_services_tax :: decimal
  sn_custom_reason :: "string option"
  sn_adjustment :: "price_adjustment option"

section \<open>Rows\<close>

record guest =
  g_id :: ident
  g_is_dnr :: bool
  g_vip_level :: string

record property =
  h_id :: ident
  h_timezone :: string
  h_total_rooms :: nat
  h_overbooking_percentage :: nat
  h_check_in_time :: "nat \<times> nat"
  h_check_out_time :: "nat \<times> nat"
  h_registration_required :: bool
  h_early_fee :: "decimal option"
  h_late_fee :: "decimal option"

record room_type =
  t_id :: ident
  t_property :: ident
  t_name :: string
  t_is_active :: bool
  t_max_occupancy :: nat

record room =
  m_id :: ident
  m_property :: ident
  m_type :: ident
  m_number :: string
  m_status :: room_status
  m_is_active :: bool
  m_notes :: "string option"
  m_updated :: timestamp

datatype adjustment_type = ByPercentage | ByAmount

record los_adjustment =
  la_min_nights :: nat
  la_type :: adjustment_type
  la_value :: decimal

record occupancy_band =
  ob_min :: decimal
  ob_max :: decimal
  ob_type :: adjustment_type
  ob_value :: decimal

record rate_plan =
  p_id :: ident
  p_property :: ident
  p_room_type :: ident
  p_is_derived :: bool
  p_base :: decimal
  p_currency :: string
  p_parent :: "ident option"
  p_adj_type :: "adjustment_type option"
  p_adj_value :: "decimal option"
  p_policy :: "ident option"
  p_group :: "ident option"
  p_from :: "date option"
  p_to :: "date option"
  p_is_active :: bool
  p_los :: "los_adjustment list"
  p_bands :: "occupancy_band list"

record rate_restriction =
  rx_id :: ident
  rx_property :: ident
  rx_plan :: ident
  rx_start :: date
  rx_end :: date
  rx_min_los :: "nat option"
  rx_max_los :: "nat option"
  rx_closed_to_arrival :: bool
  rx_closed_to_departure :: bool
  rx_is_closed :: bool

record group_profile =
  gp_id :: ident
  gp_property :: ident

record booking =
  b_id :: ident
  b_property :: ident
  b_guest :: ident
  b_confirmation :: string

record id_document =
  id_type :: string
  id_number :: string
  id_iv :: string
  id_tag :: string
  id_country :: string
  id_expiry :: string

record reservation =
  r_id :: ident
  r_property :: ident
  r_booking :: ident
  r_guest :: ident
  r_arrival :: date
  r_departure :: date
  r_nights :: nat
  r_room_type :: ident
  r_room :: "ident option"
  r_status :: reservation_status
  r_rate_plan :: ident
  r_total :: decimal
  r_currency :: string
  r_snapshot :: "snapshot option"
  r_adults :: nat
  r_children :: nat
  r_requests :: "string option"
  r_do_not_move :: bool
  r_checked_in_at :: "timestamp option"
  r_checked_out_at :: "timestamp option"
  r_cancelled_at :: "timestamp option"
  r_cancel_reason :: "string option"
  r_is_early :: bool
  r_early_fee :: "decimal option"
  r_is_late :: bool
  r_late_fee :: "decimal option"
  r_id_document :: "id_document option"
  r_signed_at :: "timestamp option"
  r_registration :: "string option"
  r_submitted_at :: "timestamp option"
  r_updated :: timestamp

record occupant =
  o_property :: ident
  o_reservation :: ident
  o_guest :: ident
  o_primary :: bool

record ical_feed =
  d_id :: ident
  d_property :: ident
  d_is_active :: bool
  d_is_import :: bool

record ical_block =
  k_property :: ident
  k_feed :: ident
  k_room_type :: ident
  k_start :: date
  k_end :: date

record folio =
  f_id :: ident
  f_property :: ident
  f_reservation :: "ident option"
  f_booking :: "ident option"
  f_guest :: ident
  f_number :: string
  f_type :: folio_type
  f_status :: folio_status
  f_total_charges :: decimal
  f_total_payments :: decimal
  f_balance :: decimal
  f_currency :: string
  f_settled_at :: "timestamp option"
  f_closed_at :: "timestamp option"

record charge =
  c_id :: ident
  c_property :: ident
  c_folio :: "ident option"
  c_house :: "ident option"
  c_type :: charge_type
  c_description :: string
  c_amount :: decimal
  c_currency :: string
  c_tax :: decimal
  c_tax_rate :: "decimal option"
  c_tax_code :: "string option"
  c_service :: timestamp
  c_reversal :: bool
  c_original :: "ident option"
  c_parent :: "ident option"
  c_adjusts :: "ident option"
  c_source :: "source_key option"
  c_locked :: bool
  c_lock_date :: "timestamp option"
  c_posted_by :: "ident option"

text \<open>The deposit to record when a pending authorization completes.\<close>

record deposit_intent =
  di_reservation :: ident
  di_refundable :: bool
  di_auto_confirm :: bool

record payment =
  y_id :: ident
  y_property :: ident
  y_folio :: "ident option"
  y_house :: "ident option"
  y_request :: "ident option"
  y_idempotency :: "string option"
  y_method :: payment_method
  y_status :: payment_status
  y_amount :: decimal
  y_currency :: string
  y_provider :: "string option"
  y_transaction :: "string option"
  y_is_preauth :: bool
  y_preauth_expires :: "timestamp option"
  y_original :: "ident option"
  y_finalization :: "deposit_intent option"
  y_notes :: "string option"
  y_processed :: "timestamp option"
  y_created :: timestamp

record tax_exemptions =
  ex_guest_types :: "string list"
  ex_min_stay :: nat
  ex_max_nights :: nat

record tax_profile =
  tp_id :: ident
  tp_property :: ident
  tp_is_active :: bool
  tp_from :: date
  tp_to :: "date option"

record tax_rule =
  tr_id :: ident
  tr_profile :: ident
  tr_name :: string
  tr_code :: string
  tr_type :: tax_rule_type
  tr_rate :: decimal
  tr_split :: "decimal option"
  tr_scopes :: "tax_scope list"
  tr_exemptions :: "tax_exemptions option"
  tr_compounding :: bool
  tr_sort :: int
  tr_is_active :: bool
  tr_from :: date
  tr_to :: "date option"

record policy =
  po_id :: ident
  po_property :: ident
  po_code :: string
  po_description :: "string option"
  po_free_hours :: nat
  po_penalty :: penalty_type
  po_percentage :: "decimal option"
  po_handling :: deposit_handling
  po_is_active :: bool

record deposit =
  dp_id :: ident
  dp_property :: ident
  dp_reservation :: "ident option"
  dp_payment :: "ident option"
  dp_amount :: decimal
  dp_currency :: string
  dp_status :: deposit_status
  dp_refundable :: bool
  dp_recognized :: "timestamp option"
  dp_notes :: "string option"

record house_account =
  ha_id :: ident
  ha_property :: ident
  ha_name :: string
  ha_kind :: account_kind
  ha_status :: open_status
  ha_balance :: decimal
  ha_total_charges :: decimal
  ha_total_payments :: decimal
  ha_currency :: string
  ha_notes :: "string option"
  ha_opened_by :: "ident option"
  ha_closed_at :: "timestamp option"

record product =
  pr_id :: ident
  pr_property :: ident
  pr_category :: "string option"
  pr_name :: string
  pr_price :: decimal
  pr_currency :: string
  pr_tax_code :: "string option"
  pr_is_active :: bool

record drawer =
  dw_id :: ident
  dw_property :: ident
  dw_name :: string
  dw_float :: decimal
  dw_is_active :: bool

record cash_session =
  cs_id :: ident
  cs_property :: ident
  cs_drawer :: ident
  cs_cashier :: ident
  cs_status :: open_status
  cs_opening :: decimal
  cs_expected :: "decimal option"
  cs_counted :: "decimal option"
  cs_variance :: "decimal option"
  cs_closed_at :: "timestamp option"

record cash_movement =
  cm_id :: ident
  cm_property :: ident
  cm_session :: ident
  cm_type :: movement_type
  cm_amount :: decimal
  cm_reservation :: "ident option"
  cm_note :: "string option"
  cm_created_by :: "ident option"

record service =
  sv_id :: ident
  sv_property :: ident
  sv_code :: string
  sv_name :: string
  sv_charge_type :: charge_type
  sv_price :: decimal
  sv_currency :: string
  sv_tax_code :: "string option"
  sv_rule :: posting_rule
  sv_channels :: "string list"
  sv_is_active :: bool
  sv_sort :: int

record plan_component =
  pk_id :: ident
  pk_property :: ident
  pk_plan :: ident
  pk_service :: ident
  pk_quantity :: nat
  pk_amount :: "decimal option"
  pk_included :: bool

record reservation_service =
  rs_id :: ident
  rs_property :: ident
  rs_reservation :: ident
  rs_service :: ident
  rs_quantity :: nat
  rs_unit_price :: decimal
  rs_currency :: string
  rs_start :: "date option"
  rs_end :: "date option"
  rs_status :: service_status
  rs_source :: string
  rs_rule :: posting_rule
  rs_charge_type :: charge_type
  rs_notes :: "string option"
  rs_created :: timestamp

text \<open>
  A booking request. \<open>rq_quote_total\<close> is the \<open>grandTotal\<close> of the submitted quote: \<open>None\<close> when it is
  not a string, \<open>Some None\<close> when it is a string that is not a finite number.
\<close>

record booking_request =
  rq_id :: ident
  rq_property :: ident
  rq_status :: request_status
  rq_email :: string
  rq_currency :: string
  rq_quote_total :: "decimal option option"
  rq_customer :: "string option"
  rq_card :: "string option"
  rq_accepted_total :: "decimal option"
  rq_folio :: "ident option"

record installment =
  it_id :: ident
  it_property :: ident
  it_request :: ident
  it_label :: string
  it_sort :: int
  it_fixed :: "decimal option"
  it_percentage :: "decimal option"
  it_resolved :: "decimal option"
  it_milestone :: milestone
  it_due :: "date option"
  it_allocated :: decimal
  it_status :: installment_status
  it_updated :: timestamp

record allocation =
  aa_id :: ident
  aa_property :: ident
  aa_request :: ident
  aa_payment :: ident
  aa_installment :: ident
  aa_amount :: decimal
  aa_created :: timestamp

record resolution =
  rz_id :: ident
  rz_property :: ident
  rz_request :: ident
  rz_payment :: ident
  rz_type :: resolution_type
  rz_status :: resolution_status
  rz_amount :: decimal
  rz_key :: "string option"
  rz_print :: "string option"
  rz_transaction :: "string option"
  rz_provider_status :: "string option"
  rz_movement :: "ident option"
  rz_reason :: "string option"
  rz_attempts :: nat
  rz_error :: "string option"
  rz_by :: "ident option"
  rz_resolved_at :: "timestamp option"

text \<open>The outbox: a financial event of a request and the movement it is about, and the mail about it.\<close>

record consequence =
  cq_property :: ident
  cq_request :: ident
  cq_event :: string
  cq_logical :: ident

record delivery =
  de_id :: ident
  de_property :: ident
  de_request :: ident
  de_kind :: delivery_kind
  de_logical :: ident
  de_recipient :: string

record event =
  e_name :: string
  e_entity :: string
  e_id :: ident
  e_property :: ident

section \<open>The state\<close>

record hotel =
  guests :: "guest list"
  properties :: "property list"
  room_types :: "room_type list"
  rooms :: "room list"
  rate_plans :: "rate_plan list"
  rate_restrictions :: "rate_restriction list"
  group_profiles :: "group_profile list"
  bookings :: "booking list"
  reservations :: "reservation list"
  occupants :: "occupant list"
  ical_feeds :: "ical_feed list"
  ical_blocks :: "ical_block list"
  folios :: "folio list"
  charges :: "charge list"
  payments :: "payment list"
  tax_profiles :: "tax_profile list"
  tax_rules :: "tax_rule list"
  policies :: "policy list"
  deposits :: "deposit list"
  house_accounts :: "house_account list"
  products :: "product list"
  drawers :: "drawer list"
  cash_sessions :: "cash_session list"
  cash_movements :: "cash_movement list"
  services :: "service list"
  plan_components :: "plan_component list"
  reservation_services :: "reservation_service list"
  booking_requests :: "booking_request list"
  installments :: "installment list"
  allocations :: "allocation list"
  resolutions :: "resolution list"
  consequences :: "consequence list"
  deliveries :: "delivery list"
  events :: "event list"
  fresh :: ident

definition empty_hotel :: hotel where
  "empty_hotel = \<lparr>guests = [], properties = [], room_types = [], rooms = [], rate_plans = [],
     rate_restrictions = [], group_profiles = [], bookings = [], reservations = [], occupants = [], ical_feeds = [], ical_blocks = [],
     folios = [], charges = [], payments = [], tax_profiles = [], tax_rules = [], policies = [],
     deposits = [], house_accounts = [], products = [], drawers = [], cash_sessions = [],
     cash_movements = [], services = [], plan_components = [],
     reservation_services = [], booking_requests = [], installments = [], allocations = [],
     resolutions = [], consequences = [], deliveries = [], events = [], fresh = 1\<rparr>"

type_synonym 'a op = "(hotel, 'a) prog"

text \<open>\<open>webhookService.emit\<close>.\<close>

definition emit :: "string \<Rightarrow> string \<Rightarrow> ident \<Rightarrow> ident \<Rightarrow> unit op" where
  "emit name entity i pid =
     tell (\<lambda>s. s\<lparr>events := events s @
       [\<lparr>e_name = name, e_entity = entity, e_id = i, e_property = pid\<rparr>]\<rparr>)"

text \<open>\<open>defaultRandom()\<close>: a fresh identifier.\<close>

definition new_id :: "ident op" where
  "new_id = (\<lambda>s. (Inr (fresh s), s\<lparr>fresh := Suc (fresh s)\<rparr>))"

lemma emit_apply [simp]:
  "emit name entity i pid s = (Inr (), s\<lparr>events := events s @
       [\<lparr>e_name = name, e_entity = entity, e_id = i, e_property = pid\<rparr>]\<rparr>)"
  by (simp add: emit_def)

lemma bnd_emit [simp]:
  "bnd (emit name entity i pid) k s = k () (s\<lparr>events := events s @
       [\<lparr>e_name = name, e_entity = entity, e_id = i, e_property = pid\<rparr>]\<rparr>)"
  by (simp add: emit_def)

lemma new_id_apply [simp]: "new_id s = (Inr (fresh s), s\<lparr>fresh := Suc (fresh s)\<rparr>)"
  by (simp add: new_id_def)

lemma bnd_new_id [simp]: "bnd new_id k s = k (fresh s) (s\<lparr>fresh := Suc (fresh s)\<rparr>)"
  by (simp add: bnd_def)

lemma ends_emit [wp]:
  "ends (emit name entity i pid) Q E s = Q () (s\<lparr>events := events s @
       [\<lparr>e_name = name, e_entity = entity, e_id = i, e_property = pid\<rparr>]\<rparr>)"
  by (simp add: ends_def)

lemma ends_new_id [wp]: "ends new_id Q E s = Q (fresh s) (s\<lparr>fresh := Suc (fresh s)\<rparr>)"
  by (simp add: ends_def)

lemma keeps_emit [keeps]:
  "(\<And>s es. I s \<Longrightarrow> I (s\<lparr>events := es\<rparr>)) \<Longrightarrow> keeps_inv I (emit name entity i pid)"
  by (simp add: keeps_inv_def)

lemma keeps_new_id [keeps]: "(\<And>s n. I s \<Longrightarrow> I (s\<lparr>fresh := n\<rparr>)) \<Longrightarrow> keeps_inv I new_id"
  by (simp add: keeps_inv_def)

end
