(* ===== verification/Tables.thy ===== *)
theory Tables
  imports Schema
begin

text \<open>
  The database interface the services share: find one row or fail, conditional update with the
  updated rows returned, insert. The interface is the locale \<open>table\<close>: a table is read and
  modified through a selector and a modifier, and rows carry a primary key. Its lemmas (what a
  lookup finds after an update, what keeps the keys distinct) are proved once and interpreted
  on every table of the state.
\<close>

section \<open>Operations\<close>

definition find_row :: "('s \<Rightarrow> 'r list) \<Rightarrow> ('r \<Rightarrow> bool) \<Rightarrow> error \<Rightarrow> ('s, 'r) prog" where
  "find_row get c e = (\<lambda>s. case first_row (sel c (get s)) of
     None \<Rightarrow> (Inl e, s) | Some r \<Rightarrow> (Inr r, s))"

definition update_where ::
  "('s \<Rightarrow> 'r list) \<Rightarrow> (('r list \<Rightarrow> 'r list) \<Rightarrow> 's \<Rightarrow> 's) \<Rightarrow> ('r \<Rightarrow> bool) \<Rightarrow> ('r \<Rightarrow> 'r) \<Rightarrow> ('s, 'r list) prog" where
  "update_where get modify c f = (\<lambda>s. (Inr (map f (sel c (get s))), modify (upd c f) s))"

text \<open>\<open>const [row] = await update(\<dots>).returning()\<close>; a missing row is the type error of its first use.\<close>

definition update_one ::
  "('s \<Rightarrow> 'r list) \<Rightarrow> (('r list \<Rightarrow> 'r list) \<Rightarrow> 's \<Rightarrow> 's) \<Rightarrow> ('r \<Rightarrow> bool) \<Rightarrow> ('r \<Rightarrow> 'r) \<Rightarrow> ('s, 'r) prog" where
  "update_one get modify c f =
     bnd (update_where get modify c f) (\<lambda>rows. require (first_row rows) (Failure ''TypeError''))"

definition insert_row ::
  "(('r list \<Rightarrow> 'r list) \<Rightarrow> 's \<Rightarrow> 's) \<Rightarrow> 'r \<Rightarrow> ('s, 'r) prog" where
  "insert_row modify r = (\<lambda>s. (Inr r, modify (\<lambda>t. t @ [r]) s))"

text \<open>\<open>delete(\<dots>).where(\<dots>)\<close>.\<close>

definition delete_where :: "(('r list \<Rightarrow> 'r list) \<Rightarrow> 's \<Rightarrow> 's) \<Rightarrow> ('r \<Rightarrow> bool) \<Rightarrow> ('s, unit) prog" where
  "delete_where modify c = tell (modify (filter (\<lambda>r. \<not> c r)))"

lemma delete_where_apply [simp]: "delete_where modify c s = (Inr (), modify (filter (\<lambda>r. \<not> c r)) s)"
  by (simp add: delete_where_def)

lemma bnd_delete_where [simp]: "bnd (delete_where modify c) k s = k () (modify (filter (\<lambda>r. \<not> c r)) s)"
  by (simp add: delete_where_def)

lemma ends_delete_where [wp]: "ends (delete_where modify c) Q E s = Q () (modify (filter (\<lambda>r. \<not> c r)) s)"
  by (simp add: delete_where_def wp)

lemma keeps_delete_where:
  "(\<And>s. I s \<Longrightarrow> I (modify (filter (\<lambda>r. \<not> c r)) s)) \<Longrightarrow> keeps_inv I (delete_where modify c)"
  unfolding delete_where_def by (rule keeps_tell)

lemma find_row_apply [simp]:
  "find_row get c e s = (case first_row (sel c (get s)) of
     None \<Rightarrow> (Inl e, s) | Some r \<Rightarrow> (Inr r, s))"
  by (simp add: find_row_def)

lemma bnd_find_row [simp]:
  "bnd (find_row get c e) k s = (case first_row (sel c (get s)) of
     None \<Rightarrow> (Inl e, s) | Some r \<Rightarrow> k r s)"
  by (simp add: bnd_def split: option.split)

lemma bnd_update_where [simp]:
  "bnd (update_where get modify c f) k s = k (map f (sel c (get s))) (modify (upd c f) s)"
  by (simp add: bnd_def update_where_def)

lemma update_where_apply [simp]:
  "update_where get modify c f s = (Inr (map f (sel c (get s))), modify (upd c f) s)"
  by (simp add: update_where_def)

lemma update_one_apply:
  "update_one get modify c f s = (case first_row (sel c (get s)) of
     None \<Rightarrow> (Inl (Failure ''TypeError''), modify (upd c f) s)
   | Some r \<Rightarrow> (Inr (f r), modify (upd c f) s))"
  by (cases "sel c (get s)") (simp_all add: update_one_def)

lemma bnd_update_one [simp]:
  "bnd (update_one get modify c f) k s = (case first_row (sel c (get s)) of
     None \<Rightarrow> (Inl (Failure ''TypeError''), modify (upd c f) s)
   | Some r \<Rightarrow> k (f r) (modify (upd c f) s))"
  by (simp add: bnd_def update_one_apply split: option.split)

lemma bnd_insert_row [simp]: "bnd (insert_row modify r) k s = k r (modify (\<lambda>t. t @ [r]) s)"
  by (simp add: bnd_def insert_row_def)

lemma insert_row_apply [simp]: "insert_row modify r s = (Inr r, modify (\<lambda>t. t @ [r]) s)"
  by (simp add: insert_row_def)

lemma ends_find_row [wp]:
  "ends (find_row get c e) Q E s = (case first_row (sel c (get s)) of None \<Rightarrow> E e s | Some r \<Rightarrow> Q r s)"
  by (simp add: ends_def split: option.split)

lemma ends_update_where [wp]:
  "ends (update_where get modify c f) Q E s = Q (map f (sel c (get s))) (modify (upd c f) s)"
  by (simp add: ends_def)

lemma ends_update_one [wp]:
  "ends (update_one get modify c f) Q E s = (case first_row (sel c (get s)) of
     None \<Rightarrow> E (Failure ''TypeError'') (modify (upd c f) s) | Some r \<Rightarrow> Q (f r) (modify (upd c f) s))"
  by (simp add: ends_def update_one_apply split: option.split)

lemma ends_insert_row [wp]: "ends (insert_row modify r) Q E s = Q r (modify (\<lambda>t. t @ [r]) s)"
  by (simp add: ends_def)

lemma keeps_find_row [keeps]: "keeps_inv I (find_row get c e)"
  by (simp add: keeps_inv_def split: option.split)

lemma keeps_update_where:
  "(\<And>s. I s \<Longrightarrow> I (modify (upd c f) s)) \<Longrightarrow> keeps_inv I (update_where get modify c f)"
  by (simp add: keeps_inv_def)

lemma keeps_update_one:
  "(\<And>s. I s \<Longrightarrow> I (modify (upd c f) s)) \<Longrightarrow> keeps_inv I (update_one get modify c f)"
  by (simp add: keeps_inv_def update_one_apply split: option.split)

lemma keeps_insert_row:
  "(\<And>s. I s \<Longrightarrow> I (modify (\<lambda>t. t @ [r]) s)) \<Longrightarrow> keeps_inv I (insert_row modify r)"
  by (simp add: keeps_inv_def)

section \<open>The table interface\<close>

locale table =
  fixes get :: "'s \<Rightarrow> 'r list"
    and modify :: "('r list \<Rightarrow> 'r list) \<Rightarrow> 's \<Rightarrow> 's"
    and key :: "'r \<Rightarrow> ident"
  assumes get_modify: "get (modify f s) = f (get s)"
    and modify_modify: "modify f (modify g s) = modify (\<lambda>t. f (g t)) s"
begin

lemma find_updated:
  assumes u: "distinct (map key (get s))" and r: "r \<in> set (get s)" and c: "c r"
    and one: "\<And>q. c q \<Longrightarrow> key q = key r" and keep: "\<And>q. c (f q) = c q"
  shows "first_row (sel c (get (modify (upd c f) s))) = Some (f r)"
proof -
  have "sel c (upd c f (get s)) = map f (sel c (get s))"
    by (induction "get s") (auto simp: sel_def upd_def filter_map comp_def keep)
  moreover have "first_row (sel c (get s)) = Some r"
    using u r c one by (rule first_sel_key [where k = key])
  ultimately show ?thesis by (cases "sel c (get s)") (simp_all add: get_modify)
qed

lemma find_other_updated:
  assumes "\<And>q. c q \<Longrightarrow> \<not> d q" and "\<And>q. c q \<Longrightarrow> \<not> d (f q)"
  shows "sel d (get (modify (upd c f) s)) = sel d (get s)"
  unfolding get_modify using assms by (intro sel_upd_disjoint) auto

lemma distinct_updated:
  assumes "distinct (map key (get s))" and "\<And>r. c r \<Longrightarrow> key (f r) = key r"
  shows "distinct (map key (get (modify (upd c f) s)))"
  using assms by (simp add: get_modify map_upd_key)

lemma distinct_inserted:
  assumes "distinct (map key (get s))" and "key r \<notin> key ` set (get s)"
  shows "distinct (map key (get (modify (\<lambda>t. t @ [r]) s)))"
  using assms by (simp add: get_modify)

end

interpretation rooms_table: table rooms rooms_update m_id
  by unfold_locales simp_all

interpretation reservations_table: table reservations reservations_update r_id
  by unfold_locales simp_all

interpretation folios_table: table folios folios_update f_id
  by unfold_locales simp_all

interpretation charges_table: table charges charges_update c_id
  by unfold_locales simp_all

interpretation payments_table: table payments payments_update y_id
  by unfold_locales simp_all

interpretation deposits_table: table deposits deposits_update dp_id
  by unfold_locales simp_all

interpretation house_accounts_table: table house_accounts house_accounts_update ha_id
  by unfold_locales simp_all

interpretation reservation_services_table: table reservation_services reservation_services_update rs_id
  by unfold_locales simp_all

interpretation installments_table: table installments installments_update it_id
  by unfold_locales simp_all

interpretation allocations_table: table allocations allocations_update aa_id
  by unfold_locales simp_all

interpretation resolutions_table: table resolutions resolutions_update rz_id
  by unfold_locales simp_all

interpretation sessions_table: table cash_sessions cash_sessions_update cs_id
  by unfold_locales simp_all

section \<open>Well-formed states\<close>

text \<open>The primary keys of each table are distinct and below the identifier counter.\<close>

definition keys_ok :: "('r \<Rightarrow> ident) \<Rightarrow> ident \<Rightarrow> 'r list \<Rightarrow> bool" where
  "keys_ok key n t \<longleftrightarrow> distinct (map key t) \<and> (\<forall>r \<in> set t. key r < n)"

definition wf_hotel :: "hotel \<Rightarrow> bool" where
  "wf_hotel s \<longleftrightarrow>
     keys_ok m_id (fresh s) (rooms s) \<and> keys_ok b_id (fresh s) (bookings s) \<and>
     keys_ok r_id (fresh s) (reservations s) \<and> keys_ok f_id (fresh s) (folios s) \<and>
     keys_ok c_id (fresh s) (charges s) \<and> keys_ok y_id (fresh s) (payments s) \<and>
     keys_ok dp_id (fresh s) (deposits s) \<and> keys_ok ha_id (fresh s) (house_accounts s) \<and>
     keys_ok cs_id (fresh s) (cash_sessions s) \<and> keys_ok rs_id (fresh s) (reservation_services s)"

lemma keys_ok_mono: "keys_ok key n t \<Longrightarrow> n \<le> m \<Longrightarrow> keys_ok key m t"
  by (auto simp: keys_ok_def)

lemma keys_ok_upd: "keys_ok key n t \<Longrightarrow> (\<And>r. key (f r) = key r) \<Longrightarrow> keys_ok key n (upd c f t)"
  by (auto simp: keys_ok_def map_upd_key set_upd)

lemma keys_ok_append: "keys_ok key n t \<Longrightarrow> key r = n \<Longrightarrow> keys_ok key (Suc n) (t @ [r])"
  by (auto simp: keys_ok_def)

lemma keys_ok_Suc: "keys_ok key n t \<Longrightarrow> keys_ok key (Suc n) t"
  by (auto elim: keys_ok_mono)

lemma keys_ok_distinct: "keys_ok key n t \<Longrightarrow> distinct (map key t)"
  by (simp add: keys_ok_def)

lemma wf_hotel_events [simp]: "wf_hotel (s\<lparr>events := es\<rparr>) = wf_hotel s"
  by (simp add: wf_hotel_def)

lemma wf_hotel_fresh: "wf_hotel s \<Longrightarrow> fresh s \<le> n \<Longrightarrow> wf_hotel (s\<lparr>fresh := n\<rparr>)"
  unfolding wf_hotel_def by (auto intro: keys_ok_mono)

lemma wf_empty_hotel: "wf_hotel empty_hotel"
  by (simp add: wf_hotel_def empty_hotel_def keys_ok_def)

lemma wf_update_reservations:
  "wf_hotel s \<Longrightarrow> (\<And>r. r_id (f r) = r_id r) \<Longrightarrow> wf_hotel (reservations_update (upd c f) s)"
  by (simp add: wf_hotel_def keys_ok_upd)

lemma wf_update_rooms:
  "wf_hotel s \<Longrightarrow> (\<And>r. m_id (f r) = m_id r) \<Longrightarrow> wf_hotel (rooms_update (upd c f) s)"
  by (simp add: wf_hotel_def keys_ok_upd)

lemma wf_update_folios:
  "wf_hotel s \<Longrightarrow> (\<And>r. f_id (f r) = f_id r) \<Longrightarrow> wf_hotel (folios_update (upd c f) s)"
  by (simp add: wf_hotel_def keys_ok_upd)

lemma wf_update_charges:
  "wf_hotel s \<Longrightarrow> (\<And>r. c_id (f r) = c_id r) \<Longrightarrow> wf_hotel (charges_update (upd c f) s)"
  by (simp add: wf_hotel_def keys_ok_upd)

lemma wf_update_payments:
  "wf_hotel s \<Longrightarrow> (\<And>r. y_id (f r) = y_id r) \<Longrightarrow> wf_hotel (payments_update (upd c f) s)"
  by (simp add: wf_hotel_def keys_ok_upd)

lemma wf_update_deposits:
  "wf_hotel s \<Longrightarrow> (\<And>r. dp_id (f r) = dp_id r) \<Longrightarrow> wf_hotel (deposits_update (upd c f) s)"
  by (simp add: wf_hotel_def keys_ok_upd)

lemma wf_update_house_accounts:
  "wf_hotel s \<Longrightarrow> (\<And>r. ha_id (f r) = ha_id r) \<Longrightarrow> wf_hotel (house_accounts_update (upd c f) s)"
  by (simp add: wf_hotel_def keys_ok_upd)

lemma wf_update_sessions:
  "wf_hotel s \<Longrightarrow> (\<And>r. cs_id (f r) = cs_id r) \<Longrightarrow> wf_hotel (cash_sessions_update (upd c f) s)"
  by (simp add: wf_hotel_def keys_ok_upd)

lemma wf_update_reservation_services:
  "wf_hotel s \<Longrightarrow> (\<And>r. rs_id (f r) = rs_id r) \<Longrightarrow> wf_hotel (reservation_services_update (upd c f) s)"
  by (simp add: wf_hotel_def keys_ok_upd)

lemmas wf_updates =
  wf_update_reservations wf_update_rooms wf_update_folios wf_update_charges wf_update_payments
  wf_update_deposits wf_update_house_accounts wf_update_sessions wf_update_reservation_services

end
