(* ===== verification/Tax.thy ===== *)
theory Tax
  imports Tables
begin

text \<open>
  The tax engine (\<open>apps/api/src/modules/tax/tax.service.ts\<close>): profiles and rules, the items a
  charge produces, and the back-calculation of a base amount from a tax-inclusive total. The
  lemmas give each item in closed form (the base it is computed on is the charge plus the items
  before it when the rule compounds), bound the rounding, and relate the back-calculation to
  the forward one.
\<close>

section \<open>Profiles and rules\<close>

definition find_profile :: "ident \<Rightarrow> ident \<Rightarrow> tax_profile op" where
  "find_profile i pid =
     find_row tax_profiles (\<lambda>p. tp_id p = i \<and> tp_property p = pid) (NotFound ''Tax profile not found'')"

definition create_profile :: "ident \<Rightarrow> bool option \<Rightarrow> date \<Rightarrow> date option \<Rightarrow> tax_profile op" where
  "create_profile pid is_active from till =
     bnd new_id (\<lambda>i.
     insert_row tax_profiles_update \<lparr>tp_id = i, tp_property = pid,
       tp_is_active = (case is_active of None \<Rightarrow> True | Some b \<Rightarrow> b), tp_from = from, tp_to = till\<rparr>)"

text \<open>\<open>set({ ...dto })\<close>: only the fields present in the request are written.\<close>

definition update_profile ::
  "ident \<Rightarrow> ident \<Rightarrow> bool option \<Rightarrow> date option \<Rightarrow> date option \<Rightarrow> tax_profile op" where
  "update_profile i pid is_active from till =
     bnd (find_profile i pid) (\<lambda>_.
     update_one tax_profiles tax_profiles_update (\<lambda>p. tp_id p = i \<and> tp_property p = pid)
       (\<lambda>p. p\<lparr>tp_is_active := case_option (tp_is_active p) id is_active,
              tp_from := case_option (tp_from p) id from,
              tp_to := case_option (tp_to p) Some till\<rparr>))"

definition list_profiles :: "ident \<Rightarrow> tax_profile list op" where
  "list_profiles pid = ask (\<lambda>s. sel (\<lambda>p. tp_property p = pid) (tax_profiles s))"

definition find_profile_with_rules :: "ident \<Rightarrow> ident \<Rightarrow> (tax_profile \<times> tax_rule list) op" where
  "find_profile_with_rules i pid =
     bnd (find_profile i pid) (\<lambda>p.
     ask (\<lambda>s. (p, sort_key tr_sort (sel (\<lambda>r. tr_profile r = i) (tax_rules s)))))"

text \<open>The rule of the request carries its own identifier here only as a place for the fresh one.\<close>

definition create_rule :: "ident \<Rightarrow> ident \<Rightarrow> tax_rule \<Rightarrow> tax_rule op" where
  "create_rule profile pid dto =
     bnd (find_profile profile pid) (\<lambda>_.
     bnd new_id (\<lambda>i. insert_row tax_rules_update (dto\<lparr>tr_id := i, tr_profile := profile\<rparr>)))"

text \<open>The argument \<open>f\<close> writes the fields of the request; it leaves both keys alone.\<close>

definition update_rule :: "ident \<Rightarrow> ident \<Rightarrow> ident \<Rightarrow> (tax_rule \<Rightarrow> tax_rule) \<Rightarrow> tax_rule op" where
  "update_rule i profile pid f =
     bnd (find_profile profile pid) (\<lambda>_.
     bnd (find_row tax_rules (\<lambda>r. tr_id r = i \<and> tr_profile r = profile) (NotFound ''Tax rule not found'')) (\<lambda>_.
     update_one tax_rules tax_rules_update (\<lambda>r. tr_id r = i) f))"

definition delete_rule :: "ident \<Rightarrow> ident \<Rightarrow> ident \<Rightarrow> unit op" where
  "delete_rule i profile pid =
     bnd (find_profile profile pid) (\<lambda>_.
     bnd (ask (\<lambda>s. sel (\<lambda>r. tr_id r = i \<and> tr_profile r = profile) (tax_rules s))) (\<lambda>removed.
     bnd (tell (tax_rules_update (sel (\<lambda>r. \<not> (tr_id r = i \<and> tr_profile r = profile))))) (\<lambda>_.
     guard (removed \<noteq> []) (NotFound ''Tax rule not found''))))"

definition in_force :: "date \<Rightarrow> date option \<Rightarrow> date \<Rightarrow> bool" where
  "in_force from till d \<longleftrightarrow> from \<le> d \<and> (case till of None \<Rightarrow> True | Some e \<Rightarrow> d \<le> e)"

definition active_tax_rules :: "hotel \<Rightarrow> ident \<Rightarrow> date \<Rightarrow> tax_rule list" where
  "active_tax_rules s profile d =
     sort_key tr_sort (sel (\<lambda>r. tr_profile r = profile \<and> tr_is_active r \<and> in_force (tr_from r) (tr_to r) d)
       (tax_rules s))"

definition get_active_tax_profile :: "ident \<Rightarrow> date \<Rightarrow> (tax_profile \<times> tax_rule list) option op" where
  "get_active_tax_profile pid d =
     bnd (ask (\<lambda>s. first_row (sel (\<lambda>p. tp_property p = pid \<and> tp_is_active p \<and>
            in_force (tp_from p) (tp_to p) d) (tax_profiles s)))) (\<lambda>profile.
     case profile of
       None \<Rightarrow> ret None
     | Some p \<Rightarrow> ask (\<lambda>s. Some (p, active_tax_rules s (tp_id p) d)))"

section \<open>Items\<close>

record tax_item =
  ti_name :: string
  ti_code :: string
  ti_type :: tax_rule_type
  ti_rate :: decimal
  ti_amount :: decimal
  ti_compounding :: bool

text \<open>The options of a calculation; a missing number is \<open>None\<close>, and zero is as good as missing.\<close>

record tax_options =
  to_guest :: "ident option"
  to_nights :: "nat option"
  to_night_number :: "nat option"

definition no_tax_options :: tax_options where
  "no_tax_options = \<lparr>to_guest = None, to_nights = None, to_night_number = None\<rparr>"

definition rule_applies :: "charge_type \<Rightarrow> tax_rule \<Rightarrow> bool" where
  "rule_applies ct r \<longleftrightarrow>
     tr_scopes r = [] \<or> OnCharge ct \<in> set (tr_scopes r) \<or> AnyCharge \<in> set (tr_scopes r)"

text \<open>The three \<open>continue\<close> branches of the exemptions.\<close>

definition rule_exempt :: "guest option \<Rightarrow> tax_options \<Rightarrow> tax_rule \<Rightarrow> bool" where
  "rule_exempt guest opts r = (case tr_exemptions r of None \<Rightarrow> False | Some ex \<Rightarrow>
     (case guest of None \<Rightarrow> False | Some g \<Rightarrow> g_vip_level g \<in> set (ex_guest_types ex)) \<or>
     (case to_nights opts of None \<Rightarrow> False | Some n \<Rightarrow>
        ex_min_stay ex \<noteq> 0 \<and> n \<noteq> 0 \<and> ex_min_stay ex \<le> n) \<or>
     (case to_night_number opts of None \<Rightarrow> False | Some n \<Rightarrow>
        ex_max_nights ex \<noteq> 0 \<and> n \<noteq> 0 \<and> ex_max_nights ex < n))"

definition nights_factor :: "tax_options \<Rightarrow> decimal" where
  "nights_factor opts = (case to_nights opts of None \<Rightarrow> 1 | Some n \<Rightarrow> of_nat n)"

definition split_of :: "tax_rule \<Rightarrow> decimal" where
  "split_of r = (case tr_split r of None \<Rightarrow> 0 | Some p \<Rightarrow> p)"

definition rule_tax :: "tax_options \<Rightarrow> decimal \<Rightarrow> decimal \<Rightarrow> tax_rule \<Rightarrow> decimal" where
  "rule_tax opts amount running r = (case tr_type r of
     PercentageTax \<Rightarrow> (if tr_compounding r then running else amount) * tr_rate r / 100
   | SplitComponent \<Rightarrow> (if tr_compounding r then running else amount) * split_of r / 100 * tr_rate r / 100
   | FlatPerNight \<Rightarrow> tr_rate r * nights_factor opts
   | FlatPerStay \<Rightarrow> tr_rate r)"

fun tax_items ::
  "charge_type \<Rightarrow> guest option \<Rightarrow> tax_options \<Rightarrow> decimal \<Rightarrow> decimal \<Rightarrow> tax_rule list \<Rightarrow> tax_item list" where
  "tax_items ct guest opts amount running [] = []"
| "tax_items ct guest opts amount running (r # rs) =
     (if \<not> rule_applies ct r \<or> rule_exempt guest opts r
      then tax_items ct guest opts amount running rs
      else let tax = cents (rule_tax opts amount running r)
           in if 0 < tax
              then \<lparr>ti_name = tr_name r, ti_code = tr_code r, ti_type = tr_type r, ti_rate = tr_rate r,
                    ti_amount = tax, ti_compounding = tr_compounding r\<rparr>
                   # tax_items ct guest opts amount (running + tax) rs
              else tax_items ct guest opts amount running rs)"

definition calculate_taxes ::
  "decimal \<Rightarrow> charge_type \<Rightarrow> ident \<Rightarrow> date \<Rightarrow> tax_options \<Rightarrow> tax_item list op" where
  "calculate_taxes amount ct pid d opts =
     bnd (get_active_tax_profile pid d) (\<lambda>profile.
     case profile of
       None \<Rightarrow> ret []
     | Some (p, rules) \<Rightarrow>
         if rules = [] then ret []
         else bnd (ask (\<lambda>s. case to_guest opts of None \<Rightarrow> None
                 | Some g \<Rightarrow> first_row (sel (\<lambda>q. g_id q = g) (guests s)))) (\<lambda>guest.
              ret (tax_items ct guest opts amount amount rules)))"

section \<open>Back-calculation\<close>

definition percent_share :: "tax_rule \<Rightarrow> decimal" where
  "percent_share r = (case tr_type r of
     PercentageTax \<Rightarrow> tr_rate r | SplitComponent \<Rightarrow> tr_rate r * split_of r / 100
   | FlatPerNight \<Rightarrow> 0 | FlatPerStay \<Rightarrow> 0)"

definition flat_share :: "tax_options \<Rightarrow> tax_rule \<Rightarrow> decimal" where
  "flat_share opts r = (case tr_type r of
     FlatPerNight \<Rightarrow> tr_rate r * nights_factor opts | FlatPerStay \<Rightarrow> tr_rate r
   | PercentageTax \<Rightarrow> 0 | SplitComponent \<Rightarrow> 0)"

text \<open>Division by zero is the library's infinity; it prints no amount, so the request fails.\<close>

definition back_calculate_from_inclusive ::
  "decimal \<Rightarrow> charge_type \<Rightarrow> ident \<Rightarrow> date \<Rightarrow> tax_options \<Rightarrow> (decimal \<times> tax_item list) op" where
  "back_calculate_from_inclusive tot ct pid d opts =
     bnd (get_active_tax_profile pid d) (\<lambda>profile.
     case profile of
       None \<Rightarrow> ret (tot, [])
     | Some (p, rules) \<Rightarrow>
         if rules = [] then ret (tot, [])
         else let applicable = filter (rule_applies ct) rules;
                  rate = total percent_share applicable;
                  flat = total (flat_share opts) applicable;
                  divisor = 1 + rate / 100
              in bnd (guard (divisor \<noteq> 0) (Failure ''DecimalError'')) (\<lambda>_.
                 let base = cents ((tot - flat) / divisor)
                 in bnd (calculate_taxes base ct pid d opts) (\<lambda>taxes. ret (base, taxes))))"

section \<open>Facts\<close>

lemma tax_items_positive: "i \<in> set (tax_items ct guest opts amount running rs) \<Longrightarrow> 0 < ti_amount i \<and> fits 2 (ti_amount i)"
  by (induction rs arbitrary: running) (auto simp: Let_def split: if_splits)

lemma tax_items_total_nonneg: "0 \<le> total ti_amount (tax_items ct guest opts amount running rs)"
  using tax_items_positive by (intro total_nonneg) (force intro: less_imp_le)

lemma tax_items_fits: "fits 2 (total ti_amount (tax_items ct guest opts amount running rs))"
  using tax_items_positive by (intro fits_total) blast

text \<open>
  The rules that produce an item, and the item a rule produces when \<open>before\<close> is the total of
  the items already produced: the base of a compounding rule is the charge plus that total.
\<close>

definition produces :: "charge_type \<Rightarrow> guest option \<Rightarrow> tax_options \<Rightarrow> decimal \<Rightarrow> decimal \<Rightarrow> tax_rule \<Rightarrow> bool" where
  "produces ct guest opts amount running r \<longleftrightarrow>
     rule_applies ct r \<and> \<not> rule_exempt guest opts r \<and> 0 < cents (rule_tax opts amount running r)"

definition item_of :: "tax_options \<Rightarrow> decimal \<Rightarrow> decimal \<Rightarrow> tax_rule \<Rightarrow> tax_item" where
  "item_of opts amount running r =
     \<lparr>ti_name = tr_name r, ti_code = tr_code r, ti_type = tr_type r, ti_rate = tr_rate r,
      ti_amount = cents (rule_tax opts amount running r), ti_compounding = tr_compounding r\<rparr>"

lemma tax_items_append:
  "tax_items ct guest opts amount running (rs @ qs) =
   (let items = tax_items ct guest opts amount running rs
    in items @ tax_items ct guest opts amount (running + total ti_amount items) qs)"
  by (induction rs arbitrary: running) (simp_all add: Let_def add.assoc)

lemma tax_items_snoc:
  "tax_items ct guest opts amount running (rs @ [r]) =
   (let items = tax_items ct guest opts amount running rs; base = running + total ti_amount items
    in if produces ct guest opts amount base r then items @ [item_of opts amount base r] else items)"
  by (simp add: tax_items_append Let_def produces_def item_of_def)

text \<open>Without compounding rules an item does not depend on the others.\<close>

lemma rule_tax_flat: "\<not> tr_compounding r \<Longrightarrow> rule_tax opts amount running r = rule_tax opts amount amount r"
  by (simp add: rule_tax_def split: tax_rule_type.split)

definition plain_tax :: "charge_type \<Rightarrow> guest option \<Rightarrow> tax_options \<Rightarrow> decimal \<Rightarrow> tax_rule \<Rightarrow> decimal" where
  "plain_tax ct guest opts amount r =
     (if rule_applies ct r \<and> \<not> rule_exempt guest opts r
      then max 0 (cents (rule_tax opts amount amount r)) else 0)"

lemma tax_items_total_plain:
  "(\<And>r. r \<in> set rs \<Longrightarrow> \<not> tr_compounding r) \<Longrightarrow>
   total ti_amount (tax_items ct guest opts amount running rs) = total (plain_tax ct guest opts amount) rs"
proof (induction rs arbitrary: running)
  case Nil
  then show ?case by simp
next
  case (Cons r rs)
  have "rule_tax opts amount running r = rule_tax opts amount amount r"
    using Cons.prems by (intro rule_tax_flat) simp
  with Cons show ?case by (simp add: Let_def plain_tax_def)
qed

lemma rule_tax_shares:
  "\<not> tr_compounding r \<Longrightarrow>
   rule_tax opts amount amount r = amount * percent_share r / 100 + flat_share opts r"
  by (simp add: rule_tax_def percent_share_def flat_share_def split: tax_rule_type.split)

definition sound_rule :: "tax_rule \<Rightarrow> bool" where
  "sound_rule r \<longleftrightarrow> 0 \<le> tr_rate r \<and> 0 \<le> split_of r"

lemma shares_nonneg: "sound_rule r \<Longrightarrow> 0 \<le> percent_share r \<and> 0 \<le> flat_share opts r"
  by (simp add: sound_rule_def percent_share_def flat_share_def nights_factor_def
      split: tax_rule_type.split option.split)

lemma plain_tax_error:
  assumes "sound_rule r" and "\<not> tr_compounding r" and "rule_applies ct r" and "tr_exemptions r = None"
    and "0 \<le> amount"
  shows "\<bar>plain_tax ct guest opts amount r - (amount * percent_share r / 100 + flat_share opts r)\<bar> \<le> 1 / 200"
proof -
  let ?t = "rule_tax opts amount amount r"
  have t: "?t = amount * percent_share r / 100 + flat_share opts r" using assms(2) by (rule rule_tax_shares)
  have "0 \<le> ?t" unfolding t using shares_nonneg [OF assms(1), of opts] assms(5) by simp
  then have "plain_tax ct guest opts amount r = cents ?t"
    using assms(3,4) by (simp add: plain_tax_def rule_exempt_def)
  moreover have "\<bar>cents ?t - ?t\<bar> \<le> 1 / 200" using to_fixed_error [of 2 ?t] by simp
  ultimately show ?thesis by (simp add: t)
qed

lemma total_error:
  "(\<And>r. r \<in> set rs \<Longrightarrow> \<bar>f r - g r\<bar> \<le> e) \<Longrightarrow> \<bar>total f rs - total g rs\<bar> \<le> of_nat (length rs) * e"
proof (induction rs)
  case Nil
  then show ?case by simp
next
  case (Cons r rs)
  have "\<bar>f r - g r\<bar> \<le> e" and "\<bar>total f rs - total g rs\<bar> \<le> of_nat (length rs) * e"
    using Cons by auto
  then show ?case by (simp add: algebra_simps)
qed

lemma total_mult_left: "total (\<lambda>r. a * f r) rs = a * total f rs"
  by (induction rs) (simp_all add: distrib_left)

lemma total_divide: "total (\<lambda>r. f r / a) rs = total f rs / a"
  by (induction rs) (simp_all add: add_divide_distrib)

lemma total_add: "total (\<lambda>r. f r + g r) rs = total f rs + total g rs"
  by (induction rs) simp_all

lemma scaled_difference: "d \<noteq> 0 \<Longrightarrow> b * d - x = (b - x / d) * d" for b d x :: rat
  by (simp add: left_diff_distrib)

text \<open>
  Splitting a tax-inclusive total and taxing the base again gives the total back up to half a
  cent per rule and the rounding of the base.
\<close>

lemma back_calculation_error:
  assumes rs: "\<And>r. r \<in> set rs \<Longrightarrow>
      sound_rule r \<and> \<not> tr_compounding r \<and> rule_applies ct r \<and> tr_exemptions r = None"
    and base: "base = cents ((tot - total (flat_share opts) rs) / (1 + total percent_share rs / 100))"
    and pos: "total (flat_share opts) rs \<le> tot"
  shows "\<bar>base + total ti_amount (tax_items ct guest opts base base rs) - tot\<bar>
     \<le> (1 + total percent_share rs / 100 + of_nat (length rs)) / 200"
proof -
  let ?P = "total percent_share rs" and ?F = "total (flat_share opts) rs"
  let ?D = "1 + ?P / 100"
  have P: "0 \<le> ?P" using rs shares_nonneg by (intro total_nonneg) blast
  have D: "0 < ?D" using P by simp
  have b0: "0 \<le> base" unfolding base using pos D by (intro to_fixed_nonneg) simp
  have e1: "\<bar>base - (tot - ?F) / ?D\<bar> \<le> 1 / 200"
    unfolding base using to_fixed_error [of 2 "(tot - ?F) / ?D"] by simp
  have "\<bar>base * ?D - (tot - ?F)\<bar> = \<bar>base - (tot - ?F) / ?D\<bar> * ?D"
  proof -
    have "base * ?D - (tot - ?F) = (base - (tot - ?F) / ?D) * ?D"
      using D by (intro scaled_difference) simp
    then show ?thesis using D by (simp add: abs_mult)
  qed
  also have "\<dots> \<le> 1 / 200 * ?D" using e1 D by (intro mult_right_mono) simp_all
  finally have e1': "\<bar>base * ?D - (tot - ?F)\<bar> \<le> ?D / 200" by simp
  have t: "total ti_amount (tax_items ct guest opts base base rs) = total (plain_tax ct guest opts base) rs"
    by (rule tax_items_total_plain) (use rs in blast)
  have e2: "\<bar>total (plain_tax ct guest opts base) rs
      - total (\<lambda>r. base * percent_share r / 100 + flat_share opts r) rs\<bar> \<le> of_nat (length rs) * (1 / 200)"
    by (rule total_error) (use rs b0 plain_tax_error in blast)
  have s: "total (\<lambda>r. base * percent_share r / 100 + flat_share opts r) rs = base * ?P / 100 + ?F"
    by (simp add: total_add total_divide total_mult_left)
  let ?T = "total (plain_tax ct guest opts base) rs"
  have "base + ?T - tot = (base * ?D - (tot - ?F)) + (?T - (base * ?P / 100 + ?F))"
    by (simp add: algebra_simps)
  then have "\<bar>base + ?T - tot\<bar> \<le> \<bar>base * ?D - (tot - ?F)\<bar> + \<bar>?T - (base * ?P / 100 + ?F)\<bar>"
    by (metis abs_triangle_ineq)
  also have "\<dots> \<le> ?D / 200 + of_nat (length rs) * (1 / 200)"
    using e1' e2 unfolding s by (rule add_mono)
  finally show ?thesis unfolding t by (simp add: add_divide_distrib)
qed

lemma tax_items_filter:
  "tax_items ct guest opts amount running rs = tax_items ct guest opts amount running (filter (rule_applies ct) rs)"
  by (induction rs arbitrary: running) (simp_all add: Let_def)

lemma get_active_tax_profile_state [simp]: "snd (get_active_tax_profile pid d s) = s"
  by (simp add: get_active_tax_profile_def split: option.split)

definition taxes_of :: "hotel \<Rightarrow> decimal \<Rightarrow> charge_type \<Rightarrow> ident \<Rightarrow> date \<Rightarrow> tax_options \<Rightarrow> tax_item list" where
  "taxes_of s amount ct pid d opts = projr (fst (calculate_taxes amount ct pid d opts s))"

lemma calculate_taxes_eq:
  "calculate_taxes amount ct pid d opts s =
    (Inr (case first_row (sel (\<lambda>p. tp_property p = pid \<and> tp_is_active p \<and>
            in_force (tp_from p) (tp_to p) d) (tax_profiles s)) of
        None \<Rightarrow> []
      | Some p \<Rightarrow> tax_items ct (case to_guest opts of None \<Rightarrow> None
            | Some g \<Rightarrow> first_row (sel (\<lambda>q. g_id q = g) (guests s))) opts amount amount
          (active_tax_rules s (tp_id p) d)), s)"
  by (simp add: calculate_taxes_def get_active_tax_profile_def bnd_def split: option.split)

lemma calculate_taxes_apply: "calculate_taxes amount ct pid d opts s = (Inr (taxes_of s amount ct pid d opts), s)"
  by (simp add: taxes_of_def calculate_taxes_eq)

lemma bnd_calculate_taxes [simp]:
  "bnd (calculate_taxes amount ct pid d opts) k s = k (taxes_of s amount ct pid d opts) s"
  by (rule bnd_Inr) (rule calculate_taxes_apply)

lemma ends_calculate_taxes [wp]:
  "ends (calculate_taxes amount ct pid d opts) Q E s = Q (taxes_of s amount ct pid d opts) s"
  by (simp add: ends_def calculate_taxes_apply)

lemma taxes_of_positive: "i \<in> set (taxes_of s amount ct pid d opts) \<Longrightarrow> 0 < ti_amount i \<and> fits 2 (ti_amount i)"
  using tax_items_positive by (auto simp: taxes_of_def calculate_taxes_eq split: option.splits)

lemma keeps_calculate_taxes [keeps]: "keeps_inv I (calculate_taxes amount ct pid d opts)"
  by (simp add: keeps_inv_def calculate_taxes_apply)

lemma back_calculate_parts:
  assumes act: "get_active_tax_profile pid d s = (Inr (Some (p, rules)), s)"
    and run: "back_calculate_from_inclusive tot ct pid d opts s = (Inr (base, taxes), t)" and "rules \<noteq> []"
  shows "base = cents ((tot - total (flat_share opts) (filter (rule_applies ct) rules)) /
      (1 + total percent_share (filter (rule_applies ct) rules) / 100)) \<and>
    (\<exists>guest. taxes = tax_items ct guest opts base base rules)"
proof -
  have "calculate_taxes b ct pid d opts s = (Inr (tax_items ct (case to_guest opts of None \<Rightarrow> None
      | Some g \<Rightarrow> first_row (sel (\<lambda>q. g_id q = g) (guests s))) opts b b rules), s)" for b
    using assms(3) by (simp add: calculate_taxes_def bnd_Inr [where m = "get_active_tax_profile pid d" and s = s, OF act])
  then have "taxes_of s b ct pid d opts = tax_items ct (case to_guest opts of None \<Rightarrow> None
      | Some g \<Rightarrow> first_row (sel (\<lambda>q. g_id q = g) (guests s))) opts b b rules" for b
    by (simp add: taxes_of_def)
  with run assms(3) show ?thesis
    by (auto simp: back_calculate_from_inclusive_def bnd_Inr [where m = "get_active_tax_profile pid d" and s = s, OF act] Let_def split: if_splits)
qed

end
