(* ===== verification/Ledger.thy ===== *)
theory Ledger
  imports Tables Tax
begin

text \<open>
  The charge and payment ledger behind every account balance: which payment rows count
  (\<open>apps/api/src/modules/payment/payment-ledger.ts\<close>, \<open>packages/shared/src/payment-ledger.ts\<close>),
  the insertion of a charge under the table's constraints, and the recalculation of a folio's
  stored totals (\<open>recalculateBalance\<close> of \<open>folio.service.ts\<close>). The locale
  \<open>account_ledger\<close> is the contract of an account that stores totals of its ledger rows; guest
  folios and house accounts are its two instances.
\<close>

section \<open>Payment rows that count\<close>

definition parent_counts_toward_folio_balance :: "payment_status \<Rightarrow> bool" where
  "parent_counts_toward_folio_balance q \<longleftrightarrow> q \<in> {PayCaptured, PaySettled, PayPartiallyRefunded, PayRefunded}"

definition counts_as_paid :: "payment \<Rightarrow> bool" where
  "counts_as_paid y \<longleftrightarrow> y_status y = PayCaptured \<or>
     y_original y = None \<and> parent_counts_toward_folio_balance (y_status y)"

definition folio_payment_sum_where :: "ident \<Rightarrow> ident \<Rightarrow> payment \<Rightarrow> bool" where
  "folio_payment_sum_where fid pid y \<longleftrightarrow>
     y_folio y = Some fid \<and> y_property y = pid \<and> counts_as_paid y"

definition booking_request_payment_sum_where :: "ident \<Rightarrow> ident \<Rightarrow> payment \<Rightarrow> bool" where
  "booking_request_payment_sum_where rid pid y \<longleftrightarrow>
     y_request y = Some rid \<and> y_property y = pid \<and> counts_as_paid y"

definition report_payment_sum_where :: "ident \<Rightarrow> payment \<Rightarrow> bool" where
  "report_payment_sum_where pid y \<longleftrightarrow> y_property y = pid \<and> counts_as_paid y"

definition sum_refund_children :: "payment list \<Rightarrow> decimal" where
  "sum_refund_children rows = fold (\<lambda>y acc. acc + \<bar>y_amount y\<bar>) rows 0"

definition remaining_captured_amount :: "decimal \<Rightarrow> payment list \<Rightarrow> decimal" where
  "remaining_captured_amount captured rows = captured - sum_refund_children rows"

lemma sum_refund_children_eq: "sum_refund_children rows = total (\<lambda>y. \<bar>y_amount y\<bar>) rows"
  by (simp add: sum_refund_children_def total_def)

lemma sum_refund_children_nonneg: "0 \<le> sum_refund_children rows"
  by (simp add: sum_refund_children_eq total_nonneg)

section \<open>Inserting a charge\<close>

text \<open>
  The table accepts a description of at most 255 characters and a tax code of at most 20, rounds
  the amounts to its scale, and keeps \<open>(property, folio, source key)\<close> unique; a conflicting
  insert returns no row when it says \<open>on conflict do nothing\<close>. The new row's identifier is drawn
  first, as the column's default is.
\<close>

definition fits_columns :: "charge \<Rightarrow> bool" where
  "fits_columns c \<longleftrightarrow> length (c_description c) \<le> 255 \<and>
     (case c_tax_code c of None \<Rightarrow> True | Some t \<Rightarrow> length t \<le> 20)"

definition stored_charge :: "charge \<Rightarrow> charge" where
  "stored_charge c = c\<lparr>c_amount := cents (c_amount c), c_tax := cents (c_tax c),
     c_tax_rate := map_option (to_fixed 4) (c_tax_rate c)\<rparr>"

definition same_source :: "charge \<Rightarrow> charge \<Rightarrow> bool" where
  "same_source c d \<longleftrightarrow> c_property d = c_property c \<and> c_folio d = c_folio c \<and> c_folio c \<noteq> None \<and>
     c_source d = c_source c \<and> c_source c \<noteq> None"

definition insert_charge :: "charge \<Rightarrow> charge op" where
  "insert_charge c =
     bnd new_id (\<lambda>i.
     bnd (guard (fits_columns c) (Failure ''value too long'')) (\<lambda>_.
     bnd (ask (\<lambda>s. sel (same_source c) (charges s))) (\<lambda>clash.
     bnd (guard (clash = []) (Failure ''duplicate key'')) (\<lambda>_.
     insert_row charges_update ((stored_charge c)\<lparr>c_id := i\<rparr>)))))"

definition insert_charge_unless_claimed :: "charge \<Rightarrow> charge option op" where
  "insert_charge_unless_claimed c =
     bnd new_id (\<lambda>i.
     bnd (guard (fits_columns c) (Failure ''value too long'')) (\<lambda>_.
     bnd (ask (\<lambda>s. sel (same_source c) (charges s))) (\<lambda>clash.
     if clash = [] then bnd (insert_row charges_update ((stored_charge c)\<lparr>c_id := i\<rparr>)) (\<lambda>row. ret (Some row))
     else ret None)))"

section \<open>Folio totals\<close>

definition is_folio :: "ident \<Rightarrow> ident \<Rightarrow> folio \<Rightarrow> bool" where
  "is_folio fid pid f \<longleftrightarrow> f_id f = fid \<and> f_property f = pid"

definition charge_of_folio :: "ident \<Rightarrow> ident \<Rightarrow> charge \<Rightarrow> bool" where
  "charge_of_folio fid pid c \<longleftrightarrow> c_folio c = Some fid \<and> c_property c = pid"

definition charge_value :: "charge \<Rightarrow> decimal" where
  "charge_value c = c_amount c + c_tax c"

definition folio_charged :: "hotel \<Rightarrow> ident \<times> ident \<Rightarrow> decimal" where
  "folio_charged s k = total charge_value (sel (charge_of_folio (fst k) (snd k)) (charges s))"

definition folio_paid :: "hotel \<Rightarrow> ident \<times> ident \<Rightarrow> decimal" where
  "folio_paid s k = total y_amount (sel (folio_payment_sum_where (fst k) (snd k)) (payments s))"

text \<open>The three stored totals: charges, payments, balance.\<close>

definition statement :: "decimal \<Rightarrow> decimal \<Rightarrow> decimal \<times> decimal \<times> decimal" where
  "statement charged paid = (cents charged, cents paid, cents (cents charged - cents paid))"

definition stamp_folio :: "decimal \<times> decimal \<times> decimal \<Rightarrow> folio \<Rightarrow> folio" where
  "stamp_folio v f = (case v of (c, p, b) \<Rightarrow> f\<lparr>f_total_charges := c, f_total_payments := p, f_balance := b\<rparr>)"

definition recalc_folio :: "ident \<times> ident \<Rightarrow> hotel \<Rightarrow> hotel" where
  "recalc_folio k s =
     folios_update (upd (is_folio (fst k) (snd k)) (stamp_folio (statement (folio_charged s k) (folio_paid s k)))) s"

definition recalculate_balance :: "ident \<Rightarrow> ident \<Rightarrow> unit op" where
  "recalculate_balance fid pid =
     bnd (ask (\<lambda>s. total charge_value (sel (charge_of_folio fid pid) (charges s)))) (\<lambda>charge_sum.
     bnd (ask (\<lambda>s. total y_amount (sel (folio_payment_sum_where fid pid) (payments s)))) (\<lambda>payment_sum.
     let total_charges = cents charge_sum; total_payments = cents payment_sum;
         balance = cents (total_charges - total_payments)
     in bnd (update_where folios folios_update (is_folio fid pid)
          (\<lambda>f. f\<lparr>f_total_charges := total_charges, f_total_payments := total_payments, f_balance := balance\<rparr>))
        (\<lambda>_. ret ())))"

lemma recalculate_balance_eq: "recalculate_balance fid pid = tell (recalc_folio (fid, pid))"
  by (rule ext) (simp add: recalculate_balance_def Let_def recalc_folio_def folio_charged_def
      folio_paid_def statement_def stamp_folio_def [abs_def])

lemma ends_recalculate_balance [wp]:
  "ends (recalculate_balance fid pid) Q E s = Q () (recalc_folio (fid, pid) s)"
  by (simp add: recalculate_balance_eq wp)

lemma bnd_recalculate_balance [simp]:
  "bnd (recalculate_balance fid pid) k s = k () (recalc_folio (fid, pid) s)"
  by (simp add: recalculate_balance_eq)

lemma stamp_folio_simps [simp]:
  "f_id (stamp_folio v f) = f_id f" "f_property (stamp_folio v f) = f_property f"
  "f_status (stamp_folio v f) = f_status f" "f_reservation (stamp_folio v f) = f_reservation f"
  "f_currency (stamp_folio v f) = f_currency f" "f_number (stamp_folio v f) = f_number f"
  "f_type (stamp_folio v f) = f_type f" "f_guest (stamp_folio v f) = f_guest f"
  by (simp_all add: stamp_folio_def split: prod.split)

lemma stamp_folio_totals [simp]:
  "f_total_charges (stamp_folio (statement c p) f) = cents c"
  "f_total_payments (stamp_folio (statement c p) f) = cents p"
  "f_balance (stamp_folio (statement c p) f) = cents (cents c - cents p)"
  by (simp_all add: stamp_folio_def statement_def)

lemma is_folio_stamp [simp]: "is_folio a b (stamp_folio v f) = is_folio a b f"
  by (simp add: is_folio_def)

lemma recalc_folio_tables [simp]:
  "guests (recalc_folio k s) = guests s" "properties (recalc_folio k s) = properties s"
  "room_types (recalc_folio k s) = room_types s" "rooms (recalc_folio k s) = rooms s"
  "rate_plans (recalc_folio k s) = rate_plans s" "bookings (recalc_folio k s) = bookings s"
  "reservations (recalc_folio k s) = reservations s" "occupants (recalc_folio k s) = occupants s"
  "ical_feeds (recalc_folio k s) = ical_feeds s" "ical_blocks (recalc_folio k s) = ical_blocks s"
  "charges (recalc_folio k s) = charges s" "payments (recalc_folio k s) = payments s"
  "tax_profiles (recalc_folio k s) = tax_profiles s" "tax_rules (recalc_folio k s) = tax_rules s"
  "policies (recalc_folio k s) = policies s" "deposits (recalc_folio k s) = deposits s"
  "house_accounts (recalc_folio k s) = house_accounts s" "products (recalc_folio k s) = products s"
  "drawers (recalc_folio k s) = drawers s" "cash_sessions (recalc_folio k s) = cash_sessions s"
  "cash_movements (recalc_folio k s) = cash_movements s"
  "services (recalc_folio k s) = services s" "plan_components (recalc_folio k s) = plan_components s"
  "reservation_services (recalc_folio k s) = reservation_services s"
  "booking_requests (recalc_folio k s) = booking_requests s"
  "installments (recalc_folio k s) = installments s"
  "allocations (recalc_folio k s) = allocations s"
  "resolutions (recalc_folio k s) = resolutions s"
  "consequences (recalc_folio k s) = consequences s"
  "deliveries (recalc_folio k s) = deliveries s" "events (recalc_folio k s) = events s"
  "fresh (recalc_folio k s) = fresh s"
  by (simp_all add: recalc_folio_def)

section \<open>Accounts that store their totals\<close>

text \<open>Every account outside \<open>X\<close> stores the statement of its ledger rows.\<close>

definition books ::
  "('s \<Rightarrow> 'a list) \<Rightarrow> ('a \<Rightarrow> 'k) \<Rightarrow> ('s \<Rightarrow> 'k \<Rightarrow> decimal) \<Rightarrow> ('s \<Rightarrow> 'k \<Rightarrow> decimal) \<Rightarrow>
   ('a \<Rightarrow> decimal \<times> decimal \<times> decimal) \<Rightarrow> 'k set \<Rightarrow> 's \<Rightarrow> bool" where
  "books accounts key charged paid totals X s \<longleftrightarrow>
     (\<forall>a \<in> set (accounts s). key a \<notin> X \<longrightarrow> totals a = statement (charged s (key a)) (paid s (key a)))"

locale account_ledger =
  fixes accounts :: "'s \<Rightarrow> 'a list"
    and key :: "'a \<Rightarrow> 'k"
    and charged :: "'s \<Rightarrow> 'k \<Rightarrow> decimal"
    and paid :: "'s \<Rightarrow> 'k \<Rightarrow> decimal"
    and totals :: "'a \<Rightarrow> decimal \<times> decimal \<times> decimal"
    and recalc :: "'k \<Rightarrow> 's \<Rightarrow> 's"
  assumes recalc_account: "a \<in> set (accounts (recalc k s)) \<Longrightarrow>
      (key a \<noteq> k \<and> a \<in> set (accounts s)) \<or> (key a = k \<and> totals a = statement (charged s k) (paid s k))"
    and recalc_charged: "charged (recalc k s) j = charged s j"
    and recalc_paid: "paid (recalc k s) j = paid s j"
begin

lemma recalc_fixes: "books accounts key charged paid totals X s \<Longrightarrow>
    books accounts key charged paid totals (X - {k}) (recalc k s)"
  unfolding books_def recalc_charged recalc_paid using recalc_account by blast

lemma recalc_one: "books accounts key charged paid totals {k} s \<Longrightarrow>
    books accounts key charged paid totals {} (recalc k s)"
  using recalc_fixes [of "{k}" s k] by simp

lemma recalc_two: "books accounts key charged paid totals {j, k} s \<Longrightarrow>
    books accounts key charged paid totals {} (recalc k (recalc j s))"
  using recalc_fixes [of "{j, k}" s j] recalc_fixes [of "{j, k} - {j}" "recalc j s" k]
  by (cases "j = k") (simp_all add: insert_Diff_if)

text \<open>A write to the ledger unbalances at most the accounts whose sums it changes.\<close>

lemma posting:
  assumes "books accounts key charged paid totals X s"
    and "set (accounts t) \<subseteq> set (accounts s)"
    and "\<And>k. k \<notin> Y \<Longrightarrow> charged t k = charged s k \<and> paid t k = paid s k"
    and "X \<subseteq> Y"
  shows "books accounts key charged paid totals Y t"
  using assms unfolding books_def by (metis subsetD)

lemma balanced_after: "books accounts key charged paid totals X s \<Longrightarrow> a \<in> set (accounts s) \<Longrightarrow> key a \<notin> X \<Longrightarrow>
    totals a = statement (charged s (key a)) (paid s (key a))"
  by (simp add: books_def)

end

definition folio_key :: "folio \<Rightarrow> ident \<times> ident" where
  "folio_key f = (f_id f, f_property f)"

definition folio_totals :: "folio \<Rightarrow> decimal \<times> decimal \<times> decimal" where
  "folio_totals f = (f_total_charges f, f_total_payments f, f_balance f)"

abbreviation folio_books :: "(ident \<times> ident) set \<Rightarrow> hotel \<Rightarrow> bool" where
  "folio_books \<equiv> books folios folio_key folio_charged folio_paid folio_totals"

lemma folio_totals_stamp [simp]: "folio_totals (stamp_folio v f) = v"
  by (cases v) (simp add: folio_totals_def stamp_folio_def)

lemma is_folio_key: "is_folio (fst k) (snd k) f \<longleftrightarrow> folio_key f = k"
  by (auto simp: is_folio_def folio_key_def)

interpretation folio_ledger: account_ledger folios folio_key folio_charged folio_paid folio_totals recalc_folio
proof
  fix a k s j
  show "a \<in> set (folios (recalc_folio k s)) \<Longrightarrow>
      (folio_key a \<noteq> k \<and> a \<in> set (folios s)) \<or>
      (folio_key a = k \<and> folio_totals a = statement (folio_charged s k) (folio_paid s k))"
    by (auto simp: recalc_folio_def set_upd is_folio_key) (auto simp: folio_key_def)
  show "folio_charged (recalc_folio k s) j = folio_charged s j"
    by (simp add: folio_charged_def)
  show "folio_paid (recalc_folio k s) j = folio_paid s j"
    by (simp add: folio_paid_def)
qed

section \<open>The ledger invariant\<close>

text \<open>
  Ledger rows refer to identifiers already drawn, hold amounts at the scale of their columns,
  and tax rules fit the columns of the charges they produce.
\<close>

definition refs_ok :: "hotel \<Rightarrow> bool" where
  "refs_ok s \<longleftrightarrow> (\<forall>c \<in> set (charges s). \<forall>i. c_folio c = Some i \<or> c_house c = Some i \<longrightarrow> i < fresh s) \<and>
     (\<forall>y \<in> set (payments s). \<forall>i. y_folio y = Some i \<or> y_house y = Some i \<longrightarrow> i < fresh s)"

definition cents_ok :: "hotel \<Rightarrow> bool" where
  "cents_ok s \<longleftrightarrow> (\<forall>c \<in> set (charges s). fits 2 (c_amount c) \<and> fits 2 (c_tax c)) \<and>
     (\<forall>y \<in> set (payments s). fits 2 (y_amount y))"

definition rules_fit :: "hotel \<Rightarrow> bool" where
  "rules_fit s \<longleftrightarrow> (\<forall>r \<in> set (tax_rules s). length (tr_code r) \<le> 20 \<and> length (tr_name r) \<le> 255)"

definition ledger_base :: "hotel \<Rightarrow> bool" where
  "ledger_base s \<longleftrightarrow> wf_hotel s \<and> refs_ok s \<and> cents_ok s \<and> rules_fit s"

definition ledger_ok :: "hotel \<Rightarrow> bool" where
  "ledger_ok s \<longleftrightarrow> ledger_base s \<and> folio_books {} s"

lemma ledger_okI: "ledger_base s \<Longrightarrow> folio_books {} s \<Longrightarrow> ledger_ok s"
  by (simp add: ledger_ok_def)

lemma ledger_okD: "ledger_ok s \<Longrightarrow> ledger_base s" "ledger_ok s \<Longrightarrow> folio_books {} s"
  by (simp_all add: ledger_ok_def)

lemma ledger_ok_empty: "ledger_ok empty_hotel"
  by (simp add: ledger_ok_def ledger_base_def wf_empty_hotel refs_ok_def cents_ok_def rules_fit_def books_def)
    (simp add: empty_hotel_def)

text \<open>What a balanced folio says: its balance is the exact sum of its charges less its payments.\<close>

lemma fits_folio_charged: "cents_ok s \<Longrightarrow> fits 2 (folio_charged s k)"
  unfolding folio_charged_def by (rule fits_total) (auto simp: cents_ok_def sel_def charge_value_def)

lemma fits_folio_paid: "cents_ok s \<Longrightarrow> fits 2 (folio_paid s k)"
  unfolding folio_paid_def by (rule fits_total) (auto simp: cents_ok_def sel_def)

lemma statement_exact: "fits 2 c \<Longrightarrow> fits 2 p \<Longrightarrow> statement c p = (c, p, c - p)"
  by (simp add: statement_def to_fixed_id)

lemma ledger_ok_folio:
  assumes "ledger_ok s" and "f \<in> set (folios s)"
  shows "f_total_charges f = folio_charged s (folio_key f)" and "f_total_payments f = folio_paid s (folio_key f)"
    and "f_balance f = folio_charged s (folio_key f) - folio_paid s (folio_key f)"
proof -
  have "cents_ok s" using assms(1) by (simp add: ledger_ok_def ledger_base_def)
  then have "statement (folio_charged s (folio_key f)) (folio_paid s (folio_key f)) =
      (folio_charged s (folio_key f), folio_paid s (folio_key f),
       folio_charged s (folio_key f) - folio_paid s (folio_key f))"
    by (intro statement_exact fits_folio_charged fits_folio_paid)
  moreover have "folio_totals f = statement (folio_charged s (folio_key f)) (folio_paid s (folio_key f))"
    using assms by (intro folio_ledger.balanced_after) (auto simp: ledger_ok_def)
  ultimately show "f_total_charges f = folio_charged s (folio_key f)"
    and "f_total_payments f = folio_paid s (folio_key f)"
    and "f_balance f = folio_charged s (folio_key f) - folio_paid s (folio_key f)"
    by (simp_all add: folio_totals_def)
qed

section \<open>Preservation by the ledger's writes\<close>

lemma ledger_base_events [simp]: "ledger_base (s\<lparr>events := es\<rparr>) = ledger_base s"
  by (simp add: ledger_base_def refs_ok_def cents_ok_def rules_fit_def)

lemma folio_charged_events [simp]: "folio_charged (s\<lparr>events := es\<rparr>) = folio_charged s"
  by (rule ext) (simp add: folio_charged_def)

lemma folio_paid_events [simp]: "folio_paid (s\<lparr>events := es\<rparr>) = folio_paid s"
  by (rule ext) (simp add: folio_paid_def)

lemma folio_books_events [simp]: "folio_books X (s\<lparr>events := es\<rparr>) = folio_books X s"
  by (simp add: books_def)

lemma ledger_ok_events [simp]: "ledger_ok (s\<lparr>events := es\<rparr>) = ledger_ok s"
  by (simp add: ledger_ok_def)

lemma ledger_base_fresh: "ledger_base s \<Longrightarrow> ledger_base (s\<lparr>fresh := Suc (fresh s)\<rparr>)"
  by (auto simp: ledger_base_def refs_ok_def cents_ok_def rules_fit_def wf_hotel_fresh less_Suc_eq)

lemma folio_books_fresh [simp]: "folio_books X (s\<lparr>fresh := n\<rparr>) = folio_books X s"
  by (simp add: books_def folio_charged_def folio_paid_def)

lemma ledger_ok_fresh: "ledger_ok s \<Longrightarrow> ledger_ok (s\<lparr>fresh := Suc (fresh s)\<rparr>)"
  by (simp add: ledger_ok_def ledger_base_fresh)

lemma wf_recalc: "wf_hotel s \<Longrightarrow> wf_hotel (recalc_folio k s)"
  unfolding recalc_folio_def by (rule wf_update_folios) simp_all

lemma ledger_base_recalc: "ledger_base s \<Longrightarrow> ledger_base (recalc_folio k s)"
  by (simp add: ledger_base_def wf_recalc refs_ok_def cents_ok_def rules_fit_def)

lemma ledger_ok_recalc_one: "ledger_base s \<Longrightarrow> folio_books {k} s \<Longrightarrow> ledger_ok (recalc_folio k s)"
  by (intro ledger_okI ledger_base_recalc folio_ledger.recalc_one)

lemma ledger_ok_recalc_two:
  "ledger_base s \<Longrightarrow> folio_books {j, k} s \<Longrightarrow> ledger_ok (recalc_folio k (recalc_folio j s))"
  by (intro ledger_okI ledger_base_recalc folio_ledger.recalc_two)

lemma folio_books_mono: "folio_books X s \<Longrightarrow> X \<subseteq> Y \<Longrightarrow> folio_books Y s"
  by (auto simp: books_def)

text \<open>Appending a charge to the folio with key \<open>k\<close>.\<close>

definition good_charge :: "hotel \<Rightarrow> charge \<Rightarrow> bool" where
  "good_charge s c \<longleftrightarrow> (\<forall>i. c_folio c = Some i \<or> c_house c = Some i \<longrightarrow> i < fresh s)"

lemma good_charge_simps [simp]:
  "good_charge (s\<lparr>fresh := Suc (fresh s)\<rparr>) c \<longleftrightarrow> (\<forall>i. c_folio c = Some i \<or> c_house c = Some i \<longrightarrow> i \<le> fresh s)"
  by (simp add: good_charge_def less_Suc_eq_le)

definition add_charge :: "charge \<Rightarrow> hotel \<Rightarrow> hotel" where
  "add_charge c s = charges_update (\<lambda>t. t @ [(stored_charge c)\<lparr>c_id := fresh s\<rparr>]) (s\<lparr>fresh := Suc (fresh s)\<rparr>)"

lemma add_charge_tables [simp]:
  "guests (add_charge c s) = guests s" "properties (add_charge c s) = properties s"
  "room_types (add_charge c s) = room_types s" "rooms (add_charge c s) = rooms s"
  "rate_plans (add_charge c s) = rate_plans s" "bookings (add_charge c s) = bookings s"
  "reservations (add_charge c s) = reservations s" "occupants (add_charge c s) = occupants s"
  "ical_feeds (add_charge c s) = ical_feeds s" "ical_blocks (add_charge c s) = ical_blocks s"
  "folios (add_charge c s) = folios s" "payments (add_charge c s) = payments s"
  "tax_profiles (add_charge c s) = tax_profiles s" "tax_rules (add_charge c s) = tax_rules s"
  "policies (add_charge c s) = policies s" "deposits (add_charge c s) = deposits s"
  "house_accounts (add_charge c s) = house_accounts s" "products (add_charge c s) = products s"
  "drawers (add_charge c s) = drawers s" "cash_sessions (add_charge c s) = cash_sessions s"
  "services (add_charge c s) = services s" "plan_components (add_charge c s) = plan_components s"
  "reservation_services (add_charge c s) = reservation_services s"
  "booking_requests (add_charge c s) = booking_requests s"
  "installments (add_charge c s) = installments s"
  "allocations (add_charge c s) = allocations s"
  "resolutions (add_charge c s) = resolutions s"
  "consequences (add_charge c s) = consequences s"
  "deliveries (add_charge c s) = deliveries s"
  "cash_movements (add_charge c s) = cash_movements s" "events (add_charge c s) = events s"
  by (simp_all add: add_charge_def)

lemma add_charge_charges [simp]:
  "fresh (add_charge c s) = Suc (fresh s)"
  "charges (add_charge c s) = charges s @ [(stored_charge c)\<lparr>c_id := fresh s\<rparr>]"
  by (simp_all add: add_charge_def)

lemma stored_charge_simps [simp]:
  "c_folio (stored_charge c) = c_folio c" "c_property (stored_charge c) = c_property c"
  "c_house (stored_charge c) = c_house c" "c_amount (stored_charge c) = cents (c_amount c)"
  "c_tax (stored_charge c) = cents (c_tax c)" "c_type (stored_charge c) = c_type c"
  "c_reversal (stored_charge c) = c_reversal c" "c_original (stored_charge c) = c_original c"
  "c_parent (stored_charge c) = c_parent c" "c_source (stored_charge c) = c_source c"
  "c_description (stored_charge c) = c_description c" "c_currency (stored_charge c) = c_currency c"
  "c_locked (stored_charge c) = c_locked c" "c_adjusts (stored_charge c) = c_adjusts c"
  by (simp_all add: stored_charge_def)

lemma ledger_base_add_charge: "ledger_base s \<Longrightarrow> good_charge s c \<Longrightarrow> ledger_base (add_charge c s)"
  by (auto simp: ledger_base_def wf_hotel_def keys_ok_Suc keys_ok_append refs_ok_def cents_ok_def
      rules_fit_def good_charge_def less_Suc_eq)

lemma folio_charged_add_charge:
  "folio_charged (add_charge c s) k = folio_charged s k +
     (if charge_of_folio (fst k) (snd k) c then cents (c_amount c) + cents (c_tax c) else 0)"
  by (simp add: folio_charged_def sel_def charge_of_folio_def charge_value_def)

lemma folio_paid_add_charge [simp]: "folio_paid (add_charge c s) k = folio_paid s k"
  by (simp add: folio_paid_def)

lemma folio_books_add_charge:
  assumes "folio_books X s" and "\<And>fid. c_folio c = Some fid \<Longrightarrow> (fid, c_property c) \<in> X"
  shows "folio_books X (add_charge c s)"
proof (rule folio_ledger.posting [OF assms(1)])
  fix k assume "k \<notin> X"
  with assms(2) have "\<not> charge_of_folio (fst k) (snd k) c" by (auto simp: charge_of_folio_def)
  then show "folio_charged (add_charge c s) k = folio_charged s k \<and> folio_paid (add_charge c s) k = folio_paid s k"
    by (simp add: folio_charged_add_charge)
qed simp_all

lemma ends_insert_charge [wp]:
  "ends (insert_charge c) Q E s =
    (if \<not> fits_columns c then E (Failure ''value too long'') (s\<lparr>fresh := Suc (fresh s)\<rparr>)
     else if sel (same_source c) (charges s) \<noteq> [] then E (Failure ''duplicate key'') (s\<lparr>fresh := Suc (fresh s)\<rparr>)
     else Q ((stored_charge c)\<lparr>c_id := fresh s\<rparr>) (add_charge c s))"
  by (simp add: insert_charge_def wp add_charge_def)

lemma ends_insert_charge_unless_claimed [wp]:
  "ends (insert_charge_unless_claimed c) Q E s =
    (if \<not> fits_columns c then E (Failure ''value too long'') (s\<lparr>fresh := Suc (fresh s)\<rparr>)
     else if sel (same_source c) (charges s) \<noteq> [] then Q None (s\<lparr>fresh := Suc (fresh s)\<rparr>)
     else Q (Some ((stored_charge c)\<lparr>c_id := fresh s\<rparr>)) (add_charge c s))"
  by (simp add: insert_charge_unless_claimed_def wp add_charge_def)

text \<open>Appending a payment.\<close>

definition add_payment :: "payment \<Rightarrow> hotel \<Rightarrow> hotel" where
  "add_payment y s = payments_update (\<lambda>t. t @ [y\<lparr>y_id := fresh s, y_amount := cents (y_amount y)\<rparr>])
     (s\<lparr>fresh := Suc (fresh s)\<rparr>)"

text \<open>\<open>(property, idempotency key)\<close> is unique; rows without a key never clash.\<close>

definition same_idempotency :: "payment \<Rightarrow> payment \<Rightarrow> bool" where
  "same_idempotency y z \<longleftrightarrow> y_property z = y_property y \<and> y_idempotency z = y_idempotency y \<and> y_idempotency y \<noteq> None"

definition insert_payment :: "payment \<Rightarrow> payment op" where
  "insert_payment y =
     bnd new_id (\<lambda>i.
     bnd (ask (\<lambda>s. sel (same_idempotency y) (payments s))) (\<lambda>clash.
     bnd (guard (clash = []) (Failure ''duplicate key'')) (\<lambda>_.
     insert_row payments_update (y\<lparr>y_id := i, y_amount := cents (y_amount y)\<rparr>))))"

definition good_payment :: "hotel \<Rightarrow> payment \<Rightarrow> bool" where
  "good_payment s y \<longleftrightarrow> (\<forall>i. y_folio y = Some i \<or> y_house y = Some i \<longrightarrow> i < fresh s)"

lemma ends_insert_payment [wp]:
  "ends (insert_payment y) Q E s =
    (if sel (same_idempotency y) (payments s) \<noteq> [] then E (Failure ''duplicate key'') (s\<lparr>fresh := Suc (fresh s)\<rparr>)
     else Q (y\<lparr>y_id := fresh s, y_amount := cents (y_amount y)\<rparr>) (add_payment y s))"
  by (simp add: insert_payment_def wp add_payment_def)

lemma add_payment_tables [simp]:
  "guests (add_payment y s) = guests s" "properties (add_payment y s) = properties s"
  "room_types (add_payment y s) = room_types s" "rooms (add_payment y s) = rooms s"
  "rate_plans (add_payment y s) = rate_plans s" "bookings (add_payment y s) = bookings s"
  "reservations (add_payment y s) = reservations s" "occupants (add_payment y s) = occupants s"
  "ical_feeds (add_payment y s) = ical_feeds s" "ical_blocks (add_payment y s) = ical_blocks s"
  "folios (add_payment y s) = folios s" "charges (add_payment y s) = charges s"
  "tax_profiles (add_payment y s) = tax_profiles s" "tax_rules (add_payment y s) = tax_rules s"
  "policies (add_payment y s) = policies s" "deposits (add_payment y s) = deposits s"
  "house_accounts (add_payment y s) = house_accounts s" "products (add_payment y s) = products s"
  "drawers (add_payment y s) = drawers s" "cash_sessions (add_payment y s) = cash_sessions s"
  "services (add_payment y s) = services s" "plan_components (add_payment y s) = plan_components s"
  "reservation_services (add_payment y s) = reservation_services s"
  "booking_requests (add_payment y s) = booking_requests s"
  "installments (add_payment y s) = installments s"
  "allocations (add_payment y s) = allocations s"
  "resolutions (add_payment y s) = resolutions s"
  "consequences (add_payment y s) = consequences s"
  "deliveries (add_payment y s) = deliveries s"
  "cash_movements (add_payment y s) = cash_movements s" "events (add_payment y s) = events s"
  by (simp_all add: add_payment_def)

lemma add_payment_payments [simp]:
  "fresh (add_payment y s) = Suc (fresh s)"
  "payments (add_payment y s) = payments s @ [y\<lparr>y_id := fresh s, y_amount := cents (y_amount y)\<rparr>]"
  by (simp_all add: add_payment_def)

lemma ledger_base_add_payment: "ledger_base s \<Longrightarrow> good_payment s y \<Longrightarrow> ledger_base (add_payment y s)"
  by (auto simp: ledger_base_def wf_hotel_def keys_ok_Suc keys_ok_append refs_ok_def cents_ok_def
      rules_fit_def good_payment_def less_Suc_eq)

lemma folio_charged_add_payment [simp]: "folio_charged (add_payment y s) k = folio_charged s k"
  by (simp add: folio_charged_def)

lemma folio_paid_add_payment:
  "folio_paid (add_payment y s) k = folio_paid s k +
     (if folio_payment_sum_where (fst k) (snd k) y then cents (y_amount y) else 0)"
proof -
  have "folio_payment_sum_where a b (y\<lparr>y_id := i, y_amount := v\<rparr>) = folio_payment_sum_where a b y" for a b i v
    by (simp add: folio_payment_sum_where_def counts_as_paid_def)
  then show ?thesis by (simp add: folio_paid_def sel_def)
qed

lemma folio_books_add_payment:
  assumes "folio_books X s"
    and "\<And>fid. y_folio y = Some fid \<Longrightarrow> counts_as_paid y \<Longrightarrow> (fid, y_property y) \<in> X"
  shows "folio_books X (add_payment y s)"
proof (rule folio_ledger.posting [OF assms(1)])
  fix k assume "k \<notin> X"
  with assms(2) have "\<not> folio_payment_sum_where (fst k) (snd k) y"
    by (auto simp: folio_payment_sum_where_def)
  then show "folio_charged (add_payment y s) k = folio_charged s k \<and> folio_paid (add_payment y s) k = folio_paid s k"
    by (simp add: folio_paid_add_payment)
qed simp_all

end
