(* ===== verification/Lifecycle.thy ===== *)
theory Lifecycle
  imports Tables
begin

text \<open>
  The status machines: reservations
  (\<open>apps/api/src/modules/reservation/reservation-state-machine.ts\<close>) and rooms
  (\<open>apps/api/src/modules/room/room-status.service.ts\<close>), with the conditional update that makes
  a reservation transition atomic (\<open>claimTransition\<close> of \<open>reservation.service.ts\<close>). The locale
  \<open>status_machine\<close> is the contract of a machine that only moves forward; the locale
  \<open>claim_store\<close> is the contract of an atomic claim.
\<close>

section \<open>Machines that only move forward\<close>

locale status_machine =
  fixes next_states :: "'q \<Rightarrow> 'q list"
    and rank :: "'q \<Rightarrow> nat"
  assumes forward: "t \<in> set (next_states q) \<Longrightarrow> rank q < rank t"
begin

fun path :: "'q \<Rightarrow> 'q list \<Rightarrow> bool" where
  "path q [] = True"
| "path q (t # ts) = (t \<in> set (next_states q) \<and> path t ts)"

lemma path_rank: "path q ts \<Longrightarrow> t \<in> set ts \<Longrightarrow> rank q < rank t"
proof (induction ts arbitrary: q)
  case Nil
  then show ?case by simp
next
  case (Cons u us)
  from Cons.prems(1) have "rank q < rank u" and "path u us" by (auto intro: forward)
  with Cons.prems(2) Cons.IH [of u] show ?case by auto
qed

lemma path_no_return: "path q ts \<Longrightarrow> q \<notin> set ts"
  using path_rank by blast

lemma path_distinct: "path q ts \<Longrightarrow> distinct (q # ts)"
proof (induction ts arbitrary: q)
  case Nil
  then show ?case by simp
next
  case (Cons u us)
  then show ?case using path_no_return [of q "u # us"] by auto
qed

lemma path_length: "path q ts \<Longrightarrow> (\<And>t. rank t \<le> n) \<Longrightarrow> length ts + rank q \<le> n"
proof (induction ts arbitrary: q)
  case Nil
  then show ?case by simp
next
  case (Cons u us)
  from Cons.prems(1) have "rank q < rank u" and "path u us" by (auto intro: forward)
  with Cons.IH [of u] Cons.prems(2) show ?case by fastforce
qed

end

section \<open>Reservations\<close>

fun valid_transitions :: "reservation_status \<Rightarrow> reservation_status list" where
  "valid_transitions Pending = [Confirmed, Cancelled]"
| "valid_transitions Confirmed = [Assigned, Cancelled, NoShow]"
| "valid_transitions Assigned = [CheckedIn, Cancelled, NoShow]"
| "valid_transitions CheckedIn = [Stayover, CheckedOut]"
| "valid_transitions Stayover = [DueOut, CheckedOut]"
| "valid_transitions DueOut = [CheckedOut]"
| "valid_transitions CheckedOut = []"
| "valid_transitions NoShow = []"
| "valid_transitions Cancelled = []"

definition validate_transition :: "reservation_status \<Rightarrow> reservation_status \<Rightarrow> bool" where
  "validate_transition current target = (target \<in> set (valid_transitions current))"

definition assert_transition :: "reservation_status \<Rightarrow> reservation_status \<Rightarrow> unit op" where
  "assert_transition current target =
     guard (validate_transition current target) (BadRequest ''Invalid status transition'')"

fun stay_rank :: "reservation_status \<Rightarrow> nat" where
  "stay_rank Pending = 0"
| "stay_rank Confirmed = 1"
| "stay_rank Assigned = 2"
| "stay_rank CheckedIn = 3"
| "stay_rank Stayover = 4"
| "stay_rank DueOut = 5"
| "stay_rank CheckedOut = 6"
| "stay_rank NoShow = 6"
| "stay_rank Cancelled = 6"

interpretation reservation_machine: status_machine valid_transitions stay_rank
proof
  fix q t
  show "t \<in> set (valid_transitions q) \<Longrightarrow> stay_rank q < stay_rank t" by (cases q) auto
qed

lemma stay_rank_le: "stay_rank q \<le> 6"
  by (cases q) simp_all

definition terminal :: "reservation_status \<Rightarrow> bool" where
  "terminal q \<longleftrightarrow> q \<in> {CheckedOut, NoShow, Cancelled}"

lemma terminal_iff: "terminal q \<longleftrightarrow> valid_transitions q = []"
  by (cases q) (simp_all add: terminal_def)

lemma bnd_assert_transition [simp]:
  "bnd (assert_transition q t) k s =
     (if validate_transition q t then k () s else (Inl (BadRequest ''Invalid status transition''), s))"
  by (simp add: assert_transition_def)

lemma keeps_assert_transition [keeps]: "keeps_inv I (assert_transition q t)"
  by (simp add: assert_transition_def keeps_guard)

section \<open>Atomic claims\<close>

text \<open>
  The contract of a conditional status update: it succeeds exactly when the current status is
  one of the expected ones, and then the new status is in place.
\<close>

locale claim_store =
  fixes status_of :: "'s \<Rightarrow> 'k \<Rightarrow> 'q option"
    and claim :: "'k \<Rightarrow> 'q list \<Rightarrow> 'q \<Rightarrow> ('s, 'r) prog"
  assumes claim_ok: "status_of s i = Some q \<Longrightarrow> q \<in> set froms \<Longrightarrow>
      \<exists>r t. claim i froms target s = (Inr r, t) \<and> status_of t i = Some target"
    and claim_fail: "status_of s i = Some q \<Longrightarrow> q \<notin> set froms \<Longrightarrow>
      \<exists>e. claim i froms target s = (Inl e, s)"
begin

lemma claim_Inr: "status_of s i = Some q \<Longrightarrow> claim i froms target s = (Inr r, t) \<Longrightarrow> q \<in> set froms"
  using claim_fail by (metis Inl_Inr_False prod.inject)

text \<open>Two racing callers with the same expectation: the second one loses.\<close>

lemma second_claim_fails:
  assumes "status_of s i = Some q" and "claim i froms target s = (Inr r, t)"
    and "target \<notin> set froms"
  shows "\<exists>e. claim i froms target t = (Inl e, t)"
proof -
  have "q \<in> set froms" using assms(1,2) by (rule claim_Inr)
  from claim_ok [OF assms(1) this, of target] assms(2) have "status_of t i = Some target" by simp
  from claim_fail [OF this assms(3)] show ?thesis .
qed

text \<open>
  Any number of racing callers, in any order, whose targets none of them starts from: at most
  one succeeds.
\<close>

fun wins :: "'k \<Rightarrow> ('q list \<times> 'q) list \<Rightarrow> 's \<Rightarrow> nat" where
  "wins i [] s = 0"
| "wins i ((froms, target) # cs) s =
     (case claim i froms target s of (Inl e, t) \<Rightarrow> wins i cs t | (Inr r, t) \<Rightarrow> Suc (wins i cs t))"

lemma no_win_after:
  "status_of s i = Some q \<Longrightarrow> (\<And>froms t. (froms, t) \<in> set cs \<Longrightarrow> q \<notin> set froms) \<Longrightarrow> wins i cs s = 0"
proof (induction cs arbitrary: s)
  case Nil
  then show ?case by simp
next
  case (Cons c cs)
  obtain froms t where c: "c = (froms, t)" by (cases c)
  with Cons.prems(2) have "q \<notin> set froms" by auto
  then obtain e where e: "claim i froms t s = (Inl e, s)" using claim_fail [OF Cons.prems(1)] by blast
  have "wins i cs s = 0" by (rule Cons.IH [OF Cons.prems(1)]) (use Cons.prems(2) in auto)
  with c e show ?case by simp
qed

lemma at_most_one_win:
  assumes "status_of s i = Some q"
    and "\<And>froms t froms' t'. (froms, t) \<in> set cs \<Longrightarrow> (froms', t') \<in> set cs \<Longrightarrow> t \<notin> set froms'"
  shows "wins i cs s \<le> 1"
  using assms
proof (induction cs arbitrary: s)
  case Nil
  then show ?case by simp
next
  case (Cons c cs)
  obtain froms t where c: "c = (froms, t)" by (cases c)
  show ?case
  proof (cases "q \<in> set froms")
    case True
    from claim_ok [OF Cons.prems(1) this, of t] obtain r u
      where u: "claim i froms t s = (Inr r, u)" "status_of u i = Some t" by blast
    have "wins i cs u = 0"
    proof (rule no_win_after [OF u(2)])
      fix froms' t' assume "(froms', t') \<in> set cs"
      then show "t \<notin> set froms'" using Cons.prems(2) [of froms t froms' t'] c by simp
    qed
    with c u show ?thesis by simp
  next
    case False
    from claim_fail [OF Cons.prems(1) this] obtain e where e: "claim i froms t s = (Inl e, s)"
      by blast
    have "wins i cs s \<le> 1"
    proof (rule Cons.IH [OF Cons.prems(1)])
      fix f1 t1 f2 t2 assume "(f1, t1) \<in> set cs" "(f2, t2) \<in> set cs"
      then show "t1 \<notin> set f2" using Cons.prems(2) [of f1 t1 f2 t2] by simp
    qed
    with c e show ?thesis by simp
  qed
qed

end

definition is_reservation :: "ident \<Rightarrow> ident \<Rightarrow> reservation \<Rightarrow> bool" where
  "is_reservation rid pid r \<longleftrightarrow> r_id r = rid \<and> r_property r = pid"

text \<open>\<open>findByIdRaw\<close>.\<close>

definition find_by_id_raw :: "ident \<Rightarrow> ident \<Rightarrow> reservation op" where
  "find_by_id_raw rid pid =
     find_row reservations (is_reservation rid pid) (NotFound ''Reservation not found'')"

text \<open>\<open>claimTransition\<close>: a conditional update, and the reason of a failed claim.\<close>

definition claim_transition ::
  "ident \<Rightarrow> ident \<Rightarrow> reservation_status list \<Rightarrow> (reservation \<Rightarrow> reservation) \<Rightarrow> reservation op" where
  "claim_transition rid pid allowed_from update_data =
     bnd (update_where reservations reservations_update
            (\<lambda>r. is_reservation rid pid r \<and> r_status r \<in> set allowed_from) update_data) (\<lambda>claimed.
     case first_row claimed of
       Some r \<Rightarrow> ret r
     | None \<Rightarrow>
         bnd (find_row reservations (is_reservation rid pid) (NotFound ''Reservation not found''))
           (\<lambda>current. throw (Conflict ''Cannot transition reservation'')))"

definition reservation_of :: "hotel \<Rightarrow> ident \<Rightarrow> ident \<Rightarrow> reservation option" where
  "reservation_of s rid pid = first_row (sel (is_reservation rid pid) (reservations s))"

definition status_in :: "hotel \<Rightarrow> ident \<times> ident \<Rightarrow> reservation_status option" where
  "status_in s k = map_option r_status (reservation_of s (fst k) (snd k))"

lemma find_by_id_raw_apply [simp]:
  "find_by_id_raw rid pid s = (case reservation_of s rid pid of
     None \<Rightarrow> (Inl (NotFound ''Reservation not found''), s) | Some r \<Rightarrow> (Inr r, s))"
  by (simp add: find_by_id_raw_def reservation_of_def)

lemma bnd_find_by_id_raw [simp]:
  "bnd (find_by_id_raw rid pid) k s = (case reservation_of s rid pid of
     None \<Rightarrow> (Inl (NotFound ''Reservation not found''), s) | Some r \<Rightarrow> k r s)"
  by (simp add: find_by_id_raw_def reservation_of_def)

lemma keeps_find_by_id_raw [keeps]: "keeps_inv I (find_by_id_raw rid pid)"
  by (simp add: find_by_id_raw_def keeps_find_row)

lemma reservation_of_SomeD:
  "reservation_of s rid pid = Some r \<Longrightarrow> r \<in> set (reservations s) \<and> r_id r = rid \<and> r_property r = pid"
  unfolding reservation_of_def by (drule first_sel_SomeD) (simp add: is_reservation_def)

text \<open>
  The effect of a claim: when keys are distinct it changes exactly one row, and fails without
  effect when the row is missing or its status is not an expected one.
\<close>

definition claim_hit :: "ident \<Rightarrow> ident \<Rightarrow> reservation_status list \<Rightarrow> reservation \<Rightarrow> bool" where
  "claim_hit rid pid froms r \<longleftrightarrow> is_reservation rid pid r \<and> r_status r \<in> set froms"

lemma unique_reservation:
  "wf_hotel s \<Longrightarrow> reservation_of s rid pid = Some r \<Longrightarrow> q \<in> set (reservations s) \<Longrightarrow>
   is_reservation rid pid q \<Longrightarrow> q = r"
  using distinct_key_unique [of r_id "reservations s" q r] reservation_of_SomeD [of s rid pid r]
  by (simp add: wf_hotel_def keys_ok_def is_reservation_def)

lemma claim_transition_cases:
  assumes wf: "wf_hotel s"
  shows "claim_transition rid pid froms f s =
    (case reservation_of s rid pid of
       None \<Rightarrow> (Inl (NotFound ''Reservation not found''), s)
     | Some r \<Rightarrow> if r_status r \<in> set froms
         then (Inr (f r), reservations_update (upd (claim_hit rid pid froms) f) s)
         else (Inl (Conflict ''Cannot transition reservation''), s))"
proof -
  let ?c = "\<lambda>r. is_reservation rid pid r \<and> r_status r \<in> set froms"
  have miss: "upd ?c f (reservations s) = reservations s" if "\<forall>r \<in> set (reservations s). \<not> ?c r"
    by (rule upd_none) (use that in blast)
  show ?thesis
  proof (cases "reservation_of s rid pid")
    case None
    then have no: "\<forall>r \<in> set (reservations s). \<not> is_reservation rid pid r"
      by (simp only: reservation_of_def first_sel_None_iff)
    then have "first_row (sel ?c (reservations s)) = None" by (simp only: first_sel_None_iff) blast
    with no miss None show ?thesis
      by (simp add: claim_transition_def reservation_of_def)
  next
    case (Some r)
    have r: "r \<in> set (reservations s)" "is_reservation rid pid r"
      using reservation_of_SomeD [OF Some] by (simp_all add: is_reservation_def)
    show ?thesis
    proof (cases "r_status r \<in> set froms")
      case True
      have "first_row (sel ?c (reservations s)) = Some r"
        using wf r True
        by (intro first_sel_key [where k = r_id]) (auto simp: wf_hotel_def keys_ok_def is_reservation_def)
      with Some True show ?thesis
        by (simp add: claim_transition_def claim_hit_def [abs_def])
    next
      case False
      then have no: "\<forall>q \<in> set (reservations s). \<not> ?c q"
        using unique_reservation [OF wf Some] by blast
      then have "first_row (sel ?c (reservations s)) = None" by (simp only: first_sel_None_iff)
      with no miss False Some show ?thesis
        by (simp add: claim_transition_def reservation_of_def)
    qed
  qed
qed

lemma keeps_claim_transition:
  assumes "\<And>s. I s \<Longrightarrow> I (reservations_update (upd (claim_hit rid pid froms) f) s)"
  shows "keeps_inv I (claim_transition rid pid froms f)"
  unfolding claim_transition_def
  by (intro keeps keeps_update_where) (use assms in \<open>simp add: claim_hit_def [abs_def]\<close>)

lemma reservation_of_upd:
  "(\<And>q. is_reservation rid pid (f q) = is_reservation rid pid q) \<Longrightarrow>
   reservation_of (reservations_update (upd c f) s) rid pid =
     map_option (\<lambda>r. if c r then f r else r) (reservation_of s rid pid)"
  by (simp add: reservation_of_def first_sel_upd)

definition set_status :: "reservation_status \<Rightarrow> reservation \<Rightarrow> reservation" where
  "set_status q r = r\<lparr>r_status := q\<rparr>"

text \<open>The conditional status update of a well-formed state, as a store in which claims are made.\<close>

typedef good_hotel = "{s. wf_hotel s}"
  morphisms the_hotel Good
  using wf_empty_hotel by blast

definition good_status :: "good_hotel \<Rightarrow> ident \<times> ident \<Rightarrow> reservation_status option" where
  "good_status g k = status_in (the_hotel g) k"

definition good_claim ::
  "ident \<times> ident \<Rightarrow> reservation_status list \<Rightarrow> reservation_status \<Rightarrow> (good_hotel, reservation) prog" where
  "good_claim k froms target =
     (\<lambda>g. case claim_transition (fst k) (snd k) froms (set_status target) (the_hotel g) of
        (res, t) \<Rightarrow> (res, Good t))"

interpretation reservation_claims: claim_store good_status good_claim
proof
  fix g k q froms and target :: reservation_status
  assume q: "good_status g k = Some q"
  let ?s = "the_hotel g"
  let ?t = "reservations_update (upd (claim_hit (fst k) (snd k) froms) (set_status target)) ?s"
  have wf: "wf_hotel ?s" using the_hotel [of g] by simp
  obtain r where r: "reservation_of ?s (fst k) (snd k) = Some r" "r_status r = q"
    using q by (auto simp: good_status_def status_in_def)
  have wft: "wf_hotel ?t"
    using wf_update_reservations [OF wf, of "set_status target"] by (simp add: set_status_def)
  show "\<exists>r t. good_claim k froms target g = (Inr r, t) \<and> good_status t k = Some target"
    if "q \<in> set froms"
  proof -
    have "reservation_of ?t (fst k) (snd k) = map_option (\<lambda>r. if claim_hit (fst k) (snd k) froms r
        then set_status target r else r) (reservation_of ?s (fst k) (snd k))"
      using reservation_of_upd [of "fst k" "snd k" "set_status target"]
      by (simp add: set_status_def is_reservation_def)
    moreover have "claim_hit (fst k) (snd k) froms r"
      using r that reservation_of_SomeD [OF r(1)] by (simp add: claim_hit_def is_reservation_def)
    ultimately show ?thesis
      using that r wft by (simp add: good_claim_def claim_transition_cases [OF wf] good_status_def
          status_in_def Good_inverse set_status_def)
  qed
  show "\<exists>e. good_claim k froms target g = (Inl e, g)" if "q \<notin> set froms"
    using that r by (simp add: good_claim_def claim_transition_cases [OF wf] the_hotel_inverse)
qed

section \<open>Rooms\<close>

fun room_transitions :: "room_status \<Rightarrow> room_status list" where
  "room_transitions VacantClean = [Occupied, VacantDirty, OutOfOrder, OutOfService]"
| "room_transitions VacantDirty = [Clean, OutOfOrder]"
| "room_transitions Clean = [Inspected, VacantClean, VacantDirty, OutOfOrder]"
| "room_transitions Inspected = [GuestReady, VacantDirty, OutOfOrder]"
| "room_transitions GuestReady = [Occupied, VacantDirty, OutOfOrder]"
| "room_transitions Occupied = [VacantDirty]"
| "room_transitions OutOfOrder = [VacantDirty]"
| "room_transitions OutOfService = [VacantDirty]"

definition is_room :: "ident \<Rightarrow> ident \<Rightarrow> room \<Rightarrow> bool" where
  "is_room mid pid m \<longleftrightarrow> m_id m = mid \<and> m_property m = pid"

definition find_room :: "ident \<Rightarrow> ident \<Rightarrow> room op" where
  "find_room mid pid = find_row rooms (is_room mid pid) (NotFound ''Room not found'')"

text \<open>\<open>transitionStatus\<close>; the note is written only when one is given.\<close>

definition transition_status ::
  "timestamp \<Rightarrow> ident \<Rightarrow> ident \<Rightarrow> room_status \<Rightarrow> string option \<Rightarrow> room op" where
  "transition_status now mid pid new_status note =
     bnd (find_room mid pid) (\<lambda>room.
     bnd (guard (new_status \<in> set (room_transitions (m_status room)))
            (BadRequest ''Cannot transition room'')) (\<lambda>_.
     bnd (update_one rooms rooms_update (is_room mid pid)
            (\<lambda>m. case note of
               None \<Rightarrow> m\<lparr>m_status := new_status, m_updated := now\<rparr>
             | Some n \<Rightarrow> m\<lparr>m_status := new_status, m_updated := now, m_notes := Some n\<rparr>)) (\<lambda>updated.
     bnd (emit ''room.status_changed'' ''room'' (m_id updated) pid) (\<lambda>_.
     ret updated))))"

definition mark_occupied :: "timestamp \<Rightarrow> ident \<Rightarrow> ident \<Rightarrow> room op" where
  "mark_occupied now mid pid = transition_status now mid pid Occupied None"

definition mark_vacant_dirty :: "timestamp \<Rightarrow> ident \<Rightarrow> ident \<Rightarrow> room op" where
  "mark_vacant_dirty now mid pid = transition_status now mid pid VacantDirty None"

definition mark_out_of_order :: "timestamp \<Rightarrow> ident \<Rightarrow> ident \<Rightarrow> string \<Rightarrow> room op" where
  "mark_out_of_order now mid pid notes = transition_status now mid pid OutOfOrder (Some notes)"

definition mark_back_in_service :: "timestamp \<Rightarrow> ident \<Rightarrow> ident \<Rightarrow> room op" where
  "mark_back_in_service now mid pid =
     bnd (find_room mid pid) (\<lambda>room.
     bnd (guard (m_status room = OutOfOrder \<or> m_status room = OutOfService)
            (BadRequest ''Room is not out of order or out of service'')) (\<lambda>_.
     transition_status now mid pid VacantDirty None))"

definition get_rooms_by_status :: "ident \<Rightarrow> room_status \<Rightarrow> room list op" where
  "get_rooms_by_status pid q =
     ask (\<lambda>s. sel (\<lambda>m. m_property m = pid \<and> m_status m = q \<and> m_is_active m) (rooms s))"

text \<open>\<open>count(*) \<dots> group by status\<close>; the groups come in the order of their first row.\<close>

definition get_property_room_summary :: "ident \<Rightarrow> (room_status \<times> nat) list op" where
  "get_property_room_summary pid =
     ask (\<lambda>s. let active = sel (\<lambda>m. m_property m = pid \<and> m_is_active m) (rooms s)
        in map (\<lambda>q. (q, count_rows (\<lambda>m. m_status m = q) active)) (remdups (map m_status active)))"

definition room_of :: "hotel \<Rightarrow> ident \<Rightarrow> ident \<Rightarrow> room option" where
  "room_of s mid pid = first_row (sel (is_room mid pid) (rooms s))"

lemma bnd_find_room [simp]:
  "bnd (find_room mid pid) k s = (case room_of s mid pid of
     None \<Rightarrow> (Inl (NotFound ''Room not found''), s) | Some m \<Rightarrow> k m s)"
  by (simp add: find_room_def room_of_def)

lemma room_of_SomeD:
  "room_of s mid pid = Some m \<Longrightarrow> m \<in> set (rooms s) \<and> m_id m = mid \<and> m_property m = pid"
  unfolding room_of_def by (drule first_sel_SomeD) (simp add: is_room_def)

definition stamp_room :: "timestamp \<Rightarrow> room_status \<Rightarrow> string option \<Rightarrow> room \<Rightarrow> room" where
  "stamp_room now q note m = (case note of
     None \<Rightarrow> m\<lparr>m_status := q, m_updated := now\<rparr>
   | Some n \<Rightarrow> m\<lparr>m_status := q, m_updated := now, m_notes := Some n\<rparr>)"

lemma stamp_room_simps [simp]:
  "m_status (stamp_room now q note m) = q" "m_id (stamp_room now q note m) = m_id m"
  "m_property (stamp_room now q note m) = m_property m" "m_type (stamp_room now q note m) = m_type m"
  "m_is_active (stamp_room now q note m) = m_is_active m"
  "is_room a b (stamp_room now q note m) = is_room a b m"
  by (simp_all add: stamp_room_def is_room_def split: option.split)

text \<open>The complete behaviour of a room transition.\<close>

lemma transition_status_apply:
  "transition_status now mid pid q note s =
    (case room_of s mid pid of
       None \<Rightarrow> (Inl (NotFound ''Room not found''), s)
     | Some m \<Rightarrow> if q \<in> set (room_transitions (m_status m))
         then (Inr (stamp_room now q note m),
               (rooms_update (upd (is_room mid pid) (stamp_room now q note)) s)
                 \<lparr>events := events s @ [\<lparr>e_name = ''room.status_changed'', e_entity = ''room'',
                                         e_id = mid, e_property = pid\<rparr>]\<rparr>)
         else (Inl (BadRequest ''Cannot transition room''), s))"
proof (cases "room_of s mid pid")
  case None
  then show ?thesis by (simp add: transition_status_def)
next
  case (Some m)
  have fun_eq: "(\<lambda>m. case note of None \<Rightarrow> m\<lparr>m_status := q, m_updated := now\<rparr>
      | Some n \<Rightarrow> m\<lparr>m_status := q, m_updated := now, m_notes := Some n\<rparr>) = stamp_room now q note"
    by (rule ext) (simp add: stamp_room_def)
  from Some have "first_row (sel (is_room mid pid) (rooms s)) = Some m" by (simp add: room_of_def)
  with Some room_of_SomeD [OF Some] show ?thesis
    by (simp add: transition_status_def fun_eq)
qed

lemma keeps_transition_status:
  assumes "\<And>s. I s \<Longrightarrow> I (rooms_update (upd (is_room mid pid) (stamp_room now q note)) s)"
    and "\<And>s es. I s \<Longrightarrow> I (s\<lparr>events := es\<rparr>)"
  shows "keeps_inv I (transition_status now mid pid q note)"
  unfolding transition_status_def find_room_def
  by (intro keeps keeps_update_one assms) (use assms in \<open>simp add: stamp_room_def [abs_def]\<close>)

lemma wf_transition_status [keeps]: "keeps_inv wf_hotel (transition_status now mid pid q note)"
  by (rule keeps_transition_status) (simp_all add: wf_update_rooms)

lemma room_of_upd:
  "(\<And>m. is_room mid pid (f m) = is_room mid pid m) \<Longrightarrow>
   room_of (rooms_update (upd c f) s) mid pid = map_option (\<lambda>m. if c m then f m else m) (room_of s mid pid)"
  by (simp add: room_of_def first_sel_upd)

lemma room_of_events [simp]: "room_of (s\<lparr>events := es\<rparr>) mid pid = room_of s mid pid"
  by (simp add: room_of_def)

inductive room_step :: "room_status \<Rightarrow> room_status \<Rightarrow> bool" where
  move: "t \<in> set (room_transitions q) \<Longrightarrow> room_step q t"

inductive_simps room_step_iff: "room_step q t"

lemma to_dirty: "room_step\<^sup>*\<^sup>* q VacantDirty"
  by (cases q) (auto simp: room_step_iff intro!: r_into_rtranclp)

lemma dirty_to_clean: "room_step\<^sup>*\<^sup>* VacantDirty Clean"
  by (rule r_into_rtranclp) (simp add: room_step_iff)

lemma clean_to: "room_step\<^sup>*\<^sup>* Clean Inspected" "room_step\<^sup>*\<^sup>* Clean VacantClean"
  by (rule r_into_rtranclp, simp add: room_step_iff)+

lemma from_dirty: "room_step\<^sup>*\<^sup>* VacantDirty q"
proof -
  have vc: "room_step\<^sup>*\<^sup>* VacantDirty VacantClean" and i: "room_step\<^sup>*\<^sup>* VacantDirty Inspected"
    using dirty_to_clean clean_to by (auto elim: rtranclp_trans)
  have "room_step Inspected GuestReady" "room_step VacantClean Occupied"
    "room_step VacantClean OutOfOrder" "room_step VacantClean OutOfService"
    by (simp_all add: room_step_iff)
  with vc i dirty_to_clean show ?thesis
    by (cases q) (blast intro: rtranclp.rtrancl_into_rtrancl)+
qed

lemma stay_path_iff: "reservation_machine.path q ts \<longleftrightarrow> successively validate_transition (q # ts)"
  by (induction ts arbitrary: q) (simp_all add: validate_transition_def)

end
