(* ===== verification/Calendar.thy ===== *)
theory Calendar
  imports Prelude
begin

text \<open>
  Calendar dates as the services exchange them: ISO strings \<open>YYYY-MM-DD\<close>, parsed by the
  language's \<open>Date\<close> and printed by \<open>toISOString().slice(0, 10)\<close>
  (\<open>packages/shared/src/canonical-calendar-date.validator.ts\<close> and
  \<open>packages/shared/src/stay-dates.ts\<close>). A \<open>Date\<close> at midnight UTC is its civil triple. The
  lemmas relate strings, triples and day numbers: printing and parsing are inverse, string
  order is day order, and the stay loop yields exactly the day numbers of the half-open range,
  so the other theories may hold a date column as a day number.
\<close>

section \<open>Civil dates\<close>

type_synonym civil = "nat \<times> nat \<times> nat"

definition leap :: "nat \<Rightarrow> bool" where
  "leap y \<longleftrightarrow> y mod 4 = 0 \<and> (y mod 100 \<noteq> 0 \<or> y mod 400 = 0)"

definition days_in_month :: "nat \<Rightarrow> nat \<Rightarrow> nat" where
  "days_in_month y m =
     (if m = 2 then (if leap y then 29 else 28)
      else if m = 4 \<or> m = 6 \<or> m = 9 \<or> m = 11 then 30 else 31)"

fun valid_civil :: "civil \<Rightarrow> bool" where
  "valid_civil (y, m, d) \<longleftrightarrow>
     y \<le> 9999 \<and> 1 \<le> m \<and> m \<le> 12 \<and> 1 \<le> d \<and> d \<le> days_in_month y m"

fun before :: "civil \<Rightarrow> civil \<Rightarrow> bool" where
  "before (y, m, d) (y', m', d') \<longleftrightarrow> y < y' \<or> y = y' \<and> (m < m' \<or> m = m' \<and> d < d')"

text \<open>\<open>date.setUTCDate(date.getUTCDate() + 1)\<close>.\<close>

fun next_day :: "civil \<Rightarrow> civil" where
  "next_day (y, m, d) =
     (if d < days_in_month y m then (y, m, d + 1)
      else if m < 12 then (y, m + 1, 1) else (y + 1, 1, 1))"

section \<open>Strings\<close>

definition dig :: "nat \<Rightarrow> char" where
  "dig n = char_of (48 + n)"

definition code :: "char \<Rightarrow> nat" where
  "code c = of_char c"

definition is_digit :: "char \<Rightarrow> bool" where
  "is_digit c \<longleftrightarrow> 48 \<le> code c \<and> code c \<le> 57"

definition number_of :: "string \<Rightarrow> nat" where
  "number_of cs = fold (\<lambda>c n. 10 * n + (code c - 48)) cs 0"

definition print2 :: "nat \<Rightarrow> string" where
  "print2 n = [dig (n div 10 mod 10), dig (n mod 10)]"

definition print4 :: "nat \<Rightarrow> string" where
  "print4 n = print2 (n div 100) @ print2 (n mod 100)"

text \<open>\<open>toISOString().slice(0, 10)\<close>.\<close>

fun iso :: "civil \<Rightarrow> string" where
  "iso (y, m, d) = print4 y @ ''-'' @ print2 m @ ''-'' @ print2 d"

text \<open>The pattern \<open>/^\d{4}-\d{2}-\d{2}$/\<close> and its three fields.\<close>

fun iso_fields :: "string \<Rightarrow> (nat \<times> nat \<times> nat) option" where
  "iso_fields [a, b, c, e, h1, f, g, h2, i, j] =
     (if list_all is_digit [a, b, c, e, f, g, i, j] \<and> h1 = CHR ''-'' \<and> h2 = CHR ''-''
      then Some (number_of [a, b, c, e], number_of [f, g], number_of [i, j])
      else None)"
| "iso_fields s = None"

text \<open>
  \<open>new Date(`${value}T00:00:00.000Z`)\<close>: months 1 to 12 and days 1 to 31 are accepted, a day
  beyond the end of its month moves into the next one, anything else is an invalid date.
\<close>

fun js_date :: "nat \<times> nat \<times> nat \<Rightarrow> civil option" where
  "js_date (y, m, d) =
     (if 1 \<le> m \<and> m \<le> 12 \<and> 1 \<le> d \<and> d \<le> 31
      then Some (if d \<le> days_in_month y m then (y, m, d) else (y, m + 1, d - days_in_month y m))
      else None)"

definition is_canonical_calendar_date :: "string \<Rightarrow> bool" where
  "is_canonical_calendar_date value =
     (case iso_fields value of None \<Rightarrow> False
      | Some f \<Rightarrow> (case js_date f of None \<Rightarrow> False | Some c \<Rightarrow> iso c = value))"

text \<open>The language's order on strings: by code units, a proper prefix first.\<close>

fun str_less :: "string \<Rightarrow> string \<Rightarrow> bool" where
  "str_less [] ys = (ys \<noteq> [])"
| "str_less (x # xs) [] = False"
| "str_less (x # xs) (y # ys) = (code x < code y \<or> x = y \<and> str_less xs ys)"

definition assert_canonical_stay_dates :: "string \<Rightarrow> string \<Rightarrow> error + unit" where
  "assert_canonical_stay_dates check_in check_out =
     (if \<not> is_canonical_calendar_date check_in \<or> \<not> is_canonical_calendar_date check_out
      then Inl (BadRequest ''Check-in and check-out must be valid YYYY-MM-DD dates'')
      else if str_less check_out check_in \<or> check_out = check_in
      then Inl (BadRequest ''Check-out must be after check-in'')
      else Inr ())"

lemma days_in_month_le: "days_in_month y m \<le> 31"
  by (simp add: days_in_month_def)

text \<open>The enumeration loop of \<open>stayDates\<close>.\<close>

function civil_range :: "civil \<Rightarrow> civil \<Rightarrow> civil list" where
  "civil_range date fin = (if before date fin then date # civil_range (next_day date) fin else [])"
  by pat_completeness auto

termination
proof (relation "measures [\<lambda>(a, b). fst b + 1 - fst a, \<lambda>(a, b). 13 - fst (snd a),
                           \<lambda>(a, b). 32 - snd (snd a)]")
  fix date fin :: civil
  assume "before date fin"
  moreover obtain y m d where "date = (y, m, d)" by (cases date)
  moreover obtain y' m' d' where "fin = (y', m', d')" by (cases fin)
  moreover have "days_in_month y m \<le> 31" by (rule days_in_month_le)
  ultimately show "((next_day date, fin), date, fin)
    \<in> measures [\<lambda>(a, b). fst b + 1 - fst a, \<lambda>(a, b). 13 - fst (snd a), \<lambda>(a, b). 32 - snd (snd a)]"
    by auto
qed simp

declare civil_range.simps [simp del]

definition stay_dates :: "string \<Rightarrow> string \<Rightarrow> error + string list" where
  "stay_dates check_in check_out =
     (case (iso_fields check_in, iso_fields check_out) of
        (Some f, Some g) \<Rightarrow>
          (case (js_date f, js_date g) of
             (Some start, Some fin) \<Rightarrow>
               (if iso start \<noteq> check_in \<or> iso fin \<noteq> check_out \<or> \<not> before start fin
                then Inl (BadRequest ''Check-out must be after check-in'')
                else Inr (map iso (civil_range start fin)))
           | _ \<Rightarrow> Inl (BadRequest ''Check-out must be after check-in''))
      | _ \<Rightarrow> Inl (BadRequest ''Stay dates must use YYYY-MM-DD''))"

section \<open>Printing and parsing\<close>

lemma code_dig [simp]: "n < 10 \<Longrightarrow> code (dig n) = 48 + n"
  by (simp add: code_def dig_def)

lemma is_digit_dig [simp]: "n < 10 \<Longrightarrow> is_digit (dig n)"
  by (simp add: is_digit_def)

lemma code_inject [simp]: "code c = code c' \<longleftrightarrow> c = c'"
  by (simp add: code_def)

lemma dig_code: "is_digit c \<Longrightarrow> dig (code c - 48) = c"
  by (auto simp: dig_def is_digit_def code_def)

lemma dig_inject: "a < 10 \<Longrightarrow> b < 10 \<Longrightarrow> dig a = dig b \<longleftrightarrow> a = b"
  by (metis code_dig add_left_cancel)

lemma two_digits: "(n :: nat) < 100 \<Longrightarrow> 10 * (n div 10 mod 10) + n mod 10 = n"
  by simp

lemma number_of_print2 [simp]: "n < 100 \<Longrightarrow> number_of (print2 n) = n"
  by (simp add: print2_def number_of_def)

lemma fold_number_append:
  "fold (\<lambda>c n. 10 * n + (code c - 48)) (print2 l) h = 100 * h + number_of (print2 l)"
  by (simp add: print2_def number_of_def)

lemma number_of_print4 [simp]: "n < 10000 \<Longrightarrow> number_of (print4 n) = n"
proof -
  assume "n < 10000"
  then have h: "number_of (print2 (n div 100)) = n div 100" by (intro number_of_print2) simp
  have l: "number_of (print2 (n mod 100)) = n mod 100" by (intro number_of_print2) simp
  have "number_of (print4 n) = 100 * number_of (print2 (n div 100)) + number_of (print2 (n mod 100))"
    unfolding print4_def number_of_def [of "print2 (n div 100) @ print2 (n mod 100)"]
      fold_append comp_apply fold_number_append by simp
  then show ?thesis unfolding h l by simp
qed

lemma valid_civil_bounds: "valid_civil (y, m, d) \<Longrightarrow> y < 10000 \<and> m < 100 \<and> d < 100"
  using days_in_month_le [of y m] by auto

lemma iso_fields_iso: "y < 10000 \<Longrightarrow> m < 100 \<Longrightarrow> d < 100 \<Longrightarrow> iso_fields (iso (y, m, d)) = Some (y, m, d)"
proof -
  assume b: "y < 10000" "m < 100" "d < 100"
  have "iso_fields (iso (y, m, d)) =
      Some (number_of (print4 y), number_of (print2 m), number_of (print2 d))"
    by (simp add: print4_def print2_def)
  with b show ?thesis by simp
qed

lemma js_date_valid: "valid_civil (y, m, d) \<Longrightarrow> js_date (y, m, d) = Some (y, m, d)"
  using days_in_month_le [of y m] by simp

lemma is_canonical_iso: "valid_civil c \<Longrightarrow> is_canonical_calendar_date (iso c)"
proof -
  assume v: "valid_civil c"
  obtain y m d where c: "c = (y, m, d)" by (cases c)
  from v valid_civil_bounds [of y m d] have "iso_fields (iso (y, m, d)) = Some (y, m, d)"
    by (simp add: c iso_fields_iso del: iso.simps)
  moreover from v have "js_date (y, m, d) = Some (y, m, d)" by (simp only: c js_date_valid)
  ultimately show ?thesis by (simp add: is_canonical_calendar_date_def c)
qed

lemma iso_inject: "valid_civil a \<Longrightarrow> valid_civil b \<Longrightarrow> iso a = iso b \<longleftrightarrow> a = b"
  using iso_fields_iso valid_civil_bounds by (metis option.inject prod_cases3)

lemma digit_value: "is_digit c \<Longrightarrow> code c - 48 \<le> 9"
  unfolding is_digit_def by linarith

lemma four_digit_bound:
  "p \<le> 9 \<Longrightarrow> q \<le> 9 \<Longrightarrow> r \<le> 9 \<Longrightarrow> s \<le> 9 \<Longrightarrow> 10 * (10 * (10 * p + q) + r) + s \<le> (9999 :: nat)"
  by (simp add: algebra_simps)

lemma number_of_four: "list_all is_digit [a, b, c, e] \<Longrightarrow> number_of [a, b, c, e] \<le> 9999"
proof -
  assume "list_all is_digit [a, b, c, e]"
  then have "code a - 48 \<le> 9" "code b - 48 \<le> 9" "code c - 48 \<le> 9" "code e - 48 \<le> 9"
    using digit_value by simp_all
  moreover have "number_of [a, b, c, e] =
    10 * (10 * (10 * (code a - 48) + (code b - 48)) + (code c - 48)) + (code e - 48)"
    by (simp add: number_of_def)
  ultimately show ?thesis using four_digit_bound by presburger
qed

lemma iso_fields_year: "iso_fields s = Some (y, m, d) \<Longrightarrow> y \<le> 9999"
proof (induction s rule: iso_fields.induct)
  case (1 a b c e h1 f g h2 i j)
  then have "y = number_of [a, b, c, e]" and "list_all is_digit [a, b, c, e]"
    by (simp_all split: if_splits)
  then show ?case using number_of_four by simp
qed simp_all

lemma js_date_valid_civil: "js_date (y, m, d) = Some c \<Longrightarrow> y \<le> 9999 \<Longrightarrow> valid_civil c"
  by (auto simp: days_in_month_def split: if_splits)

lemma canonicalE:
  assumes "is_canonical_calendar_date s"
  obtains c where "valid_civil c" and "s = iso c"
proof -
  from assms obtain f c where f: "iso_fields s = Some f" and c: "js_date f = Some c" "iso c = s"
    by (auto simp: is_canonical_calendar_date_def split: option.splits)
  obtain y m d where "f = (y, m, d)" by (cases f)
  with f c(1) have "valid_civil c" using iso_fields_year js_date_valid_civil by metis
  with c(2) show ?thesis using that by metis
qed

lemma canonical_iff: "is_canonical_calendar_date s \<longleftrightarrow> (\<exists>c. valid_civil c \<and> s = iso c)"
  by (metis canonicalE is_canonical_iso)

section \<open>String order is date order\<close>

lemma str_less_append:
  "length xs = length xs' \<Longrightarrow>
   str_less (xs @ ys) (xs' @ ys') \<longleftrightarrow> str_less xs xs' \<or> xs = xs' \<and> str_less ys ys'"
  by (induction xs xs' rule: list_induct2) auto

lemma str_less_irrefl [simp]: "\<not> str_less xs xs"
  by (induction xs) auto

lemma div_mod_less:
  assumes "0 < (k :: nat)"
  shows "a div k < b div k \<or> a div k = b div k \<and> a mod k < b mod k \<longleftrightarrow> a < b"
proof -
  consider "a div k < b div k" | "a div k = b div k" | "b div k < a div k" by linarith
  then show ?thesis
  proof cases
    case 1
    then have "a < b" using div_le_mono [of b a k] by linarith
    with 1 show ?thesis by simp
  next
    case 2
    define q where "q = k * (b div k)"
    have "a = q + a mod k" unfolding q_def 2 [symmetric] by simp
    moreover have "b = q + b mod k" unfolding q_def by simp
    ultimately have "a < b \<longleftrightarrow> a mod k < b mod k" by linarith
    with 2 show ?thesis by simp
  next
    case 3
    then have "\<not> a < b" using div_le_mono [of a b k] by linarith
    with 3 show ?thesis by simp
  qed
qed

lemma str_less_print2: "a < 100 \<Longrightarrow> b < 100 \<Longrightarrow> str_less (print2 a) (print2 b) \<longleftrightarrow> a < b"
proof -
  assume "a < 100" "b < 100"
  then have d: "a div 10 mod 10 = a div 10" "b div 10 mod 10 = b div 10" "a div 10 < 10" "b div 10 < 10"
    by simp_all
  then have "str_less (print2 a) (print2 b) \<longleftrightarrow>
     a div 10 < b div 10 \<or> a div 10 = b div 10 \<and> a mod 10 < b mod 10"
    by (simp add: print2_def dig_inject)
  also have "\<dots> \<longleftrightarrow> a < b" by (rule div_mod_less) simp
  finally show ?thesis .
qed

lemma print2_inject: "a < 100 \<Longrightarrow> b < 100 \<Longrightarrow> print2 a = print2 b \<longleftrightarrow> a = b"
  by (metis number_of_print2)

lemma length_print2 [simp]: "length (print2 n) = 2"
  by (simp add: print2_def)

lemma length_print4 [simp]: "length (print4 n) = 4"
  by (simp add: print4_def)

lemma print4_inject: "a < 10000 \<Longrightarrow> b < 10000 \<Longrightarrow> print4 a = print4 b \<longleftrightarrow> a = b"
  by (metis number_of_print4)

lemma str_less_print4: "a < 10000 \<Longrightarrow> b < 10000 \<Longrightarrow> str_less (print4 a) (print4 b) \<longleftrightarrow> a < b"
proof -
  assume "a < 10000" "b < 10000"
  then have "str_less (print4 a) (print4 b) \<longleftrightarrow>
     a div 100 < b div 100 \<or> a div 100 = b div 100 \<and> a mod 100 < b mod 100"
    by (simp add: print4_def str_less_append str_less_print2 print2_inject)
  also have "\<dots> \<longleftrightarrow> a < b" by (rule div_mod_less) simp
  finally show ?thesis .
qed

lemma str_less_iso:
  assumes "valid_civil a" and "valid_civil b"
  shows "str_less (iso a) (iso b) \<longleftrightarrow> before a b"
proof -
  obtain y m d y' m' d' where c: "a = (y, m, d)" "b = (y', m', d')" by (cases a, cases b)
  have "y < 10000 \<and> m < 100 \<and> d < 100" "y' < 10000 \<and> m' < 100 \<and> d' < 100"
    using assms valid_civil_bounds unfolding c by blast+
  then show ?thesis
    by (auto simp: c str_less_append str_less_print2 str_less_print4 print2_inject print4_inject)
qed

section \<open>Day numbers\<close>

definition year_start :: "nat \<Rightarrow> nat" where
  "year_start y = 365 * y + (y + 3) div 4 - (y + 99) div 100 + (y + 399) div 400"

fun month_start :: "nat \<Rightarrow> nat \<Rightarrow> nat" where
  "month_start y m = sum_list (map (days_in_month y) [1..<m])"

fun day_number :: "civil \<Rightarrow> nat" where
  "day_number (y, m, d) = year_start y + month_start y m + d"

lemma div_step: "(y + n) div n = (y + (n - 1)) div n + (if y mod n = 0 then 1 else 0)"
  if "0 < (n :: nat)"
proof -
  have "(y + n) div n = Suc (y + (n - 1)) div n" using that by simp
  moreover have "Suc (y + (n - 1)) mod n = y mod n" using that by simp
  ultimately show ?thesis by (simp add: div_Suc)
qed

lemma year_start_Suc: "year_start (y + 1) = year_start y + (if leap y then 366 else 365)"
proof -
  have d4: "(y + 1 + 3) div 4 = (y + 3) div 4 + (if y mod 4 = 0 then 1 else 0)"
    using div_step [of 4 y] by simp
  have d100: "(y + 1 + 99) div 100 = (y + 99) div 100 + (if y mod 100 = 0 then 1 else 0)"
    using div_step [of 100 y] by simp
  have d400: "(y + 1 + 399) div 400 = (y + 399) div 400 + (if y mod 400 = 0 then 1 else 0)"
    using div_step [of 400 y] by simp
  have le: "(y + 99) div 100 \<le> 365 * y + (y + 3) div 4" by linarith
  have m: "y mod 100 = 0 \<Longrightarrow> y mod 4 = 0" "y mod 400 = 0 \<Longrightarrow> y mod 100 = 0"
    using mod_mod_cancel [of 4 100 y] mod_mod_cancel [of 100 400 y] by simp_all
  show ?thesis
    unfolding year_start_def leap_def d4 d100 d400 using le m by (cases "y mod 4 = 0") (auto simp: algebra_simps)
qed

lemma month_start_Suc: "1 \<le> m \<Longrightarrow> month_start y (m + 1) = month_start y m + days_in_month y m"
  by simp

lemma month_start_13: "month_start y 13 = (if leap y then 366 else 365)"
  by (simp add: days_in_month_def upt_rec)

lemma month_start_mono: "m \<le> m' \<Longrightarrow> month_start y m \<le> month_start y m'"
proof (induction m' rule: dec_induct)
  case base
  show ?case by simp
next
  case (step n)
  have "month_start y n \<le> month_start y (Suc n)" by (cases "1 \<le> n") simp_all
  with step show ?case by simp
qed

lemma year_start_mono: "y \<le> y' \<Longrightarrow> year_start y \<le> year_start y'"
proof (induction y' rule: dec_induct)
  case base
  show ?case by simp
next
  case (step n)
  with year_start_Suc [of n] show ?case by simp
qed

lemma day_number_next: "valid_civil c \<Longrightarrow> day_number (next_day c) = day_number c + 1"
proof -
  assume v: "valid_civil c"
  obtain y m d where c: "c = (y, m, d)" by (cases c)
  consider "d < days_in_month y m" | "d = days_in_month y m" "m < 12" | "d = days_in_month y m" "m = 12"
    using v unfolding c by fastforce
  then show ?thesis
  proof cases
    case 1
    then show ?thesis by (simp add: c)
  next
    case 2
    then show ?thesis using v month_start_Suc [of m y] by (simp add: c del: month_start.simps)
  next
    case 3
    have "month_start y 13 = month_start y 12 + days_in_month y 12"
      using month_start_Suc [of 12 y] by simp
    with 3 year_start_Suc [of y] month_start_13 [of y] show ?thesis
      by (simp add: c del: month_start.simps) (simp add: month_start.simps)
  qed
qed

lemma day_number_in_year:
  "valid_civil (y, m, d) \<Longrightarrow>
   year_start y < day_number (y, m, d) \<and> day_number (y, m, d) \<le> year_start (y + 1)"
proof -
  assume v: "valid_civil (y, m, d)"
  then have "month_start y m + days_in_month y m = month_start y (m + 1)"
    using month_start_Suc [of m y] by simp
  also have "\<dots> \<le> month_start y 13" using v by (intro month_start_mono) simp
  finally have "month_start y m + d \<le> (if leap y then 366 else 365)"
    using v unfolding month_start_13 by simp
  with v year_start_Suc [of y] show ?thesis by (simp del: month_start.simps)
qed

lemma before_day_number: "valid_civil a \<Longrightarrow> valid_civil b \<Longrightarrow> before a b \<Longrightarrow> day_number a < day_number b"
proof -
  assume va: "valid_civil a" and vb: "valid_civil b" and lt: "before a b"
  obtain y m d y' m' d' where c: "a = (y, m, d)" "b = (y', m', d')" by (cases a, cases b)
  consider "y < y'" | "y = y'" "m < m'" | "y = y'" "m = m'" "d < d'" using lt unfolding c by auto
  then show ?thesis
  proof cases
    case 1
    then have "year_start (y + 1) \<le> year_start y'" by (intro year_start_mono) simp
    with va vb day_number_in_year show ?thesis unfolding c by (meson le_less_trans less_le_trans order.strict_trans2)
  next
    case 2
    have "month_start y (m + 1) \<le> month_start y m'" using 2 by (intro month_start_mono) simp
    moreover have "month_start y (m + 1) = month_start y m + days_in_month y m"
      using va unfolding c by (intro month_start_Suc) simp
    ultimately show ?thesis using va vb 2 unfolding c by (simp del: month_start.simps)
  next
    case 3
    then show ?thesis by (simp add: c)
  qed
qed

lemma before_total: "before a b \<or> a = b \<or> before b a"
  by (cases a, cases b) auto

lemma before_iff_day_number:
  "valid_civil a \<Longrightarrow> valid_civil b \<Longrightarrow> before a b \<longleftrightarrow> day_number a < day_number b"
  by (metis before_day_number before_total order.asym order.irrefl)

lemma day_number_inject:
  "valid_civil a \<Longrightarrow> valid_civil b \<Longrightarrow> day_number a = day_number b \<longleftrightarrow> a = b"
  by (metis before_day_number before_total order.irrefl)

section \<open>The stay loop\<close>

lemma next_day_valid: "valid_civil c \<Longrightarrow> valid_civil b \<Longrightarrow> before c b \<Longrightarrow> valid_civil (next_day c)"
  by (cases c, cases b) (auto simp: days_in_month_def split: if_splits)

lemma civil_range_days:
  "valid_civil a \<Longrightarrow> valid_civil b \<Longrightarrow>
   map day_number (civil_range a b) = [day_number a..<day_number b] \<and> list_all valid_civil (civil_range a b)"
proof (induction a b rule: civil_range.induct)
  case (1 date fin)
  show ?case
  proof (cases "before date fin")
    case True
    have v: "valid_civil (next_day date)" using 1 True by (blast intro: next_day_valid)
    have lt: "day_number date < day_number fin" using 1 True by (blast intro: before_day_number)
    have "map day_number (civil_range (next_day date) fin) = [day_number (next_day date)..<day_number fin]
      \<and> list_all valid_civil (civil_range (next_day date) fin)"
      using 1 True v by blast
    with 1(2) lt True show ?thesis
      by (simp add: civil_range.simps [of date fin] day_number_next upt_conv_Cons)
  next
    case False
    with 1(2,3) have "\<not> day_number date < day_number fin" by (simp add: before_iff_day_number)
    with False show ?thesis by (simp add: civil_range.simps [of date fin])
  qed
qed

lemma stay_dates_iso:
  assumes "valid_civil a" and "valid_civil b"
  shows "stay_dates (iso a) (iso b) =
    (if day_number a < day_number b then Inr (map iso (civil_range a b))
     else Inl (BadRequest ''Check-out must be after check-in''))"
proof -
  obtain y m d y' m' d' where c: "a = (y, m, d)" "b = (y', m', d')" by (cases a, cases b)
  have f: "iso_fields (iso a) = Some a" "iso_fields (iso b) = Some b"
    using assms valid_civil_bounds iso_fields_iso unfolding c by (metis, metis)
  moreover have "js_date a = Some a" "js_date b = Some b"
    using assms js_date_valid unfolding c by blast+
  ultimately show ?thesis
    using assms by (simp add: stay_dates_def before_iff_day_number)
qed

lemma stay_dates_InrE:
  assumes "stay_dates s t = Inr ds"
  obtains a b where "valid_civil a" "valid_civil b" "s = iso a" "t = iso b"
    "day_number a < day_number b" "ds = map iso (civil_range a b)"
proof -
  from assms obtain f g a b where fg: "iso_fields s = Some f" "iso_fields t = Some g"
      "js_date f = Some a" "js_date g = Some b" and e: "iso a = s" "iso b = t"
    by (auto simp: stay_dates_def split: option.splits if_splits)
  then have "is_canonical_calendar_date s" "is_canonical_calendar_date t"
    by (auto simp: is_canonical_calendar_date_def)
  then obtain a' b' where v: "valid_civil a'" "valid_civil b'" "s = iso a'" "t = iso b'"
    by (metis canonical_iff)
  with assms stay_dates_iso [of a' b'] show ?thesis
    by (intro that [of a' b']) (auto split: if_splits)
qed

lemma canonical_stay_iff:
  "assert_canonical_stay_dates s t = Inr () \<longleftrightarrow> (\<exists>ds. stay_dates s t = Inr ds)"
proof (cases "is_canonical_calendar_date s \<and> is_canonical_calendar_date t")
  case True
  then obtain a b where ab: "valid_civil a" "valid_civil b" "s = iso a" "t = iso b"
    by (auto simp: canonical_iff)
  have "str_less t s \<or> t = s \<longleftrightarrow> \<not> day_number a < day_number b"
    unfolding ab(3,4) str_less_iso [OF ab(2,1)] iso_inject [OF ab(2,1)]
    using before_iff_day_number [OF ab(2,1)] day_number_inject [OF ab(2,1)] by auto
  with True show ?thesis
    by (simp add: assert_canonical_stay_dates_def ab(3,4) stay_dates_iso [OF ab(1,2)])
next
  case False
  then have "assert_canonical_stay_dates s t \<noteq> Inr ()" by (auto simp: assert_canonical_stay_dates_def)
  moreover have "stay_dates s t \<noteq> Inr ds" for ds
    using False by (metis stay_dates_InrE canonical_iff)
  ultimately show ?thesis by blast
qed

end
