(* ===== verification/Js_Number.thy ===== *)
theory Js_Number
  imports Prelude
begin

text \<open>
  The language's number arithmetic where a service leaves the decimals: the rounding of a
  non-negative rational to an IEEE 754 double (53 significant bits, ties to even) and
  \<open>Math.floor\<close>. The values here (room counts, percentages) are far from the exponent limits,
  which are not modelled.
\<close>

fun bits :: "nat \<Rightarrow> nat" where
  "bits n = (if n = 0 then 0 else Suc (bits (n div 2)))"

declare bits.simps [simp del]

definition pow2 :: "int \<Rightarrow> rat" where
  "pow2 e = (if 0 \<le> e then 2 ^ nat e else 1 / 2 ^ nat (- e))"

text \<open>The exponent of the leading bit of a positive rational.\<close>

definition top_bit :: "rat \<Rightarrow> int" where
  "top_bit x = (case quotient_of x of (a, b) \<Rightarrow>
     let e = int (bits (nat a)) - int (bits (nat b)) in if pow2 e \<le> x then e else e - 1)"

definition half_even :: "rat \<Rightarrow> int" where
  "half_even y = (let n = \<lfloor>y\<rfloor>; d = y - of_int n in
     if d < 1 / 2 then n else if 1 / 2 < d then n + 1 else if even n then n else n + 1)"

definition double :: "rat \<Rightarrow> rat" where
  "double x = (if x = 0 then 0 else let u = pow2 (top_bit x - 52) in of_int (half_even (x / u)) * u)"

text \<open>With the sign.\<close>

definition js_num :: "rat \<Rightarrow> rat" where
  "js_num x = (if x < 0 then - double (- x) else double x)"

lemma pow2_pos [simp]: "0 < pow2 e"
  by (simp add: pow2_def)

lemma half_even_nonneg: "0 \<le> y \<Longrightarrow> 0 \<le> half_even y"
  by (auto simp: half_even_def Let_def)

lemma half_even_error: "\<bar>of_int (half_even y) - y\<bar> \<le> 1 / 2"
proof -
  have lo: "of_int \<lfloor>y\<rfloor> \<le> y" and hi: "y < of_int \<lfloor>y\<rfloor> + 1" by linarith+
  have up: "of_int (\<lfloor>y\<rfloor> + 1) = of_int \<lfloor>y\<rfloor> + (1 :: rat)" by simp
  consider "half_even y = \<lfloor>y\<rfloor>" "y - of_int \<lfloor>y\<rfloor> \<le> 1 / 2"
    | "half_even y = \<lfloor>y\<rfloor> + 1" "1 / 2 \<le> y - of_int \<lfloor>y\<rfloor>"
    unfolding half_even_def Let_def by (metis linorder_not_le order.strict_implies_order)
  then show ?thesis
  proof cases
    case 1
    then show ?thesis unfolding abs_le_iff 1(1) using lo by linarith
  next
    case 2
    then show ?thesis unfolding abs_le_iff 2(1) up using hi by linarith
  qed
qed

lemma half_even_of_int [simp]: "half_even (of_int k) = k"
  by (simp add: half_even_def)

lemma double_nonneg: "0 \<le> x \<Longrightarrow> 0 \<le> double x"
  using half_even_nonneg [of "x / pow2 (top_bit x - 52)"]
  by (simp add: double_def Let_def zero_le_mult_iff less_imp_le)

lemma double_error: "\<bar>double x - x\<bar> \<le> pow2 (top_bit x - 52) / 2"
proof (cases "x = 0")
  case True
  then show ?thesis by (simp add: double_def less_imp_le)
next
  case False
  define u where "u = pow2 (top_bit x - 52)"
  have u: "0 < u" by (simp add: u_def)
  have "double x - x = (of_int (half_even (x / u)) - x / u) * u"
    using False u by (simp add: double_def u_def [symmetric] Let_def left_diff_distrib)
  then have "\<bar>double x - x\<bar> = \<bar>of_int (half_even (x / u)) - x / u\<bar> * u"
    using u by (simp add: abs_mult)
  also have "\<dots> \<le> 1 / 2 * u"
    using half_even_error [of "x / u"] u by (intro mult_right_mono) simp_all
  finally show ?thesis by (simp add: u_def)
qed

text \<open>\<open>Math.floor(count * (percentage / 100))\<close> on integers.\<close>

definition floor_percent :: "nat \<Rightarrow> nat \<Rightarrow> nat" where
  "floor_percent n pct = nat \<lfloor>double (of_nat n * double (of_nat pct / 100))\<rfloor>"

lemma floor_percent_zero [simp]: "floor_percent n 0 = 0" "floor_percent 0 pct = 0"
  by (simp_all add: floor_percent_def double_def)

text \<open>Twenty-nine per cent of a hundred rooms are twenty-eight: the product is 28.999999999999996.\<close>

lemma floor_percent_29: "floor_percent 100 29 = 28"
proof -
  have "quotient_of (29 / 100) = (29, 100)" by code_simp
  then have top: "top_bit (29 / 100) = - 2"
    by (simp add: top_bit_def Let_def bits.simps pow2_def)
  have "\<lfloor>130604389193744384 / 25 :: rat\<rfloor> = 5224175567749775" by (simp add: floor_eq_iff)
  then have small: "double (29 / 100) = 5224175567749775 / 18014398509481984"
    unfolding double_def top by (simp add: Let_def pow2_def half_even_def)
  have "quotient_of (130604389193744375 / 4503599627370496) = (130604389193744375, 4503599627370496)" by code_simp
  then have top': "top_bit (130604389193744375 / 4503599627370496) = 4"
    by (simp add: top_bit_def Let_def bits.simps pow2_def)
  have "\<lfloor>130604389193744375 / 16 :: rat\<rfloor> = 8162774324609023" by (simp add: floor_eq_iff)
  then have big: "double (130604389193744375 / 4503599627370496) = 8162774324609023 / 281474976710656"
    unfolding double_def top' by (simp add: Let_def pow2_def half_even_def)
  have "\<lfloor>8162774324609023 / 281474976710656 :: rat\<rfloor> = 28" by (simp add: floor_eq_iff)
  then have "nat \<lfloor>double (130604389193744375 / 4503599627370496)\<rfloor> = 28" unfolding big by simp
  then show ?thesis by (simp add: floor_percent_def small)
qed

end
