(* ===== verification/Availability.thy ===== *)
theory Availability
  imports Lifecycle Calendar Js_Number
begin

text \<open>
  Date-level inventory (\<open>apps/api/src/modules/reservation/availability.service.ts\<close>): the
  availability search over reservations, rooms and imported calendar blocks, and the full-stay
  check every booking path runs on its result. The lemmas read one row of the search as
  \<open>capacity - (sold + imported)\<close> of that night.
\<close>

section \<open>The search\<close>

record availability_row =
  a_room_type :: ident
  a_name :: string
  a_date :: date
  a_total :: nat
  a_sold :: nat
  a_available :: nat
  a_buffer :: nat

text \<open>\<open>stayDates\<close> on day numbers; \<open>stay_nights_refines\<close> relates it to the string version.\<close>

definition stay_nights :: "date \<Rightarrow> date \<Rightarrow> error + date list" where
  "stay_nights check_in check_out =
     (if check_in < check_out then Inr [check_in..<check_out]
      else Inl (BadRequest ''Check-out must be after check-in''))"

definition row_for :: "availability_row list \<Rightarrow> ident \<Rightarrow> date \<Rightarrow> availability_row option" where
  "row_for rows rt d = first_row (sel (\<lambda>a. a_room_type a = rt \<and> a_date a = d) (rev rows))"

definition assert_full_stay_availability ::
  "availability_row list \<Rightarrow> ident \<Rightarrow> date \<Rightarrow> date \<Rightarrow> error + unit" where
  "assert_full_stay_availability rows rt check_in check_out =
     (case stay_nights check_in check_out of
        Inl e \<Rightarrow> Inl e
      | Inr ds \<Rightarrow>
          (case find (\<lambda>d. case row_for rows rt d of None \<Rightarrow> True | Some a \<Rightarrow> a_available a = 0) ds of
             None \<Rightarrow> Inr ()
           | Some d \<Rightarrow> Inl (BadRequest ''No availability for room type'')))"

definition occupies :: "ident \<Rightarrow> ident \<Rightarrow> date \<Rightarrow> reservation \<Rightarrow> bool" where
  "occupies pid rt d r \<longleftrightarrow> r_property r = pid \<and> r_status r \<notin> {Cancelled, NoShow, CheckedOut} \<and>
     r_room_type r = rt \<and> r_arrival r \<le> d \<and> d < r_departure r"

text \<open>
  The queries of \<open>searchAvailability\<close>: the reservations that overlap the stay and the busy
  blocks of active import feeds. \<open>by_type\<close> and \<open>not_excluded\<close> are the optional conditions.
\<close>

definition by_type :: "ident option \<Rightarrow> ident \<Rightarrow> bool" where
  "by_type room_type rt \<longleftrightarrow> (case room_type of None \<Rightarrow> True | Some x \<Rightarrow> rt = x)"

definition not_excluded :: "ident option \<Rightarrow> ident \<Rightarrow> bool" where
  "not_excluded exclude i \<longleftrightarrow> (case exclude of None \<Rightarrow> True | Some x \<Rightarrow> i \<noteq> x)"

definition overlapping_reservations ::
  "ident \<Rightarrow> date \<Rightarrow> date \<Rightarrow> ident option \<Rightarrow> ident option \<Rightarrow> hotel \<Rightarrow> reservation list" where
  "overlapping_reservations pid check_in check_out room_type exclude s =
     sel (\<lambda>r. r_property r = pid \<and> r_status r \<notin> {Cancelled, NoShow, CheckedOut} \<and>
            r_arrival r < check_out \<and> check_in < r_departure r \<and>
            by_type room_type (r_room_type r) \<and> not_excluded exclude (r_id r)) (reservations s)"

definition active_import :: "hotel \<Rightarrow> ident \<Rightarrow> ident \<Rightarrow> bool" where
  "active_import s pid feed \<longleftrightarrow>
     (\<exists>f \<in> set (ical_feeds s). d_id f = feed \<and> d_property f = pid \<and> d_is_active f \<and> d_is_import f)"

definition overlapping_blocks ::
  "ident \<Rightarrow> date \<Rightarrow> date \<Rightarrow> ident option \<Rightarrow> hotel \<Rightarrow> ical_block list" where
  "overlapping_blocks pid check_in check_out room_type s =
     sel (\<lambda>b. k_property b = pid \<and> active_import s pid (k_feed b) \<and>
            k_start b < check_out \<and> check_in < k_end b \<and> by_type room_type (k_room_type b))
       (ical_blocks s)"

text \<open>The body of the loop over room types and dates.\<close>

definition day_row ::
  "room_type \<Rightarrow> nat \<Rightarrow> nat \<Rightarrow> reservation list \<Rightarrow> ical_block list \<Rightarrow> date \<Rightarrow> availability_row" where
  "day_row t total_rooms overbooking scoped blocks d =
     (let sold = length (filter (\<lambda>r. r_room_type r = t_id t \<and> r_arrival r \<le> d \<and> d < r_departure r) scoped);
          imported_busy = length (remdups (map k_feed
            (filter (\<lambda>b. k_room_type b = t_id t \<and> k_start b \<le> d \<and> d < k_end b) blocks)));
          buffer = floor_percent total_rooms overbooking;
          available = int total_rooms + int buffer - int sold - int imported_busy
      in \<lparr>a_room_type = t_id t, a_name = t_name t, a_date = d, a_total = total_rooms,
          a_sold = sold + imported_busy, a_available = nat (max 0 available), a_buffer = buffer\<rparr>)"

text \<open>\<open>searchAvailability\<close>; the last argument is \<open>options.excludeReservationId\<close>.\<close>

definition search_availability ::
  "ident \<Rightarrow> date \<Rightarrow> date \<Rightarrow> ident option \<Rightarrow> ident option \<Rightarrow> availability_row list op" where
  "search_availability pid check_in check_out room_type exclude =
     bnd (lift_result (stay_nights check_in check_out)) (\<lambda>requested.
     bnd (ask (\<lambda>s. first_row (sel (\<lambda>h. h_id h = pid) (properties s)))) (\<lambda>property.
     let overbooking = (case property of None \<Rightarrow> 0 | Some h \<Rightarrow> h_overbooking_percentage h) in
     bnd (ask (\<lambda>s. sel (\<lambda>t. t_property t = pid \<and> t_is_active t \<and> by_type room_type (t_id t))
            (room_types s))) (\<lambda>types.
     bnd (ask (overlapping_reservations pid check_in check_out room_type exclude)) (\<lambda>overlapping.
     let scoped = sel (\<lambda>r. r_property r = pid \<and> not_excluded exclude (r_id r)) overlapping in
     bnd (ask (\<lambda>s rt. count_rows (\<lambda>m. m_property m = pid \<and> m_is_active m \<and> m_type m = rt) (rooms s)))
       (\<lambda>room_count.
     bnd (ask (overlapping_blocks pid check_in check_out room_type)) (\<lambda>blocks.
     ret (concat (map (\<lambda>t.
       let total_rooms = (if t_max_occupancy t \<noteq> 0 then room_count (t_id t) else 0)
       in map (day_row t total_rooms overbooking scoped blocks) requested) types))))))))"

section \<open>What a row says\<close>

definition sold_on :: "hotel \<Rightarrow> ident \<Rightarrow> ident \<Rightarrow> date \<Rightarrow> nat" where
  "sold_on s pid rt d = count_rows (occupies pid rt d) (reservations s)"

definition imported_on :: "hotel \<Rightarrow> ident \<Rightarrow> ident \<Rightarrow> date \<Rightarrow> nat" where
  "imported_on s pid rt d = length (remdups (map k_feed
     (sel (\<lambda>b. k_property b = pid \<and> active_import s pid (k_feed b) \<and>
        k_room_type b = rt \<and> k_start b \<le> d \<and> d < k_end b) (ical_blocks s))))"

definition total_rooms_of :: "hotel \<Rightarrow> ident \<Rightarrow> room_type \<Rightarrow> nat" where
  "total_rooms_of s pid t = (if t_max_occupancy t \<noteq> 0
     then count_rows (\<lambda>m. m_property m = pid \<and> m_is_active m \<and> m_type m = t_id t) (rooms s) else 0)"

definition overbooking_of :: "hotel \<Rightarrow> ident \<Rightarrow> nat" where
  "overbooking_of s pid = (case first_row (sel (\<lambda>h. h_id h = pid) (properties s)) of
     None \<Rightarrow> 0 | Some h \<Rightarrow> h_overbooking_percentage h)"

definition capacity_of :: "hotel \<Rightarrow> ident \<Rightarrow> room_type \<Rightarrow> nat" where
  "capacity_of s pid t = total_rooms_of s pid t + floor_percent (total_rooms_of s pid t) (overbooking_of s pid)"

definition excluded_on :: "hotel \<Rightarrow> ident option \<Rightarrow> ident \<Rightarrow> ident \<Rightarrow> date \<Rightarrow> nat" where
  "excluded_on s exclude pid rt d =
     count_rows (\<lambda>r. occupies pid rt d r \<and> exclude = Some (r_id r)) (reservations s)"

definition night_row :: "hotel \<Rightarrow> ident \<Rightarrow> ident option \<Rightarrow> room_type \<Rightarrow> date \<Rightarrow> availability_row" where
  "night_row s pid exclude t d =
    (let sold = sold_on s pid (t_id t) d - excluded_on s exclude pid (t_id t) d;
         imported = imported_on s pid (t_id t) d in
     \<lparr>a_room_type = t_id t, a_name = t_name t, a_date = d, a_total = total_rooms_of s pid t,
      a_sold = sold + imported, a_available = capacity_of s pid t - (sold + imported),
      a_buffer = floor_percent (total_rooms_of s pid t) (overbooking_of s pid)\<rparr>)"

lemma count_split: "count_rows (\<lambda>r. p r \<and> \<not> q r) t = count_rows p t - count_rows (\<lambda>r. p r \<and> q r) t"
proof -
  have "count_rows p t = count_rows (\<lambda>r. p r \<and> q r) t + count_rows (\<lambda>r. p r \<and> \<not> q r) t"
    by (induction t) (simp_all add: count_rows_def)
  then show ?thesis by simp
qed

lemma by_type_Some [simp]: "by_type None rt" "by_type (Some x) rt \<longleftrightarrow> rt = x"
  by (simp_all add: by_type_def)

lemma not_excluded_Some [simp]: "not_excluded None i" "not_excluded (Some x) i \<longleftrightarrow> i \<noteq> x"
  by (simp_all add: not_excluded_def)

lemma not_excluded_iff: "not_excluded exclude i \<longleftrightarrow> exclude \<noteq> Some i"
  by (cases exclude) auto

lemma sold_in_search:
  assumes "check_in \<le> d" and "d < check_out" and "by_type room_type rt"
  shows "length (filter (\<lambda>r. r_room_type r = rt \<and> r_arrival r \<le> d \<and> d < r_departure r)
      (sel (\<lambda>r. r_property r = pid \<and> not_excluded exclude (r_id r))
        (overlapping_reservations pid check_in check_out room_type exclude s))) =
    sold_on s pid rt d - excluded_on s exclude pid rt d"
proof -
  have "filter (\<lambda>r. r_room_type r = rt \<and> r_arrival r \<le> d \<and> d < r_departure r)
      (sel (\<lambda>r. r_property r = pid \<and> not_excluded exclude (r_id r))
        (overlapping_reservations pid check_in check_out room_type exclude s)) =
     filter (\<lambda>r. occupies pid rt d r \<and> \<not> exclude = Some (r_id r)) (reservations s)"
    unfolding sel_def overlapping_reservations_def filter_filter
    by (rule filter_cong [OF refl]) (use assms in \<open>auto simp: occupies_def not_excluded_iff\<close>)
  then show ?thesis
    unfolding sold_on_def excluded_on_def
    using count_split [of "occupies pid rt d" "\<lambda>r. exclude = Some (r_id r)" "reservations s"]
    by (simp add: count_rows_def)
qed

lemma imported_in_search:
  assumes "check_in \<le> d" and "d < check_out" and "by_type room_type rt"
  shows "length (remdups (map k_feed (filter (\<lambda>b. k_room_type b = rt \<and> k_start b \<le> d \<and> d < k_end b)
     (overlapping_blocks pid check_in check_out room_type s)))) = imported_on s pid rt d"
proof -
  have "filter (\<lambda>b. k_room_type b = rt \<and> k_start b \<le> d \<and> d < k_end b)
      (overlapping_blocks pid check_in check_out room_type s) =
     sel (\<lambda>b. k_property b = pid \<and> active_import s pid (k_feed b) \<and>
        k_room_type b = rt \<and> k_start b \<le> d \<and> d < k_end b) (ical_blocks s)"
    unfolding sel_def overlapping_blocks_def filter_filter
    by (rule filter_cong [OF refl]) (use assms in auto)
  then show ?thesis by (simp add: imported_on_def)
qed

lemma nat_max_diff: "nat (max 0 (int a + int b - int c - int d)) = a + b - (c + d)"
  by simp

definition searched_types :: "hotel \<Rightarrow> ident \<Rightarrow> ident option \<Rightarrow> room_type list" where
  "searched_types s pid room_type =
     sel (\<lambda>t. t_property t = pid \<and> t_is_active t \<and> by_type room_type (t_id t)) (room_types s)"

lemma day_row_night_row:
  assumes "check_in \<le> d" and "d < check_out" and "by_type room_type (t_id t)"
  shows "day_row t (total_rooms_of s pid t) (overbooking_of s pid)
      (sel (\<lambda>r. r_property r = pid \<and> not_excluded exclude (r_id r))
        (overlapping_reservations pid check_in check_out room_type exclude s))
      (overlapping_blocks pid check_in check_out room_type s) d = night_row s pid exclude t d"
  unfolding day_row_def sold_in_search [OF assms] imported_in_search [OF assms] Let_def nat_max_diff
    night_row_def capacity_of_def ..

text \<open>The search in closed form: one row per room type and night.\<close>

lemma search_availability_apply:
  assumes "check_in < check_out"
  shows "search_availability pid check_in check_out room_type exclude s =
    (Inr (concat (map (\<lambda>t. map (night_row s pid exclude t) [check_in..<check_out])
       (searched_types s pid room_type))), s)"
proof -
  let ?row = "\<lambda>t. day_row t (total_rooms_of s pid t) (overbooking_of s pid)
      (sel (\<lambda>r. r_property r = pid \<and> not_excluded exclude (r_id r))
        (overlapping_reservations pid check_in check_out room_type exclude s))
      (overlapping_blocks pid check_in check_out room_type s)"
  have "search_availability pid check_in check_out room_type exclude s =
     (Inr (concat (map (\<lambda>t. map (?row t) [check_in..<check_out]) (searched_types s pid room_type))), s)"
    using assms
    by (simp add: search_availability_def stay_nights_def Let_def searched_types_def
        total_rooms_of_def overbooking_of_def)
  also have "map (\<lambda>t. map (?row t) [check_in..<check_out]) (searched_types s pid room_type) =
      map (\<lambda>t. map (night_row s pid exclude t) [check_in..<check_out]) (searched_types s pid room_type)"
    by (intro map_cong refl day_row_night_row) (auto simp: searched_types_def sel_def)
  finally show ?thesis .
qed

lemma search_availability_invalid:
  "\<not> check_in < check_out \<Longrightarrow> search_availability pid check_in check_out room_type exclude s =
     (Inl (BadRequest ''Check-out must be after check-in''), s)"
  by (simp add: search_availability_def stay_nights_def)

lemma search_availability_state [simp]: "snd (search_availability pid ci co rt ex s) = s"
  by (cases "ci < co") (simp_all add: search_availability_apply search_availability_invalid)

lemma ends_search:
  "ends (search_availability pid a e rt ex) Q E s =
    (if a < e then Q (concat (map (\<lambda>t. map (night_row s pid ex t) [a..<e]) (searched_types s pid rt))) s
     else E (BadRequest ''Check-out must be after check-in'') s)"
  by (simp add: ends_def search_availability_apply search_availability_invalid)

lemma keeps_search_availability [keeps]: "keeps_inv I (search_availability pid ci co rt ex)"
  by (simp add: keeps_inv_def)

text \<open>The number of units of a type still to sell on a night; negative when oversold.\<close>

definition free_units :: "hotel \<Rightarrow> ident \<Rightarrow> room_type \<Rightarrow> date \<Rightarrow> int" where
  "free_units s pid t d =
     int (capacity_of s pid t) - int (sold_on s pid (t_id t) d) - int (imported_on s pid (t_id t) d)"

lemma a_available_free: "exclude = None \<Longrightarrow> int (a_available (night_row s pid exclude t d)) =
    max 0 (free_units s pid t d)"
  by (simp add: night_row_def Let_def free_units_def excluded_on_def count_rows_def)

lemma night_row_simps [simp]:
  "a_room_type (night_row s pid exclude t d) = t_id t" "a_date (night_row s pid exclude t d) = d"
  by (simp_all add: night_row_def Let_def)

text \<open>
  The check on the result of a search for one room type: it passes exactly when the type is an
  active type of the property with at least one unit available on every night.
\<close>

lemma row_for_map:
  assumes "\<And>d. a_room_type (g d) = rt" and "\<And>d. a_date (g d) = d" and "d \<in> set ds" and "distinct ds"
  shows "row_for (map g ds) rt d = Some (g d)"
proof -
  have "sel (\<lambda>a. a_room_type a = rt \<and> a_date a = d) (map g es) = map g (filter (\<lambda>e. e = d) es)" for es
    using assms(1,2) by (induction es) (auto simp: sel_def)
  moreover have "d \<in> set es \<Longrightarrow> distinct es \<Longrightarrow> filter (\<lambda>e. e = d) es = [d]" for es
    by (induction es) (auto simp: filter_empty_conv)
  ultimately show ?thesis
    using assms(3,4) by (simp add: row_for_def rev_map)
qed

lemma assert_full_stay_map:
  assumes "check_in < check_out" and "\<And>d. a_room_type (g d) = rt" and "\<And>d. a_date (g d) = d"
  shows "assert_full_stay_availability (map g [check_in..<check_out]) rt check_in check_out = Inr () \<longleftrightarrow>
    (\<forall>d \<in> {check_in..<check_out}. 0 < a_available (g d))"
proof -
  let ?rows = "map g [check_in..<check_out]"
  let ?bad = "\<lambda>d. case row_for ?rows rt d of None \<Rightarrow> True | Some a \<Rightarrow> a_available a = 0"
  have "assert_full_stay_availability ?rows rt check_in check_out = Inr () \<longleftrightarrow> find ?bad [check_in..<check_out] = None"
    using assms(1) by (simp add: assert_full_stay_availability_def stay_nights_def split: option.split)
  also have "\<dots> \<longleftrightarrow> (\<forall>d \<in> set [check_in..<check_out]. \<not> ?bad d)"
    by (auto simp only: find_None_iff)
  also have "\<dots> \<longleftrightarrow> (\<forall>d \<in> set [check_in..<check_out]. 0 < a_available (g d))"
    by (intro ball_cong refl) (simp add: row_for_map [OF assms(2,3)] del: set_upt)
  finally show ?thesis by simp
qed

lemma assert_full_stay_row:
  assumes "check_in < check_out"
  shows "assert_full_stay_availability (map (night_row s pid exclude t) [check_in..<check_out]) (t_id t)
      check_in check_out = Inr () \<longleftrightarrow>
    (\<forall>d \<in> {check_in..<check_out}. 0 < a_available (night_row s pid exclude t d))"
  by (rule assert_full_stay_map [OF assms]) simp_all

lemma assert_full_stay_no_rows:
  "check_in < check_out \<Longrightarrow> assert_full_stay_availability [] rt check_in check_out \<noteq> Inr ()"
  by (simp add: assert_full_stay_availability_def stay_nights_def row_for_def sel_def upt_conv_Cons)

lemma searched_one_type:
  assumes "distinct (map t_id (room_types s))" and "t \<in> set (room_types s)" and "t_property t = pid" and "t_is_active t"
  shows "searched_types s pid (Some (t_id t)) = [t]"
proof -
  have "t \<in> set ts \<Longrightarrow> distinct (map t_id ts) \<Longrightarrow>
      sel (\<lambda>u. t_property u = pid \<and> t_is_active u \<and> t_id u = t_id t) ts = [t]" for ts
    using assms(3,4) by (induction ts) (auto simp: sel_def filter_empty_conv image_iff)
  with assms show ?thesis by (simp add: searched_types_def)
qed

section \<open>Day numbers and date strings\<close>

text \<open>\<open>stay_nights\<close> on the day numbers of two dates is \<open>stay_dates\<close> on their strings.\<close>

lemma stay_nights_refines:
  assumes "valid_civil a" and "valid_civil b"
  shows "stay_dates (iso a) (iso b) =
    (case stay_nights (day_number a) (day_number b) of
       Inl e \<Rightarrow> Inl e | Inr ds \<Rightarrow> Inr (map iso (civil_range a b))) \<and>
    (\<forall>ds. stay_nights (day_number a) (day_number b) = Inr ds \<longrightarrow> ds = map day_number (civil_range a b))"
  using civil_range_days [OF assms] by (simp add: stay_dates_iso [OF assms] stay_nights_def)

end
