(* ===== verification/Currency.thy ===== *)
theory Currency
  imports Money "HOL-Library.Char_ord"
begin

text \<open>
  Currency codes: the ISO 4217 minor-unit table and the currencies a scale-two ledger supports
  (\<open>packages/booking-requests/src/domain/booking-request-money.ts\<close>), and the amounts the
  Redsys gateway accepts (\<open>apps/api/src/modules/payment/gateways/redsys-crypto.ts\<close>).
\<close>

section \<open>Text\<close>

definition to_lower :: "char \<Rightarrow> char" where
  "to_lower c = (if CHR ''A'' \<le> c \<and> c \<le> CHR ''Z'' then char_of (of_char c + 32 :: nat) else c)"

definition to_upper :: "char \<Rightarrow> char" where
  "to_upper c = (if CHR ''a'' \<le> c \<and> c \<le> CHR ''z'' then char_of (of_char c - 32 :: nat) else c)"

definition lower :: "string \<Rightarrow> string" where
  "lower s = map to_lower s"

definition upper :: "string \<Rightarrow> string" where
  "upper s = map to_upper s"

definition blank :: "char \<Rightarrow> bool" where
  "blank c \<longleftrightarrow> (let n = of_char c :: nat in n = 32 \<or> 9 \<le> n \<and> n \<le> 13 \<or> n = 160)"

definition trim :: "string \<Rightarrow> string" where
  "trim s = rev (dropWhile blank (rev (dropWhile blank s)))"

fun words :: "string \<Rightarrow> string \<Rightarrow> string list" where
  "words w [] = [w]"
| "words w (c # cs) = (if c = CHR '' '' then w # words [] cs else words (w @ [c]) cs)"

section \<open>Minor units\<close>

definition iso4217_currencies :: "nat option \<Rightarrow> string \<Rightarrow> (string \<times> nat option) list" where
  "iso4217_currencies minor_unit currency_codes = map (\<lambda>c. (c, minor_unit)) (words [] currency_codes)"

definition iso_4217_minor_units :: "(string \<times> nat option) list" where
  "iso_4217_minor_units =
     iso4217_currencies (Some 0)
       ''BIF CLP DJF GNF ISK JPY KMF KRW PYG RWF UGX UYI VND VUV XAF XOF XPF'' @
     iso4217_currencies (Some 2)
       ''AED AFN ALL AMD AOA ARS AUD AWG AZN BAM BBD BDT BMD BND BOB BOV BRL BSD BTN BWP BYN BZD CAD CDF CHE CHF CHW CNY COP COU CRC CUP CVE CZK DKK DOP DZD EGP ERN ETB EUR FJD FKP GBP GEL GHS GIP GMD GTQ GYD HKD HNL HTG HUF IDR ILS INR IRR JMD KES KGS KHR KPW KYD KZT LAK LBP LKR LRD LSL MAD MDL MGA MKD MMK MNT MOP MRU MUR MVR MWK MXN MXV MYR MZN NAD NGN NIO NOK NPR NZD PAB PEN PGK PHP PKR PLN QAR RON RSD RUB SAR SBD SCR SDG SEK SGD SHP SLE SOS SRD SSP STN SVC SYP SZL THB TJS TMT TOP TRY TTD TWD TZS UAH USD USN UYU UZS VED VES WST XAD XCD XCG YER ZAR ZMW ZWG'' @
     iso4217_currencies (Some 3) ''BHD IQD JOD KWD LYD OMR TND'' @
     iso4217_currencies (Some 4) ''CLF UYW'' @
     iso4217_currencies None ''XAG XAU XBA XBB XBC XBD XDR XPD XPT XSU XTS XUA XXX''"

text \<open>\<open>assertLedgerCurrencySupported\<close>; the caller supplies the error class.\<close>

definition assert_ledger_currency_supported :: "string \<Rightarrow> (string \<Rightarrow> error) \<Rightarrow> error + nat" where
  "assert_ledger_currency_supported code err =
     (case map_of iso_4217_minor_units (upper (trim code)) of
        None \<Rightarrow> Inl (err ''Unsupported ISO-4217 currency code'')
      | Some None \<Rightarrow> Inl (err ''Unsupported ISO-4217 currency code'')
      | Some (Some e) \<Rightarrow>
          if 2 < e then Inl (err ''not supported by the scale-two payment ledger'') else Inr e)"

lemma supported_exponent: "assert_ledger_currency_supported code err = Inr e \<Longrightarrow> e \<le> 2"
  by (auto simp: assert_ledger_currency_supported_def split: option.splits if_splits)

section \<open>Redsys amounts\<close>

definition currency_numeric :: "(string \<times> string) list" where
  "currency_numeric = [(''EUR'', ''978''), (''USD'', ''840''), (''GBP'', ''826''), (''CHF'', ''756''), (''JPY'', ''392'')]"

definition redsys_currency_code :: "string \<Rightarrow> error + string" where
  "redsys_currency_code currency = (case map_of currency_numeric (upper (trim currency)) of
     None \<Rightarrow> Inl (Failure ''Redsys does not support currency'') | Some c \<Rightarrow> Inr c)"

text \<open>The amount in minor units; the source prints the integer.\<close>

definition redsys_amount :: "decimal \<Rightarrow> string \<Rightarrow> error + int" where
  "redsys_amount major currency = (case redsys_currency_code currency of
       Inl e \<Rightarrow> Inl e
     | Inr c \<Rightarrow> (case assert_ledger_currency_supported currency BadRequest of
         Inl e \<Rightarrow> Inl e
       | Inr x \<Rightarrow> let minor = major * 10 ^ x in
           if minor \<le> 0 \<or> of_int \<lfloor>minor\<rfloor> \<noteq> minor then Inl (Failure ''Amount must be positive and use minor units'')
           else Inr \<lfloor>minor\<rfloor>))"

lemma redsys_amount_scale:
  assumes "redsys_amount major currency = Inr n"
  shows "0 < n \<and> fits 2 major"
proof -
  obtain x where x: "assert_ledger_currency_supported currency BadRequest = Inr x"
    and n: "of_int \<lfloor>major * 10 ^ x\<rfloor> = major * 10 ^ x" "0 < major * 10 ^ x" "n = \<lfloor>major * 10 ^ x\<rfloor>"
    using assms by (auto simp: redsys_amount_def Let_def split: sum.splits if_splits)
  have "fits x major" using n(1) by (simp add: fits_def)
  then have "fits 2 major" using supported_exponent [OF x] by (rule fits_mono)
  moreover have "(0 :: rat) < of_int n" using n by metis
  ultimately show ?thesis by (simp only: of_int_0_less_iff)
qed

lemma redsys_eur: "redsys_amount (1234 / 100) '' eur'' = Inr 1234"
  by code_simp

lemma redsys_yen: "redsys_amount (15 / 10) ''JPY'' = Inl (Failure ''Amount must be positive and use minor units'')"
  by code_simp

lemma redsys_amount_units:
  assumes "redsys_amount major currency = Inr n"
  shows "0 < n \<and> fits 2 major \<and> (\<exists>e \<le> 2. of_int n = major * 10 ^ e)"
proof -
  obtain x where x: "assert_ledger_currency_supported currency BadRequest = Inr x"
    and n: "of_int n = major * 10 ^ x"
    using assms by (auto simp: redsys_amount_def Let_def split: sum.splits if_splits)
  with supported_exponent [OF x] redsys_amount_scale [OF assms] show ?thesis by blast
qed

end
