(* ===== verification/Payment.thy ===== *)
theory Payment
  imports Folio Currency
begin

text \<open>
  The payment service (\<open>apps/api/src/modules/payment/payment.service.ts\<close>) and the completion of
  hosted checkouts (\<open>hosted-authorization-finalizer.ts\<close>): recording tenders, authorizing,
  capturing, voiding and refunding through a gateway, corrections, access control and listing.
  The gateway is a parameter: each call is a program over the hotel, so that whatever other
  requests do while the call is in flight can be part of it.
\<close>

section \<open>The gateway and its credentials\<close>

datatype provider_status = Succeeded | ProviderPending | RequiresAction | ProviderFailed | Canceled | UnknownStatus

record gateway_result =
  gr_success :: bool
  gr_transaction :: string
  gr_status :: "provider_status option"
  gr_error :: "string option"
  gr_captured :: bool
  gr_next :: "string option"

datatype idempotency_key = CaptureKey ident | VoidKey ident | RefundKey ident decimal | CallerKey string

record gateway =
  gw_authorize :: "string \<Rightarrow> decimal \<Rightarrow> string \<Rightarrow> gateway_result op"
  gw_capture :: "string option \<Rightarrow> decimal \<Rightarrow> idempotency_key \<Rightarrow> gateway_result op"
  gw_void :: "string option \<Rightarrow> decimal \<Rightarrow> idempotency_key \<Rightarrow> gateway_result op"
  gw_refund :: "string option \<Rightarrow> decimal \<Rightarrow> idempotency_key \<Rightarrow> gateway_result op"

text \<open>Which properties have credentials stored for the two merchant-account providers.\<close>

record merchants =
  mc_worldline :: "ident list"
  mc_redsys :: "ident list"

definition assert_authorization_available ::
  "merchants \<Rightarrow> ident \<Rightarrow> string \<Rightarrow> decimal \<Rightarrow> string \<Rightarrow> unit op" where
  "assert_authorization_available mc pid provider amount currency =
     (if lower provider = ''worldline'' then
        guard (pid \<in> set (mc_worldline mc)) (BadRequest ''Worldline credentials are not configured'')
      else if lower provider \<noteq> ''redsys'' then ret ()
      else
        bnd (guard (pid \<in> set (mc_redsys mc)) (BadRequest ''Redsys credentials are not configured'')) (\<lambda>_.
        case redsys_amount amount currency of
          Inl e \<Rightarrow> throw (BadRequest ''Amount or currency has unsupported Redsys minor units'')
        | Inr n \<Rightarrow> ret ()))"

definition falsy :: "string option \<Rightarrow> bool" where
  "falsy v \<longleftrightarrow> (case v of None \<Rightarrow> True | Some x \<Rightarrow> x = [])"

definition or_null :: "string \<Rightarrow> string option" where
  "or_null x = (if x = [] then None else Some x)"

record authorize_dto =
  ad_property :: ident
  ad_folio :: ident
  ad_amount :: decimal
  ad_currency :: string
  ad_provider :: string
  ad_token :: string
  ad_expires :: "timestamp option"
  ad_notes :: "string option"
  ad_url_ok :: "string option"
  ad_url_ko :: "string option"

definition build_authorize_gateway_options :: "merchants \<Rightarrow> authorize_dto \<Rightarrow> unit op" where
  "build_authorize_gateway_options mc dto =
     (if lower (ad_provider dto) = ''worldline'' then
        bnd (guard (\<not> falsy (ad_url_ok dto)) (BadRequest ''Worldline authorize requires redirectUrlOk'')) (\<lambda>_.
        assert_authorization_available mc (ad_property dto) ''worldline'' (ad_amount dto) (ad_currency dto))
      else if lower (ad_provider dto) \<noteq> ''redsys'' then ret ()
      else
        bnd (guard (\<not> falsy (ad_url_ok dto) \<and> \<not> falsy (ad_url_ko dto))
          (BadRequest ''Redsys authorize requires redirectUrlOk and redirectUrlKo'')) (\<lambda>_.
        assert_authorization_available mc (ad_property dto) ''redsys'' (ad_amount dto) (ad_currency dto)))"

definition build_lifecycle_gateway_options :: "merchants \<Rightarrow> payment \<Rightarrow> unit op" where
  "build_lifecycle_gateway_options mc y =
     (case y_provider y of None \<Rightarrow> ret ()
      | Some p \<Rightarrow>
          if lower p = ''worldline'' then
            assert_authorization_available mc (y_property y) ''worldline'' (y_amount y) (y_currency y)
          else if lower p \<noteq> ''redsys'' then ret ()
          else assert_authorization_available mc (y_property y) ''redsys'' (y_amount y) (y_currency y))"

section \<open>Access\<close>

definition is_payment :: "ident \<Rightarrow> ident \<Rightarrow> payment \<Rightarrow> bool" where
  "is_payment i pid y \<longleftrightarrow> y_id y = i \<and> y_property y = pid"

definition find_payment_row :: "ident \<Rightarrow> ident \<Rightarrow> payment op" where
  "find_payment_row i pid = find_row payments (is_payment i pid) (NotFound ''Payment not found'')"

definition assert_generic_access_allowed :: "payment \<Rightarrow> unit op" where
  "assert_generic_access_allowed y = guard (y_request y = None)
     (Conflict ''Request-targeted payments must be accessed or changed through the Booking Request payment endpoint'')"

text \<open>The response leaves out the provider's references, the idempotency key and the stored intent.\<close>

definition safe_payment_response :: "payment \<Rightarrow> payment" where
  "safe_payment_response y = y\<lparr>y_transaction := None, y_idempotency := None, y_finalization := None\<rparr>"

definition find_payment :: "ident \<Rightarrow> ident \<Rightarrow> payment op" where
  "find_payment i pid =
     bnd (find_payment_row i pid) (\<lambda>y.
     bnd (assert_generic_access_allowed y) (\<lambda>_.
     ret (safe_payment_response y)))"

definition list_payments ::
  "ident \<Rightarrow> ident option \<Rightarrow> payment_status option \<Rightarrow> payment_method option \<Rightarrow> nat \<Rightarrow> nat \<Rightarrow>
   (payment list \<times> nat) op" where
  "list_payments pid folio status pay_method page limit =
     ask (\<lambda>s. let rows = sel (\<lambda>y. y_property y = pid \<and> y_request y = None \<and>
            (case folio of None \<Rightarrow> True | Some f \<Rightarrow> y_folio y = Some f) \<and>
            opt_eq status (y_status y) \<and> opt_eq pay_method (y_method y)) (payments s)
       in (map safe_payment_response (page_of page limit (sort_key y_created rows)), length rows))"

section \<open>Recording a tender\<close>

definition is_card :: "payment_method \<Rightarrow> bool" where
  "is_card m \<longleftrightarrow> m \<in> {CreditCard, DebitCard, Vcc}"

record payment_dto =
  yd_property :: ident
  yd_folio :: ident
  yd_method :: payment_method
  yd_amount :: decimal
  yd_currency :: string
  yd_provider :: "string option"
  yd_token :: "string option"
  yd_transaction :: "string option"
  yd_notes :: "string option"
  yd_processed :: "timestamp option"

definition recorded_payment :: "timestamp \<Rightarrow> payment_dto \<Rightarrow> payment" where
  "recorded_payment now dto =
     \<lparr>y_id = 0, y_property = yd_property dto, y_folio = Some (yd_folio dto), y_house = None, y_request = None,
      y_idempotency = None, y_method = yd_method dto, y_status = PayCaptured, y_amount = yd_amount dto,
      y_currency = yd_currency dto, y_provider = yd_provider dto, y_transaction = yd_transaction dto,
      y_is_preauth = False, y_preauth_expires = None, y_original = None, y_finalization = None,
      y_notes = yd_notes dto,
      y_processed = Some (case yd_processed dto of None \<Rightarrow> now | Some t \<Rightarrow> t), y_created = now\<rparr>"

definition record_payment :: "timestamp \<Rightarrow> payment_dto \<Rightarrow> payment op" where
  "record_payment now dto =
     bnd (guard (yd_method dto \<noteq> Vcc) (BadRequest ''VCC payments must use the authorize flow'')) (\<lambda>_.
     bnd (guard (\<not> (is_card (yd_method dto) \<and> \<not> falsy (yd_token dto)))
       (BadRequest ''Card payments with a gateway token must use the authorize flow'')) (\<lambda>_.
     bnd (guard (\<not> (is_card (yd_method dto) \<and> \<not> falsy (yd_provider dto) \<and> falsy (yd_transaction dto)))
       (BadRequest ''A card payment naming a gateway must carry gatewayTransactionId'')) (\<lambda>_.
     bnd (find_folio (yd_folio dto) (yd_property dto)) (\<lambda>folio.
     bnd (guard (f_status folio = FolioOpen) (BadRequest ''Cannot record payment on a folio that is not open'')) (\<lambda>_.
     bnd (guard (\<not> now < (case yd_processed dto of None \<Rightarrow> now | Some t \<Rightarrow> t))
       (BadRequest ''processedAt cannot be in the future'')) (\<lambda>_.
     bnd (insert_payment (recorded_payment now dto)) (\<lambda>y.
     bnd (recalculate_balance (yd_folio dto) (yd_property dto)) (\<lambda>_.
     bnd (emit ''payment.received'' ''payment'' (y_id y) (yd_property dto)) (\<lambda>_.
     ret (safe_payment_response y))))))))))"

section \<open>Authorizing\<close>

definition authorized_payment ::
  "timestamp \<Rightarrow> authorize_dto \<Rightarrow> payment_status \<Rightarrow> string option \<Rightarrow> deposit_intent option \<Rightarrow> bool \<Rightarrow>
   timestamp option \<Rightarrow> timestamp option \<Rightarrow> string option \<Rightarrow> payment" where
  "authorized_payment now dto status transaction intent preauth expires processed notes =
     \<lparr>y_id = 0, y_property = ad_property dto, y_folio = Some (ad_folio dto), y_house = None, y_request = None,
      y_idempotency = None, y_method = CreditCard, y_status = status, y_amount = ad_amount dto,
      y_currency = ad_currency dto, y_provider = Some (ad_provider dto), y_transaction = transaction,
      y_is_preauth = preauth, y_preauth_expires = expires, y_original = None, y_finalization = intent,
      y_notes = notes, y_processed = processed, y_created = now\<rparr>"

text \<open>The second half of \<open>authorizePayment\<close>, from the gateway's answer on.\<close>

definition store_authorization ::
  "timestamp \<Rightarrow> authorize_dto \<Rightarrow> deposit_intent option \<Rightarrow> gateway_result \<Rightarrow> (payment \<times> string option) op" where
  "store_authorization now dto finalization result =
     (if \<not> gr_success result then
       bnd (insert_payment (authorized_payment now dto PayFailed (or_null (gr_transaction result)) None False
              None None (gr_error result))) (\<lambda>failed.
       bnd (emit ''payment.failed'' ''payment'' (y_id failed) (ad_property dto)) (\<lambda>_.
       throw (BadRequest ''Authorization failed'')))
     else
       let requires_action = (gr_status result = Some RequiresAction \<and> gr_next result \<noteq> None);
           leave_pending = (requires_action \<or> gr_status result = Some ProviderPending);
           captured_now = (\<not> leave_pending \<and> gr_captured result);
           expiry = (case ad_expires dto of Some t \<Rightarrow> t | None \<Rightarrow> now + 7 * 24 * 60 * 60 * 1000)
       in
       bnd (insert_payment (authorized_payment now dto
              (if leave_pending then PayPending else if captured_now then PayCaptured else PayAuthorized)
              (Some (gr_transaction result)) (if leave_pending then finalization else None) (\<not> captured_now)
              (Some expiry) (if captured_now then Some now else None) (ad_notes dto))) (\<lambda>y.
       bnd (if captured_now then recalculate_balance (ad_folio dto) (ad_property dto) else ret ()) (\<lambda>_.
       bnd (if leave_pending then ret ()
            else emit ''payment.received'' ''payment'' (y_id y) (ad_property dto)) (\<lambda>_.
       ret (safe_payment_response y, if requires_action then gr_next result else None)))))"

definition authorize_payment ::
  "gateway \<Rightarrow> merchants \<Rightarrow> timestamp \<Rightarrow> authorize_dto \<Rightarrow> deposit_intent option \<Rightarrow> (payment \<times> string option) op" where
  "authorize_payment g mc now dto finalization =
     bnd (find_folio (ad_folio dto) (ad_property dto)) (\<lambda>folio.
     bnd (guard (f_status folio = FolioOpen) (BadRequest ''Cannot authorize payment on a folio that is not open'')) (\<lambda>_.
     bnd (guard (case finalization of None \<Rightarrow> True | Some d \<Rightarrow> f_reservation folio = Some (di_reservation d))
       (BadRequest ''Deposit reservation must match the payment folio'')) (\<lambda>_.
     bnd (build_authorize_gateway_options mc dto) (\<lambda>_.
     bnd (gw_authorize g (ad_token dto) (ad_amount dto) (ad_currency dto)) (store_authorization now dto finalization)))))"

section \<open>Capturing and voiding\<close>

text \<open>
  A request claims the payment by a conditional update; when no row matches it reads the row
  again for the reason.
\<close>

definition claim_payment ::
  "ident \<Rightarrow> ident \<Rightarrow> payment_status list \<Rightarrow> (payment \<Rightarrow> payment) \<Rightarrow> string \<Rightarrow> payment op" where
  "claim_payment i pid expected f message =
     bnd (update_where payments payments_update
            (\<lambda>y. is_payment i pid y \<and> y_status y \<in> set expected) f) (\<lambda>claimed.
     case first_row claimed of
       Some y \<Rightarrow> ret y
     | None \<Rightarrow> bnd (find_payment_row i pid) (\<lambda>existing. throw (Conflict message)))"

text \<open>\<open>recalculateBalance(null, \<dots>)\<close> matches no row.\<close>

definition recalculate_of :: "ident option \<Rightarrow> ident \<Rightarrow> unit op" where
  "recalculate_of folio pid = (case folio of None \<Rightarrow> ret () | Some fid \<Rightarrow> recalculate_balance fid pid)"

text \<open>After the claim: the gateway call outside any transaction, and the way back when it fails.\<close>

definition finish_capture :: "gateway \<Rightarrow> ident \<Rightarrow> ident \<Rightarrow> payment \<Rightarrow> payment op" where
  "finish_capture g i pid claimed =
     bnd (gw_capture g (y_transaction claimed) (y_amount claimed) (CaptureKey i)) (\<lambda>result.
     if \<not> gr_success result then
       bnd (update_where payments payments_update (is_payment i pid)
              (\<lambda>y. y\<lparr>y_status := PayAuthorized, y_processed := None\<rparr>)) (\<lambda>_.
       throw (BadRequest ''Capture failed''))
     else
       bnd (recalculate_of (y_folio claimed) pid) (\<lambda>_.
       bnd (emit ''payment.received'' ''payment'' (y_id claimed) pid) (\<lambda>_.
       ret (safe_payment_response claimed))))"

definition capture_payment ::
  "gateway \<Rightarrow> merchants \<Rightarrow> timestamp \<Rightarrow> ident \<Rightarrow> ident \<Rightarrow> payment op" where
  "capture_payment g mc now i pid =
     bnd (find_payment_row i pid) (\<lambda>y.
     bnd (assert_generic_access_allowed y) (\<lambda>_.
     bnd (build_lifecycle_gateway_options mc y) (\<lambda>_.
     bnd (claim_payment i pid [PayAuthorized] (\<lambda>y. y\<lparr>y_status := PayCaptured, y_processed := Some now\<rparr>)
            ''Cannot capture payment'') (finish_capture g i pid))))"

definition finish_void :: "gateway \<Rightarrow> ident \<Rightarrow> ident \<Rightarrow> payment \<Rightarrow> payment op" where
  "finish_void g i pid claimed =
     bnd (gw_void g (y_transaction claimed) (y_amount claimed) (VoidKey i)) (\<lambda>result.
     if \<not> gr_success result then
       bnd (update_where payments payments_update (is_payment i pid) (\<lambda>y. y\<lparr>y_status := PayAuthorized\<rparr>)) (\<lambda>_.
       throw (BadRequest ''Void failed''))
     else
       bnd (emit ''payment.failed'' ''payment'' (y_id claimed) pid) (\<lambda>_.
       ret (safe_payment_response claimed)))"

definition void_payment :: "gateway \<Rightarrow> merchants \<Rightarrow> ident \<Rightarrow> ident \<Rightarrow> payment op" where
  "void_payment g mc i pid =
     bnd (find_payment_row i pid) (\<lambda>y.
     bnd (assert_generic_access_allowed y) (\<lambda>_.
     bnd (build_lifecycle_gateway_options mc y) (\<lambda>_.
     bnd (claim_payment i pid [PayAuthorized] (\<lambda>y. y\<lparr>y_status := PayVoided\<rparr>) ''Cannot void payment'')
       (finish_void g i pid))))"

section \<open>Refunding\<close>

definition refund_child :: "ident \<Rightarrow> ident \<Rightarrow> payment \<Rightarrow> bool" where
  "refund_child i pid y \<longleftrightarrow> y_original y = Some i \<and> y_property y = pid"

definition refundable :: "payment_status \<Rightarrow> bool" where
  "refundable q \<longleftrightarrow> q \<in> {PayCaptured, PaySettled, PayPartiallyRefunded}"

text \<open>The row recorded earlier under the caller's key, which must describe the same refund.\<close>

definition find_replay :: "ident \<Rightarrow> ident \<Rightarrow> string option \<Rightarrow> decimal \<Rightarrow> payment option op" where
  "find_replay i pid key amount =
     (if falsy key then ret None
      else bnd (ask (\<lambda>s. first_row (sel (\<lambda>y. y_property y = pid \<and> y_idempotency y = key) (payments s)))) (\<lambda>found.
        case found of None \<Rightarrow> ret None
        | Some y \<Rightarrow>
            bnd (guard (y_original y = Some i \<and> \<bar>y_amount y\<bar> = amount)
              (Conflict ''Refund idempotency key was already used for different refund data'')) (\<lambda>_.
            ret (Some y))))"

record refund_plan =
  rp_original :: payment
  rp_total_after :: decimal
  rp_refund :: decimal
  rp_replay :: "payment option"

text \<open>The end of the first transaction: what is left to refund.\<close>

definition check_remaining :: "ident \<Rightarrow> ident \<Rightarrow> payment \<Rightarrow> decimal \<Rightarrow> refund_plan op" where
  "check_remaining i pid original refund =
     bnd (ask (\<lambda>s. sum_refund_children (sel (refund_child i pid) (payments s)))) (\<lambda>already.
     bnd (guard (\<not> y_amount original - already \<le> 0) (BadRequest ''Payment is already fully refunded'')) (\<lambda>_.
     bnd (guard (\<not> y_amount original - already < refund)
       (BadRequest ''Refund amount exceeds remaining refundable amount'')) (\<lambda>_.
     ret \<lparr>rp_original = original, rp_total_after = already + refund, rp_refund = refund, rp_replay = None\<rparr>)))"

definition prepare_refund :: "ident \<Rightarrow> ident \<Rightarrow> decimal option \<Rightarrow> string option \<Rightarrow> refund_plan op" where
  "prepare_refund i pid amount key =
     bnd (find_payment_row i pid) (\<lambda>original.
     bnd (assert_generic_access_allowed original) (\<lambda>_.
     bnd (guard (refundable (y_status original)) (BadRequest ''Cannot refund payment'')) (\<lambda>_.
     let refund = (case amount of None \<Rightarrow> y_amount original | Some a \<Rightarrow> a) in
     bnd (guard (\<not> refund \<le> 0) (BadRequest ''Refund amount must be positive'')) (\<lambda>_.
     bnd (guard (\<not> falsy (y_transaction original)) (BadRequest ''Payment has no gateway transaction to refund'')) (\<lambda>_.
     bnd (find_replay i pid key refund) (\<lambda>replay.
     case replay of
       Some y \<Rightarrow> ret \<lparr>rp_original = original, rp_total_after = y_amount original, rp_refund = refund,
                    rp_replay = Some y\<rparr>
     | None \<Rightarrow> check_remaining i pid original refund))))))"

definition refund_row ::
  "timestamp \<Rightarrow> ident \<Rightarrow> ident \<Rightarrow> string option \<Rightarrow> string \<Rightarrow> decimal \<Rightarrow> payment \<Rightarrow> payment" where
  "refund_row now i pid key transaction amount locked =
     \<lparr>y_id = 0, y_property = pid, y_folio = y_folio locked, y_house = None, y_request = y_request locked,
      y_idempotency = key, y_method = y_method locked, y_status = PayCaptured, y_amount = cents (- amount),
      y_currency = y_currency locked, y_provider = y_provider locked, y_transaction = Some transaction,
      y_is_preauth = False, y_preauth_expires = None, y_original = Some i, y_finalization = None,
      y_notes = Some ''Refund of payment'', y_processed = Some now, y_created = now\<rparr>"

text \<open>The second transaction: the row recorded for the refund, and whether it is new.\<close>

fun last_row :: "'r list \<Rightarrow> 'r option" where
  "last_row [] = None"
| "last_row [r] = Some r"
| "last_row (r # q # rs) = last_row (q # rs)"

definition append_refund ::
  "timestamp \<Rightarrow> ident \<Rightarrow> ident \<Rightarrow> string option \<Rightarrow> string \<Rightarrow> payment \<Rightarrow> decimal \<Rightarrow> (payment \<times> bool) op" where
  "append_refund now i pid key transaction locked ledger_refund =
     bnd (guard (\<not> ledger_refund \<le> 0) (Conflict ''Payment refundable amount changed during gateway refund'')) (\<lambda>_.
     bnd (insert_payment (refund_row now i pid key transaction ledger_refund locked)) (\<lambda>row.
     ret (row, True)))"

definition book_refund ::
  "timestamp \<Rightarrow> ident \<Rightarrow> ident \<Rightarrow> string option \<Rightarrow> refund_plan \<Rightarrow> string \<Rightarrow> (payment \<times> bool) op" where
  "book_refund now i pid key plan transaction =
     bnd (find_payment_row i pid) (\<lambda>locked.
     bnd (ask (\<lambda>s. sel (refund_child i pid) (payments s))) (\<lambda>existing.
     bnd (find_replay i pid key (rp_refund plan)) (\<lambda>replay.
     case replay of
       Some y \<Rightarrow> ret (y, False)
     | None \<Rightarrow>
         (case (if transaction = [] then None
                else first_row (sel (\<lambda>y. y_transaction y = Some transaction) existing)) of
            Some y \<Rightarrow> ret (y, False)
          | None \<Rightarrow>
              (case (if rp_total_after plan \<le> sum_refund_children existing then last_row existing else None) of
                 Some y \<Rightarrow> ret (y, False)
               | None \<Rightarrow> append_refund now i pid key transaction locked
                   (min (rp_refund plan) (rp_total_after plan - sum_refund_children existing)))))))"

text \<open>From the gateway's answer on.\<close>

definition finish_refund ::
  "timestamp \<Rightarrow> ident \<Rightarrow> ident \<Rightarrow> string option \<Rightarrow> refund_plan \<Rightarrow> gateway_result \<Rightarrow> payment op" where
  "finish_refund now i pid key plan result =
     bnd (guard (gr_success result) (BadRequest ''Refund failed'')) (\<lambda>_.
     bnd (transact (book_refund now i pid key plan (gr_transaction result))) (\<lambda>booked.
     bnd (if snd booked
          then bnd (recalculate_of (y_folio (rp_original plan)) pid) (\<lambda>_.
               emit ''payment.refunded'' ''payment'' (y_id (fst booked)) pid)
          else ret ()) (\<lambda>_.
     ret (safe_payment_response (fst booked)))))"

definition refund_payment ::
  "gateway \<Rightarrow> merchants \<Rightarrow> timestamp \<Rightarrow> ident \<Rightarrow> ident \<Rightarrow> decimal option \<Rightarrow> string option \<Rightarrow> payment op" where
  "refund_payment g mc now i pid amount key =
     bnd (transact (prepare_refund i pid amount key)) (\<lambda>plan.
     case rp_replay plan of
       Some y \<Rightarrow> ret (safe_payment_response y)
     | None \<Rightarrow>
         bnd (build_lifecycle_gateway_options mc (rp_original plan)) (\<lambda>_.
         bnd (gw_refund g (y_transaction (rp_original plan)) (rp_refund plan)
                (case key of Some k \<Rightarrow> CallerKey k | None \<Rightarrow> RefundKey i (cents (rp_total_after plan))))
           (finish_refund now i pid key plan)))"

section \<open>Corrections\<close>

datatype correction = OpVoid | OpRefund | OpAdjust

definition is_gateway_card :: "payment \<Rightarrow> bool" where
  "is_gateway_card y \<longleftrightarrow> is_card (y_method y) \<and> \<not> falsy (y_transaction y)"

definition cash_void_window :: timestamp where
  "cash_void_window = 24 * 60 * 60 * 1000"

definition legal_op :: "timestamp \<Rightarrow> payment \<Rightarrow> correction" where
  "legal_op now y =
     (if y_status y = PayAuthorized then OpVoid
      else if (y_method y = Cash \<or> y_method y = Pix) \<and> now - y_created y \<le> cash_void_window then OpVoid
      else if is_gateway_card y \<and> refundable (y_status y) then OpRefund
      else OpAdjust)"

datatype correction_result =
  CorrectedPayment correction payment | CorrectedByCharge posted

definition correct_by_void ::
  "gateway \<Rightarrow> merchants \<Rightarrow> payment \<Rightarrow> ident \<Rightarrow> ident \<Rightarrow> correction_result op" where
  "correct_by_void g mc y i pid =
     bnd (if y_status y = PayAuthorized \<and> is_gateway_card y then void_payment g mc i pid
          else
            bnd (update_where payments payments_update (\<lambda>z. is_payment i pid z \<and> y_status z = y_status y)
                   (\<lambda>z. z\<lparr>y_status := PayVoided\<rparr>)) (\<lambda>rows.
            bnd (require (first_row rows) (Conflict ''Payment is no longer in this state'')) (\<lambda>voided.
            bnd (recalculate_of (y_folio voided) pid) (\<lambda>_.
            bnd (emit ''payment.failed'' ''payment'' (y_id voided) pid) (\<lambda>_.
            ret (safe_payment_response voided)))))) (\<lambda>result.
     bnd (emit ''payment.corrected'' ''payment'' i pid) (\<lambda>_.
     ret (CorrectedPayment OpVoid result)))"

definition adjustment_row :: "timestamp \<Rightarrow> ident \<Rightarrow> ident \<Rightarrow> payment \<Rightarrow> payment" where
  "adjustment_row now i pid locked =
     \<lparr>y_id = 0, y_property = pid, y_folio = y_folio locked, y_house = None, y_request = None,
      y_idempotency = None, y_method = y_method locked, y_status = PayCaptured, y_amount = cents (- y_amount locked),
      y_currency = y_currency locked, y_provider = None, y_transaction = None, y_is_preauth = False,
      y_preauth_expires = None, y_original = Some i, y_finalization = None,
      y_notes = Some ''Correction of payment'', y_processed = Some now, y_created = now\<rparr>"

definition adjustment_charge :: "timestamp \<Rightarrow> date \<Rightarrow> ident \<Rightarrow> payment \<Rightarrow> charge_dto" where
  "adjustment_charge now today pid locked =
     \<lparr>cd_property = pid, cd_type = ChAdjustment, cd_description = ''Correction of payment'',
      cd_amount = cents (- y_amount locked), cd_currency = y_currency locked, cd_tax = None, cd_tax_rate = None,
      cd_tax_code = None, cd_service = now, cd_service_date = today, cd_posted_by = None,
      cd_options = no_tax_options, cd_skip_tax = True, cd_internal = False\<rparr>"

text \<open>The adjustment's transaction: \<open>None\<close> says that a compensating charge is to be used.\<close>

definition adjust_in_tx :: "timestamp \<Rightarrow> ident \<Rightarrow> ident \<Rightarrow> (payment \<times> payment option) op" where
  "adjust_in_tx now i pid =
     bnd (find_payment_row i pid) (\<lambda>locked.
     if \<not> parent_counts_toward_folio_balance (y_status locked) then ret (locked, None)
     else
       bnd (insert_payment (adjustment_row now i pid locked)) (\<lambda>row.
       bnd (recalculate_of (y_folio locked) pid) (\<lambda>_.
       ret (locked, Some row))))"

definition correct_by_adjustment ::
  "timestamp \<Rightarrow> date \<Rightarrow> payment \<Rightarrow> ident \<Rightarrow> ident \<Rightarrow> correction_result op" where
  "correct_by_adjustment now today y i pid =
     bnd (require (y_folio y) (BadRequest ''Cannot adjust payment: it is not linked to a folio'')) (\<lambda>_.
     bnd (transact (adjust_in_tx now i pid)) (\<lambda>adjustment.
     case snd adjustment of
       None \<Rightarrow>
         bnd (require (y_folio (fst adjustment)) (NotFound ''Folio not found'')) (\<lambda>fid.
         bnd (post_charge False fid (adjustment_charge now today pid (fst adjustment)) None None) (\<lambda>charge.
         bnd (emit ''payment.corrected'' ''payment'' i pid) (\<lambda>_.
         ret (CorrectedByCharge charge))))
     | Some row \<Rightarrow>
         bnd (emit ''payment.corrected'' ''payment'' i pid) (\<lambda>_.
         ret (CorrectedPayment OpAdjust (safe_payment_response row)))))"

definition correct_payment ::
  "gateway \<Rightarrow> merchants \<Rightarrow> timestamp \<Rightarrow> date \<Rightarrow> ident \<Rightarrow> ident \<Rightarrow> correction option \<Rightarrow> correction_result op" where
  "correct_payment g mc now today i pid override =
     bnd (find_payment_row i pid) (\<lambda>y.
     bnd (assert_generic_access_allowed y) (\<lambda>_.
     bnd (case override of
            None \<Rightarrow> ret ()
          | Some w \<Rightarrow> if w = legal_op now y then ret ()
              else if w = OpVoid \<and> is_gateway_card y \<and> refundable (y_status y)
              then throw (BadRequest ''A captured card payment cannot be voided'')
              else throw (BadRequest ''Operation is not legal for this payment'')) (\<lambda>_.
     case legal_op now y of
       OpVoid \<Rightarrow> correct_by_void g mc y i pid
     | OpRefund \<Rightarrow>
         bnd (refund_payment g mc now i pid None None) (\<lambda>result.
         bnd (emit ''payment.corrected'' ''payment'' i pid) (\<lambda>_.
         ret (CorrectedPayment OpRefund result)))
     | OpAdjust \<Rightarrow> correct_by_adjustment now today y i pid)))"

section \<open>Completing a hosted checkout\<close>

record finalize_input =
  fi_payment :: ident
  fi_property :: ident
  fi_provider :: string
  fi_success :: bool
  fi_captured :: bool
  fi_cancel_pending :: bool
  fi_transaction :: "string option"

definition notification :: "string \<Rightarrow> string \<Rightarrow> ident \<Rightarrow> ident \<Rightarrow> event" where
  "notification name entity i pid = \<lparr>e_name = name, e_entity = entity, e_id = i, e_property = pid\<rparr>"

definition insert_deposit :: "deposit \<Rightarrow> deposit op" where
  "insert_deposit d = bnd new_id (\<lambda>i. insert_row deposits_update (d\<lparr>dp_id := i, dp_amount := cents (dp_amount d)\<rparr>))"

text \<open>A decline cancels the reservation that waited for the payment.\<close>

definition cancel_unpaid :: "timestamp \<Rightarrow> ident \<Rightarrow> deposit_intent \<Rightarrow> event list op" where
  "cancel_unpaid now pid intent =
     bnd (ask (\<lambda>s. reservation_of s (di_reservation intent) pid)) (\<lambda>found.
     case found of None \<Rightarrow> ret []
     | Some r \<Rightarrow>
         if r_status r \<noteq> Pending then ret []
         else
           bnd (assert_transition (r_status r) Cancelled) (\<lambda>_.
           bnd (update_where reservations reservations_update
                  (\<lambda>q. is_reservation (r_id r) pid q \<and> r_status q = Pending)
                  (\<lambda>q. q\<lparr>r_status := Cancelled, r_cancelled_at := Some now,
                     r_cancel_reason := Some ''Payment was not authorized'', r_updated := now\<rparr>)) (\<lambda>_.
           ret [notification ''reservation.cancelled'' ''reservation'' (r_id r) pid])))"

text \<open>A success records the deposit and confirms the reservation when the intent says so.\<close>

definition record_intended_deposit :: "timestamp \<Rightarrow> ident \<Rightarrow> payment \<Rightarrow> deposit_intent \<Rightarrow> event list op" where
  "record_intended_deposit now pid y intent =
     bnd (ask (\<lambda>s. first_row (sel (\<lambda>f. y_folio y = Some (f_id f) \<and> f_property f = pid) (folios s)))) (\<lambda>folio.
     bnd (guard (case folio of None \<Rightarrow> False | Some f \<Rightarrow> f_reservation f = Some (di_reservation intent))
       (BadRequest ''Deposit reservation must match the payment folio'')) (\<lambda>_.
     bnd (ask (\<lambda>s. reservation_of s (di_reservation intent) pid)) (\<lambda>found.
     bnd (require found (BadRequest ''Deposit reservation not found in this property'')) (\<lambda>r.
     bnd (insert_deposit
            \<lparr>dp_id = 0, dp_property = pid, dp_reservation = Some (r_id r), dp_payment = Some (y_id y),
             dp_amount = cents (y_amount y), dp_currency = y_currency y, dp_status = DepositHeld,
             dp_refundable = di_refundable intent, dp_recognized = None, dp_notes = None\<rparr>) (\<lambda>deposit.
     if di_auto_confirm intent \<and> r_status r = Pending then
       bnd (assert_transition (r_status r) Confirmed) (\<lambda>_.
       bnd (update_where reservations reservations_update
              (\<lambda>q. is_reservation (r_id r) pid q \<and> r_status q = Pending)
              (\<lambda>q. q\<lparr>r_status := Confirmed, r_updated := now\<rparr>)) (\<lambda>_.
       ret [notification ''deposit.received'' ''deposit'' (dp_id deposit) pid,
            notification ''reservation.confirmed'' ''reservation'' (r_id r) pid]))
     else ret [notification ''deposit.received'' ''deposit'' (dp_id deposit) pid])))))"

definition awaits :: "finalize_input \<Rightarrow> payment \<Rightarrow> bool" where
  "awaits inp y \<longleftrightarrow> is_payment (fi_payment inp) (fi_property inp) y \<and> y_provider y = Some (fi_provider inp) \<and>
     y_status y = PayPending"

definition completed :: "timestamp \<Rightarrow> finalize_input \<Rightarrow> payment \<Rightarrow> payment" where
  "completed now inp y = y\<lparr>y_status := (if fi_success inp then if fi_captured inp then PayCaptured else PayAuthorized
       else PayFailed),
     y_processed := (if fi_captured inp then Some now else y_processed y),
     y_transaction := (if falsy (fi_transaction inp) then y_transaction y else fi_transaction inp)\<rparr>"

definition follow_intent :: "timestamp \<Rightarrow> finalize_input \<Rightarrow> payment \<Rightarrow> event list op" where
  "follow_intent now inp y = (case y_finalization y of
       None \<Rightarrow> ret []
     | Some intent \<Rightarrow>
         bnd (if \<not> fi_success inp \<and> fi_cancel_pending inp then cancel_unpaid now (fi_property inp) intent
              else ret []) (\<lambda>cancelled.
         bnd (if fi_success inp then record_intended_deposit now (fi_property inp) y intent else ret []) (\<lambda>held.
         ret (cancelled @ held))))"

text \<open>The events are returned for delivery after the commit; their audit rows are left out.\<close>

definition finalize_in_tx :: "timestamp \<Rightarrow> finalize_input \<Rightarrow> event list op" where
  "finalize_in_tx now inp =
     bnd (update_where payments payments_update (awaits inp) (completed now inp)) (\<lambda>rows.
     case first_row rows of
       None \<Rightarrow> ret []
     | Some y \<Rightarrow>
         bnd (follow_intent now inp y) (\<lambda>more.
         ret (notification (if fi_success inp then ''payment.received'' else ''payment.failed'') ''payment''
                (y_id y) (fi_property inp) # more)))"

definition finalize_hosted_authorization :: "timestamp \<Rightarrow> finalize_input \<Rightarrow> event list op" where
  "finalize_hosted_authorization now inp = transact (finalize_in_tx now inp)"

definition dispatch_persisted :: "event list \<Rightarrow> unit op" where
  "dispatch_persisted es = tell (\<lambda>s. s\<lparr>events := events s @ es\<rparr>)"

datatype read_outcome = ReadPending | ReadUnavailable | ReadCaptured | ReadAuthorized | ReadFailed

datatype sync_status = StoredStatus payment_status | ReadStatus read_outcome

record read_result =
  rr_outcome :: read_outcome
  rr_payment :: "string option"

definition apply_reading :: "timestamp \<Rightarrow> payment \<Rightarrow> read_result \<Rightarrow> sync_status op" where
  "apply_reading now y read =
     (if rr_outcome read = ReadPending \<or> rr_outcome read = ReadUnavailable then ret (ReadStatus (rr_outcome read))
      else
        bnd (finalize_hosted_authorization now
               \<lparr>fi_payment = y_id y, fi_property = y_property y, fi_provider = ''worldline'',
                fi_success = (rr_outcome read = ReadCaptured \<or> rr_outcome read = ReadAuthorized),
                fi_captured = (rr_outcome read = ReadCaptured), fi_cancel_pending = True,
                fi_transaction = rr_payment read\<rparr>) (\<lambda>notifications.
        bnd (if rr_outcome read = ReadCaptured then recalculate_of (y_folio y) (y_property y) else ret ()) (\<lambda>_.
        bnd (dispatch_persisted notifications) (\<lambda>_.
        ret (ReadStatus (rr_outcome read))))))"

text \<open>The provider's answers are parameters: \<open>reading\<close> for the status, \<open>cancelling\<close> for a cancellation.\<close>

definition sync_worldline_hosted_checkout ::
  "merchants \<Rightarrow> (string \<Rightarrow> read_result op) \<Rightarrow> timestamp \<Rightarrow> payment \<Rightarrow> sync_status op" where
  "sync_worldline_hosted_checkout mc reading now y =
     (if y_provider y \<noteq> Some ''worldline'' \<or> y_status y \<noteq> PayPending \<or> falsy (y_transaction y)
      then ret (StoredStatus (y_status y))
      else if y_property y \<notin> set (mc_worldline mc) then ret (ReadStatus ReadUnavailable)
      else
        bnd (require (y_transaction y) (Failure ''TypeError'')) (\<lambda>checkout.
        bnd (reading checkout) (apply_reading now y)))"

definition expire_worldline_challenge ::
  "merchants \<Rightarrow> (string \<Rightarrow> read_result op) \<Rightarrow> (string \<Rightarrow> decimal \<Rightarrow> gateway_result op) \<Rightarrow> timestamp \<Rightarrow>
   ident \<Rightarrow> ident \<Rightarrow> unit op" where
  "expire_worldline_challenge mc reading cancelling now i pid =
     bnd (ask (\<lambda>s. first_row (sel (\<lambda>y. is_payment i pid y \<and> y_provider y = Some ''worldline'' \<and>
            y_status y = PayPending) (payments s)))) (\<lambda>found.
     case found of None \<Rightarrow> ret ()
     | Some y \<Rightarrow>
         bnd (sync_worldline_hosted_checkout mc reading now y) (\<lambda>status.
         bnd (guard (status \<noteq> ReadStatus ReadUnavailable) (Failure ''Payment status is unavailable'')) (\<lambda>_.
         if status \<noteq> ReadStatus ReadPending \<and> status \<noteq> StoredStatus PayPending then ret ()
         else
           bnd (guard (y_property y \<in> set (mc_worldline mc) \<and> \<not> falsy (y_transaction y))
             (Failure ''Payment status is unavailable'')) (\<lambda>_.
           bnd (require (y_transaction y) (Failure ''TypeError'')) (\<lambda>checkout.
           bnd (reading checkout) (\<lambda>read.
           bnd (guard (rr_outcome read \<noteq> ReadUnavailable) (Failure ''Payment status is unavailable'')) (\<lambda>_.
           if rr_outcome read \<noteq> ReadPending then ret ()
           else
             bnd (case rr_payment read of
                    None \<Rightarrow> ret ()
                  | Some hold \<Rightarrow> if hold = [] then ret () else
                      bnd (cancelling hold (y_amount y)) (\<lambda>voided.
                      guard (gr_success voided) (Failure ''Payment could not be cancelled at the provider''))) (\<lambda>_.
             bnd (finalize_hosted_authorization now
                    \<lparr>fi_payment = y_id y, fi_property = y_property y, fi_provider = ''worldline'', fi_success = False,
                     fi_captured = False, fi_cancel_pending = True, fi_transaction = None\<rparr>) (\<lambda>notifications.
             dispatch_persisted notifications)))))))))"

definition sync_worldline_folio ::
  "merchants \<Rightarrow> (string \<Rightarrow> read_result op) \<Rightarrow> timestamp \<Rightarrow> ident \<Rightarrow> ident \<Rightarrow> (ident \<times> sync_status) list op" where
  "sync_worldline_folio mc reading now pid fid =
     bnd (ask (\<lambda>s. sel (\<lambda>y. y_property y = pid \<and> y_folio y = Some fid \<and> y_provider y = Some ''worldline'' \<and>
            y_status y = PayPending) (payments s))) (\<lambda>rows.
     collect rows (\<lambda>y. bnd (sync_worldline_hosted_checkout mc reading now y) (\<lambda>status. ret (y_id y, status))))"

end
