(* ===== verification/Folio_Facts.thy ===== *)
theory Folio_Facts
  imports Folio
begin

text \<open>
  What the folio operations of theory \<open>Folio\<close> guarantee: the exact effect of a posting, the
  preservation of the ledger invariant by every operation, and the effects of settling,
  transferring and reversing.
\<close>

section \<open>Postings in closed form\<close>

definition bump :: "hotel \<Rightarrow> hotel" where
  "bump s = s\<lparr>fresh := Suc (fresh s)\<rparr>"

lemma bump_tables [simp]:
  "charges (bump s) = charges s" "folios (bump s) = folios s" "payments (bump s) = payments s"
  "fresh (bump s) = Suc (fresh s)" "tax_rules (bump s) = tax_rules s" "reservations (bump s) = reservations s"
  "reservation_services (bump s) = reservation_services s" "services (bump s) = services s"
  "rooms (bump s) = rooms s" "properties (bump s) = properties s" "bookings (bump s) = bookings s"
  "room_types (bump s) = room_types s" "deposits (bump s) = deposits s" "events (bump s) = events s"
  by (simp_all add: bump_def)

lemma ledger_ok_bump: "ledger_ok s \<Longrightarrow> ledger_ok (bump s)"
  by (simp add: bump_def ledger_ok_fresh)

definition folio_of :: "hotel \<Rightarrow> ident \<Rightarrow> ident \<Rightarrow> folio option" where
  "folio_of s fid pid = first_row (sel (is_folio fid pid) (folios s))"

lemma ends_find_folio [wp]:
  "ends (find_folio fid pid) Q E s =
    (case folio_of s fid pid of None \<Rightarrow> E (NotFound ''Folio not found'') s | Some f \<Rightarrow> Q f s)"
  by (simp add: find_folio_def wp folio_of_def)

lemma folio_of_SomeD: "folio_of s fid pid = Some f \<Longrightarrow> f \<in> set (folios s) \<and> f_id f = fid \<and> f_property f = pid"
  unfolding folio_of_def by (drule first_sel_SomeD) (simp add: is_folio_def)

lemma folio_of_fresh: "ledger_base s \<Longrightarrow> folio_of s fid pid = Some f \<Longrightarrow> fid < fresh s"
  using folio_of_SomeD [of s fid pid f] by (auto simp: ledger_base_def wf_hotel_def keys_ok_def)

lemma folio_of_cong: "folios t = folios s \<Longrightarrow> folio_of t fid pid = folio_of s fid pid"
  by (simp add: folio_of_def)

lemma folio_of_recalc: "folio_of (recalc_folio k s) fid pid =
    map_option (\<lambda>f. if folio_key f = k then stamp_folio (statement (folio_charged s k) (folio_paid s k)) f else f)
      (folio_of s fid pid)"
proof -
  have "sel (is_folio fid pid) (upd (is_folio (fst k) (snd k)) (stamp_folio v) t) =
      map (\<lambda>f. if folio_key f = k then stamp_folio v f else f) (sel (is_folio fid pid) t)" for v t
    by (induction t) (auto simp: sel_def upd_def is_folio_key)
  then show ?thesis by (simp add: folio_of_def recalc_folio_def)
qed

definition inserted :: "ident \<Rightarrow> charge list \<Rightarrow> charge list" where
  "inserted n cs = map2 (\<lambda>i c. (stored_charge c)\<lparr>c_id := i\<rparr>) [n..<n + length cs] cs"

lemma inserted_Nil [simp]: "inserted n [] = []"
  by (simp add: inserted_def)

lemma inserted_Cons [simp]: "inserted n (c # cs) = (stored_charge c)\<lparr>c_id := n\<rparr> # inserted (Suc n) cs"
  by (simp add: inserted_def upt_conv_Cons del: upt_Suc)

definition add_charges :: "charge list \<Rightarrow> hotel \<Rightarrow> hotel" where
  "add_charges cs s = fold add_charge cs s"

lemma add_charges_simps [simp]:
  "add_charges [] s = s" "add_charges (c # cs) s = add_charges cs (add_charge c s)"
  by (simp_all add: add_charges_def)

lemma add_charges_effect:
  "charges (add_charges cs s) = charges s @ inserted (fresh s) cs \<and> fresh (add_charges cs s) = fresh s + length cs"
  by (induction cs arbitrary: s) simp_all

lemma add_charges_frame [simp]:
  "folios (add_charges cs s) = folios s" "payments (add_charges cs s) = payments s"
  "reservations (add_charges cs s) = reservations s" "rooms (add_charges cs s) = rooms s"
  "tax_rules (add_charges cs s) = tax_rules s" "deposits (add_charges cs s) = deposits s"
  "house_accounts (add_charges cs s) = house_accounts s" "events (add_charges cs s) = events s"
  "properties (add_charges cs s) = properties s" "guests (add_charges cs s) = guests s"
  "bookings (add_charges cs s) = bookings s" "room_types (add_charges cs s) = room_types s"
  "reservation_services (add_charges cs s) = reservation_services s" "services (add_charges cs s) = services s"
  by (induction cs arbitrary: s) simp_all

lemma ends_collect_insert [wp]:
  assumes "\<And>c. c \<in> set cs \<Longrightarrow> fits_columns c \<and> c_source c = None"
  shows "ends (collect cs insert_charge) Q E s = Q (inserted (fresh s) cs) (add_charges cs s)"
  using assms
proof (induction cs arbitrary: s Q)
  case Nil
  then show ?case by (simp add: wp)
next
  case (Cons c cs)
  have "sel (same_source c) (charges s) = []"
    using Cons.prems [of c] by (simp add: sel_Nil_iff same_source_def)
  with Cons show ?case by (simp add: wp)
qed

lemma tax_items_rule:
  "i \<in> set (tax_items ct guest opts amount running rs) \<Longrightarrow>
   \<exists>r \<in> set rs. ti_code i = tr_code r \<and> ti_name i = tr_name r"
  by (induction rs arbitrary: running) (auto simp: Let_def split: if_splits)

lemma taxes_of_fit: "rules_fit s \<Longrightarrow> i \<in> set (taxes_of s amount ct pid d opts) \<Longrightarrow>
    length (ti_code i) \<le> 20 \<and> length (ti_name i) \<le> 255"
  by (fastforce simp: taxes_of_def calculate_taxes_eq rules_fit_def active_tax_rules_def sel_def
      split: option.splits dest: tax_items_rule)

definition tax_rows :: "hotel \<Rightarrow> ident \<Rightarrow> charge_dto \<Rightarrow> charge list" where
  "tax_rows s fid dto =
     (if cd_type dto \<noteq> ChTax \<and> cd_type dto \<noteq> ChAdjustment \<and> \<not> cd_skip_tax dto
      then map (tax_charge fid dto (fresh s))
        (taxes_of s (cd_amount dto) (cd_type dto) (cd_property dto) (cd_service_date dto) (cd_options dto))
      else [])"

lemma taxes_of_add_charge [simp]: "taxes_of (add_charge c s) = taxes_of s"
  by (intro ext) (simp add: taxes_of_def calculate_taxes_eq active_tax_rules_def cong: option.case_cong)

lemma tax_rows_fit: "rules_fit s \<Longrightarrow> c \<in> set (tax_rows s fid dto) \<Longrightarrow> fits_columns c \<and> c_source c = None"
  using taxes_of_fit by (fastforce simp: tax_rows_def tax_charge_def fits_columns_def split: if_splits)

lemma tax_rows_of: "c \<in> set (tax_rows s fid dto) \<Longrightarrow>
    charge_of_folio fid (cd_property dto) c \<and> c_folio c = Some fid \<and> c_property c = cd_property dto \<and>
    c_house c = None \<and> c_tax c = 0 \<and> c_parent c = Some (fresh s)"
  by (auto simp: tax_rows_def tax_charge_def charge_of_folio_def split: if_splits)

lemma base_charge_simps [simp]:
  "c_folio (base_charge fid dto p src) = Some fid" "c_property (base_charge fid dto p src) = cd_property dto"
  "c_house (base_charge fid dto p src) = None" "c_type (base_charge fid dto p src) = cd_type dto"
  "c_source (base_charge fid dto p src) = src" "c_amount (base_charge fid dto p src) = cd_amount dto"
  "c_parent (base_charge fid dto p src) = p" "c_reversal (base_charge fid dto p src) = False"
  "charge_of_folio fid (cd_property dto) (base_charge fid dto p src)"
  by (simp_all add: base_charge_def charge_of_folio_def)

text \<open>The state after a posting that creates rows.\<close>

definition after_post :: "hotel \<Rightarrow> ident \<Rightarrow> charge_dto \<Rightarrow> ident option \<Rightarrow> source_key option \<Rightarrow> hotel" where
  "after_post s fid dto parent source = recalc_folio (fid, cd_property dto)
     (add_charges (tax_rows s fid dto) (add_charge (base_charge fid dto parent source) s))"

definition sent :: "bool \<Rightarrow> string \<Rightarrow> string \<Rightarrow> ident \<Rightarrow> ident \<Rightarrow> hotel \<Rightarrow> hotel" where
  "sent quietly name entity i pid s = (if quietly then s else s\<lparr>events := events s @
       [\<lparr>e_name = name, e_entity = entity, e_id = i, e_property = pid\<rparr>]\<rparr>)"

lemma ends_sent [wp]:
  "ends (if quietly then ret () else emit name entity i pid) Q E s = Q () (sent quietly name entity i pid s)"
  by (simp add: wp sent_def)

lemma sent_tables [simp]:
  "charges (sent q n e i p s) = charges s" "folios (sent q n e i p s) = folios s"
  "payments (sent q n e i p s) = payments s" "fresh (sent q n e i p s) = fresh s"
  "reservations (sent q n e i p s) = reservations s" "rooms (sent q n e i p s) = rooms s"
  "ledger_ok (sent q n e i p s) = ledger_ok s" "ledger_base (sent q n e i p s) = ledger_base s"
  "tax_rules (sent q n e i p s) = tax_rules s" "deposits (sent q n e i p s) = deposits s"
  "reservation_services (sent q n e i p s) = reservation_services s" "services (sent q n e i p s) = services s"
  "properties (sent q n e i p s) = properties s" "bookings (sent q n e i p s) = bookings s"
  "room_types (sent q n e i p s) = room_types s"
  "sent True n e i p s = s"
  by (simp_all add: sent_def)

lemma sent_sums [simp]:
  "folio_charged (sent q n e i p s) = folio_charged s" "folio_paid (sent q n e i p s) = folio_paid s"
  by (simp_all add: sent_def)

lemma post_chargeI:
  assumes rules: "rules_fit s"
    and E0: "\<And>e. E e s" and E1: "\<And>e. E e (bump s)"
    and old: "\<And>c. source \<noteq> None \<Longrightarrow> c \<in> set (charges s) \<Longrightarrow> charge_of_folio fid (cd_property dto) c \<Longrightarrow>
        c_source c = source \<Longrightarrow> Q \<lparr>pd_charge = c, pd_taxes = [], pd_created = False\<rparr> (bump s)"
    and new: "\<And>f. folio_of s fid (cd_property dto) = Some f \<Longrightarrow> f_status f = FolioOpen \<Longrightarrow>
        0 < cd_amount dto \<or> cd_type dto = ChAdjustment \<Longrightarrow>
        Q \<lparr>pd_charge = (stored_charge (base_charge fid dto parent source))\<lparr>c_id := fresh s\<rparr>,
           pd_taxes = inserted (Suc (fresh s)) (tax_rows s fid dto), pd_created = True\<rparr>
          (sent in_tx ''folio.charge_posted'' ''charge'' (fresh s) (cd_property dto)
            (after_post s fid dto parent source))"
  shows "ends (post_charge in_tx fid dto parent source) Q E s"
proof -
  let ?b = "base_charge fid dto parent source" and ?k = "(fid, cd_property dto)"
  let ?c = "(stored_charge ?b)\<lparr>c_id := fresh s\<rparr>"
  have calc: "ends (calculate_taxes a b c d e) Q' E' t = Q' (taxes_of t a b c d e) t" for a b c d e Q' E' t
    by (simp add: ends_def calculate_taxes_apply)
  have rest: "ends (finish_posting in_tx fid dto ?c) Q E (add_charge ?b s)"
    if "folio_of s fid (cd_property dto) = Some f" and "f_status f = FolioOpen"
      and "0 < cd_amount dto \<or> cd_type dto = ChAdjustment" for f
  proof (cases "cd_type dto \<noteq> ChTax \<and> cd_type dto \<noteq> ChAdjustment \<and> \<not> cd_skip_tax dto")
    case True
    then have rows: "map (tax_charge fid dto (fresh s)) (taxes_of s (cd_amount dto) (cd_type dto)
        (cd_property dto) (cd_service_date dto) (cd_options dto)) = tax_rows s fid dto"
      by (simp add: tax_rows_def)
    show ?thesis using True new [OF that]
      by (cases in_tx) (simp_all add: finish_posting_def wp calc rows ends_collect_insert [OF tax_rows_fit [OF rules]]
          after_post_def sent_def)
  next
    case False
    then have "tax_rows s fid dto = []" by (auto simp: tax_rows_def)
    with False new [OF that] show ?thesis
      by (cases in_tx) (auto simp: finish_posting_def wp after_post_def sent_def)
  qed
  have claimed: "c \<in> set (charges s) \<and> charge_of_folio fid (cd_property dto) c \<and> c_source c = source"
    if "first_row (sel (\<lambda>c. charge_of_folio fid (cd_property dto) c \<and> c_source c = source) (charges s)) = Some c"
    for c using first_sel_SomeD [OF that] by simp
  have none: "sel (same_source ?b) (charges s) = []" if "source = None"
    using that by (simp add: sel_Nil_iff same_source_def)
  have bump: "s\<lparr>fresh := Suc (fresh s)\<rparr> = bump s" by (simp add: bump_def)
  let ?insert = "if source = None then bnd (insert_charge ?b) (\<lambda>c. ret (Some c)) else insert_charge_unless_claimed ?b"
  let ?next = "\<lambda>inserted. case inserted of
       None \<Rightarrow>
         bnd (find_row charges (\<lambda>c. charge_of_folio fid (cd_property dto) c \<and> c_source c = source)
           (Conflict ''Charge source key was claimed without a persisted charge'')) (\<lambda>existing.
         ret \<lparr>pd_charge = existing, pd_taxes = [], pd_created = False\<rparr>)
     | Some charge \<Rightarrow> finish_posting in_tx fid dto charge"
  have second: "ends (bnd ?insert ?next) Q E s"
    if "folio_of s fid (cd_property dto) = Some f" and "f_status f = FolioOpen"
      and "0 < cd_amount dto \<or> cd_type dto = ChAdjustment" for f
  proof -
    have old': "ends (?next None) Q E (bump s)" if "source \<noteq> None"
    proof (cases "first_row (sel (\<lambda>c. charge_of_folio fid (cd_property dto) c \<and> c_source c = source) (charges s))")
      case None
      then show ?thesis by (simp add: ends_bnd ends_find_row E1)
    next
      case (Some c)
      with claimed [OF Some] old [OF that] show ?thesis by (simp add: ends_bnd ends_find_row ends_ret)
    qed
    show ?thesis
    proof (cases source)
      case None
      with none rest [OF that] E1 show ?thesis
        by (simp add: ends_bnd ends_insert_charge ends_ret bump)
    next
      case (Some k)
      with old' rest [OF that] E1 show ?thesis
        by (simp add: ends_bnd ends_insert_charge_unless_claimed bump)
    qed
  qed
  show ?thesis
    unfolding post_charge_def ends_bnd [of "guard b e" for b e] ends_bnd [of "find_folio a b" for a b]
      ends_guard ends_find_folio
    using second E0 by (auto split: option.split)
qed


section \<open>Every operation keeps the books\<close>

lemma ledger_base_add_charges:
  "ledger_base s \<Longrightarrow> (\<And>c. c \<in> set cs \<Longrightarrow> good_charge s c) \<Longrightarrow> ledger_base (add_charges cs s)"
proof (induction cs arbitrary: s)
  case Nil
  then show ?case by simp
next
  case (Cons c cs)
  have "ledger_base (add_charge c s)" using Cons.prems by (intro ledger_base_add_charge) simp_all
  moreover have "good_charge (add_charge c s) d" if "d \<in> set cs" for d
    using Cons.prems(2) [of d] that by (auto simp: good_charge_def less_SucI)
  ultimately show ?case using Cons.IH by simp
qed

lemma folio_books_add_charges:
  "folio_books X s \<Longrightarrow> (\<And>c fid. c \<in> set cs \<Longrightarrow> c_folio c = Some fid \<Longrightarrow> (fid, c_property c) \<in> X) \<Longrightarrow>
   folio_books X (add_charges cs s)"
  by (induction cs arbitrary: s) (simp_all add: folio_books_add_charge)

lemma folio_charged_add_charges:
  "folio_charged (add_charges cs s) k = folio_charged s k +
     total (\<lambda>c. if charge_of_folio (fst k) (snd k) c then cents (c_amount c) + cents (c_tax c) else 0) cs"
  by (induction cs arbitrary: s) (simp_all add: folio_charged_add_charge)

lemma folio_paid_add_charges [simp]: "folio_paid (add_charges cs s) k = folio_paid s k"
  by (simp add: folio_paid_def)

lemma folio_charged_recalc [simp]: "folio_charged (recalc_folio k s) = folio_charged s"
  by (rule ext) (rule folio_ledger.recalc_charged)

lemma folio_paid_recalc [simp]: "folio_paid (recalc_folio k s) = folio_paid s"
  by (rule ext) (rule folio_ledger.recalc_paid)

text \<open>Rows added to one folio and its totals recalculated.\<close>

lemma ledger_ok_post_rows:
  assumes ok: "ledger_ok s" and fid: "fid < fresh s"
    and rows: "\<And>c. c \<in> set cs \<Longrightarrow> c_folio c = Some fid \<and> c_property c = pid \<and> c_house c = None"
  shows "ledger_ok (recalc_folio (fid, pid) (add_charges cs s))"
proof (rule ledger_ok_recalc_one)
  show "ledger_base (add_charges cs s)"
    using ok fid rows by (intro ledger_base_add_charges) (auto simp: ledger_ok_def good_charge_def)
  have "folio_books {(fid, pid)} s" using ok folio_books_mono by (auto simp: ledger_ok_def)
  then show "folio_books {(fid, pid)} (add_charges cs s)"
    by (rule folio_books_add_charges) (use rows in auto)
qed

lemma after_post_eq: "after_post s fid dto parent source = recalc_folio (fid, cd_property dto)
    (add_charges (base_charge fid dto parent source # tax_rows s fid dto) s)"
  by (simp add: after_post_def)

lemma ledger_ok_after_post:
  assumes "ledger_ok s" and "folio_of s fid (cd_property dto) = Some f"
  shows "ledger_ok (after_post s fid dto parent source)"
  unfolding after_post_eq
  by (rule ledger_ok_post_rows)
    (use assms folio_of_fresh [of s] tax_rows_of in \<open>auto simp: ledger_ok_def base_charge_def\<close>)

lemma ledger_ok_rules: "ledger_ok s \<Longrightarrow> rules_fit s"
  by (simp add: ledger_ok_def ledger_base_def)

lemma post_charge_ledger:
  "ledger_ok s \<Longrightarrow> ends (post_charge in_tx fid dto parent source) (\<lambda>_. ledger_ok) (\<lambda>_. ledger_ok) s"
  by (rule post_chargeI) (simp_all add: ledger_ok_rules ledger_ok_bump ledger_ok_after_post)

lemma keeps_post_charge [keeps]: "keeps_inv ledger_ok (post_charge in_tx fid dto parent source)"
  by (simp add: keeps_inv_ends post_charge_ledger)

lemma keeps_emit_ledger [keeps]: "keeps_inv ledger_ok (emit n e i p)"
  by (rule keeps_emit) simp

lemma keeps_post_snapshot_in_tx [keeps]: "keeps_inv ledger_ok (post_snapshot_in_tx fid dto tax adj source)"
  unfolding post_snapshot_in_tx_def by (intro keeps)

lemma keeps_post_snapshot [keeps]:
  "keeps_inv ledger_ok (post_charge_from_snapshot_with_outcome tx fid dto tax adj source)"
  unfolding post_charge_from_snapshot_with_outcome_def emit_snapshot_charge_webhooks_def by (intro keeps)

lemma keeps_post_charge_from_snapshot [keeps]:
  "keeps_inv ledger_ok (post_charge_from_snapshot fid dto tax adj source)"
  unfolding post_charge_from_snapshot_def by (intro keeps)

lemma keeps_post_room_tariff [keeps]: "keeps_inv ledger_ok (post_room_tariff fid pid rate cur sv d txt)"
  unfolding post_room_tariff_def by (intro keeps)

text \<open>Writes to folios that leave keys and totals alone.\<close>

lemma ledger_ok_upd_folios:
  assumes ok: "ledger_ok s" and g: "\<And>f. folio_key (g f) = folio_key f" "\<And>f. folio_totals (g f) = folio_totals f"
  shows "ledger_ok (folios_update (upd c g) s)"
proof (rule ledger_okI)
  have "\<And>f. f_id (g f) = f_id f" using g(1) by (simp add: folio_key_def)
  then show "ledger_base (folios_update (upd c g) s)"
    using ok wf_update_folios by (simp add: ledger_ok_def ledger_base_def refs_ok_def cents_ok_def rules_fit_def)
  have sums: "folio_charged (folios_update h s) = folio_charged s" "folio_paid (folios_update h s) = folio_paid s" for h
    by (intro ext, simp add: folio_charged_def folio_paid_def)+
  show "folio_books {} (folios_update (upd c g) s)"
    using ok g by (auto simp: ledger_ok_def books_def set_upd sums)
qed

lemma settle_ledger: "ledger_ok s \<Longrightarrow> ends (settle_folio now fid pid) (\<lambda>_. ledger_ok) (\<lambda>_. ledger_ok) s"
  by (simp add: settle_folio_def wp ledger_ok_upd_folios folio_key_def folio_totals_def split: option.split)

lemma keeps_settle_folio [keeps]: "keeps_inv ledger_ok (settle_folio now fid pid)"
  by (simp add: keeps_inv_ends settle_ledger)

lemma close_ledger: "ledger_ok s \<Longrightarrow> ends (close_folio now fid pid) (\<lambda>_. ledger_ok) (\<lambda>_. ledger_ok) s"
  by (simp add: close_folio_def wp ledger_ok_upd_folios folio_key_def folio_totals_def split: option.split)

lemma keeps_close_folio [keeps]: "keeps_inv ledger_ok (close_folio now fid pid)"
  by (simp add: keeps_inv_ends close_ledger)

lemma update_ledger: "ledger_ok s \<Longrightarrow> ends (update_folio fid pid cur) (\<lambda>_. ledger_ok) (\<lambda>_. ledger_ok) s"
  by (simp add: update_folio_def wp ledger_ok_upd_folios folio_key_def folio_totals_def split: option.split)

lemma keeps_update_folio [keeps]: "keeps_inv ledger_ok (update_folio fid pid cur)"
  by (simp add: keeps_inv_ends update_ledger)

text \<open>A folio is created with zero totals and no rows.\<close>

lemma fresh_folio_sums: "refs_ok s \<Longrightarrow> fresh s \<le> i \<Longrightarrow> folio_charged s (i, pid) = 0 \<and> folio_paid s (i, pid) = 0"
proof -
  assume r: "refs_ok s" and i: "fresh s \<le> i"
  have "sel (charge_of_folio i pid) (charges s) = []" "sel (folio_payment_sum_where i pid) (payments s) = []"
    using r i by (force simp: sel_Nil_iff charge_of_folio_def folio_payment_sum_where_def refs_ok_def)+
  then show ?thesis by (simp add: folio_charged_def folio_paid_def)
qed

lemma ledger_ok_new_folio:
  assumes ok: "ledger_ok s"
  shows "ledger_ok (folios_update (\<lambda>t. t @ [new_folio dto number (fresh s)]) (bump s))"
proof (rule ledger_okI)
  let ?f = "new_folio dto number (fresh s)"
  show "ledger_base (folios_update (\<lambda>t. t @ [?f]) (bump s))"
    using ok by (simp add: ledger_ok_def ledger_base_def refs_ok_def cents_ok_def rules_fit_def wf_hotel_def
        keys_ok_Suc keys_ok_append bump_def new_folio_def less_Suc_eq)
  have sums: "folio_charged (folios_update h (bump s)) = folio_charged s" "folio_paid (folios_update h (bump s)) = folio_paid s" for h
    by (intro ext, simp add: folio_charged_def folio_paid_def)+
  have "folio_charged s (fresh s, fd_property dto) = 0 \<and> folio_paid s (fresh s, fd_property dto) = 0"
    using ok by (intro fresh_folio_sums) (simp_all add: ledger_ok_def ledger_base_def)
  then show "folio_books {} (folios_update (\<lambda>t. t @ [?f]) (bump s))"
    using ok by (simp add: ledger_ok_def books_def sums)
      (simp add: folio_key_def folio_totals_def new_folio_def statement_def)
qed

lemma generate_folio_number_ends [wp]: "ends (generate_folio_number day pid) Q E s =
    Q (projr (fst (generate_folio_number day pid s))) s"
  by (simp add: generate_folio_number_def wp)

lemma create_ledger: "ledger_ok s \<Longrightarrow> ends (create_folio tx day dto) (\<lambda>_. ledger_ok) (\<lambda>_. ledger_ok) s"
  using ledger_ok_new_folio [of s dto] ledger_ok_bump [of s]
  by (simp add: create_folio_def wp bump_def)

lemma keeps_create_folio [keeps]: "keeps_inv ledger_ok (create_folio tx day dto)"
  by (simp add: keeps_inv_ends create_ledger)

lemma keeps_create_auto_folio [keeps]: "keeps_inv ledger_ok (create_auto_folio tx day r)"
  unfolding create_auto_folio_def by (rule keeps_create_folio)

text \<open>Writes to charges that leave keys, owners and amounts alone.\<close>

definition same_money :: "(charge \<Rightarrow> charge) \<Rightarrow> bool" where
  "same_money g \<longleftrightarrow> (\<forall>c. c_id (g c) = c_id c \<and> c_property (g c) = c_property c \<and> c_folio (g c) = c_folio c \<and>
     c_house (g c) = c_house c \<and> c_amount (g c) = c_amount c \<and> c_tax (g c) = c_tax c)"

lemma total_upd_same:
  "(\<And>c. d (g c) = d c) \<Longrightarrow> (\<And>c. v (g c) = v c) \<Longrightarrow> total v (sel d (upd p g t)) = total v (sel d t)"
  by (induction t) (auto simp: sel_def upd_def)

lemma folio_charged_same_money: "same_money g \<Longrightarrow> folio_charged (charges_update (upd p g) s) = folio_charged s"
  by (rule ext) (simp add: folio_charged_def total_upd_same charge_of_folio_def charge_value_def same_money_def)

lemma ledger_ok_upd_charges:
  assumes ok: "ledger_ok s" and g: "same_money g"
  shows "ledger_ok (charges_update (upd p g) s)"
proof (rule ledger_okI)
  show "ledger_base (charges_update (upd p g) s)"
    using ok g wf_update_charges [of s g p]
    by (auto simp: ledger_ok_def ledger_base_def refs_ok_def cents_ok_def rules_fit_def set_upd same_money_def)
  have "folio_paid (charges_update (upd p g) s) = folio_paid s"
    by (rule ext) (simp add: folio_paid_def)
  then show "folio_books {} (charges_update (upd p g) s)"
    using ok by (simp add: ledger_ok_def books_def folio_charged_same_money [OF g])
qed

lemma keeps_lock_charges [keeps]: "keeps_inv ledger_ok (lock_charges fid pid audit)"
  by (simp add: keeps_inv_ends lock_charges_def wp ledger_ok_upd_charges same_money_def)


section \<open>Transfer\<close>

text \<open>
  Moving one charge between two folios of a property: the sums of the two folios change by the
  value of that charge, every other sum is unchanged, and the two recalculations restore the books.
\<close>

lemma total_sel_upd_move:
  assumes "distinct (map k t)" and "r \<in> set t" and "\<And>q. q \<in> set t \<Longrightarrow> p q \<longleftrightarrow> q = r" and "v (g r) = v r"
  shows "total v (sel d (upd p g t)) =
    total v (sel d t) - (if d r then v r else 0) + (if d (g r) then v r else 0)"
  using assms
proof (induction t)
  case Nil
  then show ?case by simp
next
  case (Cons x t)
  show ?case
  proof (cases "x = r")
    case True
    have "upd p g t = t"
    proof (rule upd_none)
      fix q assume "q \<in> set t"
      then have "q \<noteq> r" using Cons.prems(1) True by (metis distinct.simps(2) imageI list.set_map list.simps(9))
      then show "\<not> p q" using Cons.prems(3) \<open>q \<in> set t\<close> by simp
    qed
    moreover have "p x" using Cons.prems(2,3) True by simp
    ultimately show ?thesis using True Cons.prems(4) by (simp add: sel_def upd_def)
  next
    case False
    have "\<not> p x" using False Cons.prems(3) by simp
    moreover have "total v (sel d (upd p g t)) =
        total v (sel d t) - (if d r then v r else 0) + (if d (g r) then v r else 0)"
      by (rule Cons.IH) (use Cons.prems False in auto)
    ultimately show ?thesis by (simp add: sel_def upd_def)
  qed
qed

definition moved :: "ident \<Rightarrow> ident \<Rightarrow> hotel \<Rightarrow> hotel" where
  "moved cid target s = charges_update (upd (\<lambda>c. c_id c = cid) (\<lambda>c. c\<lparr>c_folio := Some target\<rparr>)) s"

lemma folio_charged_moved:
  assumes wf: "wf_hotel s" and c: "c \<in> set (charges s)" "charge_of_folio fid pid c"
  shows "folio_charged (moved (c_id c) target s) k =
    folio_charged s k - (if k = (fid, pid) then charge_value c else 0) + (if k = (target, pid) then charge_value c else 0)"
proof -
  have d: "distinct (map c_id (charges s))" using wf by (simp add: wf_hotel_def keys_ok_def)
  have one: "q \<in> set (charges s) \<Longrightarrow> c_id q = c_id c \<longleftrightarrow> q = c" for q
    using distinct_key_unique [OF d] c(1) by metis
  have "folio_charged (moved (c_id c) target s) k =
      folio_charged s k - (if charge_of_folio (fst k) (snd k) c then charge_value c else 0)
        + (if charge_of_folio (fst k) (snd k) (c\<lparr>c_folio := Some target\<rparr>) then charge_value c else 0)"
    unfolding folio_charged_def moved_def using d c(1) one
    by (simp add: total_sel_upd_move [where k = c_id] charge_value_def)
  then show ?thesis using c(2) by (cases k) (auto simp: charge_of_folio_def)
qed

lemma moved_tables [simp]:
  "folios (moved cid target s) = folios s" "payments (moved cid target s) = payments s"
  "fresh (moved cid target s) = fresh s"
  by (simp_all add: moved_def)

lemma ledger_ok_moved:
  assumes ok: "ledger_ok s" and c: "c \<in> set (charges s)" "charge_of_folio fid pid c" and t: "target < fresh s"
  shows "ledger_ok (recalc_folio (target, pid) (recalc_folio (fid, pid) (moved (c_id c) target s)))"
proof (rule ledger_ok_recalc_two)
  have base: "ledger_base s" and books: "folio_books {} s" using ok by (simp_all add: ledger_ok_def)
  then show "ledger_base (moved (c_id c) target s)"
    using t wf_update_charges [of s "\<lambda>c. c\<lparr>c_folio := Some target\<rparr>" "\<lambda>d. c_id d = c_id c"]
    by (auto simp: ledger_base_def moved_def refs_ok_def cents_ok_def rules_fit_def set_upd)
  show "folio_books {(fid, pid), (target, pid)} (moved (c_id c) target s)"
  proof (rule folio_ledger.posting [OF books])
    fix k assume "k \<notin> {(fid, pid), (target, pid)}"
    then show "folio_charged (moved (c_id c) target s) k = folio_charged s k \<and>
        folio_paid (moved (c_id c) target s) k = folio_paid s k"
      using base c by (simp add: folio_charged_moved ledger_base_def) (simp add: folio_paid_def)
  qed simp_all
qed

text \<open>A transfer that returns has moved one open charge between two open folios.\<close>

lemma transfer_chargeI:
  assumes "\<And>e. E e s"
    and "\<And>c f g. fid \<noteq> target \<Longrightarrow> folio_of s fid pid = Some f \<Longrightarrow> folio_of s target pid = Some g \<Longrightarrow>
      f_status f = FolioOpen \<Longrightarrow> f_status g = FolioOpen \<Longrightarrow> c \<in> set (charges s) \<Longrightarrow> c_id c = cid \<Longrightarrow>
      charge_of_folio fid pid c \<Longrightarrow> \<not> c_locked c \<Longrightarrow> c_adjusts c = None \<Longrightarrow> \<not> accepted_key (c_source c) \<Longrightarrow>
      Q () (recalc_folio (target, pid) (recalc_folio (fid, pid) (moved (c_id c) target s)))"
  shows "ends (transfer_charge fid pid cid target) Q E s"
proof (cases "fid = target")
  case True
  then show ?thesis using assms(1) by (simp add: transfer_charge_def wp)
next
  case False
  show ?thesis
  proof (cases "folio_of s (min fid target) pid = None \<or> folio_of s (max fid target) pid = None")
    case True
    then show ?thesis using False assms(1)
      by (cases "folio_of s (min fid target) pid") (auto simp: transfer_charge_def wp)
  next
    case both: False
    then obtain f1 f2 where f: "folio_of s (min fid target) pid = Some f1" "folio_of s (max fid target) pid = Some f2"
      by auto
    then have ids: "f_id f1 = min fid target" "f_id f2 = max fid target" using folio_of_SomeD by blast+
    define fs where "fs = (if f_id f1 = fid then f1 else f2)"
    define ft where "ft = (if f_id f1 = target then f1 else f2)"
    have st: "folio_of s fid pid = Some fs" "folio_of s target pid = Some ft"
      using f ids False by (auto simp: fs_def ft_def min_def max_def split: if_splits)
    show ?thesis
    proof (cases "first_row (sel (\<lambda>c. c_id c = cid \<and> charge_of_folio fid pid c) (charges s))")
      case None
      then show ?thesis using False f assms(1)
        by (simp add: transfer_charge_def wp Let_def)
    next
      case (Some c)
      then have c: "c \<in> set (charges s)" "c_id c = cid" "charge_of_folio fid pid c"
        using first_sel_SomeD by fastforce+
      have "ends (transfer_charge fid pid cid target) Q E s =
        (if f_status fs \<noteq> FolioOpen then E (BadRequest ''Source folio is not open'') s
         else if f_status ft \<noteq> FolioOpen then E (BadRequest ''Target folio is not open'') s
         else if c_locked c then E (BadRequest ''Cannot transfer a locked charge'') s
         else if c_adjusts c \<noteq> None then E (BadRequest ''Cannot transfer an internal accepted-pricing correction'') s
         else if accepted_key (c_source c) then E (BadRequest ''Cannot transfer an accepted-pricing group individually'') s
         else if accepted_parent s fid pid c
           then E (BadRequest ''Cannot transfer a child of an accepted-pricing group individually'') s
         else Q () (recalc_folio (target, pid) (recalc_folio (fid, pid) (moved cid target s))))"
        using False f Some unfolding fs_def ft_def by (simp add: transfer_charge_def wp Let_def moved_def)
      then show ?thesis using assms(1) assms(2) [OF False st _ _ c] c(2) by simp
    qed
  qed
qed

lemma transfer_ledger: "ledger_ok s \<Longrightarrow>
    ends (transfer_charge fid pid cid target) (\<lambda>_. ledger_ok) (\<lambda>_. ledger_ok) s"
  by (rule transfer_chargeI) (auto intro: ledger_ok_moved folio_of_fresh dest: ledger_okD)

lemma keeps_transfer_charge [keeps]: "keeps_inv ledger_ok (transfer_charge fid pid cid target)"
  by (simp add: keeps_inv_ends transfer_ledger)


section \<open>Reversal\<close>

lemma sel_append: "sel c (xs @ ys) = sel c xs @ sel c ys"
  by (simp add: sel_def)

lemma reversal_row_simps [simp]:
  "c_folio (reversal_row fid pid p c) = Some fid" "c_property (reversal_row fid pid p c) = pid"
  "c_house (reversal_row fid pid p c) = None" "c_source (reversal_row fid pid p c) = None"
  "c_original (reversal_row fid pid p c) = Some (c_id c)" "c_reversal (reversal_row fid pid p c)"
  "c_amount (reversal_row fid pid p c) = cents (- c_amount c)" "c_tax (reversal_row fid pid p c) = cents (- c_tax c)"
  "c_type (reversal_row fid pid p c) = c_type c"
  "charge_of_folio fid pid (reversal_row fid pid p c)"
  by (simp_all add: reversal_row_def charge_of_folio_def)

definition unreversed :: "hotel \<Rightarrow> ident \<Rightarrow> charge \<Rightarrow> bool" where
  "unreversed s pid c \<longleftrightarrow> sel (reversal_of (c_id c) pid) (charges s) = []"

lemma ends_reverse_child [wp]:
  "ends (reverse_child fid pid r c) Q E s =
    (if \<not> unreversed s pid c then Q () s
     else if fits_columns (reversal_row fid pid (Some r) c)
       then Q () (add_charge (reversal_row fid pid (Some r) c) s)
     else E (Failure ''value too long'') (bump s))"
proof -
  have "sel (same_source (reversal_row fid pid (Some r) c)) (charges s) = []"
    by (simp add: sel_Nil_iff same_source_def)
  then show ?thesis
    unfolding reverse_child_def ends_bnd ends_ask ends_if ends_insert_charge ends_ret bump_def unreversed_def
    by simp
qed

lemma unreversed_add:
  "c_id d \<noteq> c_id c \<Longrightarrow> unreversed (add_charge (reversal_row fid pid p c) s) pid d = unreversed s pid d"
  by (simp add: unreversed_def sel_append sel_Nil_iff reversal_of_def)

lemma reverse_childrenI:
  assumes "distinct (map c_id cs)"
    and "\<And>t. E (Failure ''value too long'') t"
    and "Q () (add_charges (map (reversal_row fid pid (Some r)) (filter (unreversed s pid) cs)) s)"
  shows "ends (for_each cs (reverse_child fid pid r)) Q E s"
  using assms(1,3)
proof (induction cs arbitrary: s)
  case Nil
  then show ?case by (simp add: wp)
next
  case (Cons c cs)
  have ne: "c_id d \<noteq> c_id c" if "d \<in> set cs" for d
  proof -
    have "c_id d \<in> set (map c_id cs)" using that by simp
    then show ?thesis using Cons.prems(1) by auto
  qed
  show ?case
  proof (cases "unreversed s pid c")
    case False
    then show ?thesis using Cons.IH [of s] Cons.prems
      unfolding for_each.simps ends_bnd ends_reverse_child by simp
  next
    case True
    let ?s = "add_charge (reversal_row fid pid (Some r) c) s"
    have "filter (unreversed ?s pid) cs = filter (unreversed s pid) cs"
      by (rule filter_cong) (simp_all add: unreversed_add ne)
    then have "ends (for_each cs (reverse_child fid pid r)) Q E ?s"
      using Cons.prems True by (intro Cons.IH) simp_all
    then show ?thesis using True assms(2)
      unfolding for_each.simps ends_bnd ends_reverse_child by simp
  qed
qed

definition children_of :: "hotel \<Rightarrow> ident \<Rightarrow> ident \<Rightarrow> charge list" where
  "children_of s cid pid = sel (\<lambda>c. c_parent c = Some cid \<and> \<not> c_reversal c \<and> c_property c = pid) (charges s)"

definition reversal_rows :: "hotel \<Rightarrow> ident \<Rightarrow> ident \<Rightarrow> charge \<Rightarrow> charge list" where
  "reversal_rows s fid pid c = reversal_row fid pid None c #
     map (reversal_row fid pid (Some (fresh s)))
       (filter (\<lambda>d. unreversed s pid d \<and> c_id d \<noteq> c_id c) (children_of s (c_id c) pid))"

text \<open>A reversal that returns has added the negations of the charge and of its unreversed parts.\<close>

lemma children_after_reversal:
  "sel (\<lambda>d. c_parent d = Some cid \<and> \<not> c_reversal d \<and> c_property d = pid)
     (charges (add_charge (reversal_row fid pid p c) s)) = children_of s cid pid"
  by (simp add: children_of_def sel_append) (simp add: sel_def)

lemma reverse_chargeI:
  assumes wf: "wf_hotel s" and E: "\<And>e. E e s"
    and Q: "\<And>c. c \<in> set (charges s) \<Longrightarrow> c_id c = cid \<Longrightarrow> charge_of_folio fid pid c \<Longrightarrow> \<not> c_locked c \<Longrightarrow>
      \<not> c_reversal c \<Longrightarrow> c_adjusts c = None \<Longrightarrow> \<not> accepted_parent s fid pid c \<Longrightarrow> unreversed s pid c \<Longrightarrow>
      Q ((stored_charge (reversal_row fid pid None c))\<lparr>c_id := fresh s\<rparr>)
        (sent False ''folio.charge_posted'' ''charge'' (fresh s) pid
          (recalc_folio (fid, pid) (add_charges (reversal_rows s fid pid c) s)))"
  shows "ends (reverse_charge fid cid pid) Q E s"
proof (cases "first_row (sel (\<lambda>c. c_id c = cid \<and> charge_of_folio fid pid c) (charges s))")
  case None
  then show ?thesis using E by (simp add: reverse_charge_def reverse_in_tx_def wp)
next
  case (Some c)
  then have c: "c \<in> set (charges s)" "c_id c = cid" "charge_of_folio fid pid c"
    using first_sel_SomeD by fastforce+
  show ?thesis
  proof (cases "c_locked c \<or> c_reversal c \<or> c_adjusts c \<noteq> None \<or> accepted_parent s fid pid c \<or> \<not> unreversed s pid c")
    case True
    then show ?thesis using E Some c(2) unfolding unreversed_def
      by (auto simp: reverse_charge_def reverse_in_tx_def wp)
  next
    case ok: False
    let ?row = "reversal_row fid pid None c" and ?r = "(stored_charge (reversal_row fid pid None c))\<lparr>c_id := fresh s\<rparr>"
    let ?s = "add_charge ?row s"
    have src: "sel (same_source ?row) (charges s) = []" by (simp add: sel_Nil_iff same_source_def)
    have d: "distinct (map c_id (children_of s cid pid))"
      using wf distinct_map_filter [of c_id "charges s"] by (simp add: children_of_def sel_def wf_hotel_def keys_ok_def)
    have f: "filter (unreversed ?s pid) (children_of s cid pid) =
        filter (\<lambda>d. unreversed s pid d \<and> c_id d \<noteq> cid) (children_of s cid pid)"
    proof (rule filter_cong [OF refl])
      fix x assume "x \<in> set (children_of s cid pid)"
      show "unreversed ?s pid x = (unreversed s pid x \<and> c_id x \<noteq> cid)"
        using c(2) by (cases "c_id x = cid") (simp_all add: unreversed_add, simp add: unreversed_def sel_append sel_Nil_iff reversal_of_def)
    qed
    let ?Q = "\<lambda>x t. ends (emit ''folio.charge_posted'' ''charge'' (c_id x) pid) (\<lambda>_. ends (ret x) Q E) E t"
    have "?Q ?r (recalc_folio (fid, pid) (add_charges (map (reversal_row fid pid (Some (fresh s)))
        (filter (unreversed ?s pid) (children_of s cid pid))) ?s))"
      using Q [OF c] ok by (simp add: wp f reversal_rows_def c(2) sent_def)
    then have inner: "ends (for_each (children_of s cid pid) (reverse_child fid pid (fresh s)))
        (\<lambda>_. ends (recalculate_balance fid pid) (\<lambda>_. ends (ret ?r) ?Q (\<lambda>e t. E e s)) (\<lambda>e t. E e s)) (\<lambda>e t. E e s) ?s"
      by (intro reverse_childrenI d E) (simp add: wp)
    have kids: "sel (\<lambda>d. c_parent d = Some cid \<and> \<not> c_reversal d \<and> c_property d = pid) (charges ?s) = children_of s cid pid"
      by (rule children_after_reversal)
    show ?thesis
      unfolding reverse_charge_def reverse_in_tx_def ends_bnd ends_transact ends_find_row Some option.case
        ends_guard ends_ask ends_insert_charge src
      using ok inner kids E c(2) unfolding unreversed_def
      by (simp del: ends_ret add: c(2))
  qed
qed

lemma reversal_rows_of: "d \<in> set (reversal_rows s fid pid c) \<Longrightarrow>
    c_folio d = Some fid \<and> c_property d = pid \<and> c_house d = None"
  by (auto simp: reversal_rows_def)

lemma reverse_ledger:
  assumes ok: "ledger_ok s"
  shows "ends (reverse_charge fid cid pid) (\<lambda>_. ledger_ok) (\<lambda>_. ledger_ok) s"
proof (rule reverse_chargeI)
  show "wf_hotel s" using ok by (simp add: ledger_ok_def ledger_base_def)
  fix c assume c: "c \<in> set (charges s)" "charge_of_folio fid pid c"
  have "fid < fresh s" using ok c by (auto simp: ledger_ok_def ledger_base_def refs_ok_def charge_of_folio_def)
  then show "ledger_ok (sent False ''folio.charge_posted'' ''charge'' (fresh s) pid
      (recalc_folio (fid, pid) (add_charges (reversal_rows s fid pid c) s)))"
    using ok reversal_rows_of by (simp add: ledger_ok_post_rows)
qed (rule ok)

lemma keeps_reverse_charge [keeps]: "keeps_inv ledger_ok (reverse_charge fid cid pid)"
  by (simp add: keeps_inv_ends reverse_ledger)

lemma total_reversals:
  "(\<And>c. c \<in> set cs \<Longrightarrow> fits 2 (c_amount c) \<and> fits 2 (c_tax c)) \<Longrightarrow>
   total (\<lambda>c. cents (c_amount c) + cents (c_tax c)) (map (reversal_row fid pid p) cs) = - total charge_value cs"
  by (induction cs) (simp_all add: charge_value_def to_fixed_id)

text \<open>What the reversal takes off the folio: the charge and its unreversed parts.\<close>

lemma folio_charged_reversal:
  assumes ok: "cents_ok s" and c: "c \<in> set (charges s)"
  shows "folio_charged (add_charges (reversal_rows s fid pid c) s) (fid, pid) =
    folio_charged s (fid, pid) - charge_value c
      - total charge_value (filter (\<lambda>d. unreversed s pid d \<and> c_id d \<noteq> c_id c) (children_of s (c_id c) pid))"
proof -
  let ?v = "\<lambda>c. cents (c_amount c) + cents (c_tax c)"
  let ?kids = "filter (\<lambda>d. unreversed s pid d \<and> c_id d \<noteq> c_id c) (children_of s (c_id c) pid)"
  have own: "charge_of_folio fid pid d" if "d \<in> set (reversal_rows s fid pid c)" for d
    using reversal_rows_of [OF that] by (simp add: charge_of_folio_def)
  have "total (\<lambda>d. if charge_of_folio fid pid d then ?v d else 0) (reversal_rows s fid pid c)
      = total ?v (reversal_rows s fid pid c)"
    by (rule total_cong) (simp add: own)
  also have "\<dots> = ?v (reversal_row fid pid None c) + total ?v (map (reversal_row fid pid (Some (fresh s))) ?kids)"
    by (simp add: reversal_rows_def)
  also have "?v (reversal_row fid pid None c) = - charge_value c"
    using ok c by (simp add: cents_ok_def charge_value_def to_fixed_id)
  also have "total ?v (map (reversal_row fid pid (Some (fresh s))) ?kids) = - total charge_value ?kids"
    by (rule total_reversals) (use ok in \<open>auto simp: cents_ok_def children_of_def sel_def\<close>)
  finally show ?thesis by (simp add: folio_charged_add_charges)
qed


section \<open>Settling\<close>

fun folio_next :: "folio_status \<Rightarrow> folio_status list" where
  "folio_next FolioOpen = [FolioSettled]"
| "folio_next FolioSettled = [FolioClosed]"
| "folio_next FolioClosed = []"

fun folio_rank :: "folio_status \<Rightarrow> nat" where
  "folio_rank FolioOpen = 0"
| "folio_rank FolioSettled = 1"
| "folio_rank FolioClosed = 2"

interpretation folio_machine: status_machine folio_next folio_rank
proof
  fix q t
  show "t \<in> set (folio_next q) \<Longrightarrow> folio_rank q < folio_rank t" by (cases q) auto
qed

definition outstanding :: "hotel \<Rightarrow> ident \<Rightarrow> ident \<Rightarrow> payment \<Rightarrow> bool" where
  "outstanding s fid pid y \<longleftrightarrow> y \<in> set (payments s) \<and> y_folio y = Some fid \<and> y_property y = pid \<and>
     y_status y \<in> {PayAuthorized, PayPending}"

lemma count_rows_0_iff: "count_rows c t = 0 \<longleftrightarrow> (\<forall>r \<in> set t. \<not> c r)"
  by (simp add: count_rows_def filter_empty_conv)

lemma settle_folioI:
  assumes "\<And>e. E e s"
    and "\<And>f. folio_of s fid pid = Some f \<Longrightarrow> f_status f = FolioOpen \<Longrightarrow> \<bar>f_balance f\<bar> \<le> 1 / 100 \<Longrightarrow>
      (\<And>y. \<not> outstanding s fid pid y) \<Longrightarrow>
      Q (f\<lparr>f_status := FolioSettled, f_settled_at := Some now\<rparr>)
        (sent False ''folio.settled'' ''folio'' fid pid (folios_update (upd (is_folio fid pid)
          (\<lambda>f. f\<lparr>f_status := FolioSettled, f_settled_at := Some now\<rparr>)) s))"
  shows "ends (settle_folio now fid pid) Q E s"
proof (cases "folio_of s fid pid")
  case None
  then show ?thesis using assms(1) by (simp add: settle_folio_def wp)
next
  case (Some f)
  then have row: "first_row (sel (is_folio fid pid) (folios s)) = Some f" by (simp add: folio_of_def)
  have ids: "f_id f = fid" "f_property f = pid" using folio_of_SomeD [OF Some] by simp_all
  have none: "count_rows (\<lambda>y. y_folio y = Some fid \<and> y_property y = pid \<and>
      y_status y \<in> {PayAuthorized, PayPending}) (payments s) = 0 \<longleftrightarrow> (\<forall>y. \<not> outstanding s fid pid y)"
    unfolding count_rows_0_iff outstanding_def by blast
  show ?thesis
    unfolding settle_folio_def ends_bnd ends_find_folio Some option.case ends_guard ends_ask ends_update_one row
      ends_emit ends_ret using assms none ids Some by (auto simp: sent_def not_less)
qed

section \<open>Folio numbers\<close>

lemma show_nat_small: "n < 10 \<Longrightarrow> show_nat n = [dig n]"
  by (simp add: show_nat.simps)

lemma show_nat_step: "10 \<le> n \<Longrightarrow> show_nat n = show_nat (n div 10) @ [dig (n mod 10)]"
  by (simp add: show_nat.simps [of n])

lemma dig_0: "dig 0 = CHR ''0''"
  by code_simp

lemma print4_digits:
  "print4 n = [dig (n div 1000 mod 10), dig (n div 100 mod 10), dig (n div 10 mod 10), dig (n mod 10)]"
proof -
  have "n div 100 div 10 = n div 1000" by (simp add: div_mult2_eq [symmetric])
  moreover have m: "n mod 100 = 10 * (n div 10 mod 10) + n mod 10" using mod_mult2_eq [of n 10 10] by simp
  have "n mod 100 div 10 mod 10 = n div 10 mod 10" and "n mod 100 mod 10 = n mod 10"
    unfolding m by simp_all
  ultimately show ?thesis unfolding print4_def print2_def append.simps by simp
qed

lemma show_nat_digits:
  "n < 10 \<Longrightarrow> show_nat n = [dig n]"
  "10 \<le> n \<Longrightarrow> n < 100 \<Longrightarrow> show_nat n = [dig (n div 10), dig (n mod 10)]"
  "100 \<le> n \<Longrightarrow> n < 1000 \<Longrightarrow> show_nat n = [dig (n div 100), dig (n div 10 mod 10), dig (n mod 10)]"
  "1000 \<le> n \<Longrightarrow> n < 10000 \<Longrightarrow>
     show_nat n = [dig (n div 1000), dig (n div 100 mod 10), dig (n div 10 mod 10), dig (n mod 10)]"
proof -
  have two: "n div 10 div 10 = n div 100" and three: "n div 100 div 10 = n div 1000"
    by (simp_all add: div_mult2_eq [symmetric])
  show "n < 10 \<Longrightarrow> show_nat n = [dig n]" by (rule show_nat_small)
  show "10 \<le> n \<Longrightarrow> n < 100 \<Longrightarrow> show_nat n = [dig (n div 10), dig (n mod 10)]"
    by (simp add: show_nat_step [of n] show_nat_small)
  show "100 \<le> n \<Longrightarrow> n < 1000 \<Longrightarrow> show_nat n = [dig (n div 100), dig (n div 10 mod 10), dig (n mod 10)]"
    by (simp add: show_nat_step [of n] show_nat_step [of "n div 10"] show_nat_small two)
  show "1000 \<le> n \<Longrightarrow> n < 10000 \<Longrightarrow>
     show_nat n = [dig (n div 1000), dig (n div 100 mod 10), dig (n div 10 mod 10), dig (n mod 10)]"
    by (simp add: show_nat_step [of n] show_nat_step [of "n div 10"] show_nat_step [of "n div 100"]
        show_nat_small two three)
qed

lemma pad4_print4: "n < 10000 \<Longrightarrow> pad4 n = print4 n"
proof -
  assume n: "n < 10000"
  have r: "replicate 3 c = [c, c, c]" "replicate 2 c = [c, c]" for c :: char
    by (simp_all add: numeral_3_eq_3 numeral_2_eq_2)
  consider "n < 10" | "10 \<le> n" "n < 100" | "100 \<le> n" "n < 1000" | "1000 \<le> n" by linarith
  then show ?thesis
  proof cases
    case 1
    then show ?thesis unfolding pad4_def print4_digits show_nat_digits(1) [OF 1] by (simp add: dig_0 r)
  next
    case 2
    then show ?thesis unfolding pad4_def print4_digits show_nat_digits(2) [OF 2] by (simp add: dig_0 r)
  next
    case 3
    then show ?thesis unfolding pad4_def print4_digits show_nat_digits(3) [OF 3] by (simp add: dig_0)
  next
    case 4
    then show ?thesis using n unfolding pad4_def print4_digits show_nat_digits(4) [OF 4 n] by simp
  qed
qed


definition sequence_number :: "civil \<Rightarrow> nat \<Rightarrow> string" where
  "sequence_number day n = number_prefix day @ ''-'' @ pad4 n"

lemma digit_not_dash: "is_digit c \<Longrightarrow> c \<noteq> CHR ''-''"
proof -
  have "code (CHR ''-'') = 45" by code_simp
  then show "is_digit c \<Longrightarrow> c \<noteq> CHR ''-''" by (auto simp: is_digit_def)
qed

lemma print4_is_digit: "c \<in> set (print4 n) \<Longrightarrow> is_digit c"
  by (auto simp: print4_digits)

lemma after_last_dash_number: "n < 10000 \<Longrightarrow> after_last_dash (sequence_number day n) = print4 n"
proof -
  assume "n < 10000"
  then have "sequence_number day n = number_prefix day @ ''-'' @ print4 n"
    by (simp add: sequence_number_def pad4_print4)
  moreover have "takeWhile (\<lambda>c. c \<noteq> CHR ''-'') (rev (print4 n) @ CHR ''-'' # xs) = rev (print4 n)" for xs
    using print4_is_digit digit_not_dash by (subst takeWhile_append2) auto
  ultimately show ?thesis by (simp add: after_last_dash_def)
qed

lemma parse_print4: "n < 10000 \<Longrightarrow> parse_int (print4 n) = Some n"
proof -
  assume n: "n < 10000"
  have t: "takeWhile is_digit (print4 n) = print4 n"
    using print4_is_digit by (auto simp: takeWhile_eq_all_conv)
  have "print4 n \<noteq> []" by (simp add: print4_digits)
  then show ?thesis unfolding parse_int_def t using n by simp
qed

lemma sequence_number_less: "m < 10000 \<Longrightarrow> n < 10000 \<Longrightarrow>
    str_less (sequence_number day m) (sequence_number day n) \<longleftrightarrow> m < n"
proof -
  assume b: "m < 10000" "n < 10000"
  have "str_less (p @ x) (p @ y) = str_less x y" for p x y by (induction p) auto
  from this [of "number_prefix day @ ''-''"] b show ?thesis
    by (simp add: sequence_number_def pad4_print4 str_less_print4)
qed

lemma sequence_number_inject: "m < 10000 \<Longrightarrow> n < 10000 \<Longrightarrow>
    sequence_number day m = sequence_number day n \<longleftrightarrow> m = n"
  using print4_inject [of m n] by (simp add: sequence_number_def pad4_print4)

lemma starts_with_sequence: "starts_with (number_prefix day) (sequence_number day n)"
  by (simp add: starts_with_def sequence_number_def)

lemma str_max_numbers: "ns \<noteq> [] \<Longrightarrow> (\<And>n. n \<in> set ns \<Longrightarrow> n < 10000) \<Longrightarrow>
    str_max (map (sequence_number day) ns) = Some (sequence_number day (Max (set ns)))"
proof (induction ns)
  case Nil
  then show ?case by simp
next
  case (Cons n ns)
  show ?case
  proof (cases "ns = []")
    case True
    then show ?thesis by simp
  next
    case False
    then have m: "Max (set ns) \<in> set ns" by simp
    then have b: "n < 10000" "Max (set ns) < 10000" using Cons.prems(2) by auto
    with False Cons show ?thesis by (simp add: sequence_number_less max_def)
  qed
qed

definition numbers_of_day :: "hotel \<Rightarrow> civil \<Rightarrow> ident \<Rightarrow> string list" where
  "numbers_of_day s day pid = map f_number (sel (\<lambda>f. f_property f = pid \<and>
     starts_with (number_prefix day) (f_number f)) (folios s))"

text \<open>Today's folios carry sequence numbers below the last four-digit one.\<close>

definition numbers_sequential :: "hotel \<Rightarrow> civil \<Rightarrow> ident \<Rightarrow> bool" where
  "numbers_sequential s day pid \<longleftrightarrow>
     (\<exists>ns. numbers_of_day s day pid = map (sequence_number day) ns \<and> (\<forall>n \<in> set ns. n < 9999))"

lemma generated_number:
  assumes "numbers_sequential s day pid"
  obtains n where "generate_folio_number day pid s = (Inr (sequence_number day n), s)" and "n \<le> 9999"
    and "\<And>f. f \<in> set (folios s) \<Longrightarrow> f_property f = pid \<Longrightarrow> f_number f \<noteq> sequence_number day n"
proof -
  from assms obtain ns where ns: "numbers_of_day s day pid = map (sequence_number day) ns"
      and b: "\<And>n. n \<in> set ns \<Longrightarrow> n < 9999"
    by (auto simp: numbers_sequential_def)
  define n where "n = (if ns = [] then 1 else Max (set ns) + 1)"
  have mem: "Max (set ns) \<in> set ns" if "ns \<noteq> []" using that by simp
  have n: "n \<le> 9999" using b [OF mem] by (cases "ns = []") (auto simp: n_def)
  have gen: "generate_folio_number day pid s = (Inr (sequence_number day n), s)"
  proof (cases "ns = []")
    case True
    with ns show ?thesis
      by (simp add: generate_folio_number_def numbers_of_day_def sequence_number_def n_def)
  next
    case False
    have lt: "Max (set ns) < 10000" using b [OF mem [OF False]] by simp
    have "str_max (numbers_of_day s day pid) = Some (sequence_number day (Max (set ns)))"
      unfolding ns using False b by (intro str_max_numbers) (auto intro: less_trans)
    then show ?thesis using False lt
      by (simp add: generate_folio_number_def numbers_of_day_def after_last_dash_number parse_print4
          n_def) (simp add: sequence_number_def)
  qed
  have "f_number f \<noteq> sequence_number day n" if f: "f \<in> set (folios s)" "f_property f = pid" for f
  proof
    assume eq: "f_number f = sequence_number day n"
    then have "f_number f \<in> set (numbers_of_day s day pid)"
      using f starts_with_sequence [of day n] by (force simp: numbers_of_day_def sel_def)
    then obtain m where m: "m \<in> set ns" "f_number f = sequence_number day m" unfolding ns by auto
    then have "m = n" using eq b [OF m(1)] n sequence_number_inject [of m n day] by simp
    moreover have "m < n" using m(1) by (auto simp: n_def less_Suc_eq_le)
    ultimately show False by simp
  qed
  with gen n show ?thesis using that by blast
qed

text \<open>A folio can always be created for an existing reservation while the numbers last.\<close>

lemma create_folio_returns:
  assumes "numbers_sequential s day (fd_property dto)"
    and "\<And>r. fd_reservation dto = Some r \<Longrightarrow> \<exists>x \<in> set (reservations s). r_id x = r \<and> r_property x = fd_property dto"
    and "\<And>b. fd_booking dto = Some b \<Longrightarrow> \<exists>x \<in> set (bookings s). b_id x = b \<and> b_property x = fd_property dto"
  obtains n where "n \<le> 9999"
    and "\<forall>f \<in> set (folios s). f_property f = fd_property dto \<longrightarrow> f_number f \<noteq> sequence_number day n"
    and "create_folio in_tx day dto s =
    (Inr (new_folio dto (sequence_number day n) (fresh s)),
     sent in_tx ''folio.created'' ''folio'' (fresh s) (fd_property dto)
       (folios_update (\<lambda>t. t @ [new_folio dto (sequence_number day n) (fresh s)]) (bump s)))"
proof -
  from assms(1) obtain n where n: "generate_folio_number day (fd_property dto) s = (Inr (sequence_number day n), s)"
      "n \<le> 9999"
      "\<And>f. f \<in> set (folios s) \<Longrightarrow> f_property f = fd_property dto \<Longrightarrow> f_number f \<noteq> sequence_number day n"
    by (rule generated_number) blast
  have gen: "bnd (generate_folio_number day (fd_property dto)) k s = k (sequence_number day n) s"
    for k :: "string \<Rightarrow> folio op"
    by (rule bnd_Inr) (rule n(1))
  have r: "case fd_reservation dto of None \<Rightarrow> True
      | Some r \<Rightarrow> sel (\<lambda>x. r_id x = r \<and> r_property x = fd_property dto) (reservations s) \<noteq> []"
    using assms(2) by (auto simp: sel_Nil_iff split: option.split)
  have b: "case fd_booking dto of None \<Rightarrow> True
      | Some b \<Rightarrow> sel (\<lambda>x. b_id x = b \<and> b_property x = fd_property dto) (bookings s) \<noteq> []"
    using assms(3) by (auto simp: sel_Nil_iff split: option.split)
  have clash: "sel (\<lambda>f. f_property f = fd_property dto \<and> f_number f = sequence_number day n) (folios s) = []"
    using n(3) by (auto simp: sel_Nil_iff)
  have "create_folio in_tx day dto s =
    (Inr (new_folio dto (sequence_number day n) (fresh s)),
     sent in_tx ''folio.created'' ''folio'' (fresh s) (fd_property dto)
       (folios_update (\<lambda>t. t @ [new_folio dto (sequence_number day n) (fresh s)]) (bump s)))"
    using r b clash gen
    by (simp add: create_folio_def bump_def sent_def) (simp add: new_folio_def)
  then show ?thesis using that [OF n(2)] n(3) by blast
qed

end
