(* ===== verification/Payment_Facts.thy ===== *)
theory Payment_Facts
  imports Payment Folio_Facts
begin

text \<open>
  What the payment operations guarantee: claims of a payment are won by one request, the ledger
  invariant survives every operation, refunds never exceed the payment they return whatever
  happens during the gateway call, and a hosted checkout is completed at most once.
\<close>

section \<open>Lookup and claims\<close>

definition payment_of :: "hotel \<Rightarrow> ident \<Rightarrow> ident \<Rightarrow> payment option" where
  "payment_of s i pid = first_row (sel (is_payment i pid) (payments s))"

lemma ends_find_payment_row [wp]:
  "ends (find_payment_row i pid) Q E s =
    (case payment_of s i pid of None \<Rightarrow> E (NotFound ''Payment not found'') s | Some y \<Rightarrow> Q y s)"
  by (simp add: find_payment_row_def wp payment_of_def)

lemma payment_of_SomeD:
  "payment_of s i pid = Some y \<Longrightarrow> y \<in> set (payments s) \<and> y_id y = i \<and> y_property y = pid"
  unfolding payment_of_def by (drule first_sel_SomeD) (simp add: is_payment_def)

lemma unique_payment:
  "wf_hotel s \<Longrightarrow> payment_of s i pid = Some y \<Longrightarrow> z \<in> set (payments s) \<Longrightarrow> is_payment i pid z \<Longrightarrow> z = y"
  using distinct_key_unique [of y_id "payments s" z y] payment_of_SomeD [of s i pid y]
  by (simp add: wf_hotel_def keys_ok_def is_payment_def)

lemma payment_of_upd:
  assumes "\<And>q. is_payment i pid (f q) = is_payment i pid q"
  shows "payment_of (payments_update (upd c f) s) i pid = map_option (\<lambda>r. if c r then f r else r) (payment_of s i pid)"
proof -
  have "sel (is_payment i pid) (upd c f t) = map (\<lambda>r. if c r then f r else r) (sel (is_payment i pid) t)" for t
    using assms by (induction t) (auto simp: sel_def upd_def)
  then show ?thesis by (simp add: payment_of_def)
qed

definition payment_hit :: "ident \<Rightarrow> ident \<Rightarrow> payment_status list \<Rightarrow> payment \<Rightarrow> bool" where
  "payment_hit i pid qs y \<longleftrightarrow> is_payment i pid y \<and> y_status y \<in> set qs"

lemma claim_payment_cases:
  assumes wf: "wf_hotel s"
  shows "claim_payment i pid qs f msg s =
    (case payment_of s i pid of
       None \<Rightarrow> (Inl (NotFound ''Payment not found''), s)
     | Some y \<Rightarrow> if y_status y \<in> set qs then (Inr (f y), payments_update (upd (payment_hit i pid qs) f) s)
         else (Inl (Conflict msg), s))"
proof -
  let ?c = "\<lambda>y. is_payment i pid y \<and> y_status y \<in> set qs"
  have miss: "upd ?c f (payments s) = payments s" if "\<forall>y \<in> set (payments s). \<not> ?c y"
    by (rule upd_none) (use that in blast)
  show ?thesis
  proof (cases "payment_of s i pid")
    case None
    then have no: "\<forall>y \<in> set (payments s). \<not> is_payment i pid y"
      by (simp only: payment_of_def first_sel_None_iff)
    then have "first_row (sel ?c (payments s)) = None" by (simp only: first_sel_None_iff) blast
    with no miss None show ?thesis
      by (simp add: claim_payment_def find_payment_row_def payment_of_def)
  next
    case (Some y)
    have y: "y \<in> set (payments s)" "is_payment i pid y"
      using payment_of_SomeD [OF Some] by (simp_all add: is_payment_def)
    show ?thesis
    proof (cases "y_status y \<in> set qs")
      case True
      have "first_row (sel ?c (payments s)) = Some y"
        using wf y True
        by (intro first_sel_key [where k = y_id]) (auto simp: wf_hotel_def keys_ok_def is_payment_def)
      with Some True show ?thesis by (simp add: claim_payment_def payment_hit_def [abs_def])
    next
      case False
      then have no: "\<forall>z \<in> set (payments s). \<not> ?c z" using unique_payment [OF wf Some] by blast
      then have "first_row (sel ?c (payments s)) = None" by (simp only: first_sel_None_iff)
      with no miss False Some show ?thesis
        by (simp add: claim_payment_def find_payment_row_def payment_of_def)
    qed
  qed
qed

lemma ends_claim_payment:
  "wf_hotel s \<Longrightarrow> ends (claim_payment i pid qs f msg) Q E s =
    (case payment_of s i pid of
       None \<Rightarrow> E (NotFound ''Payment not found'') s
     | Some y \<Rightarrow> if y_status y \<in> set qs then Q (f y) (payments_update (upd (payment_hit i pid qs) f) s)
         else E (Conflict msg) s)"
  by (simp add: ends_def claim_payment_cases split: option.split)

definition set_payment_status :: "payment_status \<Rightarrow> payment \<Rightarrow> payment" where
  "set_payment_status q y = y\<lparr>y_status := q\<rparr>"

definition payment_status_in :: "good_hotel \<Rightarrow> ident \<times> ident \<Rightarrow> payment_status option" where
  "payment_status_in g k = map_option y_status (payment_of (the_hotel g) (fst k) (snd k))"

definition good_payment_claim ::
  "ident \<times> ident \<Rightarrow> payment_status list \<Rightarrow> payment_status \<Rightarrow> (good_hotel, payment) prog" where
  "good_payment_claim k froms target =
     (\<lambda>g. case claim_payment (fst k) (snd k) froms (set_payment_status target) [] (the_hotel g) of
        (res, t) \<Rightarrow> (res, Good t))"

interpretation payment_claims: claim_store payment_status_in good_payment_claim
proof
  fix g k q froms and target :: payment_status
  assume q: "payment_status_in g k = Some q"
  let ?s = "the_hotel g"
  let ?t = "payments_update (upd (payment_hit (fst k) (snd k) froms) (set_payment_status target)) ?s"
  have wf: "wf_hotel ?s" using the_hotel [of g] by simp
  obtain y where y: "payment_of ?s (fst k) (snd k) = Some y" "y_status y = q"
    using q by (auto simp: payment_status_in_def)
  have wft: "wf_hotel ?t"
    using wf_update_payments [OF wf, of "set_payment_status target"] by (simp add: set_payment_status_def)
  show "\<exists>r t. good_payment_claim k froms target g = (Inr r, t) \<and> payment_status_in t k = Some target"
    if "q \<in> set froms"
  proof -
    have "payment_hit (fst k) (snd k) froms y"
      using y that payment_of_SomeD [OF y(1)] by (simp add: payment_hit_def is_payment_def)
    then show ?thesis
      using that y wft payment_of_upd [of "fst k" "snd k" "set_payment_status target" _ ?s]
      by (simp add: good_payment_claim_def claim_payment_cases [OF wf] payment_status_in_def
          Good_inverse set_payment_status_def is_payment_def)
  qed
  show "\<exists>e. good_payment_claim k froms target g = (Inl e, g)" if "q \<notin> set froms"
    using that y by (simp add: good_payment_claim_def claim_payment_cases [OF wf] the_hotel_inverse)
qed

section \<open>Writes to payments and the ledger\<close>

definition same_payer :: "(payment \<Rightarrow> payment) \<Rightarrow> bool" where
  "same_payer f \<longleftrightarrow> (\<forall>y. y_id (f y) = y_id y \<and> y_property (f y) = y_property y \<and> y_folio (f y) = y_folio y \<and>
     y_house (f y) = y_house y \<and> y_amount (f y) = y_amount y \<and> y_original (f y) = y_original y)"

lemma ledger_base_upd_payments: "ledger_base s \<Longrightarrow> same_payer f \<Longrightarrow> ledger_base (payments_update (upd c f) s)"
  using wf_update_payments [of s f c]
  by (auto simp: ledger_base_def refs_ok_def cents_ok_def rules_fit_def set_upd same_payer_def)

lemma folio_charged_payments [simp]: "folio_charged (payments_update h s) = folio_charged s"
  by (rule ext) (simp add: folio_charged_def)

lemma folio_paid_upd_same:
  assumes "same_payer f"
    and "\<And>y. y \<in> set (payments s) \<Longrightarrow> c y \<Longrightarrow> y_folio y = Some (fst k) \<Longrightarrow> y_property y = snd k \<Longrightarrow>
      counts_as_paid (f y) = counts_as_paid y"
  shows "folio_paid (payments_update (upd c f) s) k = folio_paid s k"
proof -
  have "total y_amount (sel d (upd c f t)) = total y_amount (sel d t)"
    if "\<And>y. y \<in> set t \<Longrightarrow> c y \<Longrightarrow> d (f y) = d y" for d t
    using that assms(1) by (induction t) (auto simp: sel_def upd_def same_payer_def)
  moreover have "folio_payment_sum_where (fst k) (snd k) (f y) = folio_payment_sum_where (fst k) (snd k) y"
    if "y \<in> set (payments s)" "c y" for y
    using assms that by (auto simp: folio_payment_sum_where_def same_payer_def)
  ultimately show ?thesis by (simp add: folio_paid_def)
qed

lemma folio_books_upd_payments:
  assumes "folio_books X s" and "same_payer f"
    and "\<And>y fid. y \<in> set (payments s) \<Longrightarrow> c y \<Longrightarrow> y_folio y = Some fid \<Longrightarrow> (fid, y_property y) \<notin> X \<Longrightarrow>
      counts_as_paid (f y) = counts_as_paid y"
  shows "folio_books X (payments_update (upd c f) s)"
proof (rule folio_ledger.posting [OF assms(1)])
  fix k assume "k \<notin> X"
  then show "folio_charged (payments_update (upd c f) s) k = folio_charged s k \<and>
      folio_paid (payments_update (upd c f) s) k = folio_paid s k"
    using assms(3) by (intro conjI folio_paid_upd_same [OF assms(2)]) auto
qed simp_all

lemma ledger_ok_upd_payments:
  assumes "ledger_ok s" and "same_payer f"
    and "\<And>y. y \<in> set (payments s) \<Longrightarrow> c y \<Longrightarrow> counts_as_paid (f y) = counts_as_paid y"
  shows "ledger_ok (payments_update (upd c f) s)"
  using assms by (intro ledger_okI ledger_base_upd_payments folio_books_upd_payments) (auto simp: ledger_ok_def)

lemma ledger_ok_add_payment:
  "ledger_ok s \<Longrightarrow> good_payment s y \<Longrightarrow> \<not> counts_as_paid y \<Longrightarrow> ledger_ok (add_payment y s)"
  by (intro ledger_okI ledger_base_add_payment folio_books_add_payment) (auto simp: ledger_ok_def)

lemma ledger_ok_paid_in:
  "ledger_ok s \<Longrightarrow> good_payment s y \<Longrightarrow> y_folio y = Some fid \<Longrightarrow> y_property y = pid \<Longrightarrow>
   ledger_ok (recalc_folio (fid, pid) (add_payment y s))"
  by (intro ledger_ok_recalc_one ledger_base_add_payment folio_books_add_payment)
    (auto simp: ledger_ok_def intro: folio_books_mono)

lemma ends_recalculate_of [wp]:
  "ends (recalculate_of fo pid) Q E s =
    (case fo of None \<Rightarrow> Q () s | Some fid \<Rightarrow> Q () (recalc_folio (fid, pid) s))"
  by (simp add: recalculate_of_def wp split: option.split)

lemma ends_available [wp]:
  "ends (assert_authorization_available mc pid p a c) Q E s =
    (case fst (assert_authorization_available mc pid p a c s) of Inl e \<Rightarrow> E e s | Inr u \<Rightarrow> Q () s)"
  by (simp add: assert_authorization_available_def ends_def guard_def bnd_def split: sum.split)

lemma available_state [simp]: "snd (assert_authorization_available mc pid p a c s) = s"
  by (simp add: assert_authorization_available_def guard_def bnd_def split: sum.split)

lemma keeps_available [keeps]: "keeps_inv I (assert_authorization_available mc pid p a c)"
  by (simp add: keeps_inv_def)

lemma keeps_authorize_options [keeps]: "keeps_inv I (build_authorize_gateway_options mc dto)"
  unfolding build_authorize_gateway_options_def by (intro keeps)

lemma keeps_lifecycle_options [keeps]: "keeps_inv I (build_lifecycle_gateway_options mc y)"
  unfolding build_lifecycle_gateway_options_def by (intro keeps)

section \<open>What may happen during a gateway call\<close>

text \<open>
  \<open>sound X\<close>: the ledger invariant with the folios \<open>X\<close> awaiting a recalculation, and no payment
  returned beyond its amount. \<open>meanwhile\<close> relates two states with other requests' work between
  them: payments are neither deleted nor moved, and a voided one stays voided. A program is
  \<open>orderly\<close> when it respects both; a gateway call is a program, and being orderly is all that is
  asked of what happens while it is in flight.
\<close>

definition refunded :: "hotel \<Rightarrow> ident \<Rightarrow> ident \<Rightarrow> decimal" where
  "refunded s i pid = sum_refund_children (sel (refund_child i pid) (payments s))"

definition refunds_ok :: "hotel \<Rightarrow> bool" where
  "refunds_ok s \<longleftrightarrow> (\<forall>y \<in> set (payments s). (\<forall>i. y_original y = Some i \<longrightarrow> i < fresh s) \<and>
     (0 < y_amount y \<longrightarrow> refunded s (y_id y) (y_property y) \<le> y_amount y))"

definition sound :: "(ident \<times> ident) set \<Rightarrow> hotel \<Rightarrow> bool" where
  "sound X s \<longleftrightarrow> ledger_base s \<and> folio_books X s \<and> refunds_ok s"

definition kept_row :: "payment \<Rightarrow> payment \<Rightarrow> bool" where
  "kept_row y z \<longleftrightarrow> y_id z = y_id y \<and> y_property z = y_property y \<and> y_folio z = y_folio y \<and>
     y_amount z = y_amount y \<and> (y_status y = PayVoided \<longrightarrow> y_status z = PayVoided)"

definition meanwhile :: "hotel \<Rightarrow> hotel \<Rightarrow> bool" where
  "meanwhile s t \<longleftrightarrow> fresh s \<le> fresh t \<and> (\<forall>y \<in> set (payments s). \<exists>z \<in> set (payments t). kept_row y z)"

definition orderly :: "'a op \<Rightarrow> bool" where
  "orderly m \<longleftrightarrow> (\<forall>X s. sound X s \<longrightarrow> sound X (snd (m s)) \<and> meanwhile s (snd (m s)))"

lemma kept_row_refl [simp]: "kept_row y y"
  by (simp add: kept_row_def)

lemma kept_row_trans: "kept_row x y \<Longrightarrow> kept_row y z \<Longrightarrow> kept_row x z"
  by (simp add: kept_row_def)

lemma meanwhile_refl [simp]: "meanwhile s s"
  unfolding meanwhile_def using kept_row_refl by blast

lemma meanwhile_trans: "meanwhile s t \<Longrightarrow> meanwhile t u \<Longrightarrow> meanwhile s u"
  unfolding meanwhile_def by (meson kept_row_trans le_trans)

lemma meanwhile_row: "meanwhile s t \<Longrightarrow> payment_of s i pid = Some y \<Longrightarrow> ledger_base t \<Longrightarrow>
    \<exists>z. payment_of t i pid = Some z \<and> kept_row y z"
proof -
  assume m: "meanwhile s t" and y: "payment_of s i pid = Some y" and t: "ledger_base t"
  from payment_of_SomeD [OF y] m obtain z where z: "z \<in> set (payments t)" "kept_row y z"
    by (auto simp: meanwhile_def)
  have "payment_of t i pid = Some z" unfolding payment_of_def
    using t z payment_of_SomeD [OF y]
    by (intro first_sel_key [where k = y_id])
      (auto simp: ledger_base_def wf_hotel_def keys_ok_def is_payment_def kept_row_def)
  with z show ?thesis by blast
qed

lemma orderly_ends: "orderly m \<longleftrightarrow>
    (\<forall>X s. sound X s \<longrightarrow> ends m (\<lambda>_ t. sound X t \<and> meanwhile s t) (\<lambda>_ t. sound X t \<and> meanwhile s t) s)"
proof -
  have "ends m (\<lambda>_. P) (\<lambda>_. P) s \<longleftrightarrow> P (snd (m s))" for P s
    by (simp add: ends_def split: prod.split sum.split)
  then show ?thesis by (simp add: orderly_def)
qed

lemma orderlyI: "(\<And>X s. sound X s \<Longrightarrow> ends m (\<lambda>_ t. sound X t \<and> meanwhile s t) (\<lambda>_ t. sound X t \<and> meanwhile s t) s)
    \<Longrightarrow> orderly m"
  by (simp add: orderly_ends)

lemma orderlyD: "orderly m \<Longrightarrow> sound X s \<Longrightarrow>
    (\<And>r t. sound X t \<Longrightarrow> meanwhile s t \<Longrightarrow> Q r t) \<Longrightarrow> (\<And>e t. sound X t \<Longrightarrow> meanwhile s t \<Longrightarrow> E e t) \<Longrightarrow> ends m Q E s"
  by (rule ends_weaken [where Q = "\<lambda>_ t. sound X t \<and> meanwhile s t" and E = "\<lambda>_ t. sound X t \<and> meanwhile s t"])
    (auto simp: orderly_ends)

lemma orderly_keeps: "orderly m \<Longrightarrow> sound {} s \<Longrightarrow> ledger_ok (snd (m s))"
  by (auto simp: orderly_def sound_def ledger_ok_def)

lemma orderly_ret [simp]: "orderly (ret x)"
  by (simp add: orderly_def)

text \<open>Refunds and the writes of the payment operations.\<close>

lemma refunded_cong: "payments t = payments s \<Longrightarrow> refunded t i pid = refunded s i pid"
  by (simp add: refunded_def)

lemma refunds_ok_cong: "payments t = payments s \<Longrightarrow> fresh s \<le> fresh t \<Longrightarrow> refunds_ok s \<Longrightarrow> refunds_ok t"
  unfolding refunds_ok_def using refunded_cong [of t s] by fastforce

lemma sum_refund_children_upd:
  "same_payer f \<Longrightarrow> sum_refund_children (sel (refund_child i pid) (upd c f t)) = sum_refund_children (sel (refund_child i pid) t)"
  unfolding sum_refund_children_eq by (rule total_upd_same) (simp_all add: refund_child_def same_payer_def)

lemma refunds_ok_upd:
  assumes "refunds_ok s" and f: "same_payer f"
  shows "refunds_ok (payments_update (upd c f) s)"
proof -
  have "refunded (payments_update (upd c f) s) i pid = refunded s i pid" for i pid
    by (simp add: refunded_def sum_refund_children_upd [OF f])
  then show ?thesis using assms by (auto simp: refunds_ok_def set_upd same_payer_def)
qed

lemma refunded_add: "refunded (add_payment y s) i pid =
    refunded s i pid + (if refund_child i pid y then \<bar>cents (y_amount y)\<bar> else 0)"
proof -
  have "refund_child i pid (y\<lparr>y_id := n, y_amount := a\<rparr>) = refund_child i pid y" for n a
    by (simp add: refund_child_def)
  then show ?thesis by (simp add: refunded_def sum_refund_children_eq sel_append) (simp add: sel_def)
qed

lemma refunded_fresh: "refunds_ok s \<Longrightarrow> refunded s (fresh s) pid = 0"
proof -
  assume "refunds_ok s"
  then have "sel (refund_child (fresh s) pid) (payments s) = []"
    by (auto simp: sel_Nil_iff refund_child_def refunds_ok_def)
  then show ?thesis by (simp add: refunded_def sum_refund_children_eq)
qed

lemma refunds_ok_add:
  assumes "refunds_ok s" and "ledger_base s" and "\<And>i. y_original y = Some i \<Longrightarrow> i < fresh s"
    and "\<And>i z. y_original y = Some i \<Longrightarrow> payment_of s i (y_property y) = Some z \<Longrightarrow> 0 < y_amount z \<Longrightarrow>
      refunded s i (y_property y) + \<bar>cents (y_amount y)\<bar> \<le> y_amount z"
  shows "refunds_ok (add_payment y s)"
proof -
  have old: "refunded (add_payment y s) (y_id z) (y_property z) \<le> y_amount z"
    if z: "z \<in> set (payments s)" "0 < y_amount z" for z
  proof (cases "refund_child (y_id z) (y_property z) y")
    case True
    then have o: "y_original y = Some (y_id z)" "y_property y = y_property z" by (simp_all add: refund_child_def)
    have "payment_of s (y_id z) (y_property z) = Some z" unfolding payment_of_def
      using assms(2) z by (intro first_sel_key [where k = y_id])
        (auto simp: ledger_base_def wf_hotel_def keys_ok_def is_payment_def)
    with assms(4) [of "y_id z" z] o z True show ?thesis by (simp add: refunded_add)
  next
    case False
    with assms(1) z show ?thesis by (simp add: refunded_add refunds_ok_def)
  qed
  have new: "refunded (add_payment y s) (fresh s) (y_property y) = 0"
    using assms(3) by (auto simp: refunded_add refund_child_def refunded_fresh [OF assms(1)])
  from assms(1,3) old new show ?thesis by (auto simp: refunds_ok_def less_Suc_eq)
qed

lemma sound_events [simp]: "sound X (s\<lparr>events := es\<rparr>) = sound X s"
proof -
  have "refunds_ok (s\<lparr>events := es\<rparr>) = refunds_ok s" by (simp add: refunds_ok_def refunded_def)
  then show ?thesis by (simp add: sound_def)
qed

lemma meanwhile_events [simp]: "meanwhile r (s\<lparr>events := es\<rparr>) = meanwhile r s"
  by (simp add: meanwhile_def)

lemma sound_bump: "sound X s \<Longrightarrow> sound X (s\<lparr>fresh := Suc (fresh s)\<rparr>)"
  using refunds_ok_cong [of "s\<lparr>fresh := Suc (fresh s)\<rparr>" s] by (simp add: sound_def ledger_base_fresh)

lemma sound_base: "sound X s \<Longrightarrow> ledger_base s" "sound X s \<Longrightarrow> wf_hotel s"
  by (simp_all add: sound_def ledger_base_def)

lemma sound_recalc: "sound X s \<Longrightarrow> sound (X - {k}) (recalc_folio k s)"
  using refunds_ok_cong [of "recalc_folio k s" s]
  by (simp add: sound_def ledger_base_recalc folio_ledger.recalc_fixes)

lemma sound_mono: "sound X s \<Longrightarrow> X \<subseteq> Y \<Longrightarrow> sound Y s"
  by (auto simp: sound_def intro: folio_books_mono)

lemma meanwhile_bump: "meanwhile r s \<Longrightarrow> meanwhile r (s\<lparr>fresh := Suc (fresh s)\<rparr>)"
  by (auto simp: meanwhile_def)

lemma meanwhile_recalc [simp]: "meanwhile r (recalc_folio k s) = meanwhile r s"
  by (simp add: meanwhile_def)

lemma meanwhile_add: "meanwhile r s \<Longrightarrow> meanwhile r (add_payment y s)"
  by (auto simp: meanwhile_def)

lemma sound_add:
  assumes "sound X s" and "good_payment s y" and "\<And>i. y_original y = Some i \<Longrightarrow> i < fresh s"
    and "\<And>i z. y_original y = Some i \<Longrightarrow> payment_of s i (y_property y) = Some z \<Longrightarrow> 0 < y_amount z \<Longrightarrow>
      refunded s i (y_property y) + \<bar>cents (y_amount y)\<bar> \<le> y_amount z"
    and "\<And>fid. y_folio y = Some fid \<Longrightarrow> counts_as_paid y \<Longrightarrow> (fid, y_property y) \<in> Y" and "X \<subseteq> Y"
  shows "sound Y (add_payment y s)"
  using assms refunds_ok_add [of s y] folio_books_mono [of X s Y]
  by (simp add: sound_def ledger_base_add_payment folio_books_add_payment)

text \<open>A payment counted on a folio and its totals recalculated.\<close>

lemma sound_paid_in:
  assumes "sound X s" and "good_payment s y" and "y_folio y = Some fid" and "y_property y = pid"
    and "\<And>i. y_original y = Some i \<Longrightarrow> i < fresh s"
    and "\<And>i z. y_original y = Some i \<Longrightarrow> payment_of s i (y_property y) = Some z \<Longrightarrow> 0 < y_amount z \<Longrightarrow>
      refunded s i (y_property y) + \<bar>cents (y_amount y)\<bar> \<le> y_amount z"
  shows "sound X (recalc_folio (fid, pid) (add_payment y s))"
proof -
  have "sound (insert (fid, pid) X) (add_payment y s)"
    using assms by (intro sound_add [of X]) auto
  from sound_recalc [OF this, of "(fid, pid)"] show ?thesis by (rule sound_mono) blast
qed

section \<open>The operations are orderly\<close>

lemma recorded_payment_simps [simp]:
  "y_folio (recorded_payment now dto) = Some (yd_folio dto)" "y_house (recorded_payment now dto) = None"
  "y_property (recorded_payment now dto) = yd_property dto" "y_original (recorded_payment now dto) = None"
  "y_idempotency (recorded_payment now dto) = None" "y_amount (recorded_payment now dto) = yd_amount dto"
  "y_status (recorded_payment now dto) = PayCaptured"
  by (simp_all add: recorded_payment_def)

lemma authorized_payment_simps [simp]:
  "y_folio (authorized_payment now dto q tr d b e p n) = Some (ad_folio dto)"
  "y_house (authorized_payment now dto q tr d b e p n) = None"
  "y_property (authorized_payment now dto q tr d b e p n) = ad_property dto"
  "y_original (authorized_payment now dto q tr d b e p n) = None"
  "y_idempotency (authorized_payment now dto q tr d b e p n) = None"
  "y_status (authorized_payment now dto q tr d b e p n) = q"
  "y_amount (authorized_payment now dto q tr d b e p n) = ad_amount dto"
  by (simp_all add: authorized_payment_def)

lemma same_idempotency_None [simp]: "y_idempotency y = None \<Longrightarrow> \<not> same_idempotency y z"
  by (simp add: same_idempotency_def)

lemma no_idempotency_clash [simp]: "y_idempotency y = None \<Longrightarrow> sel (same_idempotency y) t = []"
  by (simp add: sel_Nil_iff)

lemma orderly_record_payment: "orderly (record_payment now dto)"
proof (rule orderlyI)
  fix X s assume s: "sound X s"
  have "sound X (recalc_folio (yd_folio dto, yd_property dto) (add_payment (recorded_payment now dto) s))"
    if "folio_of s (yd_folio dto) (yd_property dto) = Some f" for f
    using folio_of_fresh [OF sound_base(1) [OF s] that] by (intro sound_paid_in [OF s]) (simp_all add: good_payment_def)
  then show "ends (record_payment now dto) (\<lambda>_ t. sound X t \<and> meanwhile s t) (\<lambda>_ t. sound X t \<and> meanwhile s t) s"
    unfolding record_payment_def ends_bnd ends_guard ends_find_folio ends_insert_payment ends_recalculate_balance
      ends_emit ends_ret
    using s by (simp add: meanwhile_add split: option.split)
qed

lemma not_counted [simp]: "y_status y \<in> {PayPending, PayAuthorized, PayFailed, PayVoided} \<Longrightarrow> \<not> counts_as_paid y"
  by (auto simp: counts_as_paid_def parent_counts_toward_folio_balance_def)

lemma sound_uncounted:
  assumes "sound X s" and "good_payment s y" and "y_original y = None"
    and "y_status y \<in> {PayPending, PayAuthorized, PayFailed, PayVoided}"
  shows "sound X (add_payment y s)"
  using assms not_counted [OF assms(4)] by (intro sound_add [of X]) auto

lemma orderly_available [simp]: "orderly (assert_authorization_available mc pid p a c)"
  by (simp add: orderly_def)

lemma authorize_options_state [simp]: "snd (build_authorize_gateway_options mc dto s) = s"
  by (simp add: build_authorize_gateway_options_def bnd_def guard_def)

lemma lifecycle_options_state [simp]: "snd (build_lifecycle_gateway_options mc y s) = s"
  by (simp add: build_lifecycle_gateway_options_def split: option.split)

lemma ends_same_state: "(\<And>s. snd (m s) = s) \<Longrightarrow> (\<And>r. Q r s) \<Longrightarrow> (\<And>e. E e s) \<Longrightarrow> ends m Q E s"
  by (rule endsI) (metis snd_conv)+

lemma store_authorizationI:
  assumes t: "sound X t" "meanwhile s t" and fid: "ad_folio dto < fresh s"
  shows "ends (store_authorization now dto d result)
    (\<lambda>_ t. sound X t \<and> meanwhile s t) (\<lambda>_ t. sound X t \<and> meanwhile s t) t"
proof -
  from t fid have fid: "ad_folio dto < fresh t" by (auto simp: meanwhile_def)
  have uncounted: "sound X (add_payment (authorized_payment now dto q tr i b e p n) t)"
    if "q \<in> {PayPending, PayAuthorized, PayFailed}" for q tr i b e p n
    using t fid that by (intro sound_uncounted) (auto simp: good_payment_def)
  have counted: "sound X (recalc_folio (ad_folio dto, ad_property dto)
      (add_payment (authorized_payment now dto q tr i b e p n) t))" for q tr i b e p n
    using fid by (intro sound_paid_in [OF t(1)]) (simp_all add: good_payment_def)
  show ?thesis
    unfolding store_authorization_def Let_def ends_bnd ends_if ends_insert_payment ends_recalculate_balance
      ends_emit ends_ret ends_throw
    using uncounted counted t(2) by (simp add: meanwhile_add)
qed

lemma orderly_authorize_payment:
  assumes g: "orderly (gw_authorize g (ad_token dto) (ad_amount dto) (ad_currency dto))"
  shows "orderly (authorize_payment g mc now dto d)"
proof (rule orderlyI)
  fix X s assume s: "sound X s"
  let ?P = "\<lambda>t. sound X t \<and> meanwhile s t"
  have rest: "ends (build_authorize_gateway_options mc dto) (\<lambda>_. ends (gw_authorize g (ad_token dto) (ad_amount dto)
      (ad_currency dto)) (\<lambda>r. ends (store_authorization now dto d r) (\<lambda>_. ?P) (\<lambda>_. ?P)) (\<lambda>_. ?P)) (\<lambda>_. ?P) s"
    if "folio_of s (ad_folio dto) (ad_property dto) = Some f" for f
  proof (rule ends_same_state)
    have fid: "ad_folio dto < fresh s" using folio_of_fresh [OF sound_base(1) [OF s] that] .
    show "ends (gw_authorize g (ad_token dto) (ad_amount dto) (ad_currency dto))
        (\<lambda>r. ends (store_authorization now dto d r) (\<lambda>_. ?P) (\<lambda>_. ?P)) (\<lambda>_. ?P) s"
      by (rule orderlyD [OF g s]) (simp_all add: store_authorizationI fid)
  qed (use s in simp_all)
  show "ends (authorize_payment g mc now dto d) (\<lambda>_. ?P) (\<lambda>_. ?P) s"
    unfolding authorize_payment_def ends_bnd ends_guard ends_find_folio
    using s rest by (simp split: option.split)
qed

lemma same_payer_status [simp]: "same_payer (\<lambda>y. y\<lparr>y_status := q\<rparr>)"
  by (simp add: same_payer_def)

lemma same_payer_processed [simp]: "same_payer (\<lambda>y. y\<lparr>y_status := q, y_processed := p\<rparr>)"
  by (simp add: same_payer_def)

lemma sound_upd:
  assumes "sound X s" and "same_payer f" and "X \<subseteq> Y"
    and "\<And>y fid. y \<in> set (payments s) \<Longrightarrow> c y \<Longrightarrow> y_folio y = Some fid \<Longrightarrow> (fid, y_property y) \<notin> Y \<Longrightarrow>
      counts_as_paid (f y) = counts_as_paid y"
  shows "sound Y (payments_update (upd c f) s)"
  using assms folio_books_mono [of X s Y]
  by (simp add: sound_def ledger_base_upd_payments refunds_ok_upd folio_books_upd_payments)

lemma meanwhile_upd:
  assumes "meanwhile r s" and "\<And>y. y \<in> set (payments s) \<Longrightarrow> c y \<Longrightarrow> kept_row y (f y)"
  shows "meanwhile r (payments_update (upd c f) s)"
proof -
  have "meanwhile s (payments_update (upd c f) s)"
    unfolding meanwhile_def
  proof (intro conjI ballI)
    fix y assume y: "y \<in> set (payments s)"
    show "\<exists>z \<in> set (payments (payments_update (upd c f) s)). kept_row y z"
    proof (cases "c y")
      case True
      then have "f y \<in> set (upd c f (payments s))" using y by (auto simp: set_upd)
      with assms(2) [OF y True] show ?thesis by auto
    next
      case False
      then have "y \<in> set (upd c f (payments s))" using y by (auto simp: set_upd)
      then show ?thesis by (auto intro: bexI [where x = y])
    qed
  qed simp
  with assms(1) show ?thesis by (rule meanwhile_trans)
qed

text \<open>The row \<open>y\<close> of \<open>s\<close> may be reset later, as long as it was not voided in \<open>s\<close>.\<close>

lemma meanwhile_reset:
  assumes "meanwhile s t" and "wf_hotel s" and y: "payment_of s i pid = Some y" "y_status y \<noteq> PayVoided"
    and f: "same_payer f"
  shows "meanwhile s (payments_update (upd (is_payment i pid) f) t)"
  unfolding meanwhile_def
proof (intro conjI ballI)
  show "fresh s \<le> fresh (payments_update (upd (is_payment i pid) f) t)" using assms(1) by (simp add: meanwhile_def)
  fix x assume x: "x \<in> set (payments s)"
  with assms(1) obtain z where z: "z \<in> set (payments t)" "kept_row x z" by (auto simp: meanwhile_def)
  let ?z = "if is_payment i pid z then f z else z"
  have "?z \<in> set (upd (is_payment i pid) f (payments t))" using z(1) by (auto simp: set_upd)
  moreover have "kept_row x ?z"
  proof (cases "is_payment i pid z")
    case True
    with z(2) have "is_payment i pid x" by (simp add: is_payment_def kept_row_def)
    then have "x = y" using unique_payment [OF assms(2) y(1) x] by simp
    with True z(2) y(2) f show ?thesis by (simp add: kept_row_def same_payer_def)
  qed (use z in simp)
  ultimately show "\<exists>z \<in> set (payments (payments_update (upd (is_payment i pid) f) t)). kept_row x z" by auto
qed

lemma lifecycle_ends:
  "Q () s \<Longrightarrow> (\<And>e. E e s) \<Longrightarrow> ends (build_lifecycle_gateway_options mc y) Q E s"
  by (rule ends_same_state) simp_all

abbreviation as_voided :: "payment \<Rightarrow> payment" where
  "as_voided y \<equiv> y\<lparr>y_status := PayVoided\<rparr>"

abbreviation as_authorized :: "payment \<Rightarrow> payment" where
  "as_authorized y \<equiv> y\<lparr>y_status := PayAuthorized\<rparr>"

lemma finish_voidI:
  assumes g: "orderly (gw_void g (y_transaction y) (y_amount y) (VoidKey i))" and s: "sound X s"
    and y: "payment_of s i pid = Some y" "y_status y = PayAuthorized"
    and t0: "t0 = payments_update (upd (payment_hit i pid [PayAuthorized]) as_voided) s"
  shows "ends (finish_void g i pid (as_voided y)) (\<lambda>_ t. sound X t \<and> meanwhile s t) (\<lambda>_ t. sound X t \<and> meanwhile s t) t0"
proof -
  have u: "sound X t0" unfolding t0
    by (rule sound_upd [OF s]) (auto simp: payment_hit_def counts_as_paid_def parent_counts_toward_folio_balance_def)
  have su: "meanwhile s t0" unfolding t0 by (rule meanwhile_upd) (auto simp: kept_row_def payment_hit_def)
  have yu: "payment_of t0 i pid = Some (as_voided y)"
    using y payment_of_SomeD [OF y(1)] payment_of_upd [of i pid as_voided "payment_hit i pid [PayAuthorized]" s]
    by (simp add: is_payment_def payment_hit_def t0)
  have reset: "sound X (payments_update (upd (is_payment i pid) as_authorized) t) \<and>
      meanwhile s (payments_update (upd (is_payment i pid) as_authorized) t)"
    if t: "sound X t" "meanwhile t0 t" for t
  proof
    from meanwhile_row [OF t(2) yu sound_base(1) [OF t(1)]]
    obtain z where z: "payment_of t i pid = Some z" "kept_row (as_voided y) z" by blast
    have "w \<in> set (payments t) \<Longrightarrow> is_payment i pid w \<Longrightarrow> y_status w = PayVoided" for w
      using unique_payment [OF sound_base(2) [OF t(1)] z(1)] z(2) by (auto simp: kept_row_def)
    then show "sound X (payments_update (upd (is_payment i pid) as_authorized) t)"
      by (intro sound_upd [OF t(1)]) (auto simp: counts_as_paid_def parent_counts_toward_folio_balance_def)
    show "meanwhile s (payments_update (upd (is_payment i pid) as_authorized) t)"
      by (rule meanwhile_reset [OF meanwhile_trans [OF su t(2)] sound_base(2) [OF s] y(1)]) (simp_all add: y(2))
  qed
  show ?thesis unfolding finish_void_def ends_bnd
    by (rule orderlyD [of _ X]) (use g u in \<open>auto simp: wp reset meanwhile_trans [OF su]\<close>)
qed

lemma orderly_void_payment:
  assumes g: "\<And>tx a. orderly (gw_void g tx a (VoidKey i))"
  shows "orderly (void_payment g mc i pid)"
proof (rule orderlyI)
  fix X s assume s: "sound X s"
  let ?P = "\<lambda>t. sound X t \<and> meanwhile s t"
  have ok: "?P s" using s by simp
  show "ends (void_payment g mc i pid) (\<lambda>_. ?P) (\<lambda>_. ?P) s"
  proof (cases "payment_of s i pid")
    case None
    with ok show ?thesis by (simp add: void_payment_def wp)
  next
    case (Some y)
    with ok finish_voidI [OF g s Some] show ?thesis
      unfolding void_payment_def assert_generic_access_allowed_def ends_bnd ends_find_payment_row ends_guard
      by (auto intro!: lifecycle_ends simp: ends_claim_payment [OF sound_base(2) [OF s]])
  qed
qed

section \<open>Capture\<close>

abbreviation as_captured :: "timestamp \<Rightarrow> payment \<Rightarrow> payment" where
  "as_captured now y \<equiv> y\<lparr>y_status := PayCaptured, y_processed := Some now\<rparr>"

abbreviation as_uncaptured :: "payment \<Rightarrow> payment" where
  "as_uncaptured y \<equiv> y\<lparr>y_status := PayAuthorized, y_processed := None\<rparr>"

text \<open>The folio a payment belongs to, as the set of keys it may unbalance.\<close>

definition keys_of :: "ident option \<Rightarrow> ident \<Rightarrow> (ident \<times> ident) set" where
  "keys_of fo pid = (case fo of None \<Rightarrow> {} | Some fid \<Rightarrow> {(fid, pid)})"

lemma keys_of_simps [simp]: "keys_of None pid = {}" "keys_of (Some fid) pid = {(fid, pid)}"
  by (simp_all add: keys_of_def)

lemma recalculate_ofI:
  assumes "sound (keys_of fo pid \<union> X) s" and "meanwhile r s"
    and "\<And>t. sound X t \<Longrightarrow> meanwhile r t \<Longrightarrow> Q () t"
  shows "ends (recalculate_of fo pid) Q E s"
proof (cases fo)
  case None
  with assms show ?thesis by (simp add: wp)
next
  case (Some fid)
  have "sound X (recalc_folio (fid, pid) s)"
    using sound_recalc [OF assms(1), of "(fid, pid)"] Some by (auto intro: sound_mono)
  with Some assms(2,3) show ?thesis by (simp add: wp)
qed

lemma finish_captureI:
  assumes g: "orderly (gw_capture g (y_transaction y) (y_amount y) (CaptureKey i))" and s: "sound X s"
    and y: "payment_of s i pid = Some y" "y_status y = PayAuthorized"
    and t0: "t0 = payments_update (upd (payment_hit i pid [PayAuthorized]) (as_captured now)) s"
  shows "ends (finish_capture g i pid (as_captured now y)) (\<lambda>_ t. sound X t \<and> meanwhile s t)
    (\<lambda>_ t. sound (keys_of (y_folio y) pid \<union> X) t \<and> meanwhile s t) t0"
proof -
  let ?Y = "keys_of (y_folio y) pid \<union> X"
  have only: "z = y" if "z \<in> set (payments s)" "payment_hit i pid [PayAuthorized] z" for z
    using unique_payment [OF sound_base(2) [OF s] y(1) that(1)] that(2) by (simp add: payment_hit_def)
  have u: "sound ?Y t0" unfolding t0
    by (rule sound_upd [OF s]) (use only payment_of_SomeD [OF y(1)] in auto)
  have su: "meanwhile s t0" unfolding t0 by (rule meanwhile_upd) (auto simp: kept_row_def payment_hit_def)
  have yu: "payment_of t0 i pid = Some (as_captured now y)"
    using y payment_of_SomeD [OF y(1)] payment_of_upd [of i pid "as_captured now" "payment_hit i pid [PayAuthorized]" s]
    by (simp add: is_payment_def payment_hit_def t0)
  have reset: "sound ?Y (payments_update (upd (is_payment i pid) as_uncaptured) t) \<and>
      meanwhile s (payments_update (upd (is_payment i pid) as_uncaptured) t)"
    if t: "sound ?Y t" "meanwhile t0 t" for t
  proof
    from meanwhile_row [OF t(2) yu sound_base(1) [OF t(1)]]
    obtain z where z: "payment_of t i pid = Some z" "kept_row (as_captured now y) z" by blast
    have "(fid, y_property w) \<in> ?Y"
      if "w \<in> set (payments t)" "is_payment i pid w" "y_folio w = Some fid" for w fid
      using unique_payment [OF sound_base(2) [OF t(1)] z(1) that(1,2)] z(2) that
      by (simp add: kept_row_def is_payment_def)
    then show "sound ?Y (payments_update (upd (is_payment i pid) as_uncaptured) t)"
      by (intro sound_upd [OF t(1)]) auto
    show "meanwhile s (payments_update (upd (is_payment i pid) as_uncaptured) t)"
      by (rule meanwhile_reset [OF meanwhile_trans [OF su t(2)] sound_base(2) [OF s] y(1)]) (simp_all add: y(2))
  qed
  show ?thesis unfolding finish_capture_def ends_bnd
  proof (rule orderlyD [of _ ?Y])
    fix r t assume t: "sound ?Y t" "meanwhile t0 t"
    show "ends (if \<not> gr_success r then
       bnd (update_where payments payments_update (is_payment i pid) as_uncaptured) (\<lambda>_. throw (BadRequest ''Capture failed''))
     else bnd (recalculate_of (y_folio (as_captured now y)) pid) (\<lambda>_.
       bnd (emit ''payment.received'' ''payment'' (y_id (as_captured now y)) pid) (\<lambda>_.
       ret (safe_payment_response (as_captured now y))))) (\<lambda>_ t. sound X t \<and> meanwhile s t)
         (\<lambda>_ t. sound ?Y t \<and> meanwhile s t) t"
      using reset [OF t] t meanwhile_trans [OF su t(2)]
      by (auto simp: ends_bnd ends_if ends_update_where ends_throw ends_emit ends_ret
          intro!: recalculate_ofI [where r = s])
  qed (use g u meanwhile_trans [OF su] in \<open>simp_all\<close>)
qed

text \<open>
  A capture whose gateway call succeeds leaves every folio balanced, whatever happened during the
  call. When the call fails the payment is authorized again, and only its own folio can be left
  with totals that another request computed in between.
\<close>

lemma capture_paymentI:
  assumes g: "\<And>tx a. orderly (gw_capture g tx a (CaptureKey i))" and s: "sound X s"
  shows "ends (capture_payment g mc now i pid) (\<lambda>_ t. sound X t \<and> meanwhile s t)
    (\<lambda>_ t. (\<exists>Y. sound (Y \<union> X) t \<and> (\<forall>y. payment_of s i pid = Some y \<longrightarrow> Y \<subseteq> keys_of (y_folio y) pid)) \<and> meanwhile s t) s"
    (is "ends _ _ ?E s")
proof (cases "payment_of s i pid")
  case None
  with s have "\<And>e. ?E e s" by (auto intro!: exI [of _ "{}"])
  with None show ?thesis by (simp add: capture_payment_def wp)
next
  case (Some y)
  have stay: "?E e s" for e using s by (auto intro!: exI [of _ "{}"])
  have "ends (finish_capture g i pid (as_captured now y)) (\<lambda>_ t. sound X t \<and> meanwhile s t) ?E
      (payments_update (upd (payment_hit i pid [PayAuthorized]) (as_captured now)) s)"
    if "y_status y = PayAuthorized"
    by (rule ends_weaken [OF finish_captureI [OF g s Some that refl]]) (use Some in auto)
  with Some s stay show ?thesis
    unfolding capture_payment_def assert_generic_access_allowed_def ends_bnd ends_find_payment_row ends_guard
    by (auto intro!: lifecycle_ends simp: ends_claim_payment [OF sound_base(2) [OF s]])
qed

section \<open>Refund\<close>

lemma ends_find_replay:
  "Q None s \<Longrightarrow> (\<And>y. Q (Some y) s) \<Longrightarrow> (\<And>e. E e s) \<Longrightarrow> ends (find_replay i pid key a) Q E s"
  by (simp add: find_replay_def wp split: option.split)

lemma prepare_refundI:
  assumes "\<And>e. E e s"
    and "\<And>y plan. payment_of s i pid = Some y \<Longrightarrow> rp_original plan = y \<Longrightarrow> (rp_replay plan = None \<Longrightarrow>
      0 < rp_refund plan \<and> rp_total_after plan = refunded s i pid + rp_refund plan \<and> rp_total_after plan \<le> y_amount y) \<Longrightarrow> Q plan s"
  shows "ends (prepare_refund i pid amount key) Q E s"
proof (cases "payment_of s i pid")
  case None
  with assms(1) show ?thesis by (simp add: prepare_refund_def wp)
next
  case (Some y)
  have "ends (check_remaining i pid y a) Q E s" if "0 < a" for a
    unfolding check_remaining_def ends_bnd ends_ask ends_guard ends_ret
    using that assms(1) by (auto simp: refunded_def intro!: assms(2) [OF Some])
  moreover have "Q \<lparr>rp_original = y, rp_total_after = y_amount y, rp_refund = a, rp_replay = Some z\<rparr> s" for a z
    by (rule assms(2) [OF Some]) simp_all
  ultimately show ?thesis
    using Some assms(1) unfolding prepare_refund_def assert_generic_access_allowed_def Let_def
    by (auto simp: ends_bnd ends_find_payment_row ends_guard ends_ret not_le intro!: ends_find_replay)
qed

lemma refund_row_simps [simp]:
  "y_folio (refund_row now i pid key tr a z) = y_folio z" "y_house (refund_row now i pid key tr a z) = None"
  "y_property (refund_row now i pid key tr a z) = pid" "y_original (refund_row now i pid key tr a z) = Some i"
  "y_amount (refund_row now i pid key tr a z) = cents (- a)" "y_status (refund_row now i pid key tr a z) = PayCaptured"
  by (simp_all add: refund_row_def)

lemma fits_refunded: "ledger_base s \<Longrightarrow> fits 2 (refunded s i pid)"
  unfolding refunded_def sum_refund_children_eq
  by (rule fits_total) (auto simp: ledger_base_def cents_ok_def sel_def)

lemma sound_refund_row:
  assumes t: "sound X t" and z: "payment_of t i pid = Some z"
    and a: "0 < a" "refunded t i pid + a \<le> y_amount z"
  shows "sound (keys_of (y_folio z) pid \<union> X) (add_payment (refund_row now i pid key tr a z) t)"
proof (rule sound_add [OF t])
  have zt: "z \<in> set (payments t)" "y_id z = i" "y_property z = pid" using payment_of_SomeD [OF z] by auto
  have base: "ledger_base t" using t by (rule sound_base)
  show "good_payment t (refund_row now i pid key tr a z)"
    using base zt by (auto simp: ledger_base_def refs_ok_def good_payment_def)
  show "y_original (refund_row now i pid key tr a z) = Some j \<Longrightarrow> j < fresh t" for j
    using base zt by (auto simp: ledger_base_def wf_hotel_def keys_ok_def)
  have "cents a \<le> y_amount z - refunded t i pid"
  proof (rule to_fixed_le_fits)
    have "fits 2 (y_amount z)" using base zt by (simp add: ledger_base_def cents_ok_def)
    then show "fits 2 (y_amount z - refunded t i pid)" using fits_refunded [OF base] by simp
  qed (use a in simp)
  moreover have "0 \<le> cents a" using a by simp
  ultimately have "refunded t i pid + \<bar>cents (cents (- a))\<bar> \<le> y_amount z"
    by (simp add: to_fixed_uminus)
  then show "y_original (refund_row now i pid key tr a z) = Some j \<Longrightarrow>
      payment_of t j (y_property (refund_row now i pid key tr a z)) = Some w \<Longrightarrow> 0 < y_amount w \<Longrightarrow>
      refunded t j (y_property (refund_row now i pid key tr a z)) +
        \<bar>cents (y_amount (refund_row now i pid key tr a z))\<bar> \<le> y_amount w" for j w
    using z by simp
qed auto

lemma book_refundI:
  assumes t: "sound X t" and z: "payment_of t i pid = Some z" and le: "rp_total_after plan \<le> y_amount z"
    and E: "\<And>e u. E e u" and Q0: "\<And>r. Q (r, False) t"
    and Q1: "\<And>r u. sound (keys_of (y_folio z) pid \<union> X) u \<Longrightarrow> meanwhile t u \<Longrightarrow> Q (r, True) u"
  shows "ends (book_refund now i pid key plan tr) Q E t"
proof -
  let ?a = "min (rp_refund plan) (rp_total_after plan - refunded t i pid)"
  have "sound (keys_of (y_folio z) pid \<union> X) (add_payment (refund_row now i pid key tr ?a z) t)" if "0 < ?a"
    using that le by (intro sound_refund_row [OF t z]) (auto simp: min_def)
  then have "ends (append_refund now i pid key tr z ?a) Q E t"
    unfolding append_refund_def ends_bnd ends_guard ends_insert_payment ends_ret
    using E by (auto simp: not_le intro!: Q1 meanwhile_add)
  then show ?thesis unfolding book_refund_def ends_bnd ends_find_payment_row ends_ask
    using Q0 E z by (auto simp: ends_ret refunded_def split: option.split intro!: ends_find_replay)
qed

lemma finish_refundI:
  assumes s: "sound X s" and y: "payment_of s i pid = Some y" and plan: "rp_original plan = y" "rp_total_after plan \<le> y_amount y"
    and t: "sound X t" "meanwhile s t"
  shows "ends (finish_refund now i pid key plan result)
    (\<lambda>_ t. sound X t \<and> meanwhile s t) (\<lambda>_ t. sound X t \<and> meanwhile s t) t"
proof -
  let ?P = "\<lambda>t. sound X t \<and> meanwhile s t"
  from meanwhile_row [OF t(2) y sound_base(1) [OF t(1)]]
  obtain z where z: "payment_of t i pid = Some z" "y_amount z = y_amount y" "y_folio z = y_folio y"
    by (auto simp: kept_row_def)
  have "ends (transact (book_refund now i pid key plan tr)) (\<lambda>booked.
      ends (if snd booked then bnd (recalculate_of (y_folio y) pid) (\<lambda>_.
          emit ''payment.refunded'' ''payment'' (y_id (fst booked)) pid) else ret ())
        (\<lambda>_. ?P) (\<lambda>_. ?P)) (\<lambda>_. ?P) t" for tr
    unfolding ends_transact
  proof (rule book_refundI [OF t(1) z(1)])
    fix r u assume u: "sound (keys_of (y_folio z) pid \<union> X) u" "meanwhile t u"
    show "ends (if snd (r, True) then bnd (recalculate_of (y_folio y) pid) (\<lambda>_.
          emit ''payment.refunded'' ''payment'' (y_id (fst (r, True))) pid) else ret ()) (\<lambda>_. ?P) (\<lambda>_. ?P) u"
      using u z meanwhile_trans [OF t(2) u(2)]
      by (auto simp: ends_bnd ends_emit intro!: recalculate_ofI [where X = X and r = s])
  qed (use t plan z in \<open>simp_all add: ends_ret\<close>)
  with t plan(1) show ?thesis unfolding finish_refund_def ends_bnd_fun ends_guard plan(1)
    by (simp add: ends_ret [abs_def])
qed

lemma orderly_refund_payment:
  assumes g: "\<And>tx a k. orderly (gw_refund g tx a k)"
  shows "orderly (refund_payment g mc now i pid amount key)"
proof (rule orderlyI)
  fix X s assume s: "sound X s"
  let ?P = "\<lambda>t. sound X t \<and> meanwhile s t"
  show "ends (refund_payment g mc now i pid amount key) (\<lambda>_. ?P) (\<lambda>_. ?P) s"
    unfolding refund_payment_def ends_bnd ends_transact
  proof (rule prepare_refundI)
    fix y and plan :: refund_plan assume y: "payment_of s i pid = Some y" and orig: "rp_original plan = y"
      and plan: "rp_replay plan = None \<Longrightarrow> 0 < rp_refund plan \<and>
        rp_total_after plan = refunded s i pid + rp_refund plan \<and> rp_total_after plan \<le> y_amount y"
    have "ends (build_lifecycle_gateway_options mc y) (\<lambda>_. ends (gw_refund g tx a k) (\<lambda>r.
        ends (finish_refund now i pid key plan r) (\<lambda>_. ?P) (\<lambda>_. ?P)) (\<lambda>_. ?P)) (\<lambda>_. ?P) s"
      if "rp_replay plan = None" for tx a k
      by (rule lifecycle_ends, rule orderlyD [OF g s])
        (use finish_refundI [OF s y orig] plan [OF that] s in auto)
    with s orig show "ends (case rp_replay plan of
       Some y \<Rightarrow> ret (safe_payment_response y)
     | None \<Rightarrow>
         bnd (build_lifecycle_gateway_options mc (rp_original plan)) (\<lambda>_.
         bnd (gw_refund g (y_transaction (rp_original plan)) (rp_refund plan)
                (case key of Some k \<Rightarrow> CallerKey k | None \<Rightarrow> RefundKey i (cents (rp_total_after plan))))
           (finish_refund now i pid key plan))) (\<lambda>_. ?P) (\<lambda>_. ?P) s"
      by (cases "rp_replay plan") (simp_all add: ends_bnd_fun ends_ret)
  qed (use s in simp)
qed

section \<open>Corrections\<close>

lemma ends_require_row: "ends (require (first_row rows) e) Q E s =
    (case rows of [] \<Rightarrow> E e s | r # rs \<Rightarrow> Q r s)"
  by (cases rows) (simp_all add: wp)

lemma orderly_correct_by_void:
  assumes g: "\<And>tx a. orderly (gw_void g tx a (VoidKey i))"
  shows "sound X s \<Longrightarrow> payment_of s i pid = Some y \<Longrightarrow>
    ends (correct_by_void g mc y i pid) (\<lambda>_ t. sound X t \<and> meanwhile s t) (\<lambda>_ t. sound X t \<and> meanwhile s t) s"
proof -
  assume s: "sound X s" and y: "payment_of s i pid = Some y"
  let ?P = "\<lambda>t. sound X t \<and> meanwhile s t"
  let ?c = "\<lambda>z. is_payment i pid z \<and> y_status z = y_status y"
  let ?u = "payments_update (upd ?c as_voided) s"
  have only: "z = y" if "z \<in> set (payments s)" "?c z" for z
    using unique_payment [OF sound_base(2) [OF s] y that(1)] that(2) by simp
  have u: "sound (keys_of (y_folio y) pid \<union> X) ?u"
    by (rule sound_upd [OF s]) (use payment_of_SomeD [OF y] in \<open>auto dest!: only\<close>)
  have su: "meanwhile s ?u" by (rule meanwhile_upd) (auto simp: kept_row_def)
  have row: "first_row (sel ?c (payments s)) = Some y"
    using sound_base(2) [OF s] payment_of_SomeD [OF y]
    by (intro first_sel_key [where k = y_id]) (auto simp: wf_hotel_def keys_ok_def is_payment_def)
  have v: "ends (void_payment g mc i pid) (\<lambda>_. ?P) (\<lambda>_. ?P) s"
    using orderly_void_payment [OF g] s unfolding orderly_ends by blast
  have direct: "ends (recalculate_of (y_folio y) pid) (\<lambda>_. ends (emit ''payment.failed'' ''payment'' (y_id y) pid)
      (\<lambda>_. ends (ret (safe_payment_response (as_voided y))) (\<lambda>_. ?P) (\<lambda>_. ?P)) (\<lambda>_. ?P)) (\<lambda>_. ?P) ?u"
    by (rule recalculate_ofI [OF u su]) (simp add: wp)
  have rest: "ends (if y_status y = PayAuthorized \<and> is_gateway_card y then void_payment g mc i pid
          else
            bnd (update_where payments payments_update ?c as_voided) (\<lambda>rows.
            bnd (require (first_row rows) (Conflict ''Payment is no longer in this state'')) (\<lambda>voided.
            bnd (recalculate_of (y_folio voided) pid) (\<lambda>_.
            bnd (emit ''payment.failed'' ''payment'' (y_id voided) pid) (\<lambda>_.
            ret (safe_payment_response voided)))))) (\<lambda>_. ?P) (\<lambda>_. ?P) s"
    using v direct by (simp add: ends_bnd_fun ends_update_where ends_require ends_ret row)
  show ?thesis unfolding correct_by_void_def ends_bnd_fun
    by (rule ends_weaken [OF rest]) (simp_all add: wp)
qed

section \<open>Hosted checkouts\<close>

lemma sound_other:
  assumes "sound X s" and "wf_hotel t" and "charges t = charges s" and "payments t = payments s"
    and "folios t = folios s" and "tax_rules t = tax_rules s" and "fresh s \<le> fresh t"
  shows "sound X t"
proof -
  have "folio_charged t = folio_charged s" "folio_paid t = folio_paid s"
    using assms by (intro ext, simp add: folio_charged_def folio_paid_def)+
  moreover have "refunds_ok t" using assms refunds_ok_cong [of t s] by (simp add: sound_def)
  moreover have "refs_ok s" using assms(1) by (simp add: sound_def ledger_base_def)
  then have "refs_ok t" unfolding refs_ok_def assms(3,4) using assms(7) by (meson less_le_trans)
  ultimately show ?thesis using assms
    by (simp add: sound_def ledger_base_def cents_ok_def rules_fit_def books_def)
qed

text \<open>Everything the completion may write beside the payment row.\<close>

definition only_stay :: "hotel \<Rightarrow> hotel \<Rightarrow> bool" where
  "only_stay s t \<longleftrightarrow> (wf_hotel s \<longrightarrow> wf_hotel t) \<and> charges t = charges s \<and> payments t = payments s \<and>
     folios t = folios s \<and> tax_rules t = tax_rules s \<and> fresh s \<le> fresh t"

lemma only_stay_refl [simp]: "only_stay s s"
  by (simp add: only_stay_def)

lemma only_stay_sound: "only_stay s t \<Longrightarrow> sound X s \<Longrightarrow> sound X t"
  by (rule sound_other [of X s]) (auto simp: only_stay_def sound_base)

lemma only_stay_meanwhile: "only_stay s t \<Longrightarrow> meanwhile r s \<Longrightarrow> meanwhile r t"
  by (auto simp: only_stay_def meanwhile_def)

lemma only_stay_reservations: "(\<And>r. r_id (f r) = r_id r) \<Longrightarrow> only_stay s (reservations_update (upd c f) s)"
  by (simp add: only_stay_def wf_update_reservations)

definition add_deposit :: "deposit \<Rightarrow> hotel \<Rightarrow> hotel" where
  "add_deposit d s = deposits_update (\<lambda>t. t @ [d\<lparr>dp_id := fresh s, dp_amount := cents (dp_amount d)\<rparr>]) (s\<lparr>fresh := Suc (fresh s)\<rparr>)"

lemma ends_insert_deposit [wp]:
  "ends (insert_deposit d) Q E s = Q (d\<lparr>dp_id := fresh s, dp_amount := cents (dp_amount d)\<rparr>) (add_deposit d s)"
  by (simp add: insert_deposit_def wp add_deposit_def)

lemma only_stay_add_deposit: "only_stay s (add_deposit d s)"
  by (auto simp: only_stay_def add_deposit_def wf_hotel_def keys_ok_Suc keys_ok_append)

lemma only_stay_trans: "only_stay s t \<Longrightarrow> only_stay t u \<Longrightarrow> only_stay s u"
  by (auto simp: only_stay_def)

lemma ends_assert_transition [wp]:
  "ends (assert_transition q t) Q E s = (if validate_transition q t then Q () s else E (BadRequest ''Invalid status transition'') s)"
  by (simp add: assert_transition_def wp)

lemma cancel_unpaidI: "(\<And>es t. only_stay s t \<Longrightarrow> deposits t = deposits s \<Longrightarrow> Q es t) \<Longrightarrow> ends (cancel_unpaid now pid d) Q E s"
  unfolding cancel_unpaid_def
  by (auto simp: ends_bnd ends_ask ends_if ends_ret ends_assert_transition ends_update_where validate_transition_def
      only_stay_reservations split: option.split)

definition intended_deposit :: "ident \<Rightarrow> ident \<Rightarrow> payment \<Rightarrow> deposit_intent \<Rightarrow> deposit" where
  "intended_deposit n pid y d = \<lparr>dp_id = n, dp_property = pid, dp_reservation = Some (di_reservation d), dp_payment = Some (y_id y),
     dp_amount = cents (y_amount y), dp_currency = y_currency y, dp_status = DepositHeld,
     dp_refundable = di_refundable d, dp_recognized = None, dp_notes = None\<rparr>"

lemma record_intended_depositI:
  assumes "\<And>e t. E e t"
    and "\<And>es t. only_stay s t \<Longrightarrow> deposits t = deposits s @ [intended_deposit (fresh s) pid y d] \<Longrightarrow> Q es t"
  shows "ends (record_intended_deposit now pid y d) Q E s"
  unfolding record_intended_deposit_def
  by (auto simp: ends_bnd ends_ask ends_if ends_ret ends_guard ends_require ends_insert_deposit ends_assert_transition
      ends_update_where validate_transition_def split: option.split
      intro!: assms only_stay_add_deposit only_stay_trans [OF only_stay_add_deposit only_stay_reservations])
    (auto simp: add_deposit_def intended_deposit_def dest: reservation_of_SomeD)

lemma completed_simps [simp]:
  "y_id (completed now inp y) = y_id y" "y_property (completed now inp y) = y_property y"
  "y_folio (completed now inp y) = y_folio y" "y_amount (completed now inp y) = y_amount y"
  "y_currency (completed now inp y) = y_currency y" "y_finalization (completed now inp y) = y_finalization y"
  "y_status (completed now inp y) \<noteq> PayPending" "same_payer (completed now inp)"
  by (simp_all add: completed_def same_payer_def)

text \<open>The row a completion changes, and the deposit it records.\<close>

definition deposits_of :: "hotel \<Rightarrow> finalize_input \<Rightarrow> payment \<Rightarrow> deposit list" where
  "deposits_of s inp y = (case y_finalization y of None \<Rightarrow> []
     | Some d \<Rightarrow> if fi_success inp then [intended_deposit (fresh s) (fi_property inp) y d] else [])"

lemma intended_completed [simp]: "intended_deposit n pid (completed now inp y) d = intended_deposit n pid y d"
  by (simp add: intended_deposit_def)

lemma finalizeI:
  assumes wf: "wf_hotel s" and E: "\<And>e. E e s"
    and idle: "(\<And>y. y \<in> set (payments s) \<Longrightarrow> \<not> awaits inp y) \<Longrightarrow> Q [] s"
    and fin: "\<And>y es t. payment_of s (fi_payment inp) (fi_property inp) = Some y \<Longrightarrow> awaits inp y \<Longrightarrow> es \<noteq> [] \<Longrightarrow>
      only_stay (payments_update (upd (awaits inp) (completed now inp)) s) t \<Longrightarrow>
      deposits t = deposits s @ deposits_of s inp y \<Longrightarrow> Q es t"
  shows "ends (finalize_hosted_authorization now inp) Q E s"
proof (cases "first_row (sel (awaits inp) (payments s))")
  case None
  then have no: "y \<in> set (payments s) \<Longrightarrow> \<not> awaits inp y" for y by (simp add: first_sel_None_iff)
  then have "payments_update (upd (awaits inp) (completed now inp)) s = s"
    by (cases s) (simp add: upd_none)
  with None idle [OF no] show ?thesis
    by (simp add: finalize_hosted_authorization_def finalize_in_tx_def ends_transact ends_bnd ends_update_where ends_ret)
next
  case (Some y)
  have y: "y \<in> set (payments s)" "awaits inp y" using first_sel_SomeD [OF Some] by auto
  let ?u = "payments_update (upd (awaits inp) (completed now inp)) s"
  have row: "payment_of s (fi_payment inp) (fi_property inp) = Some y" unfolding payment_of_def
    using wf y by (intro first_sel_key [where k = y_id]) (auto simp: wf_hotel_def keys_ok_def is_payment_def awaits_def)
  have rest: "ends (follow_intent now inp (completed now inp y))
      (\<lambda>more. Q (notification name ''payment'' (y_id y) (fi_property inp) # more)) (\<lambda>e t. E e s) ?u" for name
  proof (cases "y_finalization y")
    case None
    then show ?thesis using fin [OF row y(2)] by (simp add: follow_intent_def ends_ret deposits_of_def)
  next
    case (Some d)
    show ?thesis
    proof (cases "fi_success inp")
      case True
      have "ends (record_intended_deposit now (fi_property inp) (completed now inp y) d)
          (\<lambda>held. Q (notification name ''payment'' (y_id y) (fi_property inp) # [] @ held)) (\<lambda>e t. E e s) ?u"
        by (rule record_intended_depositI) (use E True Some in \<open>auto simp: deposits_of_def intro!: fin [OF row y(2)]\<close>)
      with True Some show ?thesis by (simp add: follow_intent_def ends_fun)
    next
      case False
      have "ends (cancel_unpaid now (fi_property inp) d)
          (\<lambda>c. Q (notification name ''payment'' (y_id y) (fi_property inp) # c)) (\<lambda>e t. E e s) ?u"
        by (rule cancel_unpaidI) (use False Some in \<open>auto simp: deposits_of_def intro!: fin [OF row y(2)]\<close>)
      moreover have "Q [notification name ''payment'' (y_id y) (fi_property inp)] ?u"
        using False Some by (auto simp: deposits_of_def intro!: fin [OF row y(2)])
      ultimately show ?thesis using False Some by (simp add: follow_intent_def ends_fun)
    qed
  qed
  show ?thesis
    unfolding finalize_hosted_authorization_def finalize_in_tx_def ends_transact ends_bnd_fun ends_update_where
    using Some rest by (simp add: ends_fun)
qed

text \<open>A completed checkout is not completed again, whatever the second report says.\<close>

lemma finalize_again:
  assumes "\<And>y. y \<in> set (payments t) \<Longrightarrow> is_payment (fi_payment inp) (fi_property inp) y \<Longrightarrow> y_status y \<noteq> PayPending"
    and "wf_hotel t"
  shows "finalize_hosted_authorization now inp t = (Inr [], t)"
proof -
  have "\<not> awaits inp y" if "y \<in> set (payments t)" for y using assms(1) [OF that] by (auto simp: awaits_def)
  then have "ends (finalize_hosted_authorization now inp) (\<lambda>es u. es = [] \<and> u = t) (\<lambda>e u. False) t"
    by (simp add: finalize_hosted_authorization_def finalize_in_tx_def ends_transact ends_bnd_fun ends_update_where
        first_sel_None_iff [THEN iffD2] ends_ret upd_none)
  then show ?thesis by (simp add: ends_def split: prod.splits sum.splits)
qed

lemma completed_rows:
  assumes wf: "wf_hotel s" and y: "payment_of s (fi_payment inp) (fi_property inp) = Some y" "awaits inp y"
    and t: "only_stay (payments_update (upd (awaits inp) (completed now inp)) s) t"
    and z: "z \<in> set (payments t)" "is_payment (fi_payment inp) (fi_property inp) z"
  shows "z = completed now inp y"
proof -
  from t have "payments t = upd (awaits inp) (completed now inp) (payments s)" by (simp add: only_stay_def)
  with z(1) obtain x where x: "x \<in> set (payments s)" "z = (if awaits inp x then completed now inp x else x)"
    by (auto simp: set_upd)
  with z(2) have "is_payment (fi_payment inp) (fi_property inp) x" by (auto simp: is_payment_def split: if_splits)
  then have "x = y" using unique_payment [OF wf y(1) x(1)] by simp
  with x y(2) show ?thesis by simp
qed

lemma finalize_sound:
  assumes s: "sound X s"
  shows "ends (finalize_hosted_authorization now inp) (\<lambda>es t. meanwhile s t \<and>
      (sound X t \<or> fi_success inp \<and> fi_captured inp \<and>
        (\<exists>y. payment_of s (fi_payment inp) (fi_property inp) = Some y \<and> sound (keys_of (y_folio y) (fi_property inp) \<union> X) t)))
    (\<lambda>e t. sound X t \<and> meanwhile s t) s"
proof (rule finalizeI [OF sound_base(2) [OF s]])
  fix y es t assume y: "payment_of s (fi_payment inp) (fi_property inp) = Some y" "awaits inp y"
    and t: "only_stay (payments_update (upd (awaits inp) (completed now inp)) s) t"
  let ?u = "payments_update (upd (awaits inp) (completed now inp)) s"
  let ?cap = "fi_success inp \<and> fi_captured inp"
  have only: "z = y" if "z \<in> set (payments s)" "awaits inp z" for z
    using unique_payment [OF sound_base(2) [OF s] y(1) that(1)] that(2) by (simp add: awaits_def)
  have same: "counts_as_paid (completed now inp z) = counts_as_paid z" if "\<not> ?cap" "awaits inp z" for z
    using that by (auto simp: awaits_def completed_def counts_as_paid_def parent_counts_toward_folio_balance_def)
  have "meanwhile s ?u"
    by (rule meanwhile_upd) (auto simp: kept_row_def awaits_def completed_def)
  then have m: "meanwhile s t" by (rule only_stay_meanwhile [OF t])
  have "sound (if ?cap then keys_of (y_folio y) (fi_property inp) \<union> X else X) ?u"
  proof (rule sound_upd [OF s])
    fix z fid assume z: "z \<in> set (payments s)" "awaits inp z" "y_folio z = Some fid"
      and k: "(fid, y_property z) \<notin> (if ?cap then keys_of (y_folio y) (fi_property inp) \<union> X else X)"
    show "counts_as_paid (completed now inp z) = counts_as_paid z"
    proof (rule same [OF _ z(2)])
      show "\<not> ?cap"
      proof
        assume ?cap
        with k z only [OF z(1,2)] payment_of_SomeD [OF y(1)] show False by simp
      qed
    qed
  qed auto
  then have snd: "sound (if ?cap then keys_of (y_folio y) (fi_property inp) \<union> X else X) t" by (rule only_stay_sound [OF t])
  show "meanwhile s t \<and> (sound X t \<or> fi_success inp \<and> fi_captured inp \<and>
        (\<exists>y. payment_of s (fi_payment inp) (fi_property inp) = Some y \<and> sound (keys_of (y_folio y) (fi_property inp) \<union> X) t))"
  proof (cases ?cap)
    case True
    with m snd y show ?thesis by auto
  next
    case False
    with m snd show ?thesis by (simp only: if_False) blast
  qed
qed (use s in simp_all)

lemma apply_reading_sound:
  assumes t: "sound X t" "meanwhile s t" and y: "payment_of s (y_id y) (y_property y) = Some y"
  shows "ends (apply_reading now y read) (\<lambda>_ t. sound X t \<and> meanwhile s t) (\<lambda>_ t. sound X t \<and> meanwhile s t) t"
proof -
  let ?P = "\<lambda>t. sound X t \<and> meanwhile s t"
  let ?inp = "\<lparr>fi_payment = y_id y, fi_property = y_property y, fi_provider = ''worldline'',
      fi_success = (rr_outcome read = ReadCaptured \<or> rr_outcome read = ReadAuthorized),
      fi_captured = (rr_outcome read = ReadCaptured), fi_cancel_pending = True, fi_transaction = rr_payment read\<rparr>"
  let ?tail = "\<lambda>es. ends (if rr_outcome read = ReadCaptured then recalculate_of (y_folio y) (y_property y) else ret ())
      (\<lambda>_. ends (dispatch_persisted es) (\<lambda>_. ?P) (\<lambda>_. ?P)) (\<lambda>_. ?P)"
  from meanwhile_row [OF t(2) y sound_base(1) [OF t(1)]]
  obtain z where z: "payment_of t (y_id y) (y_property y) = Some z" "y_folio z = y_folio y" by (auto simp: kept_row_def)
  have "ends (finalize_hosted_authorization now ?inp) ?tail (\<lambda>_. ?P) t"
  proof (rule ends_weaken [OF finalize_sound [OF t(1)]])
    fix es u assume u: "meanwhile t u \<and> (sound X u \<or> fi_success ?inp \<and> fi_captured ?inp \<and>
        (\<exists>y. payment_of t (fi_payment ?inp) (fi_property ?inp) = Some y \<and> sound (keys_of (y_folio y) (fi_property ?inp) \<union> X) u))"
    then have su: "meanwhile s u" using meanwhile_trans [OF t(2)] by blast
    have "sound (keys_of (y_folio y) (y_property y) \<union> X) u" using u z by (auto elim: sound_mono)
    moreover have "rr_outcome read \<noteq> ReadCaptured \<Longrightarrow> sound X u" using u by auto
    ultimately show "?tail es u"
      using su by (auto simp: ends_ret dispatch_persisted_def ends_tell intro!: recalculate_ofI [where r = s and X = X])
  qed (use t meanwhile_trans [OF t(2)] in auto)
  with t show ?thesis by (simp add: apply_reading_def ends_fun)
qed

lemma sync_sound:
  assumes g: "\<And>h. orderly (reading h)" and s: "sound X s" and y: "payment_of s (y_id y) (y_property y) = Some y"
  shows "ends (sync_worldline_hosted_checkout mc reading now y) (\<lambda>_ t. sound X t \<and> meanwhile s t)
    (\<lambda>_ t. sound X t \<and> meanwhile s t) s"
proof (cases "y_transaction y")
  case None
  with s show ?thesis by (simp add: sync_worldline_hosted_checkout_def falsy_def wp)
next
  case (Some h)
  have "ends (bnd (reading h) (apply_reading now y)) (\<lambda>_ t. sound X t \<and> meanwhile s t)
    (\<lambda>_ t. sound X t \<and> meanwhile s t) s"
    unfolding ends_bnd by (rule orderlyD [OF g s]) (simp_all add: apply_reading_sound y)
  with Some s show ?thesis
    by (simp add: sync_worldline_hosted_checkout_def ends_bnd_fun ends_require ends_ret)
qed

section \<open>Gateways\<close>

text \<open>
  The contract asked of a gateway: nothing but orderly work goes on during its calls. A quiet
  gateway is one during whose calls nothing happens to the hotel, as the repository's
  \<open>MockGateway\<close>.
\<close>

locale orderly_gateway =
  fixes g :: gateway
  assumes orderly_calls: "orderly (gw_authorize g tok a cur)" "orderly (gw_capture g tx a k)"
    "orderly (gw_void g tx a k)" "orderly (gw_refund g tx a k)"
begin

lemma orderly_authorize: "orderly (authorize_payment g mc now dto d)"
  by (rule orderly_authorize_payment) (rule orderly_calls)

lemma orderly_void: "orderly (void_payment g mc i pid)"
  by (rule orderly_void_payment) (rule orderly_calls)

lemma orderly_refund: "orderly (refund_payment g mc now i pid amount key)"
  by (rule orderly_refund_payment) (rule orderly_calls)

lemma orderly_capture: "sound X s \<Longrightarrow> capture_payment g mc now i pid s = (Inr r, t) \<Longrightarrow> sound X t \<and> meanwhile s t"
  using ends_InrD [OF capture_paymentI [OF orderly_calls(2)]] by blast

end

locale quiet_gateway =
  fixes g :: gateway
  assumes quiet_calls: "snd (gw_authorize g tok a cur s) = s" "snd (gw_capture g tx a k s) = s"
    "snd (gw_void g tx a k s) = s" "snd (gw_refund g tx a k s) = s"

sublocale quiet_gateway \<subseteq> orderly_gateway
  by unfold_locales (simp_all add: orderly_def quiet_calls)

definition mock_result :: "string \<Rightarrow> gateway_result" where
  "mock_result transaction = \<lparr>gr_success = True, gr_transaction = transaction, gr_status = None, gr_error = None,
     gr_captured = False, gr_next = None\<rparr>"

definition mock_gateway :: "string \<Rightarrow> gateway" where
  "mock_gateway uuid =
     \<lparr>gw_authorize = \<lambda>tok a cur. ret (mock_result (''mock-auth-'' @ uuid)),
      gw_capture = \<lambda>tx a k. ret (mock_result (''mock-cap-'' @ uuid)),
      gw_void = \<lambda>tx a k. ret (mock_result (''mock-void-'' @ uuid)),
      gw_refund = \<lambda>tx a k. ret (mock_result (''mock-ref-'' @ uuid))\<rparr>"

interpretation mock: quiet_gateway "mock_gateway uuid"
  by unfold_locales (simp_all add: mock_gateway_def)

end
