(* ===== verification/Policy.thy ===== *)
theory Policy
  imports Folio
begin

text \<open>
  The cancellation policy service (\<open>apps/api/src/modules/policy/policy.service.ts\<close>): the policies of
  a property, the policy a rate plan resolves to, and the evaluation of a cancellation into a
  penalty and a fate for the deposits. The results: stored percentages stay between 0 and 100,
  a penalty lies between nothing and the whole stay and never falls as time passes.
\<close>

section \<open>Policies\<close>

record policy_dto =
  pu_property :: ident
  pu_code :: string
  pu_description :: "string option"
  pu_free_hours :: "nat option"
  pu_penalty :: "penalty_type option"
  pu_percentage :: "decimal option"
  pu_handling :: "deposit_handling option"
  pu_is_active :: "bool option"

definition or_else :: "'a option \<Rightarrow> 'a \<Rightarrow> 'a" where
  "or_else v d = (case v of None \<Rightarrow> d | Some x \<Rightarrow> x)"

definition assert_percentage :: "penalty_type option \<Rightarrow> decimal option \<Rightarrow> unit op" where
  "assert_percentage penalty percentage =
     (if penalty = Some PercentagePenalty then
        (case percentage of
           None \<Rightarrow> throw (BadRequest ''penaltyPercentage is required when penaltyType is percentage'')
         | Some n \<Rightarrow> guard (\<not> (n < 0 \<or> 100 < n)) (BadRequest ''penaltyPercentage must be between 0 and 100''))
      else ret ())"

definition create_policy :: "policy_dto \<Rightarrow> policy op" where
  "create_policy dto =
     bnd (assert_percentage (pu_penalty dto) (pu_percentage dto)) (\<lambda>_.
     bnd new_id (\<lambda>i.
     bnd (insert_row policies_update
            \<lparr>po_id = i, po_property = pu_property dto, po_code = pu_code dto, po_description = pu_description dto,
             po_free_hours = or_else (pu_free_hours dto) 24, po_penalty = or_else (pu_penalty dto) FirstNight,
             po_percentage = map_option cents (pu_percentage dto),
             po_handling = or_else (pu_handling dto) RefundIfRefundable,
             po_is_active = or_else (pu_is_active dto) True\<rparr>) (\<lambda>row.
     bnd (emit ''cancellation_policy.created'' ''cancellation_policy'' (po_id row) (po_property row)) (\<lambda>_.
     ret row))))"

definition is_policy :: "ident \<Rightarrow> ident \<Rightarrow> policy \<Rightarrow> bool" where
  "is_policy i pid p \<longleftrightarrow> po_id p = i \<and> po_property p = pid"

definition find_policy :: "ident \<Rightarrow> ident \<Rightarrow> policy op" where
  "find_policy i pid = find_row policies (is_policy i pid) (NotFound ''Cancellation policy not found'')"

definition list_policies :: "ident \<Rightarrow> bool option \<Rightarrow> nat \<Rightarrow> nat \<Rightarrow> (policy list \<times> nat) op" where
  "list_policies pid active page limit =
     ask (\<lambda>s. let rows = sel (\<lambda>p. po_property p = pid \<and> opt_eq active (po_is_active p)) (policies s)
       in (page_of page limit rows, length rows))"

text \<open>
  The fields of an update are absent (\<open>None\<close>) or given; the percentage may also be given as null.
\<close>

record policy_update =
  pw_code :: "string option"
  pw_description :: "string option option"
  pw_free_hours :: "nat option"
  pw_penalty :: "penalty_type option"
  pw_percentage :: "decimal option option"
  pw_handling :: "deposit_handling option"
  pw_is_active :: "bool option"

definition merge_policy :: "policy_update \<Rightarrow> policy \<Rightarrow> policy" where
  "merge_policy dto p = p\<lparr>po_code := or_else (pw_code dto) (po_code p),
     po_description := or_else (pw_description dto) (po_description p),
     po_free_hours := or_else (pw_free_hours dto) (po_free_hours p),
     po_penalty := or_else (pw_penalty dto) (po_penalty p),
     po_percentage := (case pw_percentage dto of None \<Rightarrow> po_percentage p | Some v \<Rightarrow> map_option cents v),
     po_handling := or_else (pw_handling dto) (po_handling p),
     po_is_active := or_else (pw_is_active dto) (po_is_active p)\<rparr>"

definition update_policy :: "ident \<Rightarrow> ident \<Rightarrow> policy_update \<Rightarrow> policy op" where
  "update_policy i pid dto =
     bnd (find_policy i pid) (\<lambda>existing.
     bnd (assert_percentage (Some (or_else (pw_penalty dto) (po_penalty existing)))
            (or_else (pw_percentage dto) (po_percentage existing))) (\<lambda>_.
     bnd (update_one policies policies_update (is_policy i pid) (merge_policy dto)) (\<lambda>updated.
     bnd (emit ''cancellation_policy.updated'' ''cancellation_policy'' (po_id updated) (po_property updated)) (\<lambda>_.
     ret updated))))"

definition soft_delete_policy :: "ident \<Rightarrow> ident \<Rightarrow> policy op" where
  "soft_delete_policy i pid =
     bnd (find_policy i pid) (\<lambda>_.
     bnd (update_one policies policies_update (is_policy i pid) (\<lambda>p. p\<lparr>po_is_active := False\<rparr>)) (\<lambda>updated.
     bnd (emit ''cancellation_policy.deleted'' ''cancellation_policy'' (po_id updated) (po_property updated)) (\<lambda>_.
     ret updated)))"

section \<open>The policy of a rate plan\<close>

definition resolve_policy_for_rate_plan :: "ident \<Rightarrow> ident \<Rightarrow> (rate_plan \<times> policy option) op" where
  "resolve_policy_for_rate_plan pid rate_plan =
     bnd (find_row rate_plans (\<lambda>p. p_id p = rate_plan \<and> p_property p = pid) (NotFound ''Rate plan not found'')) (\<lambda>plan.
     case p_policy plan of
       None \<Rightarrow> ret (plan, None)
     | Some c \<Rightarrow> bnd (ask (\<lambda>s. first_row (sel (\<lambda>p. is_policy c pid p \<and> po_is_active p) (policies s)))) (\<lambda>policy.
         ret (plan, policy)))"

text \<open>The terms that apply: those of the policy, or the default heuristic.\<close>

record terms =
  te_id :: "ident option"
  te_code :: "string option"
  te_description :: "string option"
  te_free_hours :: nat
  te_penalty :: penalty_type
  te_percentage :: "decimal option"
  te_handling :: deposit_handling

definition default_policy :: terms where
  "default_policy =
     \<lparr>te_id = None, te_code = None,
      te_description = Some ''Free cancellation up to 24 hours before check-in. First night charge after.'',
      te_free_hours = 24, te_penalty = FirstNight, te_percentage = None, te_handling = RefundIfRefundable\<rparr>"

definition terms_of :: "policy option \<Rightarrow> terms" where
  "terms_of v = (case v of None \<Rightarrow> default_policy
     | Some p \<Rightarrow> \<lparr>te_id = Some (po_id p), te_code = Some (po_code p), te_description = po_description p,
         te_free_hours = po_free_hours p, te_penalty = po_penalty p, te_percentage = po_percentage p,
         te_handling = po_handling p\<rparr>)"

text \<open>A scale-two column as text, the UTF-8 dash of the message, and \<open>formatDescription\<close>.\<close>

definition print_cents :: "decimal \<Rightarrow> string" where
  "print_cents x = (let n = nat \<lfloor>x * 100\<rfloor> in show_nat (n div 100) @ ''.'' @ print2 (n mod 100))"

definition em_dash :: string where
  "em_dash = [CHR 0xE2, CHR 0x80, CHR 0x94]"

fun penalty_label :: "penalty_type \<Rightarrow> decimal option \<Rightarrow> string" where
  "penalty_label FirstNight pct = ''First night charge''"
| "penalty_label PercentagePenalty pct = (case pct of None \<Rightarrow> ''0'' | Some x \<Rightarrow> print_cents x) @ ''% charge''"
| "penalty_label FullPenalty pct = ''Full charge''"
| "penalty_label NoPenalty pct = ''No penalty''"

definition format_description :: "nat \<Rightarrow> penalty_type \<Rightarrow> decimal option \<Rightarrow> string" where
  "format_description free_hours penalty pct =
     (if penalty = FullPenalty \<and> free_hours = 0
      then ''Non-refundable '' @ em_dash @ '' full charge applies on cancel or no-show.''
      else ''Free cancellation up to '' @ show_nat free_hours @ '' hours before check-in. '' @
           penalty_label penalty pct @ '' after.'')"

datatype summary_type = NonRefundable | Tiered

record policy_summary =
  su_type :: summary_type
  su_penalty :: penalty_type
  su_description :: string
  su_free_hours :: nat
  su_policy :: "ident option"
  su_code :: "string option"

definition get_policy_summary :: "ident \<Rightarrow> ident \<Rightarrow> policy_summary op" where
  "get_policy_summary pid rate_plan =
     bnd (resolve_policy_for_rate_plan pid rate_plan) (\<lambda>found.
     let p = terms_of (snd found) in
     ret \<lparr>su_type = (if te_penalty p = FullPenalty \<and> te_free_hours p = 0 then NonRefundable else Tiered),
          su_penalty = te_penalty p,
          su_description = or_else (te_description p)
            (format_description (te_free_hours p) (te_penalty p) (te_percentage p)),
          su_free_hours = te_free_hours p, su_policy = te_id p, su_code = te_code p\<rparr>)"

section \<open>Evaluating a cancellation\<close>

text \<open>Milliseconds since 1970 of midnight UTC; days are counted from the year 0.\<close>

definition utc_midnight :: "date \<Rightarrow> timestamp" where
  "utc_midnight d = (int d - int (day_number (1970, 1, 1))) * (24 * 60 * 60 * 1000)"

definition check_in_at :: "date \<Rightarrow> timestamp" where
  "check_in_at d = utc_midnight d + 15 * 60 * 60 * 1000"

datatype deposit_action = RefundDeposits | ForfeitDeposits

fun resolve_deposit_action :: "deposit_handling \<Rightarrow> bool \<Rightarrow> deposit_action" where
  "resolve_deposit_action AlwaysForfeit is_free = ForfeitDeposits"
| "resolve_deposit_action AlwaysRefund is_free = RefundDeposits"
| "resolve_deposit_action RefundIfRefundable is_free = (if is_free then RefundDeposits else ForfeitDeposits)"

definition within_free_window :: "terms \<Rightarrow> date \<Rightarrow> timestamp \<Rightarrow> bool" where
  "within_free_window p arrival now \<longleftrightarrow> 0 < te_free_hours p \<and>
     of_nat (te_free_hours p) \<le> (of_int (check_in_at arrival - now) / (1000 * 60 * 60) :: rat)"

definition penalty_of :: "terms \<Rightarrow> bool \<Rightarrow> decimal \<Rightarrow> int \<Rightarrow> decimal" where
  "penalty_of p is_free amount nights =
     (if is_free then 0
      else case te_penalty p of
        NoPenalty \<Rightarrow> 0
      | FirstNight \<Rightarrow> amount / of_int (if 0 < nights then nights else 1)
      | PercentagePenalty \<Rightarrow> amount * (or_else (te_percentage p) 0 / 100)
      | FullPenalty \<Rightarrow> amount)"

record evaluation =
  ev_within :: bool
  ev_penalty :: decimal
  ev_action :: deposit_action
  ev_description :: string
  ev_policy :: "ident option"
  ev_code :: "string option"
  ev_type :: penalty_type

definition evaluate_terms :: "terms \<Rightarrow> date \<Rightarrow> decimal \<Rightarrow> int \<Rightarrow> timestamp \<Rightarrow> evaluation" where
  "evaluate_terms p arrival amount nights now =
     (let is_free = within_free_window p arrival now in
      \<lparr>ev_within = is_free, ev_penalty = cents (penalty_of p is_free amount nights),
       ev_action = resolve_deposit_action (te_handling p) is_free,
       ev_description = or_else (te_description p)
         (format_description (te_free_hours p) (te_penalty p) (te_percentage p)),
       ev_policy = te_id p, ev_code = te_code p, ev_type = te_penalty p\<rparr>)"

definition evaluate_cancellation ::
  "ident \<Rightarrow> ident \<Rightarrow> date \<Rightarrow> decimal \<Rightarrow> int \<Rightarrow> timestamp \<Rightarrow> evaluation op" where
  "evaluate_cancellation pid rate_plan arrival amount nights now =
     bnd (resolve_policy_for_rate_plan pid rate_plan) (\<lambda>found.
     ret (evaluate_terms (terms_of (snd found)) arrival amount nights now))"

section \<open>Facts\<close>

text \<open>Stored percentages of percentage policies lie between 0 and 100.\<close>

definition percentage_ok :: "penalty_type \<Rightarrow> decimal option \<Rightarrow> bool" where
  "percentage_ok penalty pct \<longleftrightarrow> penalty = PercentagePenalty \<longrightarrow>
     (case pct of None \<Rightarrow> False | Some n \<Rightarrow> 0 \<le> n \<and> n \<le> 100)"

definition policies_ok :: "hotel \<Rightarrow> bool" where
  "policies_ok s \<longleftrightarrow> (\<forall>p \<in> set (policies s). percentage_ok (po_penalty p) (po_percentage p))"

lemma or_else_simps [simp]: "or_else None d = d" "or_else (Some x) d = x"
  by (simp_all add: or_else_def)

lemma cents_100: "0 \<le> n \<Longrightarrow> n \<le> 100 \<Longrightarrow> 0 \<le> cents n \<and> cents n \<le> 100"
  using to_fixed_le_fits [of n 100 2] fits_of_int [of 2 100] by simp

lemma percentage_ok_cents: "percentage_ok q pct \<Longrightarrow> percentage_ok q (map_option cents pct)"
  by (auto simp: percentage_ok_def cents_100 split: option.splits)

lemma ends_assert_percentage:
  "ends (assert_percentage q pct) Q E s =
    (if percentage_ok (or_else q NoPenalty) pct then Q () s
     else E (fst (case assert_percentage q pct s of (Inl e, t) \<Rightarrow> (e, t) | (Inr x, t) \<Rightarrow> (Failure [], t))) s)"
  by (auto simp: assert_percentage_def percentage_ok_def ends_def guard_def or_else_def split: option.splits)

lemma merge_policy_ok:
  assumes "percentage_ok (or_else (pw_penalty dto) (po_penalty p)) (or_else (pw_percentage dto) (po_percentage p))"
  shows "percentage_ok (po_penalty (merge_policy dto p)) (po_percentage (merge_policy dto p))"
proof (cases "pw_percentage dto")
  case None
  with assms show ?thesis by (simp add: merge_policy_def)
next
  case (Some v)
  with assms percentage_ok_cents show ?thesis by (simp add: merge_policy_def)
qed

lemma keeps_create_policy: "keeps_inv policies_ok (create_policy dto)"
  using percentage_ok_cents [of "or_else (pu_penalty dto) NoPenalty" "pu_percentage dto"]
  by (cases "pu_penalty dto")
    (auto simp: keeps_inv_ends create_policy_def wp ends_assert_percentage policies_ok_def percentage_ok_def)

definition policy_keys_ok :: "hotel \<Rightarrow> bool" where
  "policy_keys_ok s \<longleftrightarrow> distinct (map po_id (policies s))"

lemma update_policy_ok:
  assumes "policies_ok s" and "policy_keys_ok s"
  shows "ends (update_policy i pid dto) (\<lambda>_. policies_ok) (\<lambda>_. policies_ok) s"
proof -
  have "policies_ok (policies_update (upd (is_policy i pid) (merge_policy dto)) s)"
    if p: "first_row (sel (is_policy i pid) (policies s)) = Some p"
      and ok: "percentage_ok (or_else (pw_penalty dto) (po_penalty p)) (or_else (pw_percentage dto) (po_percentage p))" for p
  proof -
    have "q = p" if "q \<in> set (policies s)" "is_policy i pid q" for q
      using that first_sel_SomeD [OF p] assms(2) distinct_key_unique [of po_id "policies s" q p]
      by (auto simp: is_policy_def policy_keys_ok_def)
    then show ?thesis using assms(1) merge_policy_ok [OF ok] by (auto simp: policies_ok_def set_upd)
  qed
  moreover have "policies_ok (s\<lparr>events := es\<rparr>) = policies_ok s" for es s by (simp add: policies_ok_def)
  ultimately show ?thesis using assms(1)
    by (auto simp: update_policy_def find_policy_def ends_bnd ends_find_row ends_update_one ends_emit ends_ret
        ends_assert_percentage split: option.split dest: first_sel_SomeD)
qed

text \<open>The penalty of a stay.\<close>

definition terms_ok :: "terms \<Rightarrow> bool" where
  "terms_ok p \<longleftrightarrow> percentage_ok (te_penalty p) (te_percentage p)"

lemma terms_of_ok: "policies_ok s \<Longrightarrow> (\<And>p. v = Some p \<Longrightarrow> p \<in> set (policies s)) \<Longrightarrow> terms_ok (terms_of v)"
  by (cases v) (auto simp: terms_of_def terms_ok_def default_policy_def policies_ok_def percentage_ok_def)

lemma penalty_bounds:
  assumes "terms_ok p" and "0 \<le> amount"
  shows "0 \<le> penalty_of p is_free amount nights \<and> penalty_of p is_free amount nights \<le> amount"
proof (cases "te_penalty p")
  case PercentagePenalty
  with assms(1) obtain n where n: "te_percentage p = Some n" "0 \<le> n" "n \<le> 100"
    by (auto simp: terms_ok_def percentage_ok_def split: option.splits)
  have "amount * (n / 100) \<le> amount * 1" using n assms(2) by (intro mult_left_mono) simp_all
  with n assms(2) PercentagePenalty show ?thesis by (simp add: penalty_of_def)
next
  case FirstNight
  have "amount / of_int (if 0 < nights then nights else 1) \<le> amount / 1"
    using assms(2) by (intro divide_left_mono) auto
  with assms(2) FirstNight show ?thesis by (simp add: penalty_of_def)
qed (use assms(2) in \<open>simp_all add: penalty_of_def\<close>)

lemma evaluated_penalty_bounds:
  assumes "terms_ok p" and "0 \<le> amount"
  shows "0 \<le> ev_penalty (evaluate_terms p arrival amount nights now)"
    and "ev_penalty (evaluate_terms p arrival amount nights now) \<le> cents amount"
  using penalty_bounds [OF assms] by (auto simp: evaluate_terms_def Let_def to_fixed_mono)

text \<open>Time only moves a cancellation out of its free window.\<close>

lemma window_closes: "now \<le> later \<Longrightarrow> within_free_window p arrival later \<Longrightarrow> within_free_window p arrival now"
proof -
  assume le: "now \<le> later" and w: "within_free_window p arrival later"
  have "(of_int (check_in_at arrival - later) / (1000 * 60 * 60) :: rat) \<le> of_int (check_in_at arrival - now) / (1000 * 60 * 60)"
    using le by (intro divide_right_mono) simp_all
  with w show ?thesis unfolding within_free_window_def using order_trans by blast
qed

lemma penalty_monotone:
  assumes "terms_ok p" and "0 \<le> amount" and "now \<le> later"
  shows "ev_penalty (evaluate_terms p arrival amount nights now) \<le> ev_penalty (evaluate_terms p arrival amount nights later)"
proof (cases "within_free_window p arrival now")
  case True
  have "0 \<le> penalty_of p (within_free_window p arrival later) amount nights" using penalty_bounds [OF assms(1,2)] by simp
  with True show ?thesis by (simp add: evaluate_terms_def Let_def penalty_of_def)
next
  case False
  with window_closes [OF assms(3)] have "\<not> within_free_window p arrival later" by blast
  with False show ?thesis by (simp add: evaluate_terms_def Let_def)
qed

lemma evaluate_cancellation_terms:
  assumes "evaluate_cancellation pid rate_plan arrival amount nights now s = (Inr ev, t)"
  obtains v where "\<forall>n. evaluate_cancellation pid rate_plan arrival amount nights n s =
      (Inr (evaluate_terms (terms_of v) arrival amount nights n), s)" and "\<forall>p. v = Some p \<longrightarrow> p \<in> set (policies s)"
proof (cases "first_row (sel (\<lambda>p. p_id p = rate_plan \<and> p_property p = pid) (rate_plans s))")
  case None
  with assms show ?thesis by (simp add: evaluate_cancellation_def resolve_policy_for_rate_plan_def bnd_assoc)
next
  case (Some plan)
  define v where "v = (case p_policy plan of None \<Rightarrow> None
    | Some c \<Rightarrow> first_row (sel (\<lambda>p. is_policy c pid p \<and> po_is_active p) (policies s)))"
  have "resolve_policy_for_rate_plan pid rate_plan s = (Inr (plan, v), s)"
    using Some by (simp add: resolve_policy_for_rate_plan_def v_def split: option.split)
  moreover have "v = Some p \<Longrightarrow> p \<in> set (policies s)" for p
    by (auto simp: v_def split: option.splits dest: first_sel_SomeD)
  ultimately show ?thesis using that [of v] by (simp add: evaluate_cancellation_def bnd_def)
qed

lemma keeps_soft_delete_policy: "keeps_inv policies_ok (soft_delete_policy i pid)"
  by (auto simp: keeps_inv_ends soft_delete_policy_def find_policy_def wp policies_ok_def set_upd split: option.split)

lemma utc_epoch: "utc_midnight (day_number (1970, 1, 1)) = 0"
  by (simp add: utc_midnight_def)

end
