(* ===== verification/Deposit.thy ===== *)
theory Deposit
  imports Payment_Facts Policy
begin

text \<open>
  The deposit ledger (\<open>apps/api/src/modules/accounting/deposit.service.ts\<close>) and its settlement at
  cancellation and no-show (\<open>deposit-settlement.service.ts\<close>). A deposit is a liability held until
  it is applied, refunded or forfeited; these three are final. Settling a reservation leaves no
  deposit held, and every operation keeps the ledger invariant.
\<close>

section \<open>The clock\<close>

text \<open>The instant, its UTC day (\<open>toISOString\<close>), and the server's local calendar day.\<close>

record clock =
  ck_now :: timestamp
  ck_today :: date
  ck_day :: civil

section \<open>The deposit service\<close>

record deposit_dto =
  dd_property :: ident
  dd_reservation :: "ident option"
  dd_payment :: "ident option"
  dd_amount :: decimal
  dd_currency :: string
  dd_refundable :: "bool option"
  dd_notes :: "string option"

definition record_deposit :: "deposit_dto \<Rightarrow> deposit op" where
  "record_deposit dto =
     bnd (ask (\<lambda>s. case dd_reservation dto of None \<Rightarrow> True
            | Some r \<Rightarrow> sel (is_reservation r (dd_property dto)) (reservations s) \<noteq> [])) (\<lambda>r_ok.
     bnd (guard r_ok (BadRequest ''reservation not found in this property'')) (\<lambda>_.
     bnd (ask (\<lambda>s. case dd_payment dto of None \<Rightarrow> True
            | Some y \<Rightarrow> sel (is_payment y (dd_property dto)) (payments s) \<noteq> [])) (\<lambda>y_ok.
     bnd (guard y_ok (BadRequest ''payment not found in this property'')) (\<lambda>_.
     bnd (insert_deposit
            \<lparr>dp_id = 0, dp_property = dd_property dto, dp_reservation = dd_reservation dto,
             dp_payment = dd_payment dto, dp_amount = cents (dd_amount dto), dp_currency = dd_currency dto,
             dp_status = DepositHeld, dp_refundable = or_else (dd_refundable dto) True, dp_recognized = None,
             dp_notes = dd_notes dto\<rparr>) (\<lambda>entry.
     bnd (emit ''deposit.received'' ''deposit'' (dp_id entry) (dp_property entry)) (\<lambda>_.
     ret entry))))))"

definition is_deposit :: "ident \<Rightarrow> ident \<Rightarrow> deposit \<Rightarrow> bool" where
  "is_deposit i pid d \<longleftrightarrow> dp_id d = i \<and> dp_property d = pid"

definition find_deposit :: "ident \<Rightarrow> ident \<Rightarrow> deposit op" where
  "find_deposit i pid = find_row deposits (is_deposit i pid) (NotFound ''Deposit not found'')"

definition list_deposits ::
  "ident \<Rightarrow> ident option \<Rightarrow> deposit_status option \<Rightarrow> nat \<Rightarrow> nat \<Rightarrow> (deposit list \<times> nat) op" where
  "list_deposits pid reservation status page limit =
     ask (\<lambda>s. let rows = sel (\<lambda>d. dp_property d = pid \<and>
            (case reservation of None \<Rightarrow> True | Some r \<Rightarrow> dp_reservation d = Some r) \<and>
            opt_eq status (dp_status d)) (deposits s)
       in (page_of page limit rows, length rows))"

definition adjustment_dto :: "clock \<Rightarrow> ident \<Rightarrow> string \<Rightarrow> decimal \<Rightarrow> string \<Rightarrow> charge_dto" where
  "adjustment_dto ck pid text amount currency =
     \<lparr>cd_property = pid, cd_type = ChAdjustment, cd_description = text, cd_amount = amount, cd_currency = currency,
      cd_tax = None, cd_tax_rate = None, cd_tax_code = None, cd_service = ck_now ck, cd_service_date = ck_today ck,
      cd_posted_by = None, cd_options = no_tax_options, cd_skip_tax = True, cd_internal = False\<rparr>"

definition stamp_deposit :: "clock \<Rightarrow> deposit_status \<Rightarrow> deposit \<Rightarrow> deposit" where
  "stamp_deposit ck q d = d\<lparr>dp_status := q, dp_recognized := Some (ck_now ck)\<rparr>"

definition apply_deposit :: "clock \<Rightarrow> ident \<Rightarrow> ident \<Rightarrow> ident option \<Rightarrow> deposit op" where
  "apply_deposit ck i pid folio =
     bnd (find_deposit i pid) (\<lambda>entry.
     bnd (guard (dp_status entry = DepositHeld) (BadRequest ''Only a held deposit can be applied'')) (\<lambda>_.
     bnd (case folio of None \<Rightarrow> ret ()
          | Some fid \<Rightarrow> bnd (post_charge False fid
              (adjustment_dto ck pid ''Deposit applied'' (cents (- dp_amount entry)) (dp_currency entry)) None None)
              (\<lambda>_. ret ())) (\<lambda>_.
     bnd (update_one deposits deposits_update (is_deposit i pid) (stamp_deposit ck DepositApplied)) (\<lambda>updated.
     bnd (emit ''deposit.applied'' ''deposit'' (dp_id updated) (dp_property updated)) (\<lambda>_.
     ret updated)))))"

definition refund_deposit :: "clock \<Rightarrow> ident \<Rightarrow> ident \<Rightarrow> deposit op" where
  "refund_deposit ck i pid =
     bnd (find_deposit i pid) (\<lambda>entry.
     bnd (guard (dp_status entry = DepositHeld) (BadRequest ''Only a held deposit can be refunded'')) (\<lambda>_.
     bnd (guard (dp_refundable entry) (BadRequest ''Deposit is non-refundable and cannot be refunded'')) (\<lambda>_.
     bnd (update_one deposits deposits_update (is_deposit i pid) (stamp_deposit ck DepositRefunded)) (\<lambda>updated.
     bnd (emit ''deposit.refunded'' ''deposit'' (dp_id updated) (dp_property updated)) (\<lambda>_.
     ret updated)))))"

definition forfeit_deposit :: "clock \<Rightarrow> ident \<Rightarrow> ident \<Rightarrow> deposit op" where
  "forfeit_deposit ck i pid =
     bnd (find_deposit i pid) (\<lambda>entry.
     bnd (guard (dp_status entry = DepositHeld) (BadRequest ''Only a held deposit can be forfeited'')) (\<lambda>_.
     bnd (update_one deposits deposits_update (is_deposit i pid) (stamp_deposit ck DepositForfeited)) (\<lambda>updated.
     bnd (emit ''deposit.forfeited'' ''deposit'' (dp_id updated) (dp_property updated)) (\<lambda>_.
     ret updated))))"

section \<open>Settlement\<close>

definition held_for :: "ident \<Rightarrow> ident \<Rightarrow> deposit \<Rightarrow> bool" where
  "held_for rid pid d \<longleftrightarrow> dp_reservation d = Some rid \<and> dp_property d = pid \<and> dp_status d = DepositHeld"

definition list_held_deposits :: "ident \<Rightarrow> ident \<Rightarrow> deposit list op" where
  "list_held_deposits rid pid = ask (\<lambda>s. sel (held_for rid pid) (deposits s))"

definition apply_held_deposits :: "clock \<Rightarrow> ident \<Rightarrow> ident \<Rightarrow> ident \<Rightarrow> deposit list op" where
  "apply_held_deposits ck rid pid fid =
     bnd (list_held_deposits rid pid) (\<lambda>held.
     collect held (\<lambda>entry. apply_deposit ck (dp_id entry) pid (Some fid)))"

definition settle_one :: "clock \<Rightarrow> ident \<Rightarrow> deposit_action \<Rightarrow> deposit \<Rightarrow> deposit op" where
  "settle_one ck pid act entry =
     (if act = RefundDeposits then
        (if dp_refundable entry then refund_deposit ck (dp_id entry) pid else forfeit_deposit ck (dp_id entry) pid)
      else forfeit_deposit ck (dp_id entry) pid)"

definition settle_deposits :: "clock \<Rightarrow> ident \<Rightarrow> ident \<Rightarrow> deposit_action \<Rightarrow> deposit list op" where
  "settle_deposits ck rid pid act =
     bnd (list_held_deposits rid pid) (\<lambda>held. collect held (settle_one ck pid act))"

definition ensure_guest_folio :: "clock \<Rightarrow> ident \<Rightarrow> ident \<Rightarrow> folio op" where
  "ensure_guest_folio ck rid pid =
     bnd (ask (\<lambda>s. first_row (sel (\<lambda>f. f_reservation f = Some rid \<and> f_property f = pid \<and> f_type f = GuestFolio)
            (folios s)))) (\<lambda>existing.
     case existing of
       Some f \<Rightarrow> ret f
     | None \<Rightarrow>
         bnd (ask (\<lambda>s. reservation_of s rid pid)) (\<lambda>found.
         bnd (require found (Failure ''TypeError'')) (\<lambda>r.
         create_auto_folio False (ck_day ck) r)))"

definition fee_dto :: "clock \<Rightarrow> ident \<Rightarrow> string \<Rightarrow> decimal \<Rightarrow> string \<Rightarrow> charge_dto" where
  "fee_dto ck pid text amount currency =
     \<lparr>cd_property = pid, cd_type = ChFee, cd_description = text, cd_amount = amount, cd_currency = currency,
      cd_tax = None, cd_tax_rate = None, cd_tax_code = None, cd_service = ck_now ck, cd_service_date = ck_today ck,
      cd_posted_by = None, cd_options = no_tax_options, cd_skip_tax = False, cd_internal = False\<rparr>"

record settlement =
  se_posted :: bool
  se_penalty :: decimal
  se_deposits :: "deposit list"
  se_description :: string
  se_within :: bool

definition post_fee :: "clock \<Rightarrow> ident \<Rightarrow> ident \<Rightarrow> string \<Rightarrow> decimal \<Rightarrow> string \<Rightarrow> unit op" where
  "post_fee ck fid pid text amount currency =
     bnd (post_charge False fid (fee_dto ck pid text amount currency) None None) (\<lambda>_. ret ())"

definition settle_from_evaluation ::
  "clock \<Rightarrow> ident \<Rightarrow> ident \<Rightarrow> string \<Rightarrow> evaluation \<Rightarrow> string \<Rightarrow> decimal option \<Rightarrow> string \<Rightarrow> settlement op" where
  "settle_from_evaluation ck rid pid currency ev penalty_text extra extra_text =
     bnd (settle_deposits ck rid pid (ev_action ev)) (\<lambda>settled.
     let charge_penalty = 0 < ev_penalty ev; charge_extra = (case extra of None \<Rightarrow> False | Some x \<Rightarrow> 0 < x) in
     bnd (if charge_penalty \<or> charge_extra then
            bnd (ensure_guest_folio ck rid pid) (\<lambda>folio.
            bnd (if charge_penalty then post_fee ck (f_id folio) pid penalty_text (ev_penalty ev) currency
                 else ret ()) (\<lambda>_.
            if charge_extra then post_fee ck (f_id folio) pid extra_text (cents (or_else extra 0)) currency
            else ret ()))
          else ret ()) (\<lambda>_.
     ret \<lparr>se_posted = charge_penalty, se_penalty = ev_penalty ev, se_deposits = settled,
          se_description = ev_description ev, se_within = ev_within ev\<rparr>))"

section \<open>Facts\<close>

fun deposit_next :: "deposit_status \<Rightarrow> deposit_status list" where
  "deposit_next DepositHeld = [DepositApplied, DepositRefunded, DepositForfeited]"
| "deposit_next DepositApplied = []"
| "deposit_next DepositRefunded = []"
| "deposit_next DepositForfeited = []"

fun deposit_rank :: "deposit_status \<Rightarrow> nat" where
  "deposit_rank DepositHeld = 0"
| "deposit_rank DepositApplied = 1"
| "deposit_rank DepositRefunded = 1"
| "deposit_rank DepositForfeited = 1"

interpretation deposit_machine: status_machine deposit_next deposit_rank
proof
  fix q t
  show "t \<in> set (deposit_next q) \<Longrightarrow> deposit_rank q < deposit_rank t" by (cases q) auto
qed

definition deposit_of :: "hotel \<Rightarrow> ident \<Rightarrow> ident \<Rightarrow> deposit option" where
  "deposit_of s i pid = first_row (sel (is_deposit i pid) (deposits s))"

lemma ends_find_deposit [wp]:
  "ends (find_deposit i pid) Q E s =
    (case deposit_of s i pid of None \<Rightarrow> E (NotFound ''Deposit not found'') s | Some d \<Rightarrow> Q d s)"
  by (simp add: find_deposit_def wp deposit_of_def)

lemma deposit_of_SomeD: "deposit_of s i pid = Some d \<Longrightarrow> d \<in> set (deposits s) \<and> dp_id d = i \<and> dp_property d = pid"
  unfolding deposit_of_def by (drule first_sel_SomeD) (simp add: is_deposit_def)

lemma deposit_of_member:
  "wf_hotel s \<Longrightarrow> d \<in> set (deposits s) \<Longrightarrow> dp_property d = pid \<Longrightarrow> deposit_of s (dp_id d) pid = Some d"
  unfolding deposit_of_def by (rule first_sel_key [where k = dp_id]) (auto simp: wf_hotel_def keys_ok_def is_deposit_def)

lemma unique_deposit:
  "wf_hotel s \<Longrightarrow> deposit_of s i pid = Some d \<Longrightarrow> e \<in> set (deposits s) \<Longrightarrow> is_deposit i pid e \<Longrightarrow> e = d"
  using distinct_key_unique [of dp_id "deposits s" e d] deposit_of_SomeD [of s i pid d]
  by (simp add: wf_hotel_def keys_ok_def is_deposit_def)

lemma stamp_deposit_simps [simp]:
  "dp_id (stamp_deposit ck q d) = dp_id d" "dp_property (stamp_deposit ck q d) = dp_property d"
  "dp_amount (stamp_deposit ck q d) = dp_amount d" "dp_status (stamp_deposit ck q d) = q"
  "dp_reservation (stamp_deposit ck q d) = dp_reservation d" "dp_refundable (stamp_deposit ck q d) = dp_refundable d"
  by (simp_all add: stamp_deposit_def)

text \<open>The deposit with the given key moved to a status.\<close>

definition stamped :: "clock \<Rightarrow> ident \<Rightarrow> ident \<Rightarrow> deposit_status \<Rightarrow> hotel \<Rightarrow> hotel" where
  "stamped ck i pid q s = deposits_update (upd (is_deposit i pid) (stamp_deposit ck q)) s"

lemma stamped_tables [simp]:
  "charges (stamped ck i pid q s) = charges s" "payments (stamped ck i pid q s) = payments s"
  "folios (stamped ck i pid q s) = folios s" "tax_rules (stamped ck i pid q s) = tax_rules s"
  "fresh (stamped ck i pid q s) = fresh s" "reservations (stamped ck i pid q s) = reservations s"
  "rooms (stamped ck i pid q s) = rooms s"
  "deposits (stamped ck i pid q s) = upd (is_deposit i pid) (stamp_deposit ck q) (deposits s)"
  by (simp_all add: stamped_def)

lemma only_stay_stamped: "only_stay s (stamped ck i pid q s)"
  by (simp add: only_stay_def wf_update_deposits stamped_def)

lemma ends_stamp [wp]:
  "ends (update_one deposits deposits_update (is_deposit i pid) (stamp_deposit ck q)) Q E s =
    (case deposit_of s i pid of None \<Rightarrow> E (Failure ''TypeError'') (stamped ck i pid q s)
     | Some d \<Rightarrow> Q (stamp_deposit ck q d) (stamped ck i pid q s))"
  by (simp add: ends_update_one deposit_of_def stamped_def split: option.split)

lemma refund_depositI:
  assumes "\<And>e. E e s"
    and "\<And>d. deposit_of s i pid = Some d \<Longrightarrow> dp_status d = DepositHeld \<Longrightarrow> dp_refundable d \<Longrightarrow>
      Q (stamp_deposit ck DepositRefunded d) (sent False ''deposit.refunded'' ''deposit'' i pid (stamped ck i pid DepositRefunded s))"
  shows "ends (refund_deposit ck i pid) Q E s"
  unfolding refund_deposit_def ends_bnd ends_find_deposit ends_guard ends_stamp ends_emit ends_ret
  using assms by (auto simp: sent_def split: option.split dest: deposit_of_SomeD)

lemma forfeit_depositI:
  assumes "\<And>e. E e s"
    and "\<And>d. deposit_of s i pid = Some d \<Longrightarrow> dp_status d = DepositHeld \<Longrightarrow>
      Q (stamp_deposit ck DepositForfeited d) (sent False ''deposit.forfeited'' ''deposit'' i pid (stamped ck i pid DepositForfeited s))"
  shows "ends (forfeit_deposit ck i pid) Q E s"
  unfolding forfeit_deposit_def ends_bnd ends_find_deposit ends_guard ends_stamp ends_emit ends_ret
  using assms by (auto simp: sent_def split: option.split dest: deposit_of_SomeD)

section \<open>Settlement leaves nothing held\<close>

definition fate :: "deposit_action \<Rightarrow> deposit \<Rightarrow> deposit_status" where
  "fate act d = (if act = RefundDeposits \<and> dp_refundable d then DepositRefunded else DepositForfeited)"

definition only_deposits :: "hotel \<Rightarrow> hotel \<Rightarrow> bool" where
  "only_deposits s t \<longleftrightarrow> only_stay s t \<and> reservations t = reservations s \<and> rooms t = rooms s \<and> fresh t = fresh s"

lemma only_deposits_refl [simp]: "only_deposits s s"
  by (simp add: only_deposits_def)

lemma only_deposits_trans: "only_deposits s t \<Longrightarrow> only_deposits t u \<Longrightarrow> only_deposits s u"
  by (auto simp: only_deposits_def intro: only_stay_trans)

lemma only_stay_events [simp]: "only_stay s (t\<lparr>events := es\<rparr>) = only_stay s t"
  by (simp add: only_stay_def)

lemma only_deposits_events [simp]: "only_deposits s (t\<lparr>events := es\<rparr>) = only_deposits s t"
  by (simp add: only_deposits_def)

lemma only_deposits_stamped [simp]: "only_deposits s (stamped ck i pid q s)"
  using only_stay_stamped by (simp add: only_deposits_def)

lemma settle_oneI:
  assumes wf: "wf_hotel s" and d: "d \<in> set (deposits s)" "dp_property d = pid" "dp_status d = DepositHeld"
    and Q: "\<And>t. only_deposits s t \<Longrightarrow> deposits t = upd (is_deposit (dp_id d) pid) (stamp_deposit ck (fate act d)) (deposits s) \<Longrightarrow>
      Q (stamp_deposit ck (fate act d) d) t"
  shows "ends (settle_one ck pid act d) Q (\<lambda>_ _. False) s"
proof -
  have at: "deposit_of s (dp_id d) pid = Some d" by (rule deposit_of_member [OF wf d(1,2)])
  have "ends (refund_deposit ck (dp_id d) pid) Q (\<lambda>_ _. False) s" if "fate act d = DepositRefunded"
    unfolding refund_deposit_def ends_bnd ends_find_deposit ends_guard ends_stamp ends_emit ends_ret
    using at d that by (auto simp: fate_def split: if_splits intro!: Q [unfolded that])
  moreover have "ends (forfeit_deposit ck (dp_id d) pid) Q (\<lambda>_ _. False) s" if "fate act d = DepositForfeited"
    unfolding forfeit_deposit_def ends_bnd ends_find_deposit ends_guard ends_stamp ends_emit ends_ret
    using at d that by (auto simp: fate_def split: if_splits intro!: Q [unfolded that])
  ultimately show ?thesis by (auto simp: settle_one_def fate_def)
qed

definition resolved :: "clock \<Rightarrow> deposit_action \<Rightarrow> ident list \<Rightarrow> deposit \<Rightarrow> deposit" where
  "resolved ck act ids d = (if dp_id d \<in> set ids then stamp_deposit ck (fate act d) d else d)"

lemma settle_collect:
  assumes "wf_hotel s" and "distinct (map dp_id ds)"
    and "\<And>d. d \<in> set ds \<Longrightarrow> d \<in> set (deposits s) \<and> dp_property d = pid \<and> dp_status d = DepositHeld"
  shows "ends (collect ds (settle_one ck pid act)) (\<lambda>rs t. rs = map (\<lambda>d. stamp_deposit ck (fate act d) d) ds \<and>
    only_deposits s t \<and> deposits t = map (resolved ck act (map dp_id ds)) (deposits s)) (\<lambda>_ _. False) s"
  using assms
proof (induction ds arbitrary: s)
  case Nil
  then show ?case by (simp add: wp resolved_def)
next
  case (Cons d ds)
  have d: "d \<in> set (deposits s)" "dp_property d = pid" "dp_status d = DepositHeld" using Cons.prems(3) by auto
  have keys: "distinct (map dp_id (deposits s))" using Cons.prems(1) by (simp add: wf_hotel_def keys_ok_def)
  show ?case unfolding collect.simps ends_bnd
  proof (rule settle_oneI [OF Cons.prems(1) d])
    fix t assume t: "only_deposits s t" "deposits t = upd (is_deposit (dp_id d) pid) (stamp_deposit ck (fate act d)) (deposits s)"
    have one: "deposits t = map (\<lambda>x. if x = d then stamp_deposit ck (fate act d) d else x) (deposits s)"
      unfolding t(2) upd_def using distinct_key_unique [OF keys _ d(1)] d(2)
      by (intro map_cong refl) (auto simp: is_deposit_def)
    have wf: "wf_hotel t" using t(1) Cons.prems(1) by (simp add: only_deposits_def only_stay_def)
    have rest: "x \<in> set (deposits t) \<and> dp_property x = pid \<and> dp_status x = DepositHeld" if "x \<in> set ds" for x
    proof -
      have "x \<noteq> d" using that Cons.prems(2) by auto
      with that Cons.prems(3) show ?thesis by (auto simp: one)
    qed
    have map: "map (resolved ck act (map dp_id ds)) (deposits t) = map (resolved ck act (map dp_id (d # ds))) (deposits s)"
      unfolding one map_map
    proof (rule map_cong [OF refl])
      fix x assume x: "x \<in> set (deposits s)"
      show "(resolved ck act (map dp_id ds) \<circ> (\<lambda>x. if x = d then stamp_deposit ck (fate act d) d else x)) x =
          resolved ck act (map dp_id (d # ds)) x"
        using distinct_key_unique [OF keys x d(1)] Cons.prems(2) by (auto simp: resolved_def)
    qed
    have "ends (collect ds (settle_one ck pid act)) (\<lambda>rs u. rs = map (\<lambda>d. stamp_deposit ck (fate act d) d) ds \<and>
        only_deposits t u \<and> deposits u = map (resolved ck act (map dp_id ds)) (deposits t)) (\<lambda>_ _. False) t"
      using Cons.IH [OF wf _ rest] Cons.prems(2) by simp
    then show "ends (collect ds (settle_one ck pid act))
        (\<lambda>ys. ends (ret (stamp_deposit ck (fate act d) d # ys))
          (\<lambda>rs t. rs = map (\<lambda>d. stamp_deposit ck (fate act d) d) (d # ds) \<and> only_deposits s t \<and>
            deposits t = map (resolved ck act (map dp_id (d # ds))) (deposits s)) (\<lambda>_ _. False)) (\<lambda>_ _. False) t"
      by (rule ends_weaken) (use t(1) map in \<open>auto simp: ends_ret intro: only_deposits_trans\<close>)
  qed
qed

text \<open>What becomes of every deposit when a reservation's deposits are settled.\<close>

definition settled_deposit :: "clock \<Rightarrow> ident \<Rightarrow> ident \<Rightarrow> deposit_action \<Rightarrow> deposit \<Rightarrow> deposit" where
  "settled_deposit ck rid pid act d = (if held_for rid pid d then stamp_deposit ck (fate act d) d else d)"

lemma settle_depositsI:
  assumes wf: "wf_hotel s"
  shows "ends (settle_deposits ck rid pid act) (\<lambda>rs t. only_deposits s t \<and>
      rs = map (\<lambda>d. stamp_deposit ck (fate act d) d) (sel (held_for rid pid) (deposits s)) \<and>
      deposits t = map (settled_deposit ck rid pid act) (deposits s)) (\<lambda>_ _. False) s"
proof -
  let ?ds = "sel (held_for rid pid) (deposits s)"
  have keys: "distinct (map dp_id (deposits s))" using wf by (simp add: wf_hotel_def keys_ok_def)
  have "distinct (map dp_id ?ds)" using keys by (simp add: sel_def distinct_map_filter)
  moreover have "d \<in> set (deposits s) \<and> dp_property d = pid \<and> dp_status d = DepositHeld" if "d \<in> set ?ds" for d
    using that by (auto simp: sel_def held_for_def)
  ultimately have "ends (collect ?ds (settle_one ck pid act)) (\<lambda>rs t. rs = map (\<lambda>d. stamp_deposit ck (fate act d) d) ?ds \<and>
    only_deposits s t \<and> deposits t = map (resolved ck act (map dp_id ?ds)) (deposits s)) (\<lambda>_ _. False) s"
    by (rule settle_collect [OF wf])
  moreover have "map (resolved ck act (map dp_id ?ds)) (deposits s) = map (settled_deposit ck rid pid act) (deposits s)"
  proof (rule map_cong [OF refl])
    fix d assume d: "d \<in> set (deposits s)"
    have "held_for rid pid d" if "e \<in> set ?ds" "dp_id d = dp_id e" for e
    proof -
      have "e \<in> set (deposits s)" "held_for rid pid e" using that(1) by (auto simp: sel_def)
      then show ?thesis using distinct_key_unique [OF keys d _ that(2)] by simp
    qed
    then have "dp_id d \<in> set (map dp_id ?ds) \<longleftrightarrow> held_for rid pid d"
      using d by (auto simp: sel_def)
    then show "resolved ck act (map dp_id ?ds) d = settled_deposit ck rid pid act d"
      by (simp add: resolved_def settled_deposit_def)
  qed
  ultimately show ?thesis unfolding settle_deposits_def list_held_deposits_def ends_bnd ends_ask
    by (auto elim: ends_weaken)
qed

section \<open>The ledger invariant\<close>

lemma only_stay_ledger: "only_stay s t \<Longrightarrow> ledger_ok s \<Longrightarrow> ledger_ok t"
proof -
  assume st: "only_stay s t" and s: "ledger_ok s"
  have sums: "folio_charged t = folio_charged s" "folio_paid t = folio_paid s"
    using st by (intro ext, simp add: folio_charged_def folio_paid_def only_stay_def)+
  have "refs_ok s" using s by (simp add: ledger_ok_def ledger_base_def)
  moreover have "fresh s \<le> fresh t" "charges t = charges s" "payments t = payments s" using st by (simp_all add: only_stay_def)
  ultimately have "refs_ok t" unfolding refs_ok_def by (metis less_le_trans)
  with s st sums show ?thesis
    by (simp add: ledger_ok_def ledger_base_def cents_ok_def rules_fit_def books_def only_stay_def)
qed

lemma ledger_wf: "ledger_ok s \<Longrightarrow> wf_hotel s"
  by (simp add: ledger_ok_def ledger_base_def)

lemma keeps_stamp [keeps]:
  "keeps_inv ledger_ok (update_one deposits deposits_update (is_deposit i pid) (stamp_deposit ck q))"
proof -
  have "ledger_ok (stamped ck i pid q s)" if "ledger_ok s" for s
    using only_stay_stamped that by (rule only_stay_ledger)
  then show ?thesis by (simp add: keeps_inv_ends ends_stamp split: option.split)
qed

lemma keeps_find_deposit [keeps]: "keeps_inv I (find_deposit i pid)"
  by (simp add: find_deposit_def keeps_find_row)

lemma keeps_insert_deposit [keeps]: "keeps_inv ledger_ok (insert_deposit d)"
  by (simp add: keeps_inv_ends ends_insert_deposit only_stay_ledger [OF only_stay_add_deposit])

lemma keeps_record_deposit [keeps]: "keeps_inv ledger_ok (record_deposit dto)"
  unfolding record_deposit_def by (intro keeps)

lemma keeps_apply_deposit [keeps]: "keeps_inv ledger_ok (apply_deposit ck i pid fo)"
  unfolding apply_deposit_def by (intro keeps)

lemma keeps_refund_deposit [keeps]: "keeps_inv ledger_ok (refund_deposit ck i pid)"
  unfolding refund_deposit_def by (intro keeps)

lemma keeps_forfeit_deposit [keeps]: "keeps_inv ledger_ok (forfeit_deposit ck i pid)"
  unfolding forfeit_deposit_def by (intro keeps)

lemma keeps_apply_held_deposits [keeps]: "keeps_inv ledger_ok (apply_held_deposits ck rid pid fid)"
  unfolding apply_held_deposits_def list_held_deposits_def by (intro keeps)

lemma keeps_settle_deposits [keeps]: "keeps_inv ledger_ok (settle_deposits ck rid pid act)"
  unfolding settle_deposits_def list_held_deposits_def settle_one_def by (intro keeps)

lemma keeps_ensure_guest_folio [keeps]: "keeps_inv ledger_ok (ensure_guest_folio ck rid pid)"
  unfolding ensure_guest_folio_def by (intro keeps)

lemma keeps_settle_from_evaluation [keeps]:
  "keeps_inv ledger_ok (settle_from_evaluation ck rid pid cur ev txt extra etxt)"
  unfolding settle_from_evaluation_def post_fee_def Let_def by (intro keeps)

section \<open>Applying a deposit\<close>

definition liability :: "hotel \<Rightarrow> ident \<Rightarrow> decimal" where
  "liability s pid = total (\<lambda>d. if dp_property d = pid \<and> dp_status d = DepositHeld then dp_amount d else 0) (deposits s)"

lemma liability_stamped:
  assumes "wf_hotel s" and d: "deposit_of s i pid = Some d" "dp_status d = DepositHeld" and q: "q \<noteq> DepositHeld"
  shows "liability (stamped ck i pid q s) pid = liability s pid - dp_amount d"
proof -
  let ?v = "\<lambda>d. if dp_property d = pid \<and> dp_status d = DepositHeld then dp_amount d else 0"
  have "sum_list (map ?v (upd (is_deposit i pid) (stamp_deposit ck q) (deposits s))) =
      sum_list (map ?v (deposits s)) - ?v d + ?v (stamp_deposit ck q d)"
    using assms(1) deposit_of_SomeD [OF d(1)]
    by (intro sum_list_upd_one [where k = dp_id]) (auto simp: wf_hotel_def keys_ok_def is_deposit_def)
  then show ?thesis using d(2) q deposit_of_SomeD [OF d(1)] by (simp add: liability_def total_eq)
qed

lemma adjustment_dto_simps [simp]:
  "cd_property (adjustment_dto ck pid x a c) = pid" "cd_type (adjustment_dto ck pid x a c) = ChAdjustment"
  "cd_amount (adjustment_dto ck pid x a c) = a" "cd_tax (adjustment_dto ck pid x a c) = None"
  by (simp_all add: adjustment_dto_def)

lemma tax_rows_adjustment [simp]: "tax_rows s fid (adjustment_dto ck pid x a c) = []"
  by (simp add: tax_rows_def)

text \<open>
  A deposit applied to a folio moves its amount from the liability to the folio as a credit.
\<close>

lemma apply_deposit_folio:
  assumes s: "ledger_ok s"
    and Q: "\<And>d t. deposit_of s i pid = Some d \<Longrightarrow> dp_status d = DepositHeld \<Longrightarrow> ledger_ok t \<Longrightarrow>
      liability t pid = liability s pid - dp_amount d \<Longrightarrow>
      folio_charged t (fid, pid) = folio_charged s (fid, pid) - cents (dp_amount d) \<Longrightarrow> Q t"
  shows "ends (apply_deposit ck i pid (Some fid)) (\<lambda>_ t. Q t) (\<lambda>_ _. True) s"
proof (cases "deposit_of s i pid")
  case None
  then show ?thesis by (simp add: apply_deposit_def ends_fun ends_find_deposit)
next
  case (Some d)
  let ?dto = "adjustment_dto ck pid ''Deposit applied'' (cents (- dp_amount d)) (dp_currency d)"
  have post: "ends (post_charge False fid ?dto None None)
      (\<lambda>_. ends (update_one deposits deposits_update (is_deposit i pid) (stamp_deposit ck DepositApplied))
        (\<lambda>u. ends (emit ''deposit.applied'' ''deposit'' (dp_id u) (dp_property u)) (\<lambda>_. Q) (\<lambda>_ _. True)) (\<lambda>_ _. True)) (\<lambda>_ _. True) s" if "dp_status d = DepositHeld"
  proof (rule post_chargeI [OF ledger_ok_rules [OF s]])
    fix f assume f: "folio_of s fid (cd_property ?dto) = Some f"
    let ?u = "sent False ''folio.charge_posted'' ''charge'' (fresh s) (cd_property ?dto) (after_post s fid ?dto None None)"
    have u: "ledger_ok ?u" using ledger_ok_after_post [OF s f] by (simp add: sent_def)
    have du: "deposit_of ?u i pid = Some d" "deposits ?u = deposits s"
      using Some by (simp_all add: deposit_of_def after_post_def sent_def)
    have ch: "folio_charged ?u (fid, pid) = folio_charged s (fid, pid) - cents (dp_amount d)"
      by (simp add: sent_def after_post_def folio_charged_add_charge to_fixed_uminus base_charge_def charge_of_folio_def)
    have li: "liability ?u pid = liability s pid" using du(2) by (simp add: liability_def)
    have "Q (sent False n e j p (stamped ck i pid DepositApplied ?u))" for n e j p
    proof (rule Q [OF Some that])
      show "ledger_ok (sent False n e j p (stamped ck i pid DepositApplied ?u))"
        using only_stay_ledger [OF only_stay_stamped u] by (simp add: sent_def)
      show "liability (sent False n e j p (stamped ck i pid DepositApplied ?u)) pid = liability s pid - dp_amount d"
        using liability_stamped [OF ledger_wf [OF u] du(1) that, of DepositApplied ck] li
        by (simp add: sent_def liability_def)
      show "folio_charged (sent False n e j p (stamped ck i pid DepositApplied ?u)) (fid, pid) =
          folio_charged s (fid, pid) - cents (dp_amount d)"
        using ch by (simp add: sent_def stamped_def folio_charged_def)
    qed
    from this [of "''deposit.applied''" "''deposit''" "dp_id d" "dp_property d"]
    show "ends (update_one deposits deposits_update (is_deposit i pid) (stamp_deposit ck DepositApplied))
        (\<lambda>u. ends (emit ''deposit.applied'' ''deposit'' (dp_id u) (dp_property u)) (\<lambda>_. Q) (\<lambda>_ _. True)) (\<lambda>_ _. True) ?u"
      unfolding ends_stamp unfolding du(1) option.case ends_emit by (simp add: sent_def [of False "''deposit.applied''"])
  qed simp_all
  with Some show ?thesis
    unfolding apply_deposit_def by (auto simp: ends_fun ends_find_deposit ends_guard)
qed

end
