(* ===== verification/Rate_Plan.thy ===== *)
theory Rate_Plan
  imports Availability Folio
begin

text \<open>
  Rate plans (\<open>apps/api/src/modules/rate-plan/rate-plan.service.ts\<close> and \<open>rate-pricing.util.ts\<close>): the
  sellability check of every booking, plans and restrictions with their ownership checks, and the
  effective rate with derivation, length-of-stay and occupancy adjustments in the language's
  number arithmetic. The lemmas say exactly which stays are sellable and bound the effective rate.
\<close>

section \<open>Sellability\<close>

definition is_plan :: "ident \<Rightarrow> ident \<Rightarrow> rate_plan \<Rightarrow> bool" where
  "is_plan i pid p \<longleftrightarrow> p_id p = i \<and> p_property p = pid"

definition find_rate_plan :: "ident \<Rightarrow> ident \<Rightarrow> rate_plan op" where
  "find_rate_plan i pid = find_row rate_plans (is_plan i pid) (NotFound ''Rate plan not found'')"

definition covers :: "date \<Rightarrow> rate_restriction \<Rightarrow> bool" where
  "covers d r \<longleftrightarrow> rx_start r \<le> d \<and> d \<le> rx_end r"

text \<open>\<open>(m, r) => r.minLos ? Math.max(m ?? 0, r.minLos) : m\<close>, and the same with the minimum.\<close>

definition raise_min :: "rate_restriction \<Rightarrow> nat option \<Rightarrow> nat option" where
  "raise_min r m = (case rx_min_los r of None \<Rightarrow> m
     | Some n \<Rightarrow> if n = 0 then m else Some (max (case m of None \<Rightarrow> 0 | Some k \<Rightarrow> k) n))"

definition lower_max :: "rate_restriction \<Rightarrow> nat option \<Rightarrow> nat option" where
  "lower_max r m = (case rx_max_los r of None \<Rightarrow> m
     | Some n \<Rightarrow> if n = 0 then m else Some (case m of None \<Rightarrow> n | Some k \<Rightarrow> min k n))"

definition restrictions_on :: "hotel \<Rightarrow> ident \<Rightarrow> ident \<Rightarrow> date \<Rightarrow> date \<Rightarrow> rate_restriction list" where
  "restrictions_on s pid plan check_in check_out =
     sel (\<lambda>r. rx_property r = pid \<and> rx_plan r = plan \<and> rx_start r \<le> check_out \<and> check_in \<le> rx_end r)
       (rate_restrictions s)"

definition assert_sellable :: "ident \<Rightarrow> ident \<Rightarrow> date \<Rightarrow> date \<Rightarrow> unit op" where
  "assert_sellable pid plan_id check_in check_out =
     bnd (guard (check_in < check_out) (BadRequest ''Check-out must be after check-in'')) (\<lambda>_.
     bnd (find_rate_plan plan_id pid) (\<lambda>plan.
     bnd (guard (p_is_active plan) (BadRequest ''Rate plan is inactive'')) (\<lambda>_.
     bnd (guard (\<not> ((case p_from plan of None \<Rightarrow> False | Some f \<Rightarrow> check_in < f) \<or>
                    (case p_to plan of None \<Rightarrow> False | Some t \<Rightarrow> t < check_out - 1)))
       (BadRequest ''Rate plan is not valid for the complete stay'')) (\<lambda>_.
     bnd (ask (\<lambda>s. restrictions_on s pid plan_id check_in check_out)) (\<lambda>restrictions.
     bnd (guard (\<not> (\<exists>r \<in> set restrictions. rx_is_closed r))
       (BadRequest ''Rate plan is closed (stop-sell) for the selected dates'')) (\<lambda>_.
     bnd (guard (\<not> (\<exists>r \<in> set restrictions. rx_closed_to_arrival r \<and> covers check_in r))
       (BadRequest ''Rate plan is closed to arrival on the check-in date'')) (\<lambda>_.
     bnd (guard (\<not> (\<exists>r \<in> set restrictions. rx_closed_to_departure r \<and> covers check_out r))
       (BadRequest ''Rate plan is closed to departure on the check-out date'')) (\<lambda>_.
     bnd (guard (case fold raise_min restrictions None of None \<Rightarrow> True | Some n \<Rightarrow> n \<le> check_out - check_in)
       (BadRequest ''Minimum length of stay'')) (\<lambda>_.
     guard (case fold lower_max restrictions None of None \<Rightarrow> True | Some n \<Rightarrow> check_out - check_in \<le> n)
       (BadRequest ''Maximum length of stay''))))))))))"

section \<open>Plans\<close>

record plan_dto =
  pc_room_type :: ident
  pc_is_derived :: bool
  pc_base :: decimal
  pc_currency :: string
  pc_parent :: "ident option"
  pc_adj_type :: "adjustment_type option"
  pc_adj_value :: "decimal option"
  pc_policy :: "ident option"
  pc_group :: "ident option"
  pc_from :: "date option"
  pc_to :: "date option"
  pc_los :: "los_adjustment list"
  pc_bands :: "occupancy_band list"

definition owned :: "('r \<Rightarrow> ident) \<Rightarrow> ('r \<Rightarrow> ident) \<Rightarrow> 'r list \<Rightarrow> ident \<Rightarrow> ident option \<Rightarrow> bool" where
  "owned key prop t pid ref \<longleftrightarrow> (case ref of None \<Rightarrow> True | Some i \<Rightarrow> sel (\<lambda>r. key r = i \<and> prop r = pid) t \<noteq> [])"

definition assert_derivable :: "ident \<Rightarrow> plan_dto \<Rightarrow> unit op" where
  "assert_derivable pid dto =
     (case pc_parent dto of
        None \<Rightarrow> throw (BadRequest ''Derived rate plans require parentRatePlanId, derivedAdjustmentType, and derivedAdjustmentValue'')
      | Some parent_id \<Rightarrow>
          bnd (guard (pc_adj_type dto \<noteq> None \<and> pc_adj_value dto \<noteq> None)
            (BadRequest ''Derived rate plans require parentRatePlanId, derivedAdjustmentType, and derivedAdjustmentValue'')) (\<lambda>_.
          bnd (find_row rate_plans (is_plan parent_id pid) (NotFound ''Parent rate plan not found'')) (\<lambda>parent.
          guard (p_parent parent \<noteq> Some parent_id) (BadRequest ''Circular derived rate chain detected''))))"

definition create_rate_plan :: "ident \<Rightarrow> plan_dto \<Rightarrow> rate_plan op" where
  "create_rate_plan pid dto =
     bnd (ask (\<lambda>s. owned t_id t_property (room_types s) pid (Some (pc_room_type dto)))) (\<lambda>type_ok.
     bnd (guard type_ok (BadRequest ''room type not found in this property'')) (\<lambda>_.
     bnd (ask (\<lambda>s. owned po_id po_property (policies s) pid (pc_policy dto))) (\<lambda>policy_ok.
     bnd (guard policy_ok (BadRequest ''cancellation policy not found in this property'')) (\<lambda>_.
     bnd (ask (\<lambda>s. owned gp_id gp_property (group_profiles s) pid (pc_group dto))) (\<lambda>group_ok.
     bnd (guard group_ok (BadRequest ''group profile not found in this property'')) (\<lambda>_.
     bnd (if pc_is_derived dto then assert_derivable pid dto else ret ()) (\<lambda>_.
     bnd new_id (\<lambda>i.
     insert_row rate_plans_update
       \<lparr>p_id = i, p_property = pid, p_room_type = pc_room_type dto, p_is_derived = pc_is_derived dto,
        p_base = cents (pc_base dto), p_currency = pc_currency dto, p_parent = pc_parent dto,
        p_adj_type = pc_adj_type dto, p_adj_value = map_option cents (pc_adj_value dto), p_policy = pc_policy dto,
        p_group = pc_group dto, p_from = pc_from dto, p_to = pc_to dto, p_is_active = True,
        p_los = pc_los dto, p_bands = pc_bands dto\<rparr>))))))))"

definition find_all_plans :: "ident \<Rightarrow> rate_plan list op" where
  "find_all_plans pid = ask (\<lambda>s. sel (\<lambda>p. p_property p = pid \<and> p_is_active p) (rate_plans s))"

text \<open>The fields of an update are absent or given.\<close>

record plan_update =
  pt_is_derived :: "bool option"
  pt_base :: "decimal option"
  pt_currency :: "string option"
  pt_parent :: "ident option"
  pt_adj_type :: "adjustment_type option"
  pt_adj_value :: "decimal option"
  pt_policy :: "ident option"
  pt_group :: "ident option"
  pt_from :: "date option"
  pt_to :: "date option"
  pt_is_active :: "bool option"
  pt_los :: "los_adjustment list option"
  pt_bands :: "occupancy_band list option"

definition given :: "'a option \<Rightarrow> 'a \<Rightarrow> 'a" where
  "given v old = (case v of None \<Rightarrow> old | Some x \<Rightarrow> x)"

definition given_some :: "'a option \<Rightarrow> 'a option \<Rightarrow> 'a option" where
  "given_some v old = (case v of None \<Rightarrow> old | Some x \<Rightarrow> Some x)"

definition merge_plan :: "plan_update \<Rightarrow> rate_plan \<Rightarrow> rate_plan" where
  "merge_plan dto p = p\<lparr>p_is_derived := given (pt_is_derived dto) (p_is_derived p),
     p_base := given (map_option cents (pt_base dto)) (p_base p), p_currency := given (pt_currency dto) (p_currency p),
     p_parent := given_some (pt_parent dto) (p_parent p), p_adj_type := given_some (pt_adj_type dto) (p_adj_type p),
     p_adj_value := given_some (map_option cents (pt_adj_value dto)) (p_adj_value p),
     p_policy := given_some (pt_policy dto) (p_policy p), p_group := given_some (pt_group dto) (p_group p),
     p_from := given_some (pt_from dto) (p_from p), p_to := given_some (pt_to dto) (p_to p),
     p_is_active := given (pt_is_active dto) (p_is_active p), p_los := given (pt_los dto) (p_los p),
     p_bands := given (pt_bands dto) (p_bands p)\<rparr>"

definition update_rate_plan :: "ident \<Rightarrow> ident \<Rightarrow> plan_update \<Rightarrow> rate_plan op" where
  "update_rate_plan i pid dto =
     bnd (ask (\<lambda>s. owned p_id p_property (rate_plans s) pid (pt_parent dto))) (\<lambda>parent_ok.
     bnd (guard parent_ok (BadRequest ''parent rate plan not found in this property'')) (\<lambda>_.
     bnd (ask (\<lambda>s. owned po_id po_property (policies s) pid (pt_policy dto))) (\<lambda>policy_ok.
     bnd (guard policy_ok (BadRequest ''cancellation policy not found in this property'')) (\<lambda>_.
     bnd (update_where rate_plans rate_plans_update (is_plan i pid) (merge_plan dto)) (\<lambda>rows.
     bnd (require (first_row rows) (NotFound ''Rate plan not found'')) (\<lambda>plan.
     bnd (emit ''rate_plan.updated'' ''rate_plan'' (p_id plan) pid) (\<lambda>_.
     ret plan)))))))"

section \<open>The effective rate\<close>

definition apply_rate_adjustment :: "rat \<Rightarrow> adjustment_type \<Rightarrow> decimal \<Rightarrow> rat" where
  "apply_rate_adjustment base kind v =
     (case kind of
        ByPercentage \<Rightarrow> js_num (base * js_num (1 + js_num (js_num v / 100)))
      | ByAmount \<Rightarrow> js_num (base + js_num v))"

text \<open>\<open>sort((a, b) => b.minNights - a.minNights)[0]\<close>: the sort is stable, so the first of the largest.\<close>

definition select_los_adjustment :: "los_adjustment list \<Rightarrow> nat \<Rightarrow> los_adjustment option" where
  "select_los_adjustment adjustments nights =
     (if adjustments = [] \<or> nights = 0 then None
      else first_row (sort_key (\<lambda>a. - int (la_min_nights a)) (filter (\<lambda>a. la_min_nights a \<le> nights) adjustments)))"

definition select_occupancy_band :: "occupancy_band list \<Rightarrow> rat \<Rightarrow> occupancy_band option" where
  "select_occupancy_band bands pct = find (\<lambda>b. ob_min b \<le> pct \<and> pct \<le> ob_max b) bands"

definition get_stay_occupancy_pct :: "ident \<Rightarrow> date \<Rightarrow> rat op" where
  "get_stay_occupancy_pct pid d =
     ask (\<lambda>s.
       let total_rooms = (case first_row (sel (\<lambda>h. h_id h = pid) (properties s)) of
             None \<Rightarrow> 0 | Some h \<Rightarrow> h_total_rooms h);
           unavailable = count_rows (\<lambda>m. m_property m = pid \<and> m_is_active m \<and>
             (m_status m = OutOfOrder \<or> m_status m = OutOfService)) (rooms s);
           available = int total_rooms - int unavailable;
           sold = count_rows (\<lambda>r. r_property r = pid \<and> r_status r \<notin> {Cancelled, NoShow} \<and>
             r_arrival r \<le> d \<and> d < r_departure r) (reservations s)
       in if 0 < available then js_num (js_num (of_nat sold / of_int available) * 100) else 0)"

record rate_context =
  rc_nights :: nat
  rc_check_in :: "date option"
  rc_check_out :: "date option"
  rc_stay_date :: "date option"

record effective_rate =
  er_rate :: rat
  er_currency :: string
  er_base :: rat
  er_los :: "los_adjustment option"
  er_band :: "occupancy_band option"

definition context_nights :: "rate_context \<Rightarrow> int" where
  "context_nights c = (if rc_nights c = 0 then
       (case (rc_check_in c, rc_check_out c) of
          (Some a, Some b) \<Rightarrow> int b - int a | _ \<Rightarrow> 0)
     else int (rc_nights c))"

text \<open>\<open>Math.max(0, Number(x.toFixed(2)))\<close>.\<close>

definition displayed :: "rat \<Rightarrow> rat" where
  "displayed x = max 0 (js_num (to_fixed 2 x))"

definition base_rate_of :: "ident \<Rightarrow> rate_plan \<Rightarrow> rat op" where
  "base_rate_of pid plan =
     (case (if p_is_derived plan then p_parent plan else None) of
        None \<Rightarrow> ret (js_num (p_base plan))
      | Some parent_id \<Rightarrow>
          bnd (find_rate_plan parent_id pid) (\<lambda>parent.
          ret (apply_rate_adjustment (js_num (p_base parent))
                 (if p_adj_type plan = Some ByPercentage then ByPercentage else ByAmount)
                 (case p_adj_value plan of None \<Rightarrow> 0 | Some v \<Rightarrow> v))))"

definition calculate_derived_rate :: "ident \<Rightarrow> ident \<Rightarrow> rate_context \<Rightarrow> effective_rate op" where
  "calculate_derived_rate i pid c =
     bnd (find_rate_plan i pid) (\<lambda>plan.
     bnd (base_rate_of pid plan) (\<lambda>base.
     let los = select_los_adjustment (p_los plan) (nat (context_nights c));
         after_los = (case los of None \<Rightarrow> base | Some a \<Rightarrow> apply_rate_adjustment base (la_type a) (la_value a));
         stay_date = (case rc_stay_date c of None \<Rightarrow> rc_check_in c | Some d \<Rightarrow> Some d) in
     bnd (case stay_date of
            None \<Rightarrow> ret None
          | Some d \<Rightarrow> if p_bands plan = [] then ret None
              else bnd (get_stay_occupancy_pct pid d) (\<lambda>pct. ret (select_occupancy_band (p_bands plan) pct))) (\<lambda>band.
     let effective = (case band of None \<Rightarrow> after_los | Some b \<Rightarrow> apply_rate_adjustment after_los (ob_type b) (ob_value b))
     in ret \<lparr>er_rate = displayed effective, er_currency = p_currency plan, er_base = displayed base,
             er_los = los, er_band = band\<rparr>)))"

section \<open>Restrictions\<close>

record restriction_dto =
  rd_start :: date
  rd_end :: date
  rd_min_los :: "nat option"
  rd_max_los :: "nat option"
  rd_closed_to_arrival :: bool
  rd_closed_to_departure :: bool
  rd_is_closed :: bool

definition create_restriction :: "ident \<Rightarrow> ident \<Rightarrow> restriction_dto \<Rightarrow> rate_restriction op" where
  "create_restriction plan pid dto =
     bnd (find_rate_plan plan pid) (\<lambda>_.
     bnd new_id (\<lambda>i.
     bnd (insert_row rate_restrictions_update
            \<lparr>rx_id = i, rx_property = pid, rx_plan = plan, rx_start = rd_start dto, rx_end = rd_end dto,
             rx_min_los = rd_min_los dto, rx_max_los = rd_max_los dto,
             rx_closed_to_arrival = rd_closed_to_arrival dto, rx_closed_to_departure = rd_closed_to_departure dto,
             rx_is_closed = rd_is_closed dto\<rparr>) (\<lambda>row.
     bnd (emit ''rate_restriction.created'' ''rate_restriction'' (rx_id row) pid) (\<lambda>_.
     ret row))))"

definition find_restrictions :: "ident \<Rightarrow> ident \<Rightarrow> rate_restriction list op" where
  "find_restrictions plan pid =
     bnd (find_rate_plan plan pid) (\<lambda>_.
     ask (\<lambda>s. sel (\<lambda>r. rx_plan r = plan \<and> rx_property r = pid) (rate_restrictions s)))"

definition is_restriction :: "ident \<Rightarrow> ident \<Rightarrow> rate_restriction \<Rightarrow> bool" where
  "is_restriction i pid r \<longleftrightarrow> rx_id r = i \<and> rx_property r = pid"

definition update_restriction :: "ident \<Rightarrow> ident \<Rightarrow> (rate_restriction \<Rightarrow> rate_restriction) \<Rightarrow> rate_restriction op" where
  "update_restriction i pid set_fields =
     bnd (update_where rate_restrictions rate_restrictions_update (is_restriction i pid) set_fields) (\<lambda>rows.
     bnd (require (first_row rows) (NotFound ''Rate restriction not found'')) (\<lambda>row.
     bnd (emit ''rate_restriction.updated'' ''rate_restriction'' (rx_id row) pid) (\<lambda>_.
     ret row)))"

definition delete_restriction :: "ident \<Rightarrow> ident \<Rightarrow> bool op" where
  "delete_restriction i pid =
     bnd (ask (\<lambda>s. sel (is_restriction i pid) (rate_restrictions s))) (\<lambda>rows.
     bnd (tell (rate_restrictions_update (filter (\<lambda>r. \<not> is_restriction i pid r)))) (\<lambda>_.
     bnd (require (first_row rows) (NotFound ''Rate restriction not found'')) (\<lambda>row.
     bnd (emit ''rate_restriction.deleted'' ''rate_restriction'' i pid) (\<lambda>_.
     ret True))))"

section \<open>Which stays are sellable\<close>

definition admits :: "date \<Rightarrow> date \<Rightarrow> rate_restriction \<Rightarrow> bool" where
  "admits check_in check_out r \<longleftrightarrow> \<not> rx_is_closed r \<and>
     \<not> (rx_closed_to_arrival r \<and> covers check_in r) \<and> \<not> (rx_closed_to_departure r \<and> covers check_out r) \<and>
     (\<forall>n \<in> set_option (rx_min_los r). n \<le> check_out - check_in) \<and>
     (\<forall>n \<in> set_option (rx_max_los r). n = 0 \<or> check_out - check_in \<le> n)"

definition valid_for :: "date \<Rightarrow> date \<Rightarrow> rate_plan \<Rightarrow> bool" where
  "valid_for check_in check_out p \<longleftrightarrow> p_is_active p \<and>
     (\<forall>f \<in> set_option (p_from p). f \<le> check_in) \<and> (\<forall>t \<in> set_option (p_to p). check_out - 1 \<le> t)"

lemma raise_min_le:
  "(case raise_min r m of None \<Rightarrow> True | Some n \<Rightarrow> n \<le> k) \<longleftrightarrow>
   (case m of None \<Rightarrow> True | Some n \<Rightarrow> n \<le> k) \<and> (\<forall>n \<in> set_option (rx_min_los r). n \<le> k)"
  by (auto simp: raise_min_def split: option.splits)

lemma lower_max_ge:
  "(case lower_max r m of None \<Rightarrow> True | Some n \<Rightarrow> k \<le> n) \<longleftrightarrow>
   (case m of None \<Rightarrow> True | Some n \<Rightarrow> k \<le> n) \<and> (\<forall>n \<in> set_option (rx_max_los r). n = 0 \<or> k \<le> n)"
  by (auto simp: lower_max_def split: option.splits)

lemma fold_raise_min:
  "(case fold raise_min rs m of None \<Rightarrow> True | Some n \<Rightarrow> n \<le> k) \<longleftrightarrow>
   (case m of None \<Rightarrow> True | Some n \<Rightarrow> n \<le> k) \<and> (\<forall>r \<in> set rs. \<forall>n \<in> set_option (rx_min_los r). n \<le> k)"
  by (induction rs arbitrary: m) (auto simp: raise_min_le)

lemma fold_lower_max:
  "(case fold lower_max rs m of None \<Rightarrow> True | Some n \<Rightarrow> k \<le> n) \<longleftrightarrow>
   (case m of None \<Rightarrow> True | Some n \<Rightarrow> k \<le> n) \<and> (\<forall>r \<in> set rs. \<forall>n \<in> set_option (rx_max_los r). n = 0 \<or> k \<le> n)"
  by (induction rs arbitrary: m) (auto simp: lower_max_ge)

definition plan_of :: "hotel \<Rightarrow> ident \<Rightarrow> ident \<Rightarrow> rate_plan option" where
  "plan_of s i pid = first_row (sel (is_plan i pid) (rate_plans s))"

lemma plan_valid_iff:
  "\<not> ((case p_from plan of None \<Rightarrow> False | Some f \<Rightarrow> check_in < f) \<or>
      (case p_to plan of None \<Rightarrow> False | Some t \<Rightarrow> t < check_out - 1)) \<and> p_is_active plan \<longleftrightarrow>
   valid_for check_in check_out plan"
  by (auto simp: valid_for_def not_less split: option.splits)

lemma assert_sellable_state [simp]: "snd (assert_sellable pid plan ci co s) = s"
  by (simp add: assert_sellable_def find_rate_plan_def guard_apply split: option.split)

lemma keeps_assert_sellable [keeps]: "keeps_inv I (assert_sellable pid plan ci co)"
  by (simp add: keeps_inv_def)

lemma sellable_iff:
  "assert_sellable pid plan_id check_in check_out s = (Inr (), s) \<longleftrightarrow>
   check_in < check_out \<and>
   (\<exists>plan. plan_of s plan_id pid = Some plan \<and> valid_for check_in check_out plan) \<and>
   (\<forall>r \<in> set (restrictions_on s pid plan_id check_in check_out). admits check_in check_out r)"
proof -
  let ?rs = "restrictions_on s pid plan_id check_in check_out"
  have all: "(\<forall>r \<in> set ?rs. admits check_in check_out r) \<longleftrightarrow>
      \<not> (\<exists>r \<in> set ?rs. rx_is_closed r) \<and> \<not> (\<exists>r \<in> set ?rs. rx_closed_to_arrival r \<and> covers check_in r) \<and>
      \<not> (\<exists>r \<in> set ?rs. rx_closed_to_departure r \<and> covers check_out r) \<and>
      (case fold raise_min ?rs None of None \<Rightarrow> True | Some n \<Rightarrow> n \<le> check_out - check_in) \<and>
      (case fold lower_max ?rs None of None \<Rightarrow> True | Some n \<Rightarrow> check_out - check_in \<le> n)"
    unfolding fold_raise_min fold_lower_max by (auto simp: admits_def)
  show ?thesis
    unfolding all
    by (cases "plan_of s plan_id pid")
      (auto simp: assert_sellable_def find_rate_plan_def plan_of_def guard_apply
         plan_valid_iff [symmetric])
qed

lemma ends_assert_sellable [wp]:
  "ends (assert_sellable pid plan ci co) Q E s =
     (case fst (assert_sellable pid plan ci co s) of Inl e \<Rightarrow> E e s | Inr x \<Rightarrow> Q x s)"
  using assert_sellable_state [of pid plan ci co s]
  by (cases "assert_sellable pid plan ci co s") (simp add: ends_def)

section \<open>Adjustments\<close>

lemma first_sort_key_max:
  fixes m :: "'a \<Rightarrow> nat"
  assumes "first_row (sort_key (\<lambda>a. - int (m a)) xs) = Some a"
  shows "a \<in> set xs \<and> (\<forall>b \<in> set xs. m b \<le> m a)"
proof -
  let ?ys = "sort_key (\<lambda>a. - int (m a)) xs"
  obtain zs where z: "?ys = a # zs" using assms by (cases ?ys) simp_all
  have s: "set ?ys = set xs" by simp
  have "sorted (map (\<lambda>a. - int (m a)) ?ys)" by (rule sorted_sort_key)
  with z have "\<forall>b \<in> set zs. m b \<le> m a" by simp
  with z s show ?thesis by (metis list.set_intros(1) order_refl set_ConsD)
qed

text \<open>The chosen length-of-stay adjustment qualifies and no qualifying one asks for more nights.\<close>

lemma los_adjustment_largest:
  "select_los_adjustment xs nights = Some a \<Longrightarrow>
   a \<in> set xs \<and> la_min_nights a \<le> nights \<and> 0 < nights \<and>
   (\<forall>b \<in> set xs. la_min_nights b \<le> nights \<longrightarrow> la_min_nights b \<le> la_min_nights a)"
  unfolding select_los_adjustment_def
  by (auto split: if_splits dest!: first_sort_key_max [where m = la_min_nights])

lemma los_adjustment_none:
  "select_los_adjustment xs nights = None \<longleftrightarrow> nights = 0 \<or> (\<forall>a \<in> set xs. nights < la_min_nights a)"
proof -
  have "first_row (sort_key f ys) = None \<longleftrightarrow> ys = []" for f :: "los_adjustment \<Rightarrow> int" and ys
    by (metis first_row_None_iff length_sort length_0_conv)
  then show ?thesis
    by (auto simp: select_los_adjustment_def filter_empty_conv not_le)
qed

lemma occupancy_band_covers:
  "select_occupancy_band bands pct = Some b \<Longrightarrow> b \<in> set bands \<and> ob_min b \<le> pct \<and> pct \<le> ob_max b"
  by (auto simp: select_occupancy_band_def find_Some_iff)

lemma base_rate_reads: "ends (base_rate_of pid plan) (\<lambda>_ t. t = s) (\<lambda>_ t. t = s) s"
  by (simp add: base_rate_of_def find_rate_plan_def wp split: option.split)

lemma occupancy_reads: "ends (get_stay_occupancy_pct pid d) (\<lambda>_ t. t = s) (\<lambda>_ t. t = s) s"
  by (simp add: get_stay_occupancy_pct_def wp)

lemma effective_rate_nonneg:
  "ends (calculate_derived_rate i pid c) (\<lambda>er t. 0 \<le> er_rate er \<and> 0 \<le> er_base er \<and> t = s) (\<lambda>_ t. t = s) s"
  unfolding calculate_derived_rate_def find_rate_plan_def ends_bnd ends_find_row
  by (auto simp: ends_fun Let_def displayed_def split: option.split
      intro!: ends_weaken [OF base_rate_reads] ends_weaken [OF occupancy_reads] base_rate_reads occupancy_reads)

lemma effective_rate_ends:
  "ends (calculate_derived_rate i pid c) (\<lambda>er t. t = s \<and> 0 \<le> er_rate er \<and> (\<exists>plan. plan_of s i pid = Some plan \<and>
    (case er_los er of
       None \<Rightarrow> nat (context_nights c) = 0 \<or> (\<forall>a \<in> set (p_los plan). nat (context_nights c) < la_min_nights a)
     | Some a \<Rightarrow> a \<in> set (p_los plan) \<and> la_min_nights a \<le> nat (context_nights c) \<and>
         (\<forall>b \<in> set (p_los plan). la_min_nights b \<le> nat (context_nights c) \<longrightarrow> la_min_nights b \<le> la_min_nights a)) \<and>
    (\<forall>b. er_band er = Some b \<longrightarrow> b \<in> set (p_bands plan)))) (\<lambda>_ _. True) s"
proof (cases "plan_of s i pid")
  case None
  then show ?thesis by (simp add: calculate_derived_rate_def find_rate_plan_def plan_of_def ends_fun ends_find_row)
next
  case (Some plan)
  let ?n = "nat (context_nights c)"
  have los: "case select_los_adjustment (p_los plan) ?n of
       None \<Rightarrow> ?n = 0 \<or> (\<forall>a \<in> set (p_los plan). ?n < la_min_nights a)
     | Some a \<Rightarrow> a \<in> set (p_los plan) \<and> la_min_nights a \<le> ?n \<and>
         (\<forall>b \<in> set (p_los plan). la_min_nights b \<le> ?n \<longrightarrow> la_min_nights b \<le> la_min_nights a)"
    using los_adjustment_largest [of "p_los plan" ?n] los_adjustment_none [of "p_los plan" ?n]
    by (auto split: option.split)
  have band: "select_occupancy_band (p_bands plan) pct = Some b \<Longrightarrow> b \<in> set (p_bands plan)" for pct b
    by (drule occupancy_band_covers) simp
  show ?thesis
    unfolding calculate_derived_rate_def find_rate_plan_def ends_bnd ends_find_row
    using Some los band
    by (auto simp: ends_fun Let_def displayed_def plan_of_def split: option.split
        intro!: ends_weaken [OF base_rate_reads] ends_weaken [OF occupancy_reads])
qed

section \<open>Updates\<close>

lemma keeps_rate_plans:
  "(\<And>s f. I s \<Longrightarrow> I (rate_plans_update f s)) \<Longrightarrow> (\<And>s n. I s \<Longrightarrow> I (s\<lparr>fresh := n\<rparr>)) \<Longrightarrow>
   keeps_inv I (create_rate_plan pid dto)"
  unfolding create_rate_plan_def assert_derivable_def
  by (intro keeps keeps_insert_row) auto

end
