(* ===== verification/Effects.thy ===== *)
theory Effects
  imports Deposit Rate_Plan
begin

text \<open>
  What a caller of the folio, payment and deposit services can rely on when a method has returned:
  the rules of the theories \<open>Folio_Facts\<close>, \<open>Payment_Facts\<close> and \<open>Deposit\<close> put together into the
  effects on the sums of the ledger.
\<close>

section \<open>Postings\<close>

lemma total_inserted:
  "total charge_value (inserted n cs) = total (\<lambda>c. cents (c_amount c) + cents (c_tax c)) cs"
  by (induction cs arbitrary: n) (simp_all add: charge_value_def stored_charge_def)

lemma total_of_folio:
  assumes "\<And>c. c \<in> set cs \<Longrightarrow> c_folio c = Some fid \<and> c_property c = pid"
  shows "total (\<lambda>c. if charge_of_folio (fst k) (snd k) c then cents (c_amount c) + cents (c_tax c) else 0) cs
    = (if k = (fid, pid) then total charge_value (inserted n cs) else 0)"
proof (cases "k = (fid, pid)")
  case True
  have "total (\<lambda>c. if charge_of_folio (fst k) (snd k) c then cents (c_amount c) + cents (c_tax c) else 0) cs
      = total (\<lambda>c. cents (c_amount c) + cents (c_tax c)) cs"
    using assms True by (intro total_cong) (simp add: charge_of_folio_def)
  then show ?thesis using True by (simp add: total_inserted)
next
  case False
  have "total (\<lambda>c. if charge_of_folio (fst k) (snd k) c then cents (c_amount c) + cents (c_tax c) else 0) cs
      = total (\<lambda>c. 0) cs"
    using assms False by (intro total_cong) (auto simp: charge_of_folio_def)
  then show ?thesis using False by (simp add: total_eq)
qed

text \<open>What a posting that creates rows does to the charge sums.\<close>

lemma folio_charged_after_post:
  "folio_charged (after_post s fid dto parent source) k = folio_charged s k +
    (if k = (fid, cd_property dto)
     then charge_value ((stored_charge (base_charge fid dto parent source))\<lparr>c_id := fresh s\<rparr>)
        + total charge_value (inserted (Suc (fresh s)) (tax_rows s fid dto)) else 0)"
proof -
  have rows: "c_folio c = Some fid \<and> c_property c = cd_property dto" if "c \<in> set (tax_rows s fid dto)" for c
    using tax_rows_of [OF that] by simp
  have base: "charge_of_folio (fst k) (snd k) (base_charge fid dto parent source) \<longleftrightarrow> k = (fid, cd_property dto)"
    by (cases k) (auto simp: charge_of_folio_def)
  note sum = total_of_folio [of "tax_rows s fid dto" fid "cd_property dto" k "Suc (fresh s)", OF rows]
  show ?thesis
  proof (cases "k = (fid, cd_property dto)")
    case True
    with sum show ?thesis
      unfolding after_post_def folio_charged_recalc folio_charged_add_charges folio_charged_add_charge base
      by (simp add: charge_value_def stored_charge_def)
  next
    case False
    with sum show ?thesis
      unfolding after_post_def folio_charged_recalc folio_charged_add_charges folio_charged_add_charge base by simp
  qed
qed

definition posting_did :: "hotel \<Rightarrow> ident \<times> ident \<Rightarrow> posted \<Rightarrow> hotel \<Rightarrow> bool" where
  "posting_did s k p t \<longleftrightarrow> ledger_ok t \<and>
     folio_charged t k = folio_charged s k + charge_value (pd_charge p) + total charge_value (pd_taxes p) \<and>
     (\<forall>j. j \<noteq> k \<longrightarrow> folio_charged t j = folio_charged s j)"

lemma post_charge_did:
  assumes "ledger_ok s"
  shows "ends (post_charge in_tx fid dto parent None) (posting_did s (fid, cd_property dto)) (\<lambda>_. ledger_ok) s"
proof (rule post_chargeI [OF ledger_ok_rules [OF assms]])
  fix f assume "folio_of s fid (cd_property dto) = Some f"
  from ledger_ok_after_post [OF assms this]
  show "posting_did s (fid, cd_property dto) \<lparr>pd_charge = (stored_charge (base_charge fid dto parent None))\<lparr>c_id := fresh s\<rparr>,
      pd_taxes = inserted (Suc (fresh s)) (tax_rows s fid dto), pd_created = True\<rparr>
      (sent in_tx ''folio.charge_posted'' ''charge'' (fresh s) (cd_property dto) (after_post s fid dto parent None))"
    by (simp add: posting_did_def folio_charged_after_post)
qed (simp_all add: assms ledger_ok_bump)

section \<open>Reversals\<close>

text \<open>The unreversed parts of a charge group.\<close>

definition open_parts :: "hotel \<Rightarrow> ident \<Rightarrow> charge \<Rightarrow> charge list" where
  "open_parts s pid c = filter (\<lambda>d. unreversed s pid d \<and> c_id d \<noteq> c_id c) (children_of s (c_id c) pid)"

lemma reversal_did:
  assumes s: "ledger_ok s"
  shows "ends (reverse_charge fid cid pid) (\<lambda>r t. ledger_ok t \<and> (\<exists>c \<in> set (charges s). c_id c = cid \<and>
      c_amount r = - c_amount c \<and>
      folio_charged t (fid, pid) = folio_charged s (fid, pid) - charge_value c - total charge_value (open_parts s pid c)) \<and>
      (\<exists>d \<in> set (charges t). reversal_of cid pid d)) (\<lambda>_ t. t = s) s"
proof (rule reverse_chargeI)
  show "wf_hotel s" using s by (simp add: ledger_ok_def ledger_base_def)
  fix c assume c: "c \<in> set (charges s)" "c_id c = cid" "charge_of_folio fid pid c"
  let ?t = "sent False ''folio.charge_posted'' ''charge'' (fresh s) pid
      (recalc_folio (fid, pid) (add_charges (reversal_rows s fid pid c) s))"
  have cents: "cents_ok s" using s by (simp add: ledger_ok_def ledger_base_def)
  then have neg: "c_amount ((stored_charge (reversal_row fid pid None c))\<lparr>c_id := n\<rparr>) = - c_amount c" for n
    using c(1) by (simp add: stored_charge_def cents_ok_def to_fixed_id)
  have "fid < fresh s" using s c by (auto simp: ledger_ok_def ledger_base_def refs_ok_def charge_of_folio_def)
  then have "ledger_ok ?t" using s reversal_rows_of by (simp add: ledger_ok_post_rows)
  moreover have "folio_charged ?t (fid, pid) =
      folio_charged s (fid, pid) - charge_value c - total charge_value (open_parts s pid c)"
    using folio_charged_reversal [OF cents c(1)] by (simp add: open_parts_def)
  moreover have "\<exists>d \<in> set (charges ?t). reversal_of cid pid d"
  proof -
    have "charges ?t = charges s @ inserted (fresh s) (reversal_rows s fid pid c)"
      using add_charges_effect by simp
    moreover have "reversal_of cid pid ((stored_charge (reversal_row fid pid None c))\<lparr>c_id := fresh s\<rparr>)"
      by (simp add: reversal_of_def stored_charge_def reversal_row_def c(2))
    ultimately show ?thesis by (simp add: reversal_rows_def)
  qed
  ultimately show "ledger_ok ?t \<and> (\<exists>e \<in> set (charges s). c_id e = cid \<and>
      c_amount ((stored_charge (reversal_row fid pid None c))\<lparr>c_id := fresh s\<rparr>) = - c_amount e \<and>
      folio_charged ?t (fid, pid) = folio_charged s (fid, pid) - charge_value e - total charge_value (open_parts s pid e)) \<and>
      (\<exists>d \<in> set (charges ?t). reversal_of cid pid d)"
    using c neg by blast
qed simp

lemma reversed_twice:
  assumes "ledger_ok t" and "\<exists>d \<in> set (charges t). reversal_of cid pid d"
  shows "ends (reverse_charge fid cid pid) (\<lambda>_ _. False) (\<lambda>_ u. u = t) t"
  using assms by (intro reverse_chargeI) (auto simp: ledger_ok_def ledger_base_def unreversed_def sel_Nil_iff)

section \<open>Transfers and settling\<close>

lemma transfer_did:
  assumes s: "ledger_ok s"
  shows "ends (transfer_charge fid pid cid target) (\<lambda>_ t. ledger_ok t \<and> payments t = payments s \<and>
      (\<exists>c \<in> set (charges s). c_id c = cid \<and> (\<forall>k. folio_charged t k = folio_charged s k
         - (if k = (fid, pid) then charge_value c else 0) + (if k = (target, pid) then charge_value c else 0))))
    (\<lambda>_ t. t = s) s"
proof (rule transfer_chargeI)
  fix c f g assume c: "c \<in> set (charges s)" "c_id c = cid" "charge_of_folio fid pid c"
    and fg: "fid \<noteq> target" "folio_of s fid pid = Some f" "folio_of s target pid = Some g"
  have wf: "wf_hotel s" using s by (simp add: ledger_ok_def ledger_base_def)
  have "ledger_ok (recalc_folio (target, pid) (recalc_folio (fid, pid) (moved (c_id c) target s)))"
    using s c fg by (auto intro: ledger_ok_moved folio_of_fresh dest: ledger_okD)
  then show "ledger_ok (recalc_folio (target, pid) (recalc_folio (fid, pid) (moved (c_id c) target s))) \<and>
      payments (recalc_folio (target, pid) (recalc_folio (fid, pid) (moved (c_id c) target s))) = payments s \<and>
      (\<exists>d \<in> set (charges s). c_id d = cid \<and> (\<forall>k. folio_charged (recalc_folio (target, pid)
          (recalc_folio (fid, pid) (moved (c_id c) target s))) k = folio_charged s k
         - (if k = (fid, pid) then charge_value d else 0) + (if k = (target, pid) then charge_value d else 0)))"
    using folio_charged_moved [OF wf c(1,3)] c by (auto intro!: bexI [of _ c])
qed simp

lemma settle_did:
  "ends (settle_folio now fid pid) (\<lambda>f t. f_status f = FolioSettled \<and> \<bar>f_balance f\<bar> \<le> 1 / 100 \<and>
      (\<forall>y \<in> set (payments t). \<not> outstanding t fid pid y) \<and> charges t = charges s \<and> payments t = payments s)
    (\<lambda>_ t. t = s) s"
  by (rule settle_folioI) (auto simp: outstanding_def)

end
