(* ===== verification/Examples.thy ===== *)
theory Examples
  imports Effects
begin

text \<open>
  One small deployment, on which the witnesses of the properties are evaluated: a property with one
  room type and one room, a guest with an assigned reservation for two nights, her open folio with
  one charge and one card payment, a held deposit, and a ten per cent tax on rooms.
\<close>

section \<open>Rows\<close>

definition ex_guest :: guest where
  "ex_guest = \<lparr>g_id = 5, g_is_dnr = False, g_vip_level = ''none''\<rparr>"

definition ex_property :: property where
  "ex_property = \<lparr>h_id = 30, h_timezone = ''UTC'', h_total_rooms = 1, h_overbooking_percentage = 0,
     h_check_in_time = (15, 0), h_check_out_time = (11, 0), h_registration_required = False,
     h_early_fee = Some 20, h_late_fee = Some 30\<rparr>"

definition ex_room_type :: room_type where
  "ex_room_type = \<lparr>t_id = 2, t_property = 30, t_name = ''Double'', t_is_active = True, t_max_occupancy = 2\<rparr>"

definition ex_room :: room where
  "ex_room = \<lparr>m_id = 3, m_property = 30, m_type = 2, m_number = ''101'', m_status = GuestReady, m_is_active = True,
     m_notes = None, m_updated = 0\<rparr>"

definition ex_plan :: rate_plan where
  "ex_plan = \<lparr>p_id = 4, p_property = 30, p_room_type = 2, p_is_derived = False, p_base = 100, p_currency = ''EUR'',
     p_parent = None, p_adj_type = None, p_adj_value = None, p_policy = None, p_group = None, p_from = None,
     p_to = None, p_is_active = True, p_los = [], p_bands = []\<rparr>"

definition ex_booking :: booking where
  "ex_booking = \<lparr>b_id = 6, b_property = 30, b_guest = 5, b_confirmation = ''C1''\<rparr>"

definition ex_reservation :: reservation where
  "ex_reservation = \<lparr>r_id = 7, r_property = 30, r_booking = 6, r_guest = 5, r_arrival = 738000, r_departure = 738002,
     r_nights = 2, r_room_type = 2, r_room = Some 3, r_status = Assigned, r_rate_plan = 4, r_total = 200,
     r_currency = ''EUR'', r_snapshot = None, r_adults = 1, r_children = 0, r_requests = None, r_do_not_move = False,
     r_checked_in_at = None, r_checked_out_at = None, r_cancelled_at = None, r_cancel_reason = None,
     r_is_early = False, r_early_fee = None, r_is_late = False, r_late_fee = None, r_id_document = None,
     r_signed_at = None, r_registration = None, r_submitted_at = None, r_updated = 0\<rparr>"

definition ex_folio :: folio where
  "ex_folio = \<lparr>f_id = 8, f_property = 30, f_reservation = Some 7, f_booking = Some 6, f_guest = 5,
     f_number = ''F-200718-0001'', f_type = GuestFolio, f_status = FolioOpen, f_total_charges = 110,
     f_total_payments = 110, f_balance = 0, f_currency = ''EUR'', f_settled_at = None, f_closed_at = None\<rparr>"

definition ex_master :: folio where
  "ex_master = ex_folio\<lparr>f_id := 15, f_number := ''F-200718-0002'', f_type := MasterFolio, f_reservation := None,
     f_total_charges := 0, f_total_payments := 0, f_balance := 0\<rparr>"

definition ex_charge :: charge where
  "ex_charge = \<lparr>c_id = 9, c_property = 30, c_folio = Some 8, c_house = None, c_type = ChRoom, c_description = ''Room'',
     c_amount = 100, c_currency = ''EUR'', c_tax = 0, c_tax_rate = None, c_tax_code = None, c_service = 0,
     c_reversal = False, c_original = None, c_parent = None, c_adjusts = None, c_source = None, c_locked = False,
     c_lock_date = None, c_posted_by = None\<rparr>"

definition ex_tax_charge :: charge where
  "ex_tax_charge = ex_charge\<lparr>c_id := 14, c_type := ChTax, c_description := ''VAT'', c_amount := 10,
     c_parent := Some 9\<rparr>"

definition ex_payment :: payment where
  "ex_payment = \<lparr>y_id = 10, y_property = 30, y_folio = Some 8, y_house = None, y_request = None, y_idempotency = None,
     y_method = CreditCard, y_status = PayCaptured, y_amount = 110, y_currency = ''EUR'', y_provider = Some ''mock'',
     y_transaction = Some ''tx1'', y_is_preauth = False, y_preauth_expires = None, y_original = None,
     y_finalization = None, y_notes = None, y_processed = None, y_created = 0\<rparr>"

definition ex_deposit :: deposit where
  "ex_deposit = \<lparr>dp_id = 11, dp_property = 30, dp_reservation = Some 7, dp_payment = None, dp_amount = 50,
     dp_currency = ''EUR'', dp_status = DepositHeld, dp_refundable = True, dp_recognized = None, dp_notes = None\<rparr>"

definition ex_tax_profile :: tax_profile where
  "ex_tax_profile = \<lparr>tp_id = 12, tp_property = 30, tp_is_active = True, tp_from = 0, tp_to = None\<rparr>"

definition ex_tax_rule :: tax_rule where
  "ex_tax_rule = \<lparr>tr_id = 13, tr_profile = 12, tr_name = ''VAT'', tr_code = ''VAT10'', tr_type = PercentageTax,
     tr_rate = 10, tr_split = None, tr_scopes = [OnCharge ChRoom], tr_exemptions = None, tr_compounding = False,
     tr_sort = 1, tr_is_active = True, tr_from = 0, tr_to = None\<rparr>"

definition ex_hotel :: hotel where
  "ex_hotel = empty_hotel\<lparr>guests := [ex_guest], properties := [ex_property], room_types := [ex_room_type],
     rooms := [ex_room], rate_plans := [ex_plan], bookings := [ex_booking], reservations := [ex_reservation],
     folios := [ex_folio, ex_master], charges := [ex_charge, ex_tax_charge], payments := [ex_payment], deposits := [ex_deposit],
     tax_profiles := [ex_tax_profile], tax_rules := [ex_tax_rule], fresh := 40\<rparr>"

definition ex_clock :: clock where
  "ex_clock = \<lparr>ck_now = 1000, ck_today = 719528, ck_day = (2020, 7, 18)\<rparr>"

lemmas ex_rows = ex_guest_def ex_property_def ex_room_type_def ex_room_def ex_plan_def ex_booking_def
  ex_reservation_def ex_folio_def ex_master_def ex_charge_def ex_tax_charge_def ex_payment_def ex_deposit_def ex_tax_profile_def
  ex_tax_rule_def

lemma ex_tables [simp]:
  "guests ex_hotel = [ex_guest]" "properties ex_hotel = [ex_property]" "room_types ex_hotel = [ex_room_type]"
  "rooms ex_hotel = [ex_room]" "rate_plans ex_hotel = [ex_plan]" "bookings ex_hotel = [ex_booking]"
  "reservations ex_hotel = [ex_reservation]" "folios ex_hotel = [ex_folio, ex_master]"
  "charges ex_hotel = [ex_charge, ex_tax_charge]" "payments ex_hotel = [ex_payment]"
  "deposits ex_hotel = [ex_deposit]" "tax_profiles ex_hotel = [ex_tax_profile]" "tax_rules ex_hotel = [ex_tax_rule]"
  "policies ex_hotel = []" "house_accounts ex_hotel = []" "cash_sessions ex_hotel = []"
  "rate_restrictions ex_hotel = []" "ical_blocks ex_hotel = []" "ical_feeds ex_hotel = []" "fresh ex_hotel = 40"
  "services ex_hotel = []" "plan_components ex_hotel = []" "reservation_services ex_hotel = []"
  by (simp_all add: ex_hotel_def empty_hotel_def)

lemma ex_hotel_wf: "wf_hotel ex_hotel"
  by (simp add: wf_hotel_def keys_ok_def ex_rows)

lemma ex_folio_sums: "folio_charged ex_hotel (8, 30) = 110" "folio_paid ex_hotel (8, 30) = 110"
  "folio_charged ex_hotel (15, 30) = 0" "folio_paid ex_hotel (15, 30) = 0"
  by (simp_all add: folio_charged_def folio_paid_def sel_def charge_of_folio_def charge_value_def
      folio_payment_sum_where_def counts_as_paid_def ex_rows)

lemma ex_hotel_base: "ledger_base ex_hotel"
  using fits_of_int [of 2 100] fits_of_int [of 2 10] fits_of_int [of 2 110]
  by (simp add: ledger_base_def ex_hotel_wf refs_ok_def cents_ok_def rules_fit_def ex_rows)

lemma ex_hotel_books: "folio_books {} ex_hotel"
proof -
  have "cents 110 = 110" using to_fixed_id [OF fits_of_int, of 2 110] by simp
  then show ?thesis
    by (simp add: books_def folio_key_def ex_folio_def ex_master_def folio_totals_def statement_def ex_folio_sums)
qed

lemma ex_hotel_ledger: "ledger_ok ex_hotel"
  using ex_hotel_base ex_hotel_books by (rule ledger_okI)

lemma ex_hotel_sound: "sound {} ex_hotel"
  using ex_hotel_base ex_hotel_books
  by (simp add: sound_def refunds_ok_def refunded_def sum_refund_children_def sel_def refund_child_def ex_payment_def)

section \<open>Runs\<close>

text \<open>A run that returns. The bundle evaluates a method of the services on the deployment.\<close>

definition returns :: "('s, 'a) prog \<Rightarrow> 's \<Rightarrow> bool" where
  "returns m s \<longleftrightarrow> ends m (\<lambda>_ _. True) (\<lambda>_ _. False) s"

lemma returnsE: "returns m s \<Longrightarrow> (\<And>x t. m s = (Inr x, t) \<Longrightarrow> P) \<Longrightarrow> P"
  by (cases "m s", cases "fst (m s)") (simp_all add: returns_def ends_def)

lemma returns_iff: "returns m s \<longleftrightarrow> (\<exists>x t. m s = (Inr x, t))"
  by (auto simp: returns_def ends_def split: prod.splits sum.splits)

lemma run_tables [simp]:
  "sel c [] = []" "sel c (x # xs) = (if c x then x # sel c xs else sel c xs)"
  "upd c f [] = []" "upd c f (x # xs) = (if c x then f x else x) # upd c f xs"
  by (simp_all add: sel_def upd_def)

lemmas run_ledger = returns_def find_folio_def is_folio_def no_tax_options_def same_source_def fits_columns_def
  base_charge_def stored_charge_def taxes_of_def calculate_taxes_eq in_force_def active_tax_rules_def
  rule_applies_def charge_of_folio_def reversal_row_def children_of_def unreversed_def reversal_of_def
  accepted_parent_def count_rows_def insert_charge_def finish_posting_def

lemmas run_payment = returns_def mock_gateway_def mock_result_def payment_of_def is_payment_def
  assert_generic_access_allowed_def refundable_def falsy_def find_replay_def check_remaining_def refund_child_def
  build_lifecycle_gateway_options_def lower_def finish_refund_def book_refund_def append_refund_def
  sum_refund_children_def same_idempotency_def prepare_refund_def

definition ex_fee :: charge_dto where
  "ex_fee = fee_dto ex_clock 30 ''Fee'' 20 ''EUR''"

definition ex_merchants :: merchants where
  "ex_merchants = \<lparr>mc_worldline = [30], mc_redsys = []\<rparr>"

text \<open>A card payment that waits for its hosted checkout, and the report that it was captured.\<close>

definition ex_checkout :: hotel where
  "ex_checkout = ex_hotel\<lparr>payments := [ex_payment\<lparr>y_status := PayPending, y_provider := Some ''worldline''\<rparr>]\<rparr>"

definition ex_report :: finalize_input where
  "ex_report = \<lparr>fi_payment = 10, fi_property = 30, fi_provider = ''worldline'', fi_success = True, fi_captured = True,
     fi_cancel_pending = False, fi_transaction = Some ''tx2''\<rparr>"

lemma ex_checkout_wf: "wf_hotel ex_checkout"
  by (simp add: wf_hotel_def keys_ok_def ex_rows ex_checkout_def)

lemma ex_report_run:
  obtains es t where "finalize_hosted_authorization 5 ex_report ex_checkout = (Inr es, t)" and "es \<noteq> []"
proof -
  have "ends (finalize_hosted_authorization 5 ex_report) (\<lambda>es t. es \<noteq> []) (\<lambda>_ _. False) ex_checkout"
    by (simp add: finalize_hosted_authorization_def finalize_in_tx_def follow_intent_def wp ex_checkout_def
        awaits_def ex_report_def is_payment_def ex_payment_def completed_def)
  then show ?thesis using that by (auto simp: ends_def split: prod.splits sum.splits)
qed

lemma ex_no_numbers: "numbers_of_day ex_hotel (2020, 7, 19) 30 = []"
proof -
  have "\<not> starts_with (number_prefix (2020, 7, 19)) ''F-200718-0001''"
    "\<not> starts_with (number_prefix (2020, 7, 19)) ''F-200718-0002''" by code_simp+
  then show ?thesis by (simp add: numbers_of_day_def ex_folio_def ex_master_def)
qed

lemma ex_policies_ok: "policies_ok ex_hotel"
  by (simp add: policies_ok_def)

lemma ex_apply_returns: "returns (apply_deposit ex_clock 11 30 (Some 8)) ex_hotel"
  by (simp add: run_ledger apply_deposit_def post_charge_def wp ends_fun deposit_of_def is_deposit_def adjustment_dto_def ex_rows)

lemma ex_post_returns: "returns (post_charge False 8 ex_fee None None) ex_hotel"
  by (simp add: run_ledger post_charge_def wp ex_rows ex_fee_def fee_dto_def ex_clock_def)

lemma ex_reverse_returns: "returns (reverse_charge 8 9 30) ex_hotel"
  by (simp add: run_ledger reverse_charge_def reverse_in_tx_def wp ex_rows)

lemma ex_transfer_returns: "returns (transfer_charge 8 30 9 15) ex_hotel"
  by (simp add: run_ledger transfer_charge_def wp ex_rows)

lemma ex_settle_returns: "returns (settle_folio 0 8 30) ex_hotel"
  by (simp add: run_ledger settle_folio_def wp ex_rows)

lemma ex_refund_returns: "returns (refund_payment (mock_gateway ''u'') ex_merchants 0 10 30 (Some 40) None) ex_hotel"
  by (simp add: run_payment refund_payment_def wp ends_fun ex_rows)

end
