(* ===== verification/Ancillary.thy ===== *)
theory Ancillary
  imports Deposit
begin

text \<open>
  The extras of a stay (\<open>apps/api/src/modules/ancillary/ancillary.service.ts\<close>): the catalogue, the
  components of package rate plans, the services attached to a reservation, and their posting to
  the guest folio once at check-in or night by night. A reservation with an accepted price posts
  the frozen amounts; its rows are matched to the frozen services by
  \<open>common/accepted-pricing/accepted-reservation-service.ts\<close> under the lock of
  \<open>common/database/accepted-pricing-lock.ts\<close>. Every operation keeps the ledger invariant,
  attaching a package twice attaches nothing the second time, and a service is not charged twice
  for the same night.
\<close>

section \<open>The catalogue\<close>

record service_dto =
  vd_property :: ident
  vd_code :: string
  vd_name :: string
  vd_charge_type :: charge_type
  vd_price :: decimal
  vd_currency :: string
  vd_tax_code :: "string option"
  vd_rule :: posting_rule
  vd_channels :: "string list option"
  vd_is_active :: "bool option"
  vd_sort :: "int option"

definition create_service :: "service_dto \<Rightarrow> service op" where
  "create_service dto =
     bnd new_id (\<lambda>i.
     bnd (insert_row services_update
            \<lparr>sv_id = i, sv_property = vd_property dto, sv_code = vd_code dto, sv_name = vd_name dto,
             sv_charge_type = vd_charge_type dto, sv_price = cents (vd_price dto), sv_currency = vd_currency dto,
             sv_tax_code = vd_tax_code dto, sv_rule = vd_rule dto, sv_channels = or_else (vd_channels dto) [],
             sv_is_active = or_else (vd_is_active dto) True, sv_sort = or_else (vd_sort dto) 0\<rparr>) (\<lambda>row.
     bnd (emit ''service.created'' ''service'' (sv_id row) (sv_property row)) (\<lambda>_.
     ret row)))"

definition is_service :: "ident \<Rightarrow> ident \<Rightarrow> service \<Rightarrow> bool" where
  "is_service i pid v \<longleftrightarrow> sv_id v = i \<and> sv_property v = pid"

definition find_service_by_id :: "ident \<Rightarrow> ident \<Rightarrow> service op" where
  "find_service_by_id i pid = find_row services (is_service i pid) (NotFound ''Service not found'')"

definition list_services ::
  "ident \<Rightarrow> bool option \<Rightarrow> string option \<Rightarrow> nat \<Rightarrow> nat \<Rightarrow> (service list \<times> nat) op" where
  "list_services pid active channel page limit =
     ask (\<lambda>s. let rows = sel (\<lambda>v. sv_property v = pid \<and> opt_eq active (sv_is_active v) \<and>
            (case channel of None \<Rightarrow> True | Some c \<Rightarrow> c \<in> set (sv_channels v))) (services s)
       in (page_of page limit (sort_key sv_sort rows), length rows))"

text \<open>\<open>set({ ...dto })\<close>: the argument \<open>f\<close> writes the fields of the request and leaves both keys alone.\<close>

definition update_service :: "ident \<Rightarrow> ident \<Rightarrow> (service \<Rightarrow> service) \<Rightarrow> service op" where
  "update_service i pid f =
     bnd (find_service_by_id i pid) (\<lambda>_.
     bnd (update_one services services_update (is_service i pid) f) (\<lambda>updated.
     bnd (emit ''service.updated'' ''service'' (sv_id updated) (sv_property updated)) (\<lambda>_.
     ret updated)))"

section \<open>Components of package plans\<close>

definition create_rate_plan_component ::
  "ident \<Rightarrow> ident \<Rightarrow> ident \<Rightarrow> nat option \<Rightarrow> decimal option \<Rightarrow> bool option \<Rightarrow> plan_component op" where
  "create_rate_plan_component pid plan service quantity amount included =
     bnd (find_row rate_plans (\<lambda>p. p_id p = plan \<and> p_property p = pid) (NotFound ''Rate plan not found'')) (\<lambda>_.
     bnd (find_service_by_id service pid) (\<lambda>_.
     bnd new_id (\<lambda>i.
     insert_row plan_components_update
       \<lparr>pk_id = i, pk_property = pid, pk_plan = plan, pk_service = service, pk_quantity = or_else quantity 1,
        pk_amount = map_option cents amount, pk_included = or_else included True\<rparr>)))"

definition list_rate_plan_components :: "ident \<Rightarrow> ident \<Rightarrow> plan_component list op" where
  "list_rate_plan_components pid plan =
     ask (\<lambda>s. sel (\<lambda>k. pk_property k = pid \<and> pk_plan k = plan) (plan_components s))"

definition delete_rate_plan_component :: "ident \<Rightarrow> ident \<Rightarrow> bool op" where
  "delete_rate_plan_component i pid =
     bnd (find_row plan_components (\<lambda>k. pk_id k = i \<and> pk_property k = pid)
            (NotFound ''Rate plan component not found'')) (\<lambda>_.
     bnd (tell (plan_components_update (filter (\<lambda>k. \<not> (pk_id k = i \<and> pk_property k = pid))))) (\<lambda>_.
     ret True))"

section \<open>Services of a reservation\<close>

definition find_reservation :: "ident \<Rightarrow> ident \<Rightarrow> reservation op" where
  "find_reservation rid pid = find_row reservations (is_reservation rid pid) (NotFound ''Reservation not found'')"

definition open_guest_folio :: "hotel \<Rightarrow> ident \<Rightarrow> ident \<Rightarrow> folio option" where
  "open_guest_folio s rid pid = first_row (sel (\<lambda>f. f_reservation f = Some rid \<and> f_property f = pid \<and>
     f_type f = GuestFolio \<and> f_status f = FolioOpen) (folios s))"

definition find_open_guest_folio :: "ident \<Rightarrow> ident \<Rightarrow> folio option op" where
  "find_open_guest_folio rid pid = ask (\<lambda>s. open_guest_folio s rid pid)"

definition svc_tag :: "ident \<Rightarrow> string" where
  "svc_tag i = ''[svc:'' @ show_nat i @ '']''"

text \<open>\<open>like '%tag%'\<close>; an identifier holds no wildcard.\<close>

fun contains :: "string \<Rightarrow> string \<Rightarrow> bool" where
  "contains w [] = (w = [])"
| "contains w (c # cs) = (take (length w) (c # cs) = w \<or> contains w cs)"

text \<open>\<open>service_date::date\<close> in a session whose time zone is UTC.\<close>

definition utc_day :: "timestamp \<Rightarrow> date" where
  "utc_day t = nat (t div (24 * 60 * 60 * 1000) + int (day_number (1970, 1, 1)))"

definition tagged_charge :: "ident \<Rightarrow> ident \<Rightarrow> ident \<Rightarrow> date option \<Rightarrow> charge \<Rightarrow> bool" where
  "tagged_charge fid pid i day c \<longleftrightarrow> charge_of_folio fid pid c \<and> \<not> c_reversal c \<and>
     contains (svc_tag i) (c_description c) \<and> (case day of None \<Rightarrow> True | Some d \<Rightarrow> utc_day (c_service c) = d)"

definition has_posted_charge :: "ident \<Rightarrow> ident \<Rightarrow> ident \<Rightarrow> date option \<Rightarrow> bool op" where
  "has_posted_charge fid pid i day = ask (\<lambda>s. sel (tagged_charge fid pid i day) (charges s) \<noteq> [])"

record pricing_override =
  ov_currency :: string
  ov_rule :: posting_rule
  ov_charge_type :: charge_type

record attach_dto =
  at_property :: ident
  at_service :: ident
  at_quantity :: "nat option"
  at_unit_price :: "decimal option"
  at_start :: "date option"
  at_end :: "date option"
  at_source :: "string option"
  at_notes :: "string option"

definition attach_to_reservation ::
  "bool \<Rightarrow> timestamp \<Rightarrow> ident \<Rightarrow> attach_dto \<Rightarrow> pricing_override option \<Rightarrow> (reservation_service \<times> string) op" where
  "attach_to_reservation in_tx now rid dto override =
     bnd (find_reservation rid (at_property dto)) (\<lambda>reservation.
     bnd (find_service_by_id (at_service dto) (at_property dto)) (\<lambda>service.
     bnd (guard (sv_is_active service) (BadRequest ''Service is not active'')) (\<lambda>_.
     bnd new_id (\<lambda>i.
     bnd (insert_row reservation_services_update
            \<lparr>rs_id = i, rs_property = at_property dto, rs_reservation = r_id reservation, rs_service = sv_id service,
             rs_quantity = or_else (at_quantity dto) 1,
             rs_unit_price = cents (or_else (at_unit_price dto) (sv_price service)),
             rs_currency = (case override of None \<Rightarrow> sv_currency service | Some p \<Rightarrow> ov_currency p),
             rs_start = at_start dto, rs_end = at_end dto, rs_status = ServiceConfirmed,
             rs_source = or_else (at_source dto) ''front_desk'',
             rs_rule = (case override of None \<Rightarrow> sv_rule service | Some p \<Rightarrow> ov_rule p),
             rs_charge_type = (case override of None \<Rightarrow> sv_charge_type service | Some p \<Rightarrow> ov_charge_type p),
             rs_notes = at_notes dto, rs_created = now\<rparr>) (\<lambda>row.
     bnd (if in_tx then ret ()
          else emit ''reservation.service_attached'' ''reservation_service'' (rs_id row) (at_property dto)) (\<lambda>_.
     ret (row, sv_name service)))))))"

definition of_reservation :: "ident \<Rightarrow> ident \<Rightarrow> reservation_service \<Rightarrow> bool" where
  "of_reservation rid pid x \<longleftrightarrow> rs_property x = pid \<and> rs_reservation x = rid"

definition list_for_reservation :: "ident \<Rightarrow> ident \<Rightarrow> reservation_service list op" where
  "list_for_reservation pid rid =
     bnd (find_reservation rid pid) (\<lambda>_.
     ask (\<lambda>s. sort_key rs_created (sel (of_reservation rid pid) (reservation_services s))))"

text \<open>\<open>withAcceptedPricingLock\<close>: the row lock, and a transaction unless the caller has one.\<close>

definition with_accepted_pricing_lock :: "ident \<Rightarrow> ident \<Rightarrow> 'a op \<Rightarrow> bool \<Rightarrow> 'a op" where
  "with_accepted_pricing_lock pid rid work existing_tx =
     (let execute = bnd (find_row reservations (is_reservation rid pid)
            (Failure ''Reservation not found for accepted-pricing lock'')) (\<lambda>_. work)
      in if existing_tx then execute else transact execute)"

definition is_attached :: "ident \<Rightarrow> ident \<Rightarrow> ident \<Rightarrow> reservation_service \<Rightarrow> bool" where
  "is_attached i pid rid x \<longleftrightarrow> rs_id x = i \<and> rs_property x = pid \<and> rs_reservation x = rid"

definition cancel_in_tx :: "ident \<Rightarrow> ident \<Rightarrow> ident \<Rightarrow> reservation_service op" where
  "cancel_in_tx i pid rid =
     bnd (find_row reservation_services (is_attached i pid rid) (NotFound ''Reservation service not found'')) (\<lambda>row.
     bnd (guard (rs_status row \<noteq> ServiceCancelled) (BadRequest ''Reservation service is already cancelled'')) (\<lambda>_.
     bnd (guard (rs_status row \<noteq> ServicePosted) (BadRequest ''Cannot cancel a posted reservation service'')) (\<lambda>_.
     bnd (update_where reservation_services reservation_services_update
            (\<lambda>x. is_attached i pid rid x \<and> (rs_status x = ServiceQuoted \<or> rs_status x = ServiceConfirmed))
            (\<lambda>x. x\<lparr>rs_status := ServiceCancelled\<rparr>)) (\<lambda>rows.
     require (first_row rows) (Conflict ''Reservation service changed while it was being cancelled'')))))"

definition cancel_reservation_service :: "ident \<Rightarrow> ident \<Rightarrow> ident \<Rightarrow> reservation_service op" where
  "cancel_reservation_service i pid rid =
     bnd (with_accepted_pricing_lock pid rid (cancel_in_tx i pid rid) False) (\<lambda>updated.
     bnd (emit ''reservation.service_cancelled'' ''reservation_service'' (rs_id updated) pid) (\<lambda>_.
     ret updated))"

section \<open>Packages\<close>

definition component_price :: "bool \<Rightarrow> plan_component \<Rightarrow> service \<Rightarrow> decimal" where
  "component_price freeze k v =
     (if freeze then 0 else case pk_amount k of Some a \<Rightarrow> a | None \<Rightarrow> if pk_included k then 0 else sv_price v)"

text \<open>
  One turn of the loop; \<open>existing\<close> holds the services of the reservation read before it, and
  \<open>frozen\<close> the currency of an accepted price (\<open>acceptedPricing\<close>).
\<close>

definition attach_component ::
  "bool \<Rightarrow> timestamp \<Rightarrow> ident \<Rightarrow> ident \<Rightarrow> string option \<Rightarrow> ident list \<Rightarrow> plan_component \<Rightarrow>
   (reservation_service \<times> string) option op" where
  "attach_component in_tx now rid pid frozen existing k =
     (if pk_service k \<in> set existing then ret None
      else
        bnd (find_service_by_id (pk_service k) pid) (\<lambda>service.
        bnd new_id (\<lambda>i.
        bnd (insert_row reservation_services_update
               \<lparr>rs_id = i, rs_property = pid, rs_reservation = rid, rs_service = sv_id service,
                rs_quantity = pk_quantity k, rs_unit_price = cents (component_price (frozen \<noteq> None) k service),
                rs_currency = or_else frozen (sv_currency service), rs_start = None, rs_end = None,
                rs_status = ServiceConfirmed, rs_source = ''package'', rs_rule = sv_rule service,
                rs_charge_type = sv_charge_type service, rs_notes = None, rs_created = now\<rparr>) (\<lambda>row.
        bnd (if in_tx then ret ()
             else emit ''reservation.service_attached'' ''reservation_service'' (rs_id row) pid) (\<lambda>_.
        ret (Some (row, sv_name service)))))))"

definition ensure_package_components ::
  "bool \<Rightarrow> timestamp \<Rightarrow> ident \<Rightarrow> ident \<Rightarrow> string option \<Rightarrow> (reservation_service \<times> string) list op" where
  "ensure_package_components in_tx now rid pid frozen =
     bnd (find_reservation rid pid) (\<lambda>reservation.
     bnd (ask (\<lambda>s. sel (\<lambda>k. pk_property k = pid \<and> pk_plan k = r_rate_plan reservation) (plan_components s))) (\<lambda>components.
     if components = [] then ret []
     else
       bnd (ask (\<lambda>s. map rs_service (sel (of_reservation rid pid) (reservation_services s)))) (\<lambda>existing.
       bnd (collect components (attach_component in_tx now rid pid frozen existing)) (\<lambda>attached.
       ret (List.map_filter id attached)))))"

section \<open>Accepted prices\<close>

text \<open>
  \<open>matchAcceptedReservationServiceRows\<close>: the row of a frozen service. The comparison is by
  provenance, then creation time, then identifier, which is the nested stable sort.
\<close>

definition accepted_candidates :: "reservation_service list \<Rightarrow> ident \<Rightarrow> reservation_service list" where
  "accepted_candidates rows service =
     sort_key (\<lambda>x. if rs_source x = ''booking_engine'' then 0 else 1 :: nat)
       (sort_key rs_created (sort_key rs_id (filter (\<lambda>x. rs_service x = service) rows)))"

definition match_accepted_rows ::
  "snapshot option \<Rightarrow> reservation_service list \<Rightarrow> ident \<Rightarrow> reservation_service option" where
  "match_accepted_rows pricing rows service =
     (case pricing of None \<Rightarrow> None
      | Some p \<Rightarrow> if service \<in> ps_service ` set (sn_services p) then first_row (accepted_candidates rows service)
                else None)"

definition is_accepted_row :: "snapshot option \<Rightarrow> reservation_service list \<Rightarrow> reservation_service \<Rightarrow> bool" where
  "is_accepted_row pricing rows x \<longleftrightarrow>
     (case match_accepted_rows pricing rows (rs_service x) of None \<Rightarrow> False | Some y \<Rightarrow> rs_id y = rs_id x)"

record accepted_line =
  al_date :: date
  al_amount :: decimal
  al_tax :: decimal
  al_currency :: string
  al_rule :: posting_rule
  al_charge_type :: charge_type

definition accepted_service_line ::
  "reservation \<Rightarrow> ident \<Rightarrow> date \<Rightarrow> bool \<Rightarrow> accepted_line option" where
  "accepted_service_line r service d use_first =
     (case r_snapshot r of None \<Rightarrow> None | Some pricing \<Rightarrow>
        (case find (\<lambda>p. ps_service p = service) (sn_services pricing) of None \<Rightarrow> None | Some p \<Rightarrow>
           (case (case find (\<lambda>l. sl_date l = d) (ps_lines p) of
                    Some l \<Rightarrow> Some l | None \<Rightarrow> if use_first then first_row (ps_lines p) else None) of
              None \<Rightarrow> None
            | Some l \<Rightarrow> Some \<lparr>al_date = sl_date l, al_amount = sl_amount l, al_tax = sl_tax l,
                al_currency = sn_currency pricing, al_rule = ps_rule p, al_charge_type = ps_charge_type p\<rparr>)))"

section \<open>Posting at check-in\<close>

text \<open>The inner join with the catalogue: the rows of a reservation with the names of their services.\<close>

definition service_rows :: "ident \<Rightarrow> ident \<Rightarrow> hotel \<Rightarrow> (reservation_service \<times> string) list" where
  "service_rows rid pid s = concat (map (\<lambda>x. map (\<lambda>v. (x, sv_name v)) (sel (is_service (rs_service x) (rs_property x)) (services s)))
     (sel (of_reservation rid pid) (reservation_services s)))"

definition service_charge_dto ::
  "ident \<Rightarrow> charge_type \<Rightarrow> string \<Rightarrow> ident \<Rightarrow> decimal \<Rightarrow> string \<Rightarrow> date \<Rightarrow> ident \<Rightarrow> charge_dto" where
  "service_charge_dto pid ct name i amount currency d guest =
     \<lparr>cd_property = pid, cd_type = ct, cd_description = name @ '' '' @ svc_tag i, cd_amount = amount,
      cd_currency = currency, cd_tax = None, cd_tax_rate = None, cd_tax_code = None, cd_service = utc_midnight d,
      cd_service_date = d, cd_posted_by = None,
      cd_options = \<lparr>to_guest = Some guest, to_nights = None, to_night_number = None\<rparr>, cd_skip_tax = False,
      cd_internal = False\<rparr>"

text \<open>The posting of either kind: the frozen amount under its source key, or the row's own price.\<close>

definition plain_outcome :: "posted \<Rightarrow> snapshot_posted" where
  "plain_outcome p = \<lparr>sp_charge = pd_charge p, sp_taxes = pd_taxes p, sp_adjustments = [], sp_created = True\<rparr>"

definition post_service_charge ::
  "bool \<Rightarrow> ident \<Rightarrow> charge_dto \<Rightarrow> accepted_line option \<Rightarrow> source_key \<Rightarrow> snapshot_posted op" where
  "post_service_charge in_tx fid dto line key =
     (case line of
        Some l \<Rightarrow> post_charge_from_snapshot_with_outcome in_tx fid dto (al_tax l) None (Some key)
      | None \<Rightarrow> bnd (post_charge in_tx fid dto None None) (\<lambda>p. ret (plain_outcome p)))"

definition mark_posted :: "ident \<Rightarrow> ident \<Rightarrow> reservation_service list op" where
  "mark_posted i pid =
     update_where reservation_services reservation_services_update
       (\<lambda>x. rs_id x = i \<and> rs_property x = pid \<and> rs_status x = ServiceConfirmed)
       (\<lambda>x. x\<lparr>rs_status := ServicePosted\<rparr>)"

definition once_rule :: "posting_rule \<Rightarrow> bool" where
  "once_rule q \<longleftrightarrow> q = PostOnce \<or> q = IncludedInRate"

text \<open>What a turn of the loop contributes: the row it reports and the ledger group it created.\<close>

record once_posting =
  op_row :: "reservation_service option"
  op_outcome :: "snapshot_posted option"

text \<open>The second half of the turn: the charge, and the new status of the row.\<close>

definition finish_once ::
  "reservation \<Rightarrow> folio \<Rightarrow> ident \<Rightarrow> accepted_line option \<Rightarrow> bool \<Rightarrow> reservation_service \<Rightarrow> string \<Rightarrow> once_posting op" where
  "finish_once r folio pid line accepted x name =
     (let amount = (case line of Some l \<Rightarrow> al_amount l | None \<Rightarrow> cents (rs_unit_price x * of_nat (rs_quantity x)));
          day = (case line of Some l \<Rightarrow> al_date l | None \<Rightarrow> r_arrival r);
          dto = service_charge_dto pid (case line of Some l \<Rightarrow> al_charge_type l | None \<Rightarrow> rs_charge_type x) name (rs_id x)
                  amount (case line of Some l \<Rightarrow> al_currency l | None \<Rightarrow> rs_currency x) day (r_guest r)
      in
      bnd (if 0 < amount
           then bnd (post_service_charge True (f_id folio) dto line (ServiceOnceKey (rs_id x) day)) (\<lambda>p. ret (Some p))
           else ret None) (\<lambda>outcome.
      if accepted \<and> rs_status x = ServicePosted then
        (if (case outcome of None \<Rightarrow> False | Some p \<Rightarrow> sp_created p)
         then ret \<lparr>op_row = Some x, op_outcome = outcome\<rparr> else ret \<lparr>op_row = None, op_outcome = outcome\<rparr>)
      else
        bnd (mark_posted (rs_id x) pid) (\<lambda>rows.
        bnd (require (first_row rows) (Conflict ''Reservation service changed while posting'')) (\<lambda>updated.
        ret \<lparr>op_row = Some updated, op_outcome = outcome\<rparr>))))"

definition nothing_posted :: once_posting where
  "nothing_posted = \<lparr>op_row = None, op_outcome = None\<rparr>"

definition post_once_row ::
  "reservation \<Rightarrow> folio \<Rightarrow> ident \<Rightarrow> reservation_service list \<Rightarrow> reservation_service \<times> string \<Rightarrow> once_posting op" where
  "post_once_row r folio pid rows row =
     (case row of (x, name) \<Rightarrow>
      let has_accepted = (r_snapshot r \<noteq> None);
          accepted = (has_accepted \<and> is_accepted_row (r_snapshot r) rows x);
          line = (if accepted then accepted_service_line r (rs_service x) (r_arrival r) True else None);
          rule = (case line of Some l \<Rightarrow> al_rule l | None \<Rightarrow> rs_rule x)
      in
      if rs_status x = ServiceCancelled then ret nothing_posted
      else if has_accepted \<and> rs_source x = ''booking_engine'' \<and> \<not> accepted then ret nothing_posted
      else if accepted \<and> (line = None \<or> \<not> once_rule rule) then ret nothing_posted
      else if \<not> accepted \<and> (rs_status x \<noteq> ServiceConfirmed \<or> \<not> once_rule rule) then ret nothing_posted
      else
        bnd (if accepted then ret False else has_posted_charge (f_id folio) pid (rs_id x) None) (\<lambda>already.
        if already then bnd (mark_posted (rs_id x) pid) (\<lambda>_. ret nothing_posted)
        else finish_once r folio pid line accepted x name))"

definition post_once_in_tx :: "ident \<Rightarrow> ident \<Rightarrow> once_posting list op" where
  "post_once_in_tx rid pid =
     bnd (find_reservation rid pid) (\<lambda>r.
     bnd (find_open_guest_folio rid pid) (\<lambda>found.
     bnd (require found (BadRequest ''No open guest folio for reservation'')) (\<lambda>folio.
     bnd (ask (service_rows rid pid)) (\<lambda>rows.
     collect rows (post_once_row r folio pid (map fst rows))))))"

definition post_once_for_reservation :: "ident \<Rightarrow> ident \<Rightarrow> reservation_service list op" where
  "post_once_for_reservation rid pid =
     bnd (with_accepted_pricing_lock pid rid (post_once_in_tx rid pid) False) (\<lambda>results.
     bnd (for_each (List.map_filter op_outcome results) (emit_snapshot_charge_webhooks pid)) (\<lambda>_.
     bnd (for_each (List.map_filter op_row results)
            (\<lambda>x. emit ''reservation.service_posted'' ''reservation_service'' (rs_id x) pid)) (\<lambda>_.
     ret (List.map_filter op_row results))))"

section \<open>Posting a night\<close>

definition in_house :: "reservation_status \<Rightarrow> bool" where
  "in_house q \<longleftrightarrow> q \<in> {CheckedIn, Stayover, DueOut}"

text \<open>The three-way join with the reservations in house.\<close>

definition night_rows :: "ident \<Rightarrow> hotel \<Rightarrow> (reservation_service \<times> string \<times> reservation) list" where
  "night_rows pid s = concat (map (\<lambda>x. concat (map (\<lambda>r.
       map (\<lambda>v. (x, sv_name v, r)) (sel (is_service (rs_service x) (rs_property x)) (services s)))
       (sel (\<lambda>r. is_reservation (rs_reservation x) (rs_property x) r \<and> in_house (r_status r)) (reservations s))))
     (sel (\<lambda>x. rs_property x = pid) (reservation_services s)))"

definition within_service_dates :: "reservation_service \<Rightarrow> date \<Rightarrow> bool" where
  "within_service_dates x d \<longleftrightarrow> (case rs_start x of None \<Rightarrow> True | Some a \<Rightarrow> a \<le> d) \<and>
     (case rs_end x of None \<Rightarrow> True | Some b \<Rightarrow> d \<le> b)"

text \<open>The work under the lock of a reservation with an accepted price; \<open>None\<close> is \<open>return null\<close>.\<close>

definition post_locked_night ::
  "ident \<Rightarrow> date \<Rightarrow> ident \<Rightarrow> ident \<Rightarrow> snapshot_posted option op" where
  "post_locked_night pid d rid i =
     bnd (ask (\<lambda>s. (service_rows rid pid s, reservation_of s rid pid))) (\<lambda>read.
     case read of (rows, found) \<Rightarrow>
     (case (find (\<lambda>row. rs_id (fst row) = i) rows, found) of
        (Some (x, name), Some r) \<Rightarrow>
          let accepted = is_accepted_row (r_snapshot r) (map fst rows) x;
              line = (if accepted then accepted_service_line r (rs_service x) d False else None);
              rule = (case line of Some l \<Rightarrow> al_rule l | None \<Rightarrow> rs_rule x);
              amount = (case line of Some l \<Rightarrow> al_amount l | None \<Rightarrow> cents (rs_unit_price x * of_nat (rs_quantity x)));
              dto = service_charge_dto pid (case line of Some l \<Rightarrow> al_charge_type l | None \<Rightarrow> rs_charge_type x) name i
                      amount (case line of Some l \<Rightarrow> al_currency l | None \<Rightarrow> rs_currency x) d (r_guest r)
          in
          if rs_status x = ServiceCancelled then ret None
          else if rs_source x = ''booking_engine'' \<and> \<not> accepted then ret None
          else if accepted \<and> (line = None \<or> rule \<noteq> PostPerNight) then ret None
          else if \<not> accepted \<and> (rs_status x \<noteq> ServiceConfirmed \<or> rule \<noteq> PostPerNight \<or> \<not> within_service_dates x d)
            then ret None
          else
            bnd (find_open_guest_folio rid pid) (\<lambda>folio.
            bnd (require folio (BadRequest ''No open guest folio for reservation'')) (\<lambda>f.
            bnd (if accepted then ret False else has_posted_charge (f_id f) pid i (Some d)) (\<lambda>already.
            if already \<or> amount \<le> 0 then ret None
            else bnd (post_service_charge True (f_id f) dto line (ServiceNightKey i d)) (\<lambda>p. ret (Some p)))))
      | _ \<Rightarrow> ret None))"

datatype night_result = NightPosted ident charge | NightSkipped ident | NightError ident

definition post_accepted_night ::
  "ident \<Rightarrow> date \<Rightarrow> reservation_service \<Rightarrow> reservation \<Rightarrow> night_result op" where
  "post_accepted_night pid d x r =
     bnd (with_accepted_pricing_lock pid (r_id r) (post_locked_night pid d (r_id r) (rs_id x)) False) (\<lambda>posting.
     case posting of
       None \<Rightarrow> ret (NightSkipped (rs_id x))
     | Some p \<Rightarrow>
         if \<not> sp_created p then ret (NightSkipped (rs_id x))
         else
           bnd (emit_snapshot_charge_webhooks pid p) (\<lambda>_.
           bnd (emit ''reservation.service_posted'' ''reservation_service'' (rs_id x) pid) (\<lambda>_.
           ret (NightPosted (rs_id x) (sp_charge p)))))"

text \<open>Without an accepted price (\<open>acceptedServiceLine\<close> is then null) the row's own price is posted.\<close>

definition post_plain_night ::
  "ident \<Rightarrow> date \<Rightarrow> reservation_service \<Rightarrow> string \<Rightarrow> reservation \<Rightarrow> night_result op" where
  "post_plain_night pid d x name r =
     (if rs_status x \<noteq> ServiceConfirmed \<or> rs_rule x \<noteq> PostPerNight \<or> \<not> within_service_dates x d
      then ret (NightSkipped (rs_id x))
      else
        bnd (find_open_guest_folio (r_id r) pid) (\<lambda>folio.
        case folio of
          None \<Rightarrow> ret (NightError (rs_id x))
        | Some f \<Rightarrow>
            bnd (has_posted_charge (f_id f) pid (rs_id x) (Some d)) (\<lambda>already.
            let amount = cents (rs_unit_price x * of_nat (rs_quantity x)) in
            if already \<or> amount \<le> 0 then ret (NightSkipped (rs_id x))
            else
              bnd (post_charge False (f_id f)
                     (service_charge_dto pid (rs_charge_type x) name (rs_id x) amount (rs_currency x) d (r_guest r)) None None) (\<lambda>p.
              bnd (emit ''reservation.service_posted'' ''reservation_service'' (rs_id x) pid) (\<lambda>_.
              ret (NightPosted (rs_id x) (pd_charge p)))))))"

definition post_night_row ::
  "ident \<Rightarrow> date \<Rightarrow> reservation_service \<times> string \<times> reservation \<Rightarrow> night_result op" where
  "post_night_row pid d row =
     (case row of (x, name, r) \<Rightarrow>
      handle (if r_snapshot r \<noteq> None then post_accepted_night pid d x r else post_plain_night pid d x name r)
        (\<lambda>e. ret (NightError (rs_id x))))"

definition post_per_night_for_property :: "clock \<Rightarrow> ident \<Rightarrow> date option \<Rightarrow> night_result list op" where
  "post_per_night_for_property ck pid business_date =
     bnd (ask (night_rows pid)) (\<lambda>rows.
     collect rows (post_night_row pid (or_else business_date (ck_today ck))))"

end
