(* ===== verification/Reservation.thy ===== *)
theory Reservation
  imports Ancillary Rate_Plan
begin

text \<open>
  The reservation service (\<open>apps/api/src/modules/reservation/reservation.service.ts\<close>): creation
  under the inventory mutex, the transitions of a stay with everything a check-in, a check-out and
  a cancellation set in motion (folio, fees, card authorizations, room status, extras, deposits),
  modification, the amendment of an accepted stay, the bulk operations and the listings.

  A stay's dates are day numbers (theory \<open>Calendar\<close>). What the service reads of its surroundings is
  the record \<open>desk\<close>: the clock, the local time of a time zone, the cipher configured for identity
  documents, the payment gateway and its merchant accounts, and the generated confirmation number.
\<close>

record desk =
  dk_clock :: clock
  dk_seconds :: "string \<Rightarrow> nat"
  dk_cipher :: "(string \<Rightarrow> string \<times> string \<times> string) option"
  dk_gateway :: gateway
  dk_merchants :: merchants
  dk_number :: string

abbreviation dk_now :: "desk \<Rightarrow> timestamp" where
  "dk_now dk \<equiv> ck_now (dk_clock dk)"

section \<open>Creation\<close>

definition assert_room_type_here :: "ident \<Rightarrow> ident \<Rightarrow> unit op" where
  "assert_room_type_here rt pid =
     bnd (find_row room_types (\<lambda>t. t_id t = rt \<and> t_property t = pid)
            (BadRequest ''room type not found in this property'')) (\<lambda>_. ret ())"

definition assert_rate_plan_here :: "ident \<Rightarrow> ident \<Rightarrow> unit op" where
  "assert_rate_plan_here plan pid =
     bnd (find_row rate_plans (\<lambda>p. p_id p = plan \<and> p_property p = pid)
            (BadRequest ''rate plan not found in this property'')) (\<lambda>_. ret ())"

definition lock_inventory :: "ident \<Rightarrow> ident \<Rightarrow> unit op" where
  "lock_inventory pid rt =
     bnd (find_row room_types (\<lambda>t. t_id t = rt \<and> t_property t = pid)
            (NotFound ''room type not found in this property'')) (\<lambda>_. ret ())"

record create_dto =
  nr_property :: ident
  nr_guest :: ident
  nr_arrival :: date
  nr_departure :: date
  nr_room_type :: ident
  nr_rate_plan :: ident
  nr_total :: decimal
  nr_currency :: string
  nr_adults :: "nat option"
  nr_children :: "nat option"
  nr_requests :: "string option"

record create_opts =
  co_number :: "string option"
  co_snapshot :: "snapshot option"

definition new_reservation :: "desk \<Rightarrow> create_dto \<Rightarrow> create_opts \<Rightarrow> ident \<Rightarrow> ident \<Rightarrow> reservation" where
  "new_reservation dk dto opts booking i =
     \<lparr>r_id = i, r_property = nr_property dto, r_booking = booking, r_guest = nr_guest dto,
      r_arrival = nr_arrival dto, r_departure = nr_departure dto, r_nights = nr_departure dto - nr_arrival dto,
      r_room_type = nr_room_type dto, r_room = None, r_status = Pending, r_rate_plan = nr_rate_plan dto,
      r_total = cents (nr_total dto), r_currency = nr_currency dto, r_snapshot = co_snapshot opts,
      r_adults = or_else (nr_adults dto) 1, r_children = or_else (nr_children dto) 0, r_requests = nr_requests dto,
      r_do_not_move = False, r_checked_in_at = None, r_checked_out_at = None, r_cancelled_at = None,
      r_cancel_reason = None, r_is_early = False, r_early_fee = None, r_is_late = False, r_late_fee = None,
      r_id_document = None, r_signed_at = None, r_registration = None, r_submitted_at = None,
      r_updated = dk_now dk\<rparr>"

definition create_in_transaction :: "desk \<Rightarrow> create_dto \<Rightarrow> create_opts \<Rightarrow> (reservation \<times> booking) op" where
  "create_in_transaction dk dto opts =
     bnd (lock_inventory (nr_property dto) (nr_room_type dto)) (\<lambda>_.
     bnd (search_availability (nr_property dto) (nr_arrival dto) (nr_departure dto) (Some (nr_room_type dto)) None)
       (\<lambda>availability.
     bnd (lift_result (assert_full_stay_availability availability (nr_room_type dto) (nr_arrival dto) (nr_departure dto)))
       (\<lambda>_.
     bnd new_id (\<lambda>b.
     bnd (insert_row bookings_update
            \<lparr>b_id = b, b_property = nr_property dto, b_guest = nr_guest dto,
             b_confirmation = or_else (co_number opts) (dk_number dk)\<rparr>) (\<lambda>booking.
     bnd new_id (\<lambda>i.
     bnd (insert_row reservations_update (new_reservation dk dto opts (b_id booking) i)) (\<lambda>r.
     bnd (insert_row occupants_update
            \<lparr>o_property = nr_property dto, o_reservation = r_id r, o_guest = nr_guest dto, o_primary = True\<rparr>) (\<lambda>_.
     ret (r, booking)))))))))"

definition create_reservation :: "desk \<Rightarrow> bool \<Rightarrow> create_dto \<Rightarrow> create_opts \<Rightarrow> (reservation \<times> booking) op" where
  "create_reservation dk in_tx dto opts =
     bnd (find_row guests (\<lambda>g. g_id g = nr_guest dto) (NotFound ''Guest not found'')) (\<lambda>guest.
     bnd (guard (\<not> g_is_dnr guest) (BadRequest ''Guest is on the Do Not Rent list'')) (\<lambda>_.
     bnd (guard (nr_arrival dto < nr_departure dto) (BadRequest ''Departure date must be after arrival date'')) (\<lambda>_.
     bnd (assert_room_type_here (nr_room_type dto) (nr_property dto)) (\<lambda>_.
     bnd (assert_rate_plan_here (nr_rate_plan dto) (nr_property dto)) (\<lambda>_.
     bnd (assert_sellable (nr_property dto) (nr_rate_plan dto) (nr_arrival dto) (nr_departure dto)) (\<lambda>_.
     bnd (if in_tx then create_in_transaction dk dto opts else transact (create_in_transaction dk dto opts)) (\<lambda>result.
     bnd (if in_tx then ret () else emit ''reservation.created'' ''reservation'' (r_id (fst result)) (nr_property dto)) (\<lambda>_.
     ret result))))))))"

section \<open>Before arrival\<close>

definition confirm_reservation :: "desk \<Rightarrow> ident \<Rightarrow> ident \<Rightarrow> reservation op" where
  "confirm_reservation dk rid pid =
     bnd (find_by_id_raw rid pid) (\<lambda>r.
     bnd (assert_transition (r_status r) Confirmed) (\<lambda>_.
     claim_transition rid pid [Pending] (\<lambda>r. r\<lparr>r_status := Confirmed, r_updated := dk_now dk\<rparr>)))"

text \<open>The checks on a target room, shared by assignment, move and check-in.\<close>

definition room_ready :: "ident \<Rightarrow> ident \<Rightarrow> ident \<Rightarrow> room op" where
  "room_ready mid pid rt =
     bnd (find_row rooms (is_room mid pid) (NotFound ''Room not found in this property'')) (\<lambda>room.
     bnd (guard (m_type room = rt) (BadRequest ''Room is of another type'')) (\<lambda>_.
     bnd (guard (m_status room = GuestReady \<or> m_status room = VacantClean) (BadRequest ''Room is not available'')) (\<lambda>_.
     ret room)))"

definition assign_room :: "desk \<Rightarrow> ident \<Rightarrow> ident \<Rightarrow> ident \<Rightarrow> reservation op" where
  "assign_room dk rid pid mid =
     bnd (find_by_id_raw rid pid) (\<lambda>r.
     bnd (assert_transition (r_status r) Assigned) (\<lambda>_.
     bnd (room_ready mid (r_property r) (r_room_type r)) (\<lambda>_.
     claim_transition rid pid [Confirmed]
       (\<lambda>r. r\<lparr>r_room := Some mid, r_status := Assigned, r_updated := dk_now dk\<rparr>))))"

definition move_room :: "desk \<Rightarrow> ident \<Rightarrow> ident \<Rightarrow> ident \<Rightarrow> bool \<Rightarrow> reservation op" where
  "move_room dk rid pid mid override =
     bnd (find_by_id_raw rid pid) (\<lambda>r.
     bnd (guard (r_status r \<in> {Assigned, CheckedIn, Stayover, DueOut}) (BadRequest ''Cannot move room'')) (\<lambda>_.
     bnd (guard (\<not> (r_do_not_move r \<and> \<not> override)) (BadRequest ''Reservation is marked do-not-move'')) (\<lambda>_.
     bnd (guard (Some mid \<noteq> r_room r) (BadRequest ''A different target roomId is required'')) (\<lambda>_.
     bnd (room_ready mid pid (r_room_type r)) (\<lambda>_.
     bnd (update_one reservations reservations_update (is_reservation rid pid)
            (\<lambda>r. r\<lparr>r_room := Some mid, r_updated := dk_now dk\<rparr>)) (\<lambda>updated.
     bnd (if in_house (r_status r)
          then
            bnd (case r_room r of None \<Rightarrow> ret None | Some old \<Rightarrow> attempt (mark_vacant_dirty (dk_now dk) old pid)) (\<lambda>_.
            bnd (mark_occupied (dk_now dk) mid pid) (\<lambda>_. ret ()))
          else ret ()) (\<lambda>_.
     bnd (emit ''reservation.room_moved'' ''reservation'' (r_id updated) pid) (\<lambda>_.
     ret updated))))))))"

definition resolve_cancellation_reason :: "string option \<Rightarrow> string option \<Rightarrow> string option" where
  "resolve_cancellation_reason cancellation_reason reason =
     (case cancellation_reason of Some x \<Rightarrow> Some x | None \<Rightarrow> reason)"

definition cancel_reservation ::
  "desk \<Rightarrow> ident \<Rightarrow> ident \<Rightarrow> string option \<Rightarrow> string option \<Rightarrow> (reservation \<times> settlement option) op" where
  "cancel_reservation dk rid pid cancellation_reason reason =
     bnd (find_by_id_raw rid pid) (\<lambda>r.
     bnd (assert_transition (r_status r) Cancelled) (\<lambda>_.
     let why = resolve_cancellation_reason cancellation_reason reason in
     bnd (claim_transition rid pid [Pending, Confirmed, Assigned]
            (\<lambda>r. r\<lparr>r_status := Cancelled, r_cancelled_at := Some (dk_now dk), r_cancel_reason := why,
                   r_updated := dk_now dk\<rparr>)) (\<lambda>updated.
     bnd (attempt (
            bnd (evaluate_cancellation pid (r_rate_plan r) (r_arrival r) (r_total r) (int (r_nights r)) (dk_now dk))
              (\<lambda>evaluation.
            settle_from_evaluation (dk_clock dk) (r_id updated) pid (r_currency r) evaluation ''Cancellation penalty''
              None ''''))) (\<lambda>settled.
     bnd (emit ''reservation.cancelled'' ''reservation'' (r_id updated) (r_property updated)) (\<lambda>_.
     ret (updated, settled))))))"

definition mark_no_show :: "desk \<Rightarrow> ident \<Rightarrow> ident \<Rightarrow> reservation op" where
  "mark_no_show dk rid pid =
     bnd (find_by_id_raw rid pid) (\<lambda>r.
     bnd (assert_transition (r_status r) NoShow) (\<lambda>_.
     bnd (claim_transition rid pid [Confirmed, Assigned] (\<lambda>r. r\<lparr>r_status := NoShow, r_updated := dk_now dk\<rparr>)) (\<lambda>updated.
     bnd (emit ''reservation.no_show'' ''reservation'' (r_id updated) (r_property updated)) (\<lambda>_.
     ret updated))))"

section \<open>Registration and check-in\<close>

definition encrypt_id_number :: "desk \<Rightarrow> string \<Rightarrow> string \<times> string \<times> string" where
  "encrypt_id_number dk number =
     (case dk_cipher dk of None \<Rightarrow> (''***REDACTED***'', '''', '''') | Some cipher \<Rightarrow> cipher number)"

record registration_dto =
  gd_type :: "string option"
  gd_number :: "string option"
  gd_country :: "string option"
  gd_expiry :: "string option"
  gd_signed :: bool
  gd_data :: "string option"

text \<open>The identity document and the card of the request, written into the update.\<close>

definition guest_id_document :: "desk \<Rightarrow> registration_dto \<Rightarrow> id_document option" where
  "guest_id_document dk g =
     (if falsy (gd_number g) then None
      else case encrypt_id_number dk (the (gd_number g)) of (encrypted, iv, tag) \<Rightarrow>
        Some \<lparr>id_type = or_else (gd_type g) ''unknown'', id_number = encrypted, id_iv = iv, id_tag = tag,
              id_country = or_else (gd_country g) '''', id_expiry = or_else (gd_expiry g) ''''\<rparr>)"

definition register_guest :: "desk \<Rightarrow> registration_dto \<Rightarrow> reservation \<Rightarrow> reservation" where
  "register_guest dk g r =
     r\<lparr>r_id_document := (case guest_id_document dk g of Some x \<Rightarrow> Some x | None \<Rightarrow> r_id_document r),
       r_signed_at := (if gd_signed g then Some (dk_now dk) else r_signed_at r),
       r_registration := (case gd_data g of Some x \<Rightarrow> Some x | None \<Rightarrow> r_registration r),
       r_submitted_at := (if gd_data g \<noteq> None then Some (dk_now dk) else r_submitted_at r)\<rparr>"

definition pre_register :: "desk \<Rightarrow> ident \<Rightarrow> ident \<Rightarrow> registration_dto \<Rightarrow> reservation op" where
  "pre_register dk rid pid g =
     bnd (find_by_id_raw rid pid) (\<lambda>r.
     bnd (guard (r_status r \<in> {Confirmed, Assigned})
            (BadRequest ''Pre-register is only allowed for confirmed or assigned reservations'')) (\<lambda>_.
     bnd (update_one reservations reservations_update (is_reservation rid pid)
            (\<lambda>r. (register_guest dk g r)\<lparr>r_updated := dk_now dk\<rparr>)) (\<lambda>updated.
     bnd (emit ''reservation.pre_registered'' ''reservation'' (r_id updated) pid) (\<lambda>_.
     ret updated))))"

record check_in_dto =
  ci_registration :: registration_dto
  ci_skip_auth :: bool
  ci_deposit :: "decimal option"
  ci_method :: "string option"
  ci_token :: "string option"
  ci_provider :: "string option"
  ci_room :: "ident option"
  ci_requests :: "string option"

text \<open>\<open>propertyNow < standardCheckIn\<close>: both are the same local day, so the times of day are compared.\<close>

definition time_of_day :: "nat \<times> nat \<Rightarrow> nat" where
  "time_of_day t = (case t of (hours, minutes) \<Rightarrow> 3600 * hours + 60 * minutes)"

definition positive_fee :: "decimal option \<Rightarrow> decimal option" where
  "positive_fee fee = (case fee of None \<Rightarrow> None | Some x \<Rightarrow> if 0 < x then Some x else None)"

definition early_check_in :: "desk \<Rightarrow> property option \<Rightarrow> bool \<times> decimal option" where
  "early_check_in dk property =
     (case property of None \<Rightarrow> (False, None)
      | Some h \<Rightarrow> if dk_seconds dk (h_timezone h) < time_of_day (h_check_in_time h)
                  then (True, positive_fee (h_early_fee h)) else (False, None))"

definition checked_in ::
  "desk \<Rightarrow> check_in_dto \<Rightarrow> ident \<Rightarrow> bool \<Rightarrow> decimal option \<Rightarrow> string option \<Rightarrow> reservation \<Rightarrow> reservation" where
  "checked_in dk dto mid early fee requests r =
     (register_guest dk (ci_registration dto) r)
       \<lparr>r_status := CheckedIn, r_checked_in_at := Some (dk_now dk), r_room := Some mid, r_is_early := early,
        r_updated := dk_now dk,
        r_early_fee := (case fee of Some x \<Rightarrow> Some (cents x) | None \<Rightarrow> r_early_fee r),
        r_requests := (if falsy (ci_requests dto) then r_requests r
          else if falsy requests then ci_requests dto
          else Some (the requests @ [CHR 0x0A] @ the (ci_requests dto)))\<rparr>"

definition deposit_authorization :: "desk \<Rightarrow> reservation \<Rightarrow> check_in_dto \<Rightarrow> string \<Rightarrow> ident \<Rightarrow> authorize_dto" where
  "deposit_authorization dk r dto token fid =
     \<lparr>ad_property = r_property r, ad_folio = fid,
      ad_amount = (case ci_deposit dto of
        Some a \<Rightarrow> if a = 0 then cents (r_total r * (12 / 10)) else a | None \<Rightarrow> cents (r_total r * (12 / 10))),
      ad_currency = r_currency r, ad_provider = or_else (ci_provider dto) ''stripe'', ad_token = token,
      ad_expires = None, ad_notes = None, ad_url_ok = None, ad_url_ko = None\<rparr>"

text \<open>What follows the claim; failures of the three \<open>try\<close> blocks are swallowed.\<close>

definition after_check_in ::
  "desk \<Rightarrow> reservation \<Rightarrow> ident \<Rightarrow> check_in_dto \<Rightarrow> ident \<Rightarrow> decimal option \<Rightarrow> reservation \<Rightarrow>
   (reservation \<times> folio \<times> payment option) op" where
  "after_check_in dk r pid dto mid fee updated =
     bnd (create_auto_folio False (ck_day (dk_clock dk)) updated) (\<lambda>folio.
     bnd (case fee of None \<Rightarrow> ret ()
          | Some x \<Rightarrow> post_fee (dk_clock dk) (f_id folio) (r_property r) ''Early check-in fee'' x (r_currency r)) (\<lambda>_.
     bnd (case (case ci_method dto of Some x \<Rightarrow> Some x | None \<Rightarrow> ci_token dto) of
            None \<Rightarrow> ret None
          | Some token \<Rightarrow> if ci_skip_auth dto \<or> token = [] then ret None
              else attempt (authorize_payment (dk_gateway dk) (dk_merchants dk) (dk_now dk)
                     (deposit_authorization dk r dto token (f_id folio)) None)) (\<lambda>auth.
     bnd (mark_occupied (dk_now dk) mid (r_property r)) (\<lambda>_.
     bnd (attempt (
            bnd (ensure_package_components False (dk_now dk) (r_id updated) pid None) (\<lambda>_.
            post_once_for_reservation (r_id updated) pid))) (\<lambda>_.
     bnd (attempt (apply_held_deposits (dk_clock dk) (r_id updated) pid (f_id folio))) (\<lambda>_.
     bnd (emit ''reservation.checked_in'' ''reservation'' (r_id updated) (r_property r)) (\<lambda>_.
     ret (updated, folio, map_option fst auth))))))))"

definition check_in :: "desk \<Rightarrow> ident \<Rightarrow> ident \<Rightarrow> check_in_dto \<Rightarrow> (reservation \<times> folio \<times> payment option) op" where
  "check_in dk rid pid dto =
     bnd (find_by_id_raw rid pid) (\<lambda>r.
     bnd (assert_transition (r_status r) CheckedIn) (\<lambda>_.
     bnd (ask (\<lambda>s. first_row (sel (\<lambda>g. g_id g = r_guest r) (guests s)))) (\<lambda>guest.
     bnd (guard (case guest of None \<Rightarrow> True | Some g \<Rightarrow> \<not> g_is_dnr g)
            (BadRequest ''Cannot check in: guest is on the Do Not Rent list'')) (\<lambda>_.
     bnd (case ci_room dto of None \<Rightarrow> ret ()
          | Some mid \<Rightarrow> bnd (room_ready mid (r_property r) (r_room_type r)) (\<lambda>_. ret ())) (\<lambda>_.
     bnd (require (case ci_room dto of Some mid \<Rightarrow> Some mid | None \<Rightarrow> r_room r) (BadRequest ''No room assigned'')) (\<lambda>mid.
     bnd (ask (\<lambda>s. first_row (sel (\<lambda>h. h_id h = r_property r) (properties s)))) (\<lambda>property.
     bnd (guard (case property of None \<Rightarrow> True
            | Some h \<Rightarrow> \<not> (h_registration_required h \<and> \<not> gd_signed (ci_registration dto)))
            (BadRequest ''Guest registration card must be signed before check-in for this property'')) (\<lambda>_.
     case early_check_in dk property of (early, fee) \<Rightarrow>
     bnd (claim_transition rid pid [Assigned] (checked_in dk dto mid early fee (r_requests r))) (\<lambda>updated.
     after_check_in dk r pid dto mid fee updated)))))))))"

section \<open>Check-out\<close>

definition late_check_out :: "desk \<Rightarrow> property option \<Rightarrow> decimal option \<Rightarrow> bool \<times> decimal option" where
  "late_check_out dk property fee =
     (case property of None \<Rightarrow> (False, None)
      | Some h \<Rightarrow> if time_of_day (h_check_out_time h) < dk_seconds dk (h_timezone h)
                  then (True, positive_fee (case fee of Some x \<Rightarrow> Some x | None \<Rightarrow> h_late_fee h)) else (False, None))"

definition is_open_folio :: "folio \<Rightarrow> bool" where
  "is_open_folio f \<longleftrightarrow> f_status f = FolioOpen"

definition post_late_fee :: "desk \<Rightarrow> reservation \<Rightarrow> folio list \<Rightarrow> decimal option \<Rightarrow> unit op" where
  "post_late_fee dk r all_folios fee =
     (case fee of None \<Rightarrow> ret ()
      | Some x \<Rightarrow> (case find is_open_folio all_folios of None \<Rightarrow> ret ()
          | Some f \<Rightarrow> post_fee (dk_clock dk) (f_id f) (r_property r) ''Late checkout fee'' x (r_currency r)))"

definition assert_settled_folio :: "ident \<Rightarrow> folio \<Rightarrow> unit op" where
  "assert_settled_folio pid f =
     (if f_status f \<noteq> FolioOpen then ret ()
      else
        bnd (find_folio (f_id f) pid) (\<lambda>refreshed.
        guard (\<not> 1 / 100 < \<bar>f_balance refreshed\<bar>) (BadRequest ''Cannot checkout: outstanding balance'')))"

definition authorized_payments :: "ident \<Rightarrow> ident \<Rightarrow> payment list op" where
  "authorized_payments fid pid =
     ask (\<lambda>s. sel (\<lambda>y. y_folio y = Some fid \<and> y_property y = pid \<and> y_status y = PayAuthorized) (payments s))"

definition capture_authorized :: "desk \<Rightarrow> ident \<Rightarrow> folio \<Rightarrow> unit op" where
  "capture_authorized dk pid f =
     (if f_status f \<noteq> FolioOpen then ret ()
      else
        bnd (authorized_payments (f_id f) pid) (\<lambda>ys.
        for_each ys (\<lambda>y. bnd (attempt (capture_payment (dk_gateway dk) (dk_merchants dk) (dk_now dk) (y_id y) pid))
          (\<lambda>_. ret ()))))"

definition void_authorized :: "desk \<Rightarrow> ident \<Rightarrow> folio \<Rightarrow> unit op" where
  "void_authorized dk pid f =
     bnd (authorized_payments (f_id f) pid) (\<lambda>ys.
     for_each ys (\<lambda>y. bnd (attempt (void_payment (dk_gateway dk) (dk_merchants dk) (y_id y) pid)) (\<lambda>_. ret ())))"

record folio_summary =
  fs_folio :: ident
  fs_balance :: decimal
  fs_status :: folio_status

definition summary_of :: "folio \<Rightarrow> folio_summary" where
  "summary_of f = \<lparr>fs_folio = f_id f, fs_balance = f_balance f, fs_status = f_status f\<rparr>"

definition settle_open :: "desk \<Rightarrow> ident \<Rightarrow> folio \<Rightarrow> folio_summary op" where
  "settle_open dk pid f =
     bnd (settle_folio (dk_now dk) (f_id f) pid) (\<lambda>_.
     ret \<lparr>fs_folio = f_id f, fs_balance = 0, fs_status = FolioSettled\<rparr>)"

definition checked_out :: "desk \<Rightarrow> bool \<Rightarrow> decimal option \<Rightarrow> reservation \<Rightarrow> reservation" where
  "checked_out dk late fee r =
     r\<lparr>r_status := CheckedOut, r_checked_out_at := Some (dk_now dk), r_is_late := late,
       r_late_fee := (case fee of Some x \<Rightarrow> Some (cents x) | None \<Rightarrow> r_late_fee r), r_updated := dk_now dk\<rparr>"

definition after_check_out ::
  "desk \<Rightarrow> reservation \<Rightarrow> folio list \<Rightarrow> bool \<Rightarrow> decimal option \<Rightarrow> reservation \<Rightarrow>
   (reservation \<times> folio_summary list) op" where
  "after_check_out dk r all_folios express fee updated =
     bnd (if express then ret () else post_late_fee dk r all_folios fee) (\<lambda>_.
     bnd (if express
          then
            bnd (for_each all_folios (capture_authorized dk (r_property r))) (\<lambda>_.
            collect (filter is_open_folio all_folios) (settle_open dk (r_property r)))
          else
            bnd (for_each all_folios (void_authorized dk (r_property r))) (\<lambda>_.
            ret (map summary_of all_folios))) (\<lambda>summary.
     bnd (case r_room r of None \<Rightarrow> ret ()
          | Some mid \<Rightarrow> bnd (mark_vacant_dirty (dk_now dk) mid (r_property r)) (\<lambda>_. ret ())) (\<lambda>_.
     bnd (emit ''reservation.checked_out'' ''reservation'' (r_id updated) (r_property r)) (\<lambda>_.
     ret (updated, summary)))))"

definition check_out ::
  "desk \<Rightarrow> ident \<Rightarrow> ident \<Rightarrow> bool \<Rightarrow> decimal option \<Rightarrow> (reservation \<times> folio_summary list) op" where
  "check_out dk rid pid express late_fee =
     bnd (find_by_id_raw rid pid) (\<lambda>r.
     bnd (assert_transition (r_status r) CheckedOut) (\<lambda>_.
     bnd (ask (\<lambda>s. first_row (sel (\<lambda>h. h_id h = r_property r) (properties s)))) (\<lambda>property.
     case late_check_out dk property late_fee of (late, fee) \<Rightarrow>
     bnd (list_folios (r_property r) (Some (r_id r)) None None None 1 100) (\<lambda>page.
     bnd (if express then post_late_fee dk r (fst page) fee else ret ()) (\<lambda>_.
     bnd (for_each (fst page) (assert_settled_folio (r_property r))) (\<lambda>_.
     bnd (claim_transition rid pid [CheckedIn, Stayover, DueOut] (checked_out dk late fee)) (\<lambda>updated.
     after_check_out dk r (fst page) express fee updated)))))))"

definition express_check_out :: "desk \<Rightarrow> ident \<Rightarrow> ident \<Rightarrow> (reservation \<times> folio_summary list) op" where
  "express_check_out dk rid pid = check_out dk rid pid True None"

section \<open>Groups and bulk actions\<close>

record group_item =
  gi_reservation :: ident
  gi_room :: "ident option"
  gi_skip_auth :: bool

definition no_registration :: registration_dto where
  "no_registration = \<lparr>gd_type = None, gd_number = None, gd_country = None, gd_expiry = None, gd_signed = False,
     gd_data = None\<rparr>"

definition plain_check_in :: "ident option \<Rightarrow> bool \<Rightarrow> check_in_dto" where
  "plain_check_in room skip =
     \<lparr>ci_registration = no_registration, ci_skip_auth = skip, ci_deposit = None, ci_method = None, ci_token = None,
      ci_provider = None, ci_room = room, ci_requests = None\<rparr>"

text \<open>One reservation of the group: whether it succeeded.\<close>

definition group_check_in_one :: "desk \<Rightarrow> ident \<Rightarrow> group_item \<Rightarrow> (ident \<times> bool) op" where
  "group_check_in_one dk pid item =
     handle (
       bnd (find_by_id_raw (gi_reservation item) pid) (\<lambda>r.
       bnd (if r_status r = Confirmed
            then
              bnd (require (case gi_room item of Some mid \<Rightarrow> Some mid | None \<Rightarrow> r_room r)
                     (BadRequest ''Reservation has no room assigned'')) (\<lambda>mid.
              bnd (assign_room dk (gi_reservation item) pid mid) (\<lambda>_. ret ()))
            else ret ()) (\<lambda>_.
       bnd (check_in dk (gi_reservation item) pid (plain_check_in (gi_room item) (gi_skip_auth item))) (\<lambda>_.
       ret (gi_reservation item, True)))))
     (\<lambda>e. ret (gi_reservation item, False))"

definition group_check_in :: "desk \<Rightarrow> ident \<Rightarrow> group_item list \<Rightarrow> (ident \<times> bool) list op" where
  "group_check_in dk pid items =
     bnd (for_each items (\<lambda>item.
            bnd (handle (find_by_id_raw (gi_reservation item) pid)
                   (\<lambda>e. throw (BadRequest ''Reservation does not belong to property''))) (\<lambda>r.
            guard (r_property r = pid) (BadRequest ''Reservation does not belong to property'')))) (\<lambda>_.
     collect items (group_check_in_one dk pid))"

datatype bulk_kind = BulkCheckIn | BulkCheckOut | BulkCancel

definition bulk_one :: "desk \<Rightarrow> ident \<Rightarrow> bulk_kind \<Rightarrow> string option \<Rightarrow> ident \<Rightarrow> (ident \<times> bool) op" where
  "bulk_one dk pid kind reason rid =
     handle (
       bnd (case kind of
              BulkCheckIn \<Rightarrow> bnd (check_in dk rid pid (plain_check_in None False)) (\<lambda>_. ret ())
            | BulkCheckOut \<Rightarrow> bnd (check_out dk rid pid False None) (\<lambda>_. ret ())
            | BulkCancel \<Rightarrow> bnd (cancel_reservation dk rid pid reason None) (\<lambda>_. ret ())) (\<lambda>_.
       ret (rid, True)))
     (\<lambda>e. ret (rid, False))"

definition bulk_action :: "desk \<Rightarrow> ident \<Rightarrow> ident list \<Rightarrow> bulk_kind \<Rightarrow> string option \<Rightarrow> (ident \<times> bool) list op" where
  "bulk_action dk pid ids kind reason =
     bnd (collect ids (bulk_one dk pid kind reason)) (\<lambda>results.
     bnd (emit ''reservation.bulk_action_completed'' ''reservation'' pid pid) (\<lambda>_.
     ret results))"

section \<open>Modification\<close>

record modify_dto =
  md_arrival :: "date option"
  md_departure :: "date option"
  md_room_type :: "ident option"
  md_rate_plan :: "ident option"
  md_total :: "decimal option"
  md_adults :: "nat option"
  md_children :: "nat option"
  md_requests :: "string option"
  md_do_not_move :: "bool option"

definition changes :: "'a option \<Rightarrow> 'a \<Rightarrow> bool" where
  "changes v old \<longleftrightarrow> (case v of None \<Rightarrow> False | Some x \<Rightarrow> x \<noteq> old)"

definition changes_accepted_pricing :: "modify_dto \<Rightarrow> reservation \<Rightarrow> bool" where
  "changes_accepted_pricing dto r \<longleftrightarrow> changes (md_arrival dto) (r_arrival r) \<or> changes (md_departure dto) (r_departure r) \<or>
     changes (md_room_type dto) (r_room_type r) \<or> changes (md_rate_plan dto) (r_rate_plan r) \<or>
     changes (md_total dto) (r_total r) \<or> changes (md_adults dto) (r_adults r) \<or> changes (md_children dto) (r_children r)"

definition modified :: "desk \<Rightarrow> modify_dto \<Rightarrow> nat option \<Rightarrow> reservation \<Rightarrow> reservation" where
  "modified dk dto nights r =
     r\<lparr>r_arrival := or_else (md_arrival dto) (r_arrival r), r_departure := or_else (md_departure dto) (r_departure r),
       r_nights := or_else nights (r_nights r), r_room_type := or_else (md_room_type dto) (r_room_type r),
       r_rate_plan := or_else (md_rate_plan dto) (r_rate_plan r),
       r_total := (case md_total dto of Some x \<Rightarrow> cents x | None \<Rightarrow> r_total r),
       r_adults := or_else (md_adults dto) (r_adults r), r_children := or_else (md_children dto) (r_children r),
       r_requests := (case md_requests dto of Some x \<Rightarrow> Some x | None \<Rightarrow> r_requests r),
       r_do_not_move := or_else (md_do_not_move dto) (r_do_not_move r), r_updated := dk_now dk\<rparr>"

text \<open>The search counts the reservation itself on its old nights; one unit is given back there.\<close>

definition release_own :: "reservation \<Rightarrow> bool \<Rightarrow> ident \<Rightarrow> availability_row \<Rightarrow> availability_row" where
  "release_own r counts_itself rt row =
     (if a_room_type row \<noteq> rt then row
      else if counts_itself \<and> r_arrival r \<le> a_date row \<and> a_date row < r_departure r
      then row\<lparr>a_available := a_available row + 1\<rparr> else row)"

fun as_conflict :: "error + 'a \<Rightarrow> error + 'a" where
  "as_conflict (Inl (BadRequest m)) = Inl (Conflict m)"
| "as_conflict res = res"

definition recheck_availability :: "reservation \<Rightarrow> ident \<Rightarrow> modify_dto \<Rightarrow> unit op" where
  "recheck_availability r pid dto =
     (let arrival = or_else (md_arrival dto) (r_arrival r); departure = or_else (md_departure dto) (r_departure r);
          rt = or_else (md_room_type dto) (r_room_type r);
          counts_itself = (\<not> changes (md_room_type dto) (r_room_type r) \<and> r_arrival r < departure \<and> arrival < r_departure r)
      in
      bnd (lock_inventory pid rt) (\<lambda>_.
      bnd (search_availability (r_property r) arrival departure (Some rt) None) (\<lambda>availability.
      lift_result (as_conflict (assert_full_stay_availability (map (release_own r counts_itself rt) availability)
        rt arrival departure)))))"

record amendment_result =
  am_reservation :: reservation
  am_previous_arrival :: date
  am_previous_departure :: date
  am_previous_total :: decimal
  am_new_total :: decimal

definition amendment_of :: "reservation \<Rightarrow> reservation \<Rightarrow> amendment_result" where
  "amendment_of previous r =
     \<lparr>am_reservation = r, am_previous_arrival = r_arrival previous, am_previous_departure = r_departure previous,
      am_previous_total = r_total previous, am_new_total = r_total r\<rparr>"

text \<open>The transaction and the event.\<close>

definition store_modification ::
  "desk \<Rightarrow> reservation \<Rightarrow> ident \<Rightarrow> ident \<Rightarrow> modify_dto \<Rightarrow> nat option \<Rightarrow> amendment_result op" where
  "store_modification dk r rid pid dto nights =
     bnd (transact (
            bnd (if changes (md_arrival dto) (r_arrival r) \<or> changes (md_departure dto) (r_departure r) \<or>
                    changes (md_room_type dto) (r_room_type r)
                 then recheck_availability r pid dto else ret ()) (\<lambda>_.
            update_one reservations reservations_update (is_reservation rid pid) (modified dk dto nights)))) (\<lambda>updated.
     bnd (emit ''reservation.modified'' ''reservation'' (r_id updated) (r_property updated)) (\<lambda>_.
     ret (amendment_of r updated)))"

definition modify_reservation :: "desk \<Rightarrow> ident \<Rightarrow> ident \<Rightarrow> modify_dto \<Rightarrow> amendment_result op" where
  "modify_reservation dk rid pid dto =
     bnd (find_by_id_raw rid pid) (\<lambda>r.
     bnd (guard (\<not> (r_snapshot r \<noteq> None \<and> changes_accepted_pricing dto r))
            (Conflict ''A Stay Amendment is required before changing accepted pricing'')) (\<lambda>_.
     bnd (guard (\<not> terminal (r_status r)) (BadRequest ''Cannot modify reservation'')) (\<lambda>_.
     bnd (if md_arrival dto \<noteq> None \<or> md_departure dto \<noteq> None
          then bnd (lift_result (stay_nights (or_else (md_arrival dto) (r_arrival r))
                      (or_else (md_departure dto) (r_departure r)))) (\<lambda>dates. ret (Some (length dates)))
          else ret None) (\<lambda>nights.
     bnd (case md_room_type dto of None \<Rightarrow> ret () | Some rt \<Rightarrow> assert_room_type_here rt pid) (\<lambda>_.
     bnd (case md_rate_plan dto of None \<Rightarrow> ret () | Some plan \<Rightarrow> assert_rate_plan_here plan pid) (\<lambda>_.
     store_modification dk r rid pid dto nights))))))"

definition modify_accepted_stay ::
  "desk \<Rightarrow> reservation \<Rightarrow> ident \<Rightarrow> date \<Rightarrow> date \<Rightarrow> decimal \<Rightarrow> snapshot \<Rightarrow> amendment_result op" where
  "modify_accepted_stay dk locked pid arrival departure amount pricing =
     bnd (guard (r_property locked = pid \<and> r_snapshot locked \<noteq> None)
            (Conflict ''Reservation is not eligible for an accepted stay amendment'')) (\<lambda>_.
     bnd (guard (\<not> terminal (r_status locked)) (BadRequest ''Cannot modify reservation'')) (\<lambda>_.
     bnd (lift_result (stay_nights arrival departure)) (\<lambda>dates.
     bnd (guard (sn_currency pricing = r_currency locked \<and> sn_grand_total pricing = cents amount)
            (Conflict ''Amended pricing does not match the reservation currency and total'')) (\<lambda>_.
     bnd (guard (map pn_date (sn_nights pricing) = dates)
            (Conflict ''Amended pricing does not cover the complete stay window'')) (\<lambda>_.
     bnd (update_where reservations reservations_update (is_reservation (r_id locked) pid)
            (\<lambda>r. r\<lparr>r_arrival := arrival, r_departure := departure, r_nights := length dates,
                   r_total := cents (sn_grand_total pricing), r_snapshot := Some pricing, r_updated := dk_now dk\<rparr>)) (\<lambda>rows.
     bnd (require (first_row rows) (Conflict ''Reservation changed while applying the stay amendment'')) (\<lambda>updated.
     ret (amendment_of locked updated))))))))"

section \<open>Reading\<close>

record reservation_view =
  vw_reservation :: reservation
  vw_guest :: "guest option"
  vw_room_type :: "room_type option"
  vw_rate_plan :: "rate_plan option"
  vw_room :: "room option"
  vw_confirmation :: "string option"

text \<open>The left joins; the keys of the joined tables are unique, so there is at most one match.\<close>

definition view_of :: "hotel \<Rightarrow> reservation \<Rightarrow> reservation_view" where
  "view_of s r =
     \<lparr>vw_reservation = r, vw_guest = first_row (sel (\<lambda>g. g_id g = r_guest r) (guests s)),
      vw_room_type = first_row (sel (\<lambda>t. t_id t = r_room_type r) (room_types s)),
      vw_rate_plan = first_row (sel (\<lambda>p. p_id p = r_rate_plan r) (rate_plans s)),
      vw_room = first_row (sel (\<lambda>m. Some (m_id m) = r_room r) (rooms s)),
      vw_confirmation = map_option b_confirmation (first_row (sel (\<lambda>b. b_id b = r_booking r) (bookings s)))\<rparr>"

definition find_reservation_by_id :: "ident \<Rightarrow> ident \<Rightarrow> reservation_view op" where
  "find_reservation_by_id rid pid =
     bnd (ask (\<lambda>s. map (view_of s) (sel (is_reservation rid pid) (reservations s)))) (\<lambda>results.
     require (first_row results) (NotFound ''Reservation not found''))"

definition find_unassigned :: "ident \<Rightarrow> date option \<Rightarrow> date option \<Rightarrow> (reservation_view list \<times> nat) op" where
  "find_unassigned pid from till =
     ask (\<lambda>s. let rows = sel (\<lambda>r. r_property r = pid \<and> r_room r = None \<and> r_status r \<in> {Confirmed, Assigned} \<and>
            (case from of None \<Rightarrow> True | Some d \<Rightarrow> d \<le> r_arrival r) \<and>
            (case till of None \<Rightarrow> True | Some d \<Rightarrow> r_arrival r \<le> d)) (reservations s)
       in (map (view_of s) (sort_key r_arrival rows), length rows))"

record list_dto =
  ld_property :: ident
  ld_statuses :: "reservation_status list option"
  ld_status :: "reservation_status option"
  ld_guest :: "ident option"
  ld_arrival_from :: "date option"
  ld_arrival_to :: "date option"
  ld_departure_from :: "date option"
  ld_departure_to :: "date option"
  ld_page :: "nat option"
  ld_limit :: "nat option"

text \<open>\<open>statuses\<close> is the comma-separated list after \<open>split\<close>, \<open>trim\<close> and \<open>filter(Boolean)\<close>.\<close>

definition listed :: "list_dto \<Rightarrow> reservation \<Rightarrow> bool" where
  "listed dto r \<longleftrightarrow> r_property r = ld_property dto \<and>
     (case ld_statuses dto of Some qs \<Rightarrow> qs = [] \<or> r_status r \<in> set qs | None \<Rightarrow> opt_eq (ld_status dto) (r_status r)) \<and>
     opt_eq (ld_guest dto) (r_guest r) \<and>
     (case ld_arrival_from dto of None \<Rightarrow> True | Some d \<Rightarrow> d \<le> r_arrival r) \<and>
     (case ld_arrival_to dto of None \<Rightarrow> True | Some d \<Rightarrow> r_arrival r \<le> d) \<and>
     (case ld_departure_from dto of None \<Rightarrow> True | Some d \<Rightarrow> d \<le> r_departure r) \<and>
     (case ld_departure_to dto of None \<Rightarrow> True | Some d \<Rightarrow> r_departure r \<le> d)"

record 'r page =
  pg_data :: "'r list"
  pg_total :: nat
  pg_page :: nat
  pg_limit :: nat
  pg_more :: bool

definition list_reservations :: "list_dto \<Rightarrow> reservation_view page op" where
  "list_reservations dto =
     ask (\<lambda>s. let page = or_else (ld_page dto) 1; limit = or_else (ld_limit dto) 20;
            rows = sel (listed dto) (reservations s)
       in \<lparr>pg_data = map (view_of s) (page_of page limit (sort_key r_arrival rows)), pg_total = length rows,
           pg_page = page, pg_limit = limit, pg_more = page * limit < length rows\<rparr>)"

end
