(* ===== verification/Ancillary_Facts.thy ===== *)
theory Ancillary_Facts
  imports Ancillary
begin

text \<open>
  What the extras of a stay guarantee: every operation of \<open>Ancillary\<close> keeps the ledger invariant; a
  package attached twice attaches nothing the second time (\<open>ensure_twice\<close>); and a service is charged
  once for a night, whether its price is frozen (by the source key) or not (by the tag in the
  description), however often the posting of that night runs (\<open>nights_posted_once\<close>).
\<close>

section \<open>The books\<close>

lemma ledger_services [simp]:
  "ledger_ok (services_update f s) = ledger_ok s" "ledger_ok (plan_components_update g s) = ledger_ok s"
proof -
  have "folio_charged (services_update f s) = folio_charged s" "folio_paid (services_update f s) = folio_paid s"
    "folio_charged (plan_components_update g s) = folio_charged s" "folio_paid (plan_components_update g s) = folio_paid s"
    by (intro ext, simp add: folio_charged_def folio_paid_def)+
  then show "ledger_ok (services_update f s) = ledger_ok s" "ledger_ok (plan_components_update g s) = ledger_ok s"
    by (simp_all add: ledger_ok_def ledger_base_def wf_hotel_def refs_ok_def cents_ok_def rules_fit_def books_def)
qed

lemma only_stay_reservation_services:
  "(\<And>x. rs_id (f x) = rs_id x) \<Longrightarrow> only_stay s (reservation_services_update (upd c f) s)"
  by (simp add: only_stay_def wf_update_reservation_services)

lemma keeps_update_reservation_services [keeps]:
  "(\<And>x. rs_id (f x) = rs_id x) \<Longrightarrow>
   keeps_inv ledger_ok (update_where reservation_services reservation_services_update c f)"
  using only_stay_ledger [OF only_stay_reservation_services] by (intro keeps_update_where) blast

definition add_service_row :: "(ident \<Rightarrow> reservation_service) \<Rightarrow> hotel \<Rightarrow> hotel" where
  "add_service_row f s = reservation_services_update (\<lambda>t. t @ [f (fresh s)]) (bump s)"

lemma only_stay_add_service_row: "(\<And>i. rs_id (f i) = i) \<Longrightarrow> only_stay s (add_service_row f s)"
  by (auto simp: only_stay_def add_service_row_def bump_def wf_hotel_def keys_ok_Suc keys_ok_append)

lemma keeps_new_service_row [keeps]:
  assumes "\<And>i. rs_id (f i) = i" and "\<And>i. keeps_inv ledger_ok (k i (f i))"
  shows "keeps_inv ledger_ok (bnd new_id (\<lambda>i. bnd (insert_row reservation_services_update (f i)) (k i)))"
proof -
  have "ledger_ok (add_service_row f s)" if "ledger_ok s" for s
    using only_stay_ledger [OF only_stay_add_service_row that] assms(1) by blast
  then show ?thesis using assms(2)
    by (auto simp: keeps_inv_ends ends_bnd ends_new_id ends_insert_row add_service_row_def bump_def)
qed

lemma keeps_create_service [keeps]: "keeps_inv ledger_ok (create_service dto)"
  by (auto simp: keeps_inv_ends create_service_def wp dest: ledger_ok_bump simp flip: bump_def)

lemma keeps_update_service [keeps]: "keeps_inv ledger_ok (update_service i pid f)"
  unfolding update_service_def find_service_by_id_def by (intro keeps keeps_update_one) simp_all

lemma keeps_find_service [keeps]: "keeps_inv I (find_service_by_id i pid)"
  by (simp add: find_service_by_id_def keeps_find_row)

lemma keeps_find_reservation [keeps]: "keeps_inv I (find_reservation i pid)"
  by (simp add: find_reservation_def keeps_find_row)

lemma keeps_attach [keeps]: "keeps_inv ledger_ok (attach_to_reservation in_tx now rid dto ov)"
  unfolding attach_to_reservation_def by (intro keeps) simp

lemma keeps_attach_component [keeps]: "keeps_inv ledger_ok (attach_component in_tx now rid pid fz ex k)"
  unfolding attach_component_def by (intro keeps) simp

lemma keeps_ensure_package [keeps]: "keeps_inv ledger_ok (ensure_package_components in_tx now rid pid fz)"
  unfolding ensure_package_components_def by (intro keeps)

lemma keeps_lock [keeps]: "keeps_inv I work \<Longrightarrow> keeps_inv I (with_accepted_pricing_lock pid rid work tx)"
  unfolding with_accepted_pricing_lock_def Let_def by (intro keeps)

lemma keeps_cancel_service [keeps]: "keeps_inv ledger_ok (cancel_reservation_service i pid rid)"
  unfolding cancel_reservation_service_def cancel_in_tx_def by (intro keeps) simp

lemma keeps_emit_snapshot [keeps]: "keeps_inv ledger_ok (emit_snapshot_charge_webhooks pid p)"
  unfolding emit_snapshot_charge_webhooks_def by (intro keeps)

lemma keeps_post_service_charge [keeps]: "keeps_inv ledger_ok (post_service_charge tx fid dto line key)"
  unfolding post_service_charge_def by (intro keeps)

lemma keeps_mark_posted [keeps]: "keeps_inv ledger_ok (mark_posted i pid)"
  unfolding mark_posted_def by (intro keeps) simp

lemma keeps_finish_once [keeps]: "keeps_inv ledger_ok (finish_once r f pid line acc x name)"
  unfolding finish_once_def Let_def by (intro keeps)

lemma keeps_post_once_row [keeps]: "keeps_inv ledger_ok (post_once_row r f pid rows row)"
  unfolding post_once_row_def Let_def has_posted_charge_def by (intro keeps)

lemma keeps_post_once [keeps]: "keeps_inv ledger_ok (post_once_for_reservation rid pid)"
  unfolding post_once_for_reservation_def post_once_in_tx_def find_open_guest_folio_def by (intro keeps)

lemma keeps_post_locked_night [keeps]: "keeps_inv ledger_ok (post_locked_night pid d rid i)"
  unfolding post_locked_night_def Let_def find_open_guest_folio_def has_posted_charge_def by (intro keeps)

lemma keeps_post_night_row [keeps]: "keeps_inv ledger_ok (post_night_row pid d row)"
  unfolding post_night_row_def post_accepted_night_def post_plain_night_def Let_def find_open_guest_folio_def
    has_posted_charge_def by (intro keeps)

lemma keeps_post_per_night [keeps]: "keeps_inv ledger_ok (post_per_night_for_property ck pid d)"
  unfolding post_per_night_for_property_def by (intro keeps)

section \<open>Packages are attached once\<close>

lemma attach_componentI:
  assumes "\<And>e t. E e t" and "pk_service k \<in> set existing \<Longrightarrow> Q None s"
    and "\<And>x name t. reservations t = reservations s \<Longrightarrow> plan_components t = plan_components s \<Longrightarrow>
      reservation_services t = reservation_services s @ [x] \<Longrightarrow> rs_service x = pk_service k \<Longrightarrow>
      of_reservation rid pid x \<Longrightarrow> Q (Some (x, name)) t"
  shows "ends (attach_component in_tx now rid pid fz existing k) Q E s"
  unfolding attach_component_def find_service_by_id_def
  by (auto simp: ends_if ends_bnd ends_ret ends_find_row ends_new_id ends_insert_row ends_emit assms(1,2)
      of_reservation_def split: option.split dest!: first_sel_SomeD simp: is_service_def intro!: assms(3))

lemma attach_components:
  "ends (collect ks (attach_component in_tx now rid pid fz existing)) (\<lambda>_ t. reservations t = reservations s \<and>
      plan_components t = plan_components s \<and> (\<exists>new. reservation_services t = reservation_services s @ new \<and>
      (\<forall>k \<in> set ks. pk_service k \<in> set existing \<or> (\<exists>x \<in> set new. rs_service x = pk_service k \<and> of_reservation rid pid x))))
    (\<lambda>_ _. True) s"
proof (induction ks arbitrary: s)
  case Nil
  then show ?case by (simp add: wp)
next
  case (Cons k ks)
  show ?case unfolding collect.simps ends_bnd
  proof (rule attach_componentI)
    assume "pk_service k \<in> set existing"
    then show "ends (collect ks (attach_component in_tx now rid pid fz existing)) (\<lambda>x. ends (ret (None # x)) (\<lambda>_ t.
        reservations t = reservations s \<and> plan_components t = plan_components s \<and>
        (\<exists>new. reservation_services t = reservation_services s @ new \<and> (\<forall>k' \<in> set (k # ks). pk_service k' \<in> set existing \<or>
          (\<exists>x \<in> set new. rs_service x = pk_service k' \<and> of_reservation rid pid x)))) (\<lambda>_ _. True)) (\<lambda>_ _. True) s"
      by (intro ends_weaken [OF Cons.IH]) (auto simp: ends_ret)
  next
    fix x name and t :: hotel assume t: "reservations t = reservations s" "plan_components t = plan_components s"
      "reservation_services t = reservation_services s @ [x]" "rs_service x = pk_service k" "of_reservation rid pid x"
    show "ends (collect ks (attach_component in_tx now rid pid fz existing)) (\<lambda>xs. ends (ret (Some (x, name) # xs)) (\<lambda>_ t.
        reservations t = reservations s \<and> plan_components t = plan_components s \<and>
        (\<exists>new. reservation_services t = reservation_services s @ new \<and> (\<forall>k' \<in> set (k # ks). pk_service k' \<in> set existing \<or>
          (\<exists>x \<in> set new. rs_service x = pk_service k' \<and> of_reservation rid pid x)))) (\<lambda>_ _. True)) (\<lambda>_ _. True) t"
      using t by (intro ends_weaken [OF Cons.IH]) (auto simp: ends_ret)
  qed simp
qed

lemma attach_nothing:
  "(\<And>k. k \<in> set ks \<Longrightarrow> pk_service k \<in> set existing) \<Longrightarrow>
   collect ks (attach_component in_tx now rid pid fz existing) s = (Inr (map (\<lambda>_. None) ks), s)"
proof (induction ks)
  case Nil
  then show ?case by simp
next
  case (Cons k ks)
  then have "attach_component in_tx now rid pid fz existing k s = (Inr None, s)"
    by (simp add: attach_component_def)
  with Cons show ?case by (simp add: bnd_def)
qed

lemma map_filter_None [simp]: "List.map_filter id (map (\<lambda>_. None) ks) = []"
  by (induction ks) (simp_all add: List.map_filter_simps)

lemma covered_services:
  assumes "\<forall>k \<in> set ks. p k \<in> f ` set (sel c xs) \<or> (\<exists>x \<in> set new. f x = p k \<and> c x)" and "k \<in> set ks"
  shows "p k \<in> f ` set (sel c (xs @ new))"
proof -
  from assms have "p k \<in> f ` set (sel c xs) \<or> (\<exists>x \<in> set new. f x = p k \<and> c x)" by blast
  then show ?thesis by (auto simp: sel_def image_iff intro: sym)
qed

lemma ensure_twice:
  assumes "ensure_package_components in_tx now rid pid fz s = (Inr xs, t)"
  shows "ensure_package_components in_tx' later rid pid fz' t = (Inr [], t)"
proof -
  let ?ks = "\<lambda>s r. sel (\<lambda>k. pk_property k = pid \<and> pk_plan k = r_rate_plan r) (plan_components s)"
  let ?ex = "\<lambda>s. map rs_service (sel (of_reservation rid pid) (reservation_services s))"
  have "ends (ensure_package_components in_tx now rid pid fz) (\<lambda>_ t. reservations t = reservations s \<and>
      plan_components t = plan_components s \<and>
      (\<forall>r. reservation_of s rid pid = Some r \<longrightarrow> (\<forall>k \<in> set (?ks s r). pk_service k \<in> set (?ex t)))) (\<lambda>_ _. True) s"
    unfolding ensure_package_components_def find_reservation_def
    by (auto simp: ends_bnd ends_find_row ends_ask ends_if ends_ret reservation_of_def sel_Nil_iff split: option.split
        intro!: ends_weaken [OF attach_components]) (erule (1) covered_services | force simp: sel_def)+
  from ends_InrD [OF this assms] have t: "reservations t = reservations s" "plan_components t = plan_components s"
    "\<And>r k. reservation_of s rid pid = Some r \<Longrightarrow> k \<in> set (?ks s r) \<Longrightarrow> pk_service k \<in> set (?ex t)" by blast+
  have "reservation_of t rid pid = reservation_of s rid pid" using t(1) by (simp add: reservation_of_def)
  moreover obtain r where r: "reservation_of s rid pid = Some r"
    using assms by (auto simp: ensure_package_components_def find_reservation_def reservation_of_def split: option.splits)
  ultimately have rt: "first_row (sel (is_reservation rid pid) (reservations t)) = Some r" by (simp add: reservation_of_def)
  have "collect (?ks t r) (attach_component in_tx' later rid pid fz' (?ex t)) t = (Inr (map (\<lambda>_. None) (?ks t r)), t)"
    using t(3) [OF r] by (intro attach_nothing) (simp add: t(2))
  then show ?thesis
    unfolding ensure_package_components_def find_reservation_def using rt by (simp add: bnd_Inr)
qed

section \<open>A night is charged once\<close>

text \<open>What a posting leaves alone: the rows it reads, the open guest folios, the charges there are.\<close>

definition open_folio_id :: "hotel \<Rightarrow> ident \<Rightarrow> ident \<Rightarrow> ident option" where
  "open_folio_id s rid pid = map_option f_id (open_guest_folio s rid pid)"

definition posted_after :: "hotel \<Rightarrow> hotel \<Rightarrow> bool" where
  "posted_after s t \<longleftrightarrow> reservation_services t = reservation_services s \<and> services t = services s \<and>
     reservations t = reservations s \<and> open_folio_id t = open_folio_id s \<and> set (charges s) \<subseteq> set (charges t)"

lemma posted_after_refl [simp]: "posted_after s s"
  by (simp add: posted_after_def)

lemma posted_after_trans: "posted_after s t \<Longrightarrow> posted_after t u \<Longrightarrow> posted_after s u"
  by (auto simp: posted_after_def)

lemma open_folio_recalc [simp]: "open_folio_id (recalc_folio k s) = open_folio_id s"
proof (intro ext)
  fix rid pid
  let ?c = "\<lambda>f. f_reservation f = Some rid \<and> f_property f = pid \<and> f_type f = GuestFolio \<and> f_status f = FolioOpen"
  have "map f_id (sel ?c (upd (is_folio (fst k) (snd k)) (stamp_folio v) t)) = map f_id (sel ?c t)" for v t
    by (induction t) (auto simp: sel_def upd_def)
  then have "first_row (map f_id (sel ?c (folios (recalc_folio k s)))) = first_row (map f_id (sel ?c (folios s)))"
    by (simp add: recalc_folio_def)
  then show "open_folio_id (recalc_folio k s) rid pid = open_folio_id s rid pid"
    by (simp add: open_folio_id_def open_guest_folio_def)
qed

lemma open_folio_cong: "folios t = folios s \<Longrightarrow> open_folio_id t = open_folio_id s"
  by (intro ext) (simp add: open_folio_id_def open_guest_folio_def)

lemma posted_after_writes [simp]:
  "posted_after s0 (s\<lparr>events := es\<rparr>) = posted_after s0 s" "posted_after s0 (s\<lparr>fresh := n\<rparr>) = posted_after s0 s"
  "posted_after s0 (recalc_folio k s) = posted_after s0 s"
  by (simp_all add: posted_after_def open_folio_cong [of "s\<lparr>events := es\<rparr>" s] open_folio_cong [of "s\<lparr>fresh := n\<rparr>" s])

lemma posted_after_append: "posted_after s0 s \<Longrightarrow> posted_after s0 (charges_update (\<lambda>t. t @ [c]) s)"
  by (auto simp: posted_after_def open_folio_cong [of "charges_update (\<lambda>t. t @ [c]) s" s])

lemma posted_after_insert [keeps]: "keeps_inv (posted_after s0) (insert_charge c)"
  unfolding insert_charge_def by (intro keeps keeps_insert_row) (simp_all add: posted_after_append)

lemma posted_after_insert_unless [keeps]: "keeps_inv (posted_after s0) (insert_charge_unless_claimed c)"
  unfolding insert_charge_unless_claimed_def by (intro keeps keeps_insert_row) (simp_all add: posted_after_append)

lemma posted_after_recalculate [keeps]: "keeps_inv (posted_after s0) (recalculate_balance fid pid)"
  unfolding recalculate_balance_eq by (intro keeps_tell) simp

lemma posted_after_emit [keeps]: "keeps_inv (posted_after s0) (emit n e i p)"
  by (intro keeps_emit) simp

lemma posted_after_finish [keeps]: "keeps_inv (posted_after s0) (finish_posting in_tx fid dto c)"
  unfolding finish_posting_def by (intro keeps)

lemma posted_after_post [keeps]: "keeps_inv (posted_after s0) (post_charge in_tx fid dto parent source)"
  unfolding post_charge_def find_folio_def by (intro keeps)

lemma posted_after_snapshot [keeps]:
  "keeps_inv (posted_after s0) (post_charge_from_snapshot_with_outcome tx fid dto tax adj source)"
  unfolding post_charge_from_snapshot_with_outcome_def post_snapshot_in_tx_def emit_snapshot_charge_webhooks_def
  by (intro keeps)

lemma posted_after_service [keeps]: "keeps_inv (posted_after s0) (post_service_charge tx fid dto line key)"
  unfolding post_service_charge_def by (intro keeps)

lemma posted_after_night [keeps]: "keeps_inv (posted_after s0) (post_night_row pid d row)"
  unfolding post_night_row_def post_accepted_night_def post_plain_night_def post_locked_night_def Let_def
    find_open_guest_folio_def has_posted_charge_def emit_snapshot_charge_webhooks_def
  by (intro keeps)

text \<open>The charge a posting reports, when it created one.\<close>

definition row_of_request :: "ident \<Rightarrow> charge_dto \<Rightarrow> source_key option \<Rightarrow> charge \<Rightarrow> bool" where
  "row_of_request fid dto source c \<longleftrightarrow> charge_of_folio fid (cd_property dto) c \<and> \<not> c_reversal c \<and>
     c_description c = cd_description dto \<and> c_service c = cd_service dto \<and> c_source c = source"

lemma row_of_base: "row_of_request fid dto source ((stored_charge (base_charge fid dto parent source))\<lparr>c_id := i\<rparr>)"
  by (simp add: row_of_request_def charge_of_folio_def stored_charge_def base_charge_def)

lemma keeps_member:
  assumes "\<And>s. keeps_inv (posted_after s) m" and "c \<in> set (charges s)"
  shows "ends m (\<lambda>_ t. c \<in> set (charges t)) (\<lambda>_ _. True) s"
  using keeps_inv_endsD [OF assms(1), of s s] assms(2)
  by (auto elim!: ends_weaken simp: posted_after_def)

lemma finish_posting_row:
  "c \<in> set (charges s) \<Longrightarrow>
   ends (finish_posting in_tx fid dto c) (\<lambda>p t. pd_created p \<and> pd_charge p = c \<and> c \<in> set (charges t)) (\<lambda>_ _. True) s"
proof -
  assume c: "c \<in> set (charges s)"
  have "ends (finish_posting in_tx fid dto c) (\<lambda>_ t. c \<in> set (charges t)) (\<lambda>_ _. True) s"
    using posted_after_finish c by (rule keeps_member)
  moreover have "ends (finish_posting in_tx fid dto c) (\<lambda>p t. pd_created p \<and> pd_charge p = c) (\<lambda>_ _. True) s"
    unfolding finish_posting_def ends_bnd_fun ends_ret_fun by (simp add: ends_def split: prod.split sum.split)
  ultimately show ?thesis
    by (simp add: ends_def split: prod.splits sum.splits)
qed

lemma post_charge_row:
  "ends (post_charge in_tx fid dto parent source) (\<lambda>p t. (source = None \<longrightarrow> pd_created p) \<and>
      (pd_created p \<longrightarrow> pd_charge p \<in> set (charges t) \<and> row_of_request fid dto source (pd_charge p))) (\<lambda>_ _. True) s"
  unfolding post_charge_def find_folio_def insert_charge_def insert_charge_unless_claimed_def
  by (auto simp: ends_bnd ends_guard ends_find_row ends_if ends_new_id ends_ask ends_insert_row ends_ret row_of_base
      split: option.split intro!: ends_weaken [OF finish_posting_row])

text \<open>A source key that is taken creates nothing.\<close>

lemma post_charge_claimed:
  assumes "c \<in> set (charges s)" and "charge_of_folio fid (cd_property dto) c" and "c_source c = Some key"
  shows "ends (post_charge in_tx fid dto parent (Some key)) (\<lambda>p t. \<not> pd_created p) (\<lambda>_ _. True) s"
proof -
  have "sel (same_source (base_charge fid dto parent (Some key))) (charges s) \<noteq> []"
    using assms by (auto simp: sel_Nil_iff same_source_def charge_of_folio_def base_charge_def)
  then show ?thesis
    unfolding post_charge_def find_folio_def insert_charge_unless_claimed_def
    by (auto simp: ends_bnd ends_guard ends_find_row ends_if ends_new_id ends_ask ends_ret split: option.split)
qed

lemma row_of_skip [simp]: "row_of_request fid (dto\<lparr>cd_skip_tax := b\<rparr>) source c = row_of_request fid dto source c"
  by (simp add: row_of_request_def)

lemma post_snapshot_row:
  "ends (post_charge_from_snapshot_with_outcome True fid dto tax None source) (\<lambda>p t. sp_created p \<longrightarrow>
      sp_charge p \<in> set (charges t) \<and> row_of_request fid dto source (sp_charge p)) (\<lambda>_ _. True) s"
proof -
  have "ends (post_snapshot_in_tx fid dto tax None source) (\<lambda>p t. sp_created p \<longrightarrow>
      sp_charge p \<in> set (charges t) \<and> row_of_request fid dto source (sp_charge p)) (\<lambda>_ _. True) s"
    unfolding post_snapshot_in_tx_def ends_bnd
  proof (rule ends_weaken [OF post_charge_row])
    fix p and t :: hotel assume p: "(source = None \<longrightarrow> pd_created p) \<and> (pd_created p \<longrightarrow> pd_charge p \<in> set (charges t) \<and>
        row_of_request fid (dto\<lparr>cd_skip_tax := True\<rparr>) source (pd_charge p))"
    have "ends (post_charge True fid d par None) (\<lambda>_ u. pd_charge p \<in> set (charges u)) (\<lambda>_ _. True) t"
      if "pd_created p" for d par
      using posted_after_post p that by (intro keeps_member) auto
    with p show "ends (if \<not> pd_created p then
       bnd (ask (\<lambda>s. sel (\<lambda>c. charge_of_folio fid (cd_property dto) c \<and>
              c_parent c = Some (c_id (pd_charge p)) \<and> \<not> c_reversal c) (charges s))) (\<lambda>children.
       ret \<lparr>sp_charge = pd_charge p, sp_taxes = sel (\<lambda>c. c_type c = ChTax) children,
            sp_adjustments = sel (\<lambda>c. c_type c = ChAdjustment) children, sp_created = False\<rparr>)
     else
       bnd (if 0 < tax
            then bnd (post_charge True fid (part_dto dto ChTax (cd_description dto @ '' tax'') tax)
                   (Some (c_id (pd_charge p))) None) (\<lambda>p. ret [pd_charge p])
            else ret []) (\<lambda>taxes.
       bnd (case None of
              None \<Rightarrow> ret []
            | Some a \<Rightarrow> if pa_amount a = 0 then ret []
                else bnd (post_charge True fid
                       (part_dto dto ChAdjustment (''Accepted price adjustment: '' @ pa_reason a) (pa_amount a))
                       (Some (c_id (pd_charge p))) None) (\<lambda>p. ret [pd_charge p])) (\<lambda>adjustments.
       ret \<lparr>sp_charge = pd_charge p, sp_taxes = taxes, sp_adjustments = adjustments, sp_created = True\<rparr>)))
      (\<lambda>p t. sp_created p \<longrightarrow> sp_charge p \<in> set (charges t) \<and> row_of_request fid dto source (sp_charge p)) (\<lambda>_ _. True) t"
      by (simp add: ends_fun ends_ask)
  qed simp
  then show ?thesis by (simp add: post_charge_from_snapshot_with_outcome_def ends_bnd ends_fun)
qed

lemma post_snapshot_claimed:
  assumes "c \<in> set (charges s)" and "charge_of_folio fid (cd_property dto) c" and "c_source c = Some key"
  shows "ends (post_charge_from_snapshot_with_outcome True fid dto tax None (Some key)) (\<lambda>p t. \<not> sp_created p) (\<lambda>_ _. True) s"
proof -
  have "ends (post_charge True fid (dto\<lparr>cd_skip_tax := True\<rparr>) None (Some key)) (\<lambda>p t. \<not> pd_created p) (\<lambda>_ _. True) s"
    by (rule post_charge_claimed [OF assms(1)]) (simp_all add: assms)
  then show ?thesis
    by (auto simp: post_charge_from_snapshot_with_outcome_def post_snapshot_in_tx_def ends_bnd ends_if ends_ret ends_ask
        ends_ret_fun elim!: ends_weaken)
qed

lemma contains_end [simp]: "contains w (a @ w)"
proof (induction a)
  case Nil
  then show ?case by (cases w) simp_all
next
  case (Cons c a)
  then show ?case by simp
qed

lemma utc_day_midnight [simp]: "utc_day (utc_midnight d) = d"
  by (simp add: utc_day_def utc_midnight_def)

lemma posted_after_rows: "posted_after s t \<Longrightarrow> service_rows rid pid t = service_rows rid pid s"
  by (simp add: posted_after_def service_rows_def)

lemma posted_after_reservation: "posted_after s t \<Longrightarrow> reservation_of t rid pid = reservation_of s rid pid"
  by (simp add: posted_after_def reservation_of_def)

lemma post_service_row:
  "ends (post_service_charge True fid dto line key) (\<lambda>p t. sp_created p \<longrightarrow> sp_charge p \<in> set (charges t) \<and>
      row_of_request fid dto (if line = None then None else Some key) (sp_charge p)) (\<lambda>_ _. True) s"
  unfolding post_service_charge_def
  by (auto split: option.split simp: ends_bnd ends_fun plain_outcome_def intro!: ends_weaken [OF post_snapshot_row]
      ends_weaken [OF post_charge_row])

text \<open>
  Whether a row counts as accepted is read again under the lock; a posting changes nothing it reads.
  \<open>night_taken\<close> is what the next posting of that night finds.
\<close>

definition accepted_now :: "hotel \<Rightarrow> ident \<Rightarrow> reservation \<Rightarrow> ident \<Rightarrow> bool" where
  "accepted_now s pid r i \<longleftrightarrow> r_snapshot r \<noteq> None \<and>
     (case (find (\<lambda>row. rs_id (fst row) = i) (service_rows (r_id r) pid s), reservation_of s (r_id r) pid) of
        (Some (x, name), Some q) \<Rightarrow> is_accepted_row (r_snapshot q) (map fst (service_rows (r_id r) pid s)) x
      | _ \<Rightarrow> False)"

definition night_taken :: "hotel \<Rightarrow> ident \<Rightarrow> date \<Rightarrow> ident \<Rightarrow> reservation \<Rightarrow> bool" where
  "night_taken s pid d i r \<longleftrightarrow> (\<exists>fid c. open_folio_id s (r_id r) pid = Some fid \<and> c \<in> set (charges s) \<and>
     tagged_charge fid pid i (Some d) c \<and> (accepted_now s pid r i \<longrightarrow> c_source c = Some (ServiceNightKey i d)))"

lemma accepted_now_after: "posted_after s t \<Longrightarrow> accepted_now t pid r i = accepted_now s pid r i"
  by (simp only: accepted_now_def posted_after_rows posted_after_reservation)

lemma night_taken_after: "posted_after s t \<Longrightarrow> night_taken s pid d i r \<Longrightarrow> night_taken t pid d i r"
  by (auto simp: night_taken_def accepted_now_after) (auto simp: posted_after_def)

lemma request_tagged:
  "row_of_request fid (service_charge_dto pid ct name i amount cur d guest) source c \<Longrightarrow>
   tagged_charge fid pid i (Some d) c \<and> c_source c = source"
proof -
  have "contains (svc_tag i) (name @ '' '' @ svc_tag i)" using contains_end [of "svc_tag i" "name @ '' ''"] by simp
  then show "row_of_request fid (service_charge_dto pid ct name i amount cur d guest) source c \<Longrightarrow> ?thesis"
    by (simp add: row_of_request_def service_charge_dto_def tagged_charge_def)
qed

text \<open>A posting under the stated key leaves the night taken.\<close>

lemma taken_by_posting:
  assumes f: "open_guest_folio s (r_id r) pid = Some f" and key: "accepted_now s pid r i \<Longrightarrow> source = Some (ServiceNightKey i d)"
    and "posted_after s t" and "c \<in> set (charges t)"
    and row: "row_of_request (f_id f) (service_charge_dto pid ct name i amount cur d guest) source c"
  shows "night_taken t pid d i r"
proof -
  have "open_folio_id t (r_id r) pid = Some (f_id f)"
    using f assms(3) by (simp add: posted_after_def) (simp add: open_folio_id_def)
  then show ?thesis using key request_tagged [OF row] assms(3,4) by (auto simp: night_taken_def accepted_now_after)
qed

lemma post_service_takes:
  assumes f: "open_guest_folio s (r_id r) pid = Some f" and key: "accepted_now s pid r i \<Longrightarrow> line \<noteq> None"
  shows "ends (post_service_charge True (f_id f) (service_charge_dto pid ct name i amount cur d guest) line (ServiceNightKey i d))
    (\<lambda>p t. sp_created p \<longrightarrow> night_taken t pid d i r) (\<lambda>_ _. True) s"
proof (rule endsI)
  fix p t assume p: "post_service_charge True (f_id f) (service_charge_dto pid ct name i amount cur d guest) line (ServiceNightKey i d) s = (Inr p, t)"
  have "posted_after s t" using keeps_invD [OF posted_after_service posted_after_refl] p by (metis snd_conv)
  with ends_InrD [OF post_service_row p] show "sp_created p \<longrightarrow> night_taken t pid d i r"
    using taken_by_posting [OF f] key by fastforce
qed simp

lemma post_locked_night_takes:
  assumes "r_snapshot r \<noteq> None"
  shows "ends (post_locked_night pid d (r_id r) i)
    (\<lambda>res t. \<forall>p. res = Some p \<longrightarrow> sp_created p \<longrightarrow> night_taken t pid d i r) (\<lambda>_ _. True) s"
proof (cases "find (\<lambda>row. rs_id (fst row) = i) (service_rows (r_id r) pid s)")
  case None
  then show ?thesis by (simp add: post_locked_night_def wp)
next
  case (Some row)
  then obtain x name where x: "find (\<lambda>row. rs_id (fst row) = i) (service_rows (r_id r) pid s) = Some (x, name)"
    by (cases row) auto
  show ?thesis
  proof (cases "reservation_of s (r_id r) pid")
    case None
    with x show ?thesis by (simp add: post_locked_night_def wp)
  next
    case q: (Some q)
    have acc: "is_accepted_row (r_snapshot q) (map fst (service_rows (r_id r) pid s)) x = accepted_now s pid r i"
      using assms x q by (simp add: accepted_now_def)
    show ?thesis
      unfolding post_locked_night_def Let_def find_open_guest_folio_def has_posted_charge_def
      by (simp add: wp x q acc) (auto simp: wp split: option.split intro!: ends_weaken [OF post_service_takes])
  qed
qed

lemma night_taken_event [simp]: "night_taken (s\<lparr>events := es\<rparr>) pid d i r = night_taken s pid d i r"
  using night_taken_after [of s "s\<lparr>events := es\<rparr>"] night_taken_after [of "s\<lparr>events := es\<rparr>" s]
  by (auto simp: posted_after_def open_folio_cong [of "s\<lparr>events := es\<rparr>" s])

lemma night_taken_emitted:
  "night_taken s pid d i r \<Longrightarrow> ends (emit_snapshot_charge_webhooks pid p) (\<lambda>_ t. night_taken t pid d i r) E s"
  unfolding emit_snapshot_charge_webhooks_def
  by (auto simp: wp ends_emit simp del: for_each.simps intro!: ends_for_each)

lemma post_night_row_takes:
  "ends (post_night_row pid d (x, name, r))
    (\<lambda>res t. \<forall>i c. res = NightPosted i c \<longrightarrow> i = rs_id x \<and> night_taken t pid d (rs_id x) r) (\<lambda>_ _. True) s"
proof (cases "r_snapshot r = None")
  case True
  have post: "ends (post_charge False (f_id f) (service_charge_dto pid ct nm (rs_id x) amount cur d guest) None None)
      (\<lambda>p t. night_taken t pid d (rs_id x) r) (\<lambda>_ _. True) s"
    if "open_guest_folio s (r_id r) pid = Some f" for f ct nm amount cur guest
  proof (rule endsI)
    fix p t assume p: "post_charge False (f_id f) (service_charge_dto pid ct nm (rs_id x) amount cur d guest) None None s = (Inr p, t)"
    have "posted_after s t" using keeps_invD [OF posted_after_post posted_after_refl] p by (metis snd_conv)
    with ends_InrD [OF post_charge_row p] show "night_taken t pid d (rs_id x) r"
      using taken_by_posting [OF that, of "rs_id x" None] True by (fastforce simp: accepted_now_def)
  qed simp
  show ?thesis
    using True unfolding post_night_row_def post_plain_night_def find_open_guest_folio_def has_posted_charge_def
    by (auto simp: wp ends_emit Let_def split: option.split intro!: ends_weaken [OF post])
next
  case False
  from False show ?thesis
    unfolding post_night_row_def post_accepted_night_def with_accepted_pricing_lock_def Let_def
    by (auto simp: wp ends_emit Let_def split: option.split intro!: ends_weaken [OF post_locked_night_takes]
        ends_weaken [OF night_taken_emitted])
qed

text \<open>And a night that is taken is not posted.\<close>

lemma post_locked_night_skips:
  assumes "r_snapshot r \<noteq> None" and taken: "night_taken s pid d i r"
  shows "ends (post_locked_night pid d (r_id r) i) (\<lambda>res t. \<forall>p. res = Some p \<longrightarrow> \<not> sp_created p) (\<lambda>_ _. True) s"
proof (cases "find (\<lambda>row. rs_id (fst row) = i) (service_rows (r_id r) pid s)")
  case None
  then show ?thesis by (simp add: post_locked_night_def wp)
next
  case (Some row)
  then obtain x name where x: "find (\<lambda>row. rs_id (fst row) = i) (service_rows (r_id r) pid s) = Some (x, name)"
    by (cases row) auto
  show ?thesis
  proof (cases "reservation_of s (r_id r) pid")
    case None
    with x show ?thesis by (simp add: post_locked_night_def wp)
  next
    case q: (Some q)
    have acc: "is_accepted_row (r_snapshot q) (map fst (service_rows (r_id r) pid s)) x = accepted_now s pid r i"
      using assms x q by (simp add: accepted_now_def)
    have found: "sel (tagged_charge (f_id f) pid i (Some d)) (charges s) \<noteq> []"
      if "open_guest_folio s (r_id r) pid = Some f" for f
      using taken that by (auto simp: night_taken_def open_folio_id_def sel_Nil_iff)
    have post: "ends (post_service_charge True (f_id f) (service_charge_dto pid ct nm i amount cur d guest) (Some l)
        (ServiceNightKey i d)) (\<lambda>p t. \<not> sp_created p) (\<lambda>_ _. True) s"
      if f: "open_guest_folio s (r_id r) pid = Some f" and a: "accepted_now s pid r i" for f ct nm amount cur guest l
    proof -
      obtain c where c: "c \<in> set (charges s)" "tagged_charge (f_id f) pid i (Some d) c" "c_source c = Some (ServiceNightKey i d)"
        using taken f a by (auto simp: night_taken_def open_folio_id_def)
      have "ends (post_charge_from_snapshot_with_outcome True (f_id f) (service_charge_dto pid ct nm i amount cur d guest)
          (al_tax l) None (Some (ServiceNightKey i d))) (\<lambda>p t. \<not> sp_created p) (\<lambda>_ _. True) s"
        using c by (intro post_snapshot_claimed [OF c(1)]) (simp_all add: service_charge_dto_def tagged_charge_def)
      then show ?thesis by (simp add: post_service_charge_def)
    qed
    show ?thesis
      unfolding post_locked_night_def Let_def find_open_guest_folio_def has_posted_charge_def
      by (simp add: wp x q acc) (auto simp: wp found split: option.split intro!: ends_weaken [OF post])
  qed
qed

lemma post_night_row_skips:
  assumes "night_taken s pid d (rs_id x) r"
  shows "ends (post_night_row pid d (x, name, r)) (\<lambda>res t. \<forall>i c. res \<noteq> NightPosted i c) (\<lambda>_ _. True) s"
proof (cases "r_snapshot r = None")
  case True
  have "sel (tagged_charge (f_id f) pid (rs_id x) (Some d)) (charges s) \<noteq> []"
    if "open_guest_folio s (r_id r) pid = Some f" for f
    using assms that by (auto simp: night_taken_def open_folio_id_def sel_Nil_iff)
  with True show ?thesis
    unfolding post_night_row_def post_plain_night_def find_open_guest_folio_def has_posted_charge_def
    by (auto simp: wp Let_def split: option.split)
next
  case False
  then show ?thesis
    unfolding post_night_row_def post_accepted_night_def with_accepted_pricing_lock_def Let_def
    by (auto simp: wp split: option.split intro!: ends_weaken [OF post_locked_night_skips [OF _ assms]])
qed

section \<open>Two runs over the same night\<close>

definition rows_taken :: "hotel \<Rightarrow> ident \<Rightarrow> date \<Rightarrow> (reservation_service \<times> string \<times> reservation) list \<Rightarrow> night_result list \<Rightarrow> bool" where
  "rows_taken s pid d rows res \<longleftrightarrow> (\<forall>i c. NightPosted i c \<in> set res \<longrightarrow>
     (\<exists>x name r. (x, name, r) \<in> set rows \<and> rs_id x = i \<and> night_taken s pid d i r))"

lemma night_rows_after: "posted_after s t \<Longrightarrow> night_rows pid t = night_rows pid s"
  by (simp add: posted_after_def night_rows_def)

lemma rows_taken_Cons:
  assumes "posted_after t u" and "rows_taken u pid d rows ys"
    and "\<forall>i. (\<exists>c. y = NightPosted i c) \<longrightarrow> i = rs_id x \<and> night_taken t pid d (rs_id x) r"
  shows "rows_taken u pid d ((x, name, r) # rows) (y # ys)"
  unfolding rows_taken_def
proof (intro allI impI)
  fix i c assume "NightPosted i c \<in> set (y # ys)"
  then consider "y = NightPosted i c" | "NightPosted i c \<in> set ys" by auto
  then show "\<exists>x' name' r'. (x', name', r') \<in> set ((x, name, r) # rows) \<and> rs_id x' = i \<and> night_taken u pid d i r'"
  proof cases
    case 1
    then have "i = rs_id x" "night_taken u pid d i r" using assms(1,3) night_taken_after by auto
    then show ?thesis by auto
  next
    case 2
    then show ?thesis using assms(2) unfolding rows_taken_def by (metis list.set_intros(2))
  qed
qed

lemma night_row_after: "ends (post_night_row pid d row) (\<lambda>_ t. posted_after s t) (\<lambda>_ _. True) s"
  by (rule ends_weaken [OF keeps_inv_endsD [OF posted_after_night posted_after_refl]]) simp_all

lemma first_run:
  "ends (collect rows (post_night_row pid d)) (\<lambda>res t. posted_after s t \<and> rows_taken t pid d rows res) (\<lambda>_ _. True) s"
proof (induction rows arbitrary: s)
  case Nil
  then show ?case by (simp add: wp rows_taken_def)
next
  case (Cons row rows)
  obtain x name r where row: "row = (x, name, r)" by (cases row)
  have one: "ends (post_night_row pid d row) (\<lambda>res t. (\<forall>i c. res = NightPosted i c \<longrightarrow> i = rs_id x \<and>
      night_taken t pid d (rs_id x) r) \<and> posted_after s t) (\<lambda>_ _. True \<and> True) s"
    unfolding ends_conj row using post_night_row_takes night_row_after by (intro conjI) simp_all
  show ?case unfolding collect.simps ends_bnd
  proof (rule ends_weaken [OF one])
    fix y and t :: hotel assume y: "(\<forall>i c. y = NightPosted i c \<longrightarrow> i = rs_id x \<and> night_taken t pid d (rs_id x) r) \<and> posted_after s t"
    show "ends (collect rows (post_night_row pid d)) (\<lambda>ys. ends (ret (y # ys))
        (\<lambda>res t. posted_after s t \<and> rows_taken t pid d (row # rows) res) (\<lambda>_ _. True)) (\<lambda>_ _. True) t"
    proof (rule ends_weaken [OF Cons.IH])
      fix ys u assume "posted_after t u \<and> rows_taken u pid d rows ys"
      then show "ends (ret (y # ys)) (\<lambda>res t. posted_after s t \<and> rows_taken t pid d (row # rows) res) (\<lambda>_ _. True) u"
        using y posted_after_trans [of s t u] by (auto simp: ends_ret row intro: rows_taken_Cons)
    qed simp
  qed simp
qed

lemma second_run:
  assumes "\<And>x name r. (x, name, r) \<in> set rows \<Longrightarrow> rs_id x = i \<Longrightarrow> night_taken s pid d i r"
  shows "ends (collect rows (post_night_row pid d)) (\<lambda>res t. \<forall>c. NightPosted i c \<notin> set res) (\<lambda>_ _. True) s"
  using assms
proof (induction rows arbitrary: s)
  case Nil
  then show ?case by (simp add: wp)
next
  case (Cons row rows)
  obtain x name r where row: "row = (x, name, r)" by (cases row)
  have not: "ends (post_night_row pid d row) (\<lambda>res t. \<forall>c. res \<noteq> NightPosted i c) (\<lambda>_ _. True) s"
  proof (cases "rs_id x = i")
    case True
    then have "night_taken s pid d (rs_id x) r" using Cons.prems row by auto
    then show ?thesis unfolding row by (intro ends_weaken [OF post_night_row_skips]) auto
  next
    case False
    then show ?thesis unfolding row by (intro ends_weaken [OF post_night_row_takes]) auto
  qed
  have one: "ends (post_night_row pid d row) (\<lambda>res t. (\<forall>c. res \<noteq> NightPosted i c) \<and> posted_after s t) (\<lambda>_ _. True \<and> True) s"
    unfolding ends_conj using not by (simp add: night_row_after)
  show ?case unfolding collect.simps ends_bnd
  proof (rule ends_weaken [OF one])
    fix y and t :: hotel assume y: "(\<forall>c. y \<noteq> NightPosted i c) \<and> posted_after s t"
    have "ends (collect rows (post_night_row pid d)) (\<lambda>res t. \<forall>c. NightPosted i c \<notin> set res) (\<lambda>_ _. True) t"
      using y night_taken_after [of s t] by (intro Cons.IH) (metis Cons.prems list.set_intros(2))
    then show "ends (collect rows (post_night_row pid d)) (\<lambda>ys. ends (ret (y # ys))
        (\<lambda>res t. \<forall>c. NightPosted i c \<notin> set res) (\<lambda>_ _. True)) (\<lambda>_ _. True) t"
      by (rule ends_weaken) (use y in \<open>auto simp: ends_ret\<close>)
  qed simp
qed

lemma night_rows_same:
  assumes "wf_hotel s" and "(x, name, r) \<in> set (night_rows pid s)" and "(y, name', q) \<in> set (night_rows pid s)"
    and "rs_id x = rs_id y"
  shows "r = q"
proof -
  have "x = y" using assms distinct_key_unique [of rs_id "reservation_services s" x y]
    by (auto simp: night_rows_def sel_def wf_hotel_def keys_ok_def)
  moreover have "r \<in> set (reservations s)" "q \<in> set (reservations s)" "r_id r = rs_reservation x" "r_id q = rs_reservation y"
    using assms(2,3) by (auto simp: night_rows_def sel_def is_reservation_def)
  ultimately show ?thesis using assms(1) distinct_key_unique [of r_id "reservations s" r q]
    by (simp add: wf_hotel_def keys_ok_def)
qed

lemma nights_posted_once:
  assumes "wf_hotel s" and one: "post_per_night_for_property ck pid (Some d) s = (Inr xs, t)"
    and two: "post_per_night_for_property ck' pid (Some d) t = (Inr ys, u)" and "NightPosted i c \<in> set xs"
  shows "NightPosted i c' \<notin> set ys"
proof -
  let ?rows = "night_rows pid s"
  have t: "posted_after s t" "rows_taken t pid d ?rows xs"
    using ends_InrD [OF first_run [of ?rows pid d s]] one by (simp_all add: post_per_night_for_property_def)
  then obtain x name r where x: "(x, name, r) \<in> set ?rows" "rs_id x = i" "night_taken t pid d i r"
    using assms(4) unfolding rows_taken_def by blast
  have "night_taken t pid d i q" if "(y, name', q) \<in> set ?rows" "rs_id y = i" for y name' q
    using night_rows_same [OF assms(1) x(1) that(1)] x that by simp
  then have "ends (collect ?rows (post_night_row pid d)) (\<lambda>res t. \<forall>c. NightPosted i c \<notin> set res) (\<lambda>_ _. True) t"
    by (rule second_run)
  from ends_InrD [OF this] two show ?thesis by (simp add: post_per_night_for_property_def night_rows_after [OF t(1)])
qed

end
