(* ===== verification/Frames.thy ===== *)
theory Frames
  imports Ancillary_Facts
begin

text \<open>
  What a stay's money operations leave alone. A view of the state that does not depend on the
  charges, the folios, the event log and the identifier counter is kept by every posting and folio
  operation: the locale \<open>ledger_view\<close>. When it does not depend on the deposits and the services of
  reservations either, the deposit and ancillary operations keep it (\<open>side_view\<close>). When it does not depend on the rooms either, the room transitions keep it
  (\<open>stay_view\<close>); and when it does not depend on the payments, the card operations do, provided that
  whatever runs during a gateway call does (\<open>payment_view\<close>); \<open>desk_view\<close> is both.
\<close>

named_theorems side "operations that keep a view of the state"

lemmas combinators = keeps_ret keeps_throw keeps_ask keeps_guard keeps_require keeps_lift_result keeps_bnd keeps_attempt
  keeps_handle keeps_transact keeps_for_each keeps_collect keeps_if keeps_case_option keeps_case_sum keeps_case_prod
  keeps_Let keeps_find_row

locale ledger_view =
  fixes I :: "hotel \<Rightarrow> bool"
  assumes side_charges: "I s \<Longrightarrow> I (charges_update f s)"
    and side_folios: "I s \<Longrightarrow> I (folios_update g s)"
    and side_events: "I s \<Longrightarrow> I (s\<lparr>events := es\<rparr>)"
    and side_fresh: "I s \<Longrightarrow> I (s\<lparr>fresh := Suc (fresh s)\<rparr>)"
begin

lemma side_emit [side]: "keeps_inv I (emit n e i p)"
  by (rule keeps_emit) (rule side_events)

lemma side_new_id [side]: "keeps_inv I new_id"
  by (simp add: keeps_inv_def side_fresh)

lemma side_tables [side]:
  "keeps_inv I (insert_row charges_update c)" "keeps_inv I (insert_row folios_update f)"
  "keeps_inv I (update_one folios folios_update cf ff)"
  by (intro keeps_insert_row keeps_update_one side_charges side_folios; assumption)+

lemma side_recalculate [side]: "keeps_inv I (recalculate_balance fid pid)"
  unfolding recalculate_balance_eq recalc_folio_def by (intro keeps_tell side_folios)

lemma side_insert_charge [side]: "keeps_inv I (insert_charge c)" "keeps_inv I (insert_charge_unless_claimed c)"
  unfolding insert_charge_def insert_charge_unless_claimed_def by (intro combinators side)+

lemma side_taxes [side]: "keeps_inv I (calculate_taxes a ct p d opts)"
  by (simp add: keeps_inv_def calculate_taxes_eq)

lemma side_post_charge [side]: "keeps_inv I (post_charge tx fid dto parent source)"
  unfolding post_charge_def finish_posting_def find_folio_def by (intro combinators side)

lemma side_snapshot [side]:
  "keeps_inv I (post_charge_from_snapshot_with_outcome tx fid dto tax adj source)"
  "keeps_inv I (emit_snapshot_charge_webhooks pid p)"
  unfolding post_charge_from_snapshot_with_outcome_def post_snapshot_in_tx_def emit_snapshot_charge_webhooks_def
  by (intro combinators side)+

lemma side_create_folio [side]: "keeps_inv I (create_folio tx day dto)"
  unfolding create_folio_def generate_folio_number_def by (intro combinators side)

lemma side_create_auto_folio [side]: "keeps_inv I (create_auto_folio tx day r)"
  unfolding create_auto_folio_def by (rule side_create_folio)

lemma side_settle_folio [side]: "keeps_inv I (settle_folio now fid pid)"
  unfolding settle_folio_def find_folio_def by (intro combinators side)

lemma side_post_fee [side]: "keeps_inv I (post_fee ck fid pid text amount cur)"
  unfolding post_fee_def by (intro combinators side)

lemma side_guest_folio [side]: "keeps_inv I (ensure_guest_folio ck rid pid)"
  unfolding ensure_guest_folio_def by (intro combinators side)

lemma side_evaluation [side]: "keeps_inv I (evaluate_cancellation pid plan d a n now)"
  unfolding evaluate_cancellation_def resolve_policy_for_rate_plan_def by (intro combinators side)

end

locale side_view = ledger_view +
  assumes side_deposits: "I s \<Longrightarrow> I (deposits_update h s)"
    and side_services: "I s \<Longrightarrow> I (reservation_services_update k s)"
begin

lemma side_side_tables [side]:
  "keeps_inv I (insert_row deposits_update d)" "keeps_inv I (insert_row reservation_services_update x)"
  "keeps_inv I (update_one deposits deposits_update cd fd)"
  "keeps_inv I (update_where reservation_services reservation_services_update cx fx)"
  by (intro keeps_insert_row keeps_update_one keeps_update_where side_deposits side_services; assumption)+

lemma side_deposit_ops [side]:
  "keeps_inv I (apply_deposit ck i pid fo)" "keeps_inv I (refund_deposit ck i pid)" "keeps_inv I (forfeit_deposit ck i pid)"
  unfolding apply_deposit_def refund_deposit_def forfeit_deposit_def find_deposit_def by (intro combinators side)+

lemma side_settlement [side]:
  "keeps_inv I (apply_held_deposits ck rid pid fid)"
  "keeps_inv I (settle_from_evaluation ck rid pid cur ev txt extra etxt)"
  unfolding apply_held_deposits_def settle_from_evaluation_def settle_deposits_def settle_one_def
    list_held_deposits_def
  by (intro combinators side)+

lemma side_package [side]: "keeps_inv I (ensure_package_components tx now rid pid fz)"
  unfolding ensure_package_components_def attach_component_def find_reservation_def find_service_by_id_def
  by (intro combinators side)

lemma side_post_once [side]: "keeps_inv I (post_once_for_reservation rid pid)"
  unfolding post_once_for_reservation_def post_once_in_tx_def post_once_row_def finish_once_def post_service_charge_def
    mark_posted_def with_accepted_pricing_lock_def find_reservation_def find_open_guest_folio_def has_posted_charge_def
  by (intro combinators side)

lemma side_attach [side]:
  "keeps_inv I (attach_to_reservation tx now rid at_dto ov)" "keeps_inv I (cancel_reservation_service i pid rid)"
  unfolding attach_to_reservation_def cancel_reservation_service_def cancel_in_tx_def with_accepted_pricing_lock_def
    find_reservation_def find_service_by_id_def find_open_guest_folio_def has_posted_charge_def
  by (intro combinators side)+

lemma side_per_night [side]: "keeps_inv I (post_per_night_for_property ck pid night)"
  unfolding post_per_night_for_property_def post_night_row_def post_accepted_night_def post_locked_night_def
    post_plain_night_def post_service_charge_def with_accepted_pricing_lock_def find_reservation_def find_open_guest_folio_def
    has_posted_charge_def
  by (intro combinators side)

end

locale stay_view = side_view +
  assumes side_rooms: "I s \<Longrightarrow> I (rooms_update m s)"
begin

lemma side_room_table [side]: "keeps_inv I (update_one rooms rooms_update c f)"
  by (intro keeps_update_one side_rooms)

lemma side_transition [side]:
  "keeps_inv I (transition_status now mid pid q note)" "keeps_inv I (mark_occupied now mid pid)"
  "keeps_inv I (mark_vacant_dirty now mid pid)"
  unfolding mark_occupied_def mark_vacant_dirty_def transition_status_def find_room_def by (intro combinators side)+

end

locale payment_view = side_view +
  assumes side_payments: "I s \<Longrightarrow> I (payments_update p s)"
begin

lemma side_payment_tables [side]:
  "keeps_inv I (insert_row payments_update y)" "keeps_inv I (update_where payments payments_update c f)"
  by (intro keeps_insert_row keeps_update_where side_payments; assumption)+

lemma side_insert_payment [side]: "keeps_inv I (insert_payment y)"
  unfolding insert_payment_def by (intro combinators side)

lemma side_options [side]:
  "keeps_inv I (build_authorize_gateway_options mc dto)" "keeps_inv I (build_lifecycle_gateway_options mc y)"
  "keeps_inv I (assert_generic_access_allowed y)" "keeps_inv I (find_payment_row i pid)"
  unfolding assert_generic_access_allowed_def find_payment_row_def by (intro keeps)+

lemma side_authorize:
  "(\<And>tok a cur. keeps_inv I (gw_authorize g tok a cur)) \<Longrightarrow> keeps_inv I (authorize_payment g mc now dto fin)"
  unfolding authorize_payment_def store_authorization_def find_folio_def by (intro combinators side)

lemma side_claim [side]: "keeps_inv I (claim_payment i pid froms f msg)"
  unfolding claim_payment_def by (intro combinators side)

lemma side_recalculate_of [side]: "keeps_inv I (recalculate_of fo pid)"
  unfolding recalculate_of_def by (intro combinators side)

lemma side_capture: "(\<And>tx a k. keeps_inv I (gw_capture g tx a k)) \<Longrightarrow> keeps_inv I (capture_payment g mc now i pid)"
  unfolding capture_payment_def finish_capture_def by (intro combinators side)

lemma side_void: "(\<And>tx a k. keeps_inv I (gw_void g tx a k)) \<Longrightarrow> keeps_inv I (void_payment g mc i pid)"
  unfolding void_payment_def finish_void_def by (intro combinators side)

end

locale desk_view = stay_view I + payment_view I for I

end
