(* ===== verification/Reservation_Facts.thy ===== *)
theory Reservation_Facts
  imports Reservation Frames
begin

text \<open>
  What the reservation service guarantees of a stay and of the inventory. Every operation moves each
  stay along the status machine (\<open>moves\<close>), so a cancelled, departed or no-show stay never comes
  back, whatever requests follow (\<open>desk_step\<close>); a successful creation leaves no night oversold, and
  a modification makes no oversold night worse.
\<close>

section \<open>Stays move along the machine\<close>

inductive stay_step :: "reservation_status \<Rightarrow> reservation_status \<Rightarrow> bool" where
  step: "validate_transition q t \<Longrightarrow> stay_step q t"

inductive_simps stay_step_iff: "stay_step q t"

definition moves :: "hotel \<Rightarrow> hotel \<Rightarrow> bool" where
  "moves s t \<longleftrightarrow> (\<forall>k q. status_in s k = Some q \<longrightarrow> (\<exists>q'. status_in t k = Some q' \<and> stay_step\<^sup>*\<^sup>* q q'))"

lemma moves_refl [simp]: "moves s s"
  by (simp add: moves_def)

lemma moves_trans: "moves s t \<Longrightarrow> moves t u \<Longrightarrow> moves s u"
  unfolding moves_def by (meson rtranclp_trans)

lemma stay_step_rank: "stay_step q t \<Longrightarrow> stay_rank q < stay_rank t"
  by (auto simp: stay_step_iff validate_transition_def intro: reservation_machine.forward)

lemma stay_steps_rank: "stay_step\<^sup>*\<^sup>* q t \<Longrightarrow> stay_rank q \<le> stay_rank t"
proof (induction rule: rtranclp_induct)
  case base
  then show ?case by simp
next
  case (step y z)
  then show ?case using stay_step_rank [of y z] by simp
qed

lemma terminal_stays: "stay_step\<^sup>*\<^sup>* q t \<Longrightarrow> terminal q \<Longrightarrow> t = q"
  by (erule converse_rtranclpE) (simp_all add: terminal_iff stay_step_iff validate_transition_def)

lemma status_in_cong: "reservations t = reservations s \<Longrightarrow> status_in t k = status_in s k"
  by (simp add: status_in_def reservation_of_def)

lemma moves_cong: "reservations t = reservations s \<Longrightarrow> moves s0 t = moves s0 s"
  by (simp add: moves_def status_in_cong [of t s])

interpretation moving: desk_view "moves s0" for s0
  by unfold_locales (simp_all add: moves_cong [of _ "_ :: hotel"] moves_def status_in_def reservation_of_def)

text \<open>A write to the rows of a stay that is a legal step of it, or leaves its status alone.\<close>

definition same_stay :: "(reservation \<Rightarrow> reservation) \<Rightarrow> bool" where
  "same_stay f \<longleftrightarrow> (\<forall>r. r_id (f r) = r_id r \<and> r_property (f r) = r_property r)"

lemma moves_upd:
  assumes "same_stay f" and "\<And>r. c r \<Longrightarrow> stay_step\<^sup>*\<^sup>* (r_status r) (r_status (f r))"
  shows "moves s (reservations_update (upd c f) s)"
proof -
  have upd: "status_in (reservations_update (upd c f) s) k =
      map_option (\<lambda>r. r_status (if c r then f r else r)) (reservation_of s (fst k) (snd k))" for k
    using assms(1) reservation_of_upd [of "fst k" "snd k" f c s]
    by (simp add: status_in_def same_stay_def is_reservation_def option.map_comp comp_def)
  show ?thesis unfolding moves_def upd
  proof (intro allI impI)
    fix k q assume "status_in s k = Some q"
    then obtain r where r: "reservation_of s (fst k) (snd k) = Some r" "r_status r = q" by (auto simp: status_in_def)
    have "stay_step\<^sup>*\<^sup>* q (r_status (if c r then f r else r))" using assms(2) [of r] r(2) by simp
    with r(1) show "\<exists>q'. map_option (\<lambda>r. r_status (if c r then f r else r)) (reservation_of s (fst k) (snd k)) = Some q' \<and>
        stay_step\<^sup>*\<^sup>* q q'" by simp
  qed
qed

lemma moves_claim [side]:
  assumes "same_stay f" and "\<And>r. r_status (f r) = target" and "\<And>q. q \<in> set froms \<Longrightarrow> validate_transition q target"
  shows "keeps_inv (moves s0) (claim_transition rid pid froms f)"
proof (rule keeps_claim_transition)
  fix s assume "moves s0 s"
  moreover have "moves s (reservations_update (upd (claim_hit rid pid froms) f) s)"
    using assms by (intro moves_upd) (auto simp: claim_hit_def intro!: r_into_rtranclp stay_step.step)
  ultimately show "moves s0 (reservations_update (upd (claim_hit rid pid froms) f) s)" by (rule moves_trans)
qed

lemma moves_update_one [side]:
  assumes "same_stay f" and "\<And>r. r_status (f r) = r_status r"
  shows "keeps_inv (moves s0) (update_one reservations reservations_update c f)"
    "keeps_inv (moves s0) (update_where reservations reservations_update c f)"
  by (intro keeps_update_one keeps_update_where; erule moves_trans; rule moves_upd; simp add: assms)+

lemma moves_insert [side]: "keeps_inv (moves s0) (insert_row reservations_update r)"
proof (rule keeps_insert_row)
  fix s assume "moves s0 s"
  moreover have "moves s (reservations_update (\<lambda>t. t @ [r]) s)"
  proof -
    have "first_row (xs @ ys) = (case first_row xs of None \<Rightarrow> first_row ys | Some x \<Rightarrow> Some x)" for xs ys :: "reservation list"
      by (cases xs) simp_all
    then show ?thesis by (auto simp: moves_def status_in_def reservation_of_def sel_def)
  qed
  ultimately show "moves s0 (reservations_update (\<lambda>t. t @ [r]) s)" by (rule moves_trans)
qed

lemma moves_other_tables [side]:
  "keeps_inv (moves s0) (insert_row bookings_update b)" "keeps_inv (moves s0) (insert_row occupants_update x)"
  by (intro keeps_insert_row; simp add: moves_cong [where s = "_ :: hotel"] moves_def status_in_def reservation_of_def)+


lemma same_stay_simps [simp]:
  "same_stay (\<lambda>r. r\<lparr>r_status := q, r_updated := n\<rparr>)" "same_stay (\<lambda>r. r\<lparr>r_room := m, r_status := q, r_updated := n\<rparr>)"
  "same_stay (\<lambda>r. r\<lparr>r_room := m, r_updated := n\<rparr>)"
  "same_stay (\<lambda>r. r\<lparr>r_status := q, r_cancelled_at := a, r_cancel_reason := w, r_updated := n\<rparr>)"
  "same_stay (\<lambda>r. (register_guest dk g r)\<lparr>r_updated := n\<rparr>)" "same_stay (checked_in dk dto mid early fee reqs)"
  "same_stay (checked_out dk late fee')" "same_stay (modified dk md nights)"
  "same_stay (\<lambda>r. r\<lparr>r_arrival := x, r_departure := y, r_nights := z, r_total := t, r_snapshot := p, r_updated := n\<rparr>)"
  by (simp_all add: same_stay_def register_guest_def checked_in_def checked_out_def modified_def)

lemma status_after [simp]:
  "r_status (checked_in dk dto m early fee reqs r) = CheckedIn" "r_status (checked_out dk late fee' r) = CheckedOut"
  "r_status (register_guest dk g r) = r_status r" "r_status (modified dk md nights r) = r_status r"
  by (simp_all add: register_guest_def checked_in_def checked_out_def modified_def)

lemmas desk_checks = find_by_id_raw_def assert_transition_def assert_room_type_here_def assert_rate_plan_here_def
  lock_inventory_def room_ready_def Let_def

text \<open>A gateway moves stays along when whatever other requests do during its calls does.\<close>

definition steady :: "gateway \<Rightarrow> bool" where
  "steady g \<longleftrightarrow> (\<forall>s tok a cur tx k. keeps_inv (moves s) (gw_authorize g tok a cur) \<and>
     keeps_inv (moves s) (gw_capture g tx a k) \<and> keeps_inv (moves s) (gw_void g tx a k))"

lemma steady_ops:
  assumes "steady g"
  shows "keeps_inv (moves s0) (authorize_payment g mc now dto fin)" "keeps_inv (moves s0) (capture_payment g mc now i pid)"
    "keeps_inv (moves s0) (void_payment g mc i pid)"
  using assms by (auto simp: steady_def intro!: moving.side_authorize moving.side_capture moving.side_void)

lemma search_moves [side]: "keeps_inv (moves s0) (search_availability p ci co rt ex)" "keeps_inv (moves s0) (assert_sellable p r ci co)"
  by (rule keeps_search_availability, rule keeps_assert_sellable)

lemma create_moves: "keeps_inv (moves s0) (create_reservation dk tx dto opts)"
  unfolding create_reservation_def create_in_transaction_def desk_checks by (intro combinators side)

lemma confirm_moves: "keeps_inv (moves s0) (confirm_reservation dk rid pid)"
  unfolding confirm_reservation_def desk_checks by (intro combinators side) (auto simp: validate_transition_def)

lemma assign_moves [side]: "keeps_inv (moves s0) (assign_room dk rid pid mid)"
  unfolding assign_room_def desk_checks by (intro combinators side) (auto simp: validate_transition_def)

lemma move_room_moves: "keeps_inv (moves s0) (move_room dk rid pid mid ov)"
  unfolding move_room_def desk_checks by (intro combinators side) simp_all

lemma cancel_moves [side]: "keeps_inv (moves s0) (cancel_reservation dk rid pid why reason)"
  unfolding cancel_reservation_def desk_checks by (intro combinators side) (auto simp: validate_transition_def)

lemma no_show_moves: "keeps_inv (moves s0) (mark_no_show dk rid pid)"
  unfolding mark_no_show_def desk_checks by (intro combinators side) (auto simp: validate_transition_def)

lemma pre_register_moves: "keeps_inv (moves s0) (pre_register dk rid pid g)"
  unfolding pre_register_def desk_checks by (intro combinators side) simp_all

lemma check_in_moves:
  assumes "steady (dk_gateway dk)"
  shows "keeps_inv (moves s0) (check_in dk rid pid dto)"
  unfolding check_in_def after_check_in_def desk_checks
  by (intro combinators side steady_ops assms) (auto simp: validate_transition_def)

lemma check_out_moves:
  assumes "steady (dk_gateway dk)"
  shows "keeps_inv (moves s0) (check_out dk rid pid ex fee)"
  unfolding check_out_def after_check_out_def post_late_fee_def assert_settled_folio_def capture_authorized_def
    void_authorized_def settle_open_def authorized_payments_def list_folios_def find_folio_def desk_checks
  by (intro combinators side steady_ops assms) (auto simp: validate_transition_def)

lemma group_moves: "steady (dk_gateway dk) \<Longrightarrow> keeps_inv (moves s0) (group_check_in dk pid items)"
  unfolding group_check_in_def group_check_in_one_def find_by_id_raw_def
  by (intro combinators side check_in_moves)

lemma bulk_moves: "steady (dk_gateway dk) \<Longrightarrow> keeps_inv (moves s0) (bulk_action dk pid ids kind reason)"
  unfolding bulk_action_def bulk_one_def
  by (cases kind) (auto intro!: combinators side check_in_moves check_out_moves)

lemma modify_moves: "keeps_inv (moves s0) (modify_reservation dk rid pid dto)"
  unfolding modify_reservation_def store_modification_def recheck_availability_def desk_checks by (intro combinators side) simp_all

lemma amend_moves: "keeps_inv (moves s0) (modify_accepted_stay dk locked pid a d amount pricing)"
  unfolding modify_accepted_stay_def by (intro combinators side) simp_all


text \<open>A request at the desk, whatever its outcome, takes one state to another.\<close>

inductive desk_step :: "hotel \<Rightarrow> hotel \<Rightarrow> bool" where
  create: "desk_step s (snd (create_reservation dk tx new_dto opts s))"
| confirm: "desk_step s (snd (confirm_reservation dk rid pid s))"
| assign: "desk_step s (snd (assign_room dk rid pid mid s))"
| change_room: "desk_step s (snd (move_room dk rid pid mid ov s))"
| cancel: "desk_step s (snd (cancel_reservation dk rid pid why reason s))"
| no_show: "desk_step s (snd (mark_no_show dk rid pid s))"
| register: "desk_step s (snd (pre_register dk rid pid g s))"
| arrive: "steady (dk_gateway dk) \<Longrightarrow> desk_step s (snd (check_in dk rid pid in_dto s))"
| depart: "steady (dk_gateway dk) \<Longrightarrow> desk_step s (snd (check_out dk rid pid ex fee s))"
| group: "steady (dk_gateway dk) \<Longrightarrow> desk_step s (snd (group_check_in dk pid items s))"
| bulk: "steady (dk_gateway dk) \<Longrightarrow> desk_step s (snd (bulk_action dk pid ids kind reason s))"
| modify: "desk_step s (snd (modify_reservation dk rid pid mod_dto s))"
| amend: "desk_step s (snd (modify_accepted_stay dk locked pid a d amount pricing s))"

lemma keeps_moves: "keeps_inv (moves s) m \<Longrightarrow> moves s (snd (m s))"
  by (rule keeps_invD) simp_all

lemma desk_step_moves: "desk_step s t \<Longrightarrow> moves s t"
  by (induction rule: desk_step.induct)
    (intro keeps_moves create_moves confirm_moves assign_moves move_room_moves cancel_moves no_show_moves
      pre_register_moves check_in_moves check_out_moves group_moves bulk_moves modify_moves amend_moves; assumption)+

lemma desk_run_moves: "desk_step\<^sup>*\<^sup>* s t \<Longrightarrow> moves s t"
  by (induction rule: rtranclp_induct) (auto intro: moves_trans desk_step_moves)

section \<open>The books\<close>

interpretation refunding: stay_view refunds_ok
  by unfold_locales (auto elim: refunds_ok_cong [rotated 2])

lemma sound_iff: "sound {} s \<longleftrightarrow> ledger_ok s \<and> refunds_ok s"
  by (auto simp: sound_def ledger_ok_def)

lemma keeps_sound: "keeps_inv ledger_ok m \<Longrightarrow> keeps_inv refunds_ok m \<Longrightarrow> keeps_inv (sound {}) m"
  by (auto simp: keeps_inv_def sound_iff)

lemma only_stay_rooms: "only_stay s (rooms_update (upd c (stamp_room now q note)) s)"
  by (simp add: only_stay_def wf_update_rooms)

lemma keeps_transition [keeps]: "keeps_inv ledger_ok (transition_status now mid pid q note)"
  using only_stay_ledger [OF only_stay_rooms] by (intro keeps_transition_status) auto

lemma keeps_evaluation [keeps]: "keeps_inv I (evaluate_cancellation pid plan d a n now)"
  unfolding evaluate_cancellation_def resolve_policy_for_rate_plan_def by (intro combinators)

named_theorems sounds "operations that keep the books and the bound on refunds"

lemma sound_ops [sounds]:
  "keeps_inv (sound {}) (create_auto_folio tx day r)" "keeps_inv (sound {}) (post_fee ck fid pid text amount cur)"
  "keeps_inv (sound {}) (mark_occupied now mid pid)" "keeps_inv (sound {}) (mark_vacant_dirty now mid pid)"
  "keeps_inv (sound {}) (ensure_package_components tx now rid pid fz)" "keeps_inv (sound {}) (post_once_for_reservation rid pid)"
  "keeps_inv (sound {}) (apply_held_deposits ck rid pid fid)"
  "keeps_inv (sound {}) (settle_from_evaluation ck rid pid cur ev txt extra etxt)"
  "keeps_inv (sound {}) (settle_folio now fid pid)" "keeps_inv (sound {}) (emit n e i p)"
  "keeps_inv (sound {}) (evaluate_cancellation pid plan d a n' now)"
  "keeps_inv (sound {}) (search_availability p ci co rt ex)" "keeps_inv (sound {}) (assert_sellable p plan ci co)"
  by (intro keeps_sound keeps side; simp add: post_fee_def mark_occupied_def mark_vacant_dirty_def; intro keeps)+

section \<open>Creation\<close>

text \<open>The state after a successful creation: a booking, the stay and its primary occupant.\<close>

definition booked :: "desk \<Rightarrow> create_dto \<Rightarrow> create_opts \<Rightarrow> hotel \<Rightarrow> hotel" where
  "booked dk dto opts s =
     occupants_update (\<lambda>t. t @ [\<lparr>o_property = nr_property dto, o_reservation = fresh s + 1, o_guest = nr_guest dto, o_primary = True\<rparr>])
      (reservations_update (\<lambda>t. t @ [new_reservation dk dto opts (fresh s) (fresh s + 1)])
       (bookings_update (\<lambda>t. t @ [\<lparr>b_id = fresh s, b_property = nr_property dto, b_guest = nr_guest dto,
             b_confirmation = or_else (co_number opts) (dk_number dk)\<rparr>])
        (s\<lparr>fresh := fresh s + 2\<rparr>)))"

lemma keys_ok_new: "keys_ok key n t \<Longrightarrow> n \<le> key r \<Longrightarrow> key r < m \<Longrightarrow> keys_ok key m (t @ [r])"
  by (force simp: keys_ok_def)

lemma wf_booked: "wf_hotel s \<Longrightarrow> wf_hotel (booked dk dto opts s)"
proof -
  assume s: "wf_hotel s"
  then have b: "keys_ok b_id (fresh s) (bookings s)" and r: "keys_ok r_id (fresh s) (reservations s)"
    by (simp_all add: wf_hotel_def)
  have "keys_ok b_id (fresh s + 2) (bookings (booked dk dto opts s))"
    by (simp add: booked_def keys_ok_new [OF b])
  moreover have "keys_ok r_id (fresh s + 2) (reservations (booked dk dto opts s))"
    by (simp add: booked_def keys_ok_new [OF r] new_reservation_def)
  moreover have "wf_hotel (s\<lparr>fresh := fresh s + 2\<rparr>)" using s by (simp add: wf_hotel_fresh)
  ultimately show ?thesis by (simp add: wf_hotel_def booked_def)
qed

lemma only_stay_booked: "only_stay s (booked dk dto opts s)"
  by (simp add: only_stay_def wf_booked) (simp add: booked_def)

text \<open>The search for one room type finds that type or nothing.\<close>

lemma searched_type_cases:
  assumes "distinct (map t_id (room_types s))"
  shows "searched_types s pid (Some rt) = [] \<or>
    (\<exists>t \<in> set (room_types s). t_id t = rt \<and> t_property t = pid \<and> t_is_active t \<and> searched_types s pid (Some rt) = [t])"
proof (cases "searched_types s pid (Some rt)")
  case (Cons t ts)
  then have "t \<in> set (searched_types s pid (Some rt))" by simp
  then have t: "t \<in> set (room_types s)" "t_property t = pid" "t_is_active t" "t_id t = rt"
    by (auto simp: searched_types_def sel_def)
  with searched_one_type [OF assms t(1-3)] show ?thesis by auto
qed simp

definition bookable :: "hotel \<Rightarrow> ident \<Rightarrow> ident \<Rightarrow> date \<Rightarrow> date \<Rightarrow> bool" where
  "bookable s pid rt ci co \<longleftrightarrow>
     (\<exists>t \<in> set (room_types s). t_id t = rt \<and> (\<forall>d \<in> {ci..<co}. 0 < free_units s pid t d))"

lemma self_events: "\<exists>es. (s :: hotel) = s\<lparr>events := es\<rparr>"
  by (rule exI [of _ "events s"]) simp

lemma full_stay_free:
  assumes "distinct (map t_id (room_types s))" and "ci < co"
    and "assert_full_stay_availability (concat (map (\<lambda>t. map (night_row s pid None t) [ci..<co])
       (searched_types s pid (Some rt)))) rt ci co = Inr ()"
  shows "bookable s pid rt ci co"
proof -
  from assms(3) assert_full_stay_no_rows [OF assms(2), of rt] searched_type_cases [OF assms(1), of pid rt]
  obtain t where t: "t \<in> set (room_types s)" "t_id t = rt" "searched_types s pid (Some rt) = [t]" by auto
  have "0 < a_available (night_row s pid None t d) \<longleftrightarrow> 0 < free_units s pid t d" for d
    using a_available_free [OF refl, of s pid t d] by linarith
  with assert_full_stay_row [OF assms(2), of s pid None t] assms(3) t show ?thesis by (auto simp: bookable_def)
qed

lemma create_ends:
  assumes distinct: "distinct (map t_id (room_types s))"
  shows "ends (create_reservation dk tx dto opts) (\<lambda>res t. fst res = new_reservation dk dto opts (fresh s) (fresh s + 1) \<and>
      (\<exists>es. t = (booked dk dto opts s)\<lparr>events := es\<rparr>) \<and> nr_arrival dto < nr_departure dto \<and>
      bookable s (nr_property dto) (nr_room_type dto) (nr_arrival dto) (nr_departure dto))
    (\<lambda>_ t. t = s) s"
proof -
  let ?rows = "concat (map (\<lambda>t. map (night_row s (nr_property dto) None t) [nr_arrival dto..<nr_departure dto])
       (searched_types s (nr_property dto) (Some (nr_room_type dto))))"
  have in_tx: "ends (create_in_transaction dk dto opts) (\<lambda>res t. fst res = new_reservation dk dto opts (fresh s) (fresh s + 1) \<and>
      t = booked dk dto opts s \<and> bookable s (nr_property dto) (nr_room_type dto) (nr_arrival dto) (nr_departure dto)) (\<lambda>_ t. t = s) s"
    if less: "nr_arrival dto < nr_departure dto"
  proof -
    have search: "ends (search_availability (nr_property dto) (nr_arrival dto) (nr_departure dto) (Some (nr_room_type dto)) None) Q E s
        = Q ?rows s" for Q E
      by (simp add: ends_def search_availability_apply [OF less])
    show ?thesis
      unfolding create_in_transaction_def lock_inventory_def
      by (auto simp: wp search booked_def new_reservation_def split: option.split sum.split
          dest: full_stay_free [OF distinct less])
  qed
  show ?thesis
    unfolding create_reservation_def assert_room_type_here_def assert_rate_plan_here_def
    by (auto simp: wp split: option.split sum.split intro!: ends_weaken [OF in_tx] self_events)
qed

text \<open>The new stay takes one unit of its type on each of its nights, and nothing else changes.\<close>

lemma count_rows_append: "count_rows c (xs @ ys) = count_rows c xs + count_rows c ys"
  by (simp add: count_rows_def)

lemma free_units_booked:
  "free_units ((booked dk dto opts s)\<lparr>events := es\<rparr>) pid ty d = free_units s pid ty d -
     (if pid = nr_property dto \<and> t_id ty = nr_room_type dto \<and> d \<in> {nr_arrival dto..<nr_departure dto} then 1 else 0)"
proof -
  let ?t = "(booked dk dto opts s)\<lparr>events := es\<rparr>"
  have "capacity_of ?t pid ty = capacity_of s pid ty"
    by (simp add: capacity_of_def total_rooms_of_def overbooking_of_def booked_def)
  moreover have "imported_on ?t pid (t_id ty) d = imported_on s pid (t_id ty) d"
    by (simp add: imported_on_def active_import_def booked_def)
  moreover have "sold_on ?t pid (t_id ty) d = sold_on s pid (t_id ty) d +
      (if pid = nr_property dto \<and> t_id ty = nr_room_type dto \<and> d \<in> {nr_arrival dto..<nr_departure dto} then 1 else 0)"
    by (auto simp: sold_on_def booked_def count_rows_append) (auto simp: count_rows_def occupies_def new_reservation_def)
  ultimately show ?thesis by (simp add: free_units_def)
qed

lemma creation_sells:
  assumes wf: "wf_hotel s" and types: "distinct (map t_id (room_types s))"
    and run: "create_reservation dk tx dto opts s = (Inr (r, b), t)"
  shows "r_status r = Pending \<and> status_in t (r_id r, nr_property dto) = Some Pending \<and>
    (\<forall>ty \<in> set (room_types s). t_id ty = nr_room_type dto \<longrightarrow>
       (\<forall>d. free_units t (nr_property dto) ty d = free_units s (nr_property dto) ty d -
              (if nr_arrival dto \<le> d \<and> d < nr_departure dto then 1 else 0)) \<and>
       (\<forall>d \<in> {nr_arrival dto..<nr_departure dto}. 0 \<le> free_units t (nr_property dto) ty d))"
proof -
  from ends_InrD [OF create_ends [OF types] run] obtain es
    where r: "r = new_reservation dk dto opts (fresh s) (fresh s + 1)" and t: "t = (booked dk dto opts s)\<lparr>events := es\<rparr>"
      and ok: "bookable s (nr_property dto) (nr_room_type dto) (nr_arrival dto) (nr_departure dto)" by auto
  have "\<not> is_reservation (fresh s + 1) (nr_property dto) q" if "q \<in> set (reservations s)" for q
    using wf that by (auto simp: wf_hotel_def keys_ok_def is_reservation_def)
  then have "sel (is_reservation (fresh s + 1) (nr_property dto)) (reservations s) = []" by (auto simp: sel_Nil_iff)
  then have "reservation_of t (r_id r) (nr_property dto) = Some r"
    by (simp add: r t reservation_of_def booked_def) (simp add: sel_def is_reservation_def new_reservation_def)
  moreover have "r_status r = Pending" by (simp add: r new_reservation_def)
  moreover have "0 \<le> free_units t (nr_property dto) ty d"
    if "ty \<in> set (room_types s)" "t_id ty = nr_room_type dto" "d \<in> {nr_arrival dto..<nr_departure dto}" for ty d
  proof -
    note ty = that
    from ok obtain u where u: "u \<in> set (room_types s)" "t_id u = nr_room_type dto"
      "0 < free_units s (nr_property dto) u d" using ty(3) by (auto simp: bookable_def)
    have "u = ty" using distinct_key_unique [OF types u(1) ty(1)] u(2) ty(2) by simp
    with u(3) show ?thesis by (simp add: t free_units_booked)
  qed
  ultimately show ?thesis by (simp add: status_in_def) (auto simp: t free_units_booked)
qed
section \<open>Modification\<close>

lemma count_rows_sum: "int (count_rows c xs) = sum_list (map (\<lambda>x. if c x then 1 else 0) xs)"
  by (induction xs) (simp_all add: count_rows_def)

text \<open>The nights of a changed stay that the check lets through.\<close>

definition night_ok :: "hotel \<Rightarrow> ident \<Rightarrow> reservation \<Rightarrow> ident \<Rightarrow> room_type \<Rightarrow> date \<Rightarrow> bool" where
  "night_ok s pid r rt ty d \<longleftrightarrow> 0 < free_units s pid ty d \<or> r_room_type r = rt \<and> r_arrival r \<le> d \<and> d < r_departure r"

definition nights_ok :: "hotel \<Rightarrow> ident \<Rightarrow> reservation \<Rightarrow> ident \<Rightarrow> date \<Rightarrow> date \<Rightarrow> bool" where
  "nights_ok s pid r rt a e \<longleftrightarrow>
     (\<forall>ty \<in> set (room_types s). t_id ty = rt \<longrightarrow> (\<forall>d \<in> {a..<e}. night_ok s pid r rt ty d))"

definition changes_stay :: "modify_dto \<Rightarrow> reservation \<Rightarrow> bool" where
  "changes_stay dto r \<longleftrightarrow> changes (md_arrival dto) (r_arrival r) \<or> changes (md_departure dto) (r_departure r) \<or>
     changes (md_room_type dto) (r_room_type r)"

lemma as_conflict_Inr [simp]: "as_conflict res = Inr x \<longleftrightarrow> res = Inr x"
  by (cases res rule: as_conflict.cases) simp_all

lemma recheck_ends:
  assumes types: "distinct (map t_id (room_types s))" and r: "r_property r = pid"
    and rt: "rt = or_else (md_room_type dto) (r_room_type r)" and a: "a = or_else (md_arrival dto) (r_arrival r)"
    and e: "e = or_else (md_departure dto) (r_departure r)"
  shows "ends (recheck_availability r pid dto) (\<lambda>_ t. t = s \<and> nights_ok s pid r rt a e) (\<lambda>_ t. t = s) s"
proof -
  let ?own = "\<not> changes (md_room_type dto) (r_room_type r) \<and> r_arrival r < e \<and> a < r_departure r"
  let ?types = "searched_types s pid (Some rt)"
  let ?rows = "concat (map (\<lambda>t. map (night_row s pid None t) [a..<e]) ?types)"
  have ok: "night_ok s pid r rt ty d"
    if True: "a < e" and pass: "assert_full_stay_availability (map (release_own r ?own rt) ?rows) rt a e = Inr ()"
      and ty: "ty \<in> set (room_types s)" "t_id ty = rt" and d: "d \<in> {a..<e}" for ty d
  proof -
    from searched_type_cases [OF types, of pid rt] pass assert_full_stay_no_rows [OF True, of rt]
    obtain t where t: "t \<in> set (room_types s)" "t_id t = rt" "?types = [t]" by auto
    have "t = ty" using distinct_key_unique [OF types t(1) ty(1)] t(2) ty(2) by simp
    let ?g = "\<lambda>d. release_own r ?own rt (night_row s pid None t d)"
    have "a_room_type (?g d) = rt" "a_date (?g d) = d" for d
      using t(2) by (simp_all add: release_own_def)
    then have "0 < a_available (?g d)"
      using pass assert_full_stay_map [OF True, of ?g rt] d t(3) by (simp add: comp_def)
    then show ?thesis
      using a_available_free [OF refl, of s pid t d] \<open>t = ty\<close> rt
      by (auto simp: night_ok_def release_own_def changes_def or_else_def split: if_splits option.splits)
  qed
  then have nights_ok: "nights_ok s pid r rt a e"
    if "a < e" "assert_full_stay_availability (map (release_own r ?own rt) ?rows) rt a e = Inr ()"
    using that by (simp add: nights_ok_def)
  show ?thesis
    unfolding recheck_availability_def lock_inventory_def Let_def rt [symmetric] a [symmetric] e [symmetric] r
    by (auto simp: wp ends_search nights_ok split: option.split sum.split)
qed

text \<open>What a modification does to the number of free units of a night.\<close>

lemma modify_ends:
  assumes types: "distinct (map t_id (room_types s))"
  shows "ends (modify_reservation dk rid pid dto) (\<lambda>res t. \<exists>r nights es. reservation_of s rid pid = Some r \<and>
      \<not> terminal (r_status r) \<and> t = (reservations_update (upd (is_reservation rid pid) (modified dk dto nights)) s)\<lparr>events := es\<rparr> \<and>
      (changes_stay dto r \<longrightarrow> nights_ok s pid r (or_else (md_room_type dto) (r_room_type r))
         (or_else (md_arrival dto) (r_arrival r)) (or_else (md_departure dto) (r_departure r)))) (\<lambda>_ t. t = s) s"
proof (cases "reservation_of s rid pid")
  case None
  then show ?thesis by (simp add: modify_reservation_def ends_def)
next
  case (Some r)
  have pid: "r_property r = pid" using reservation_of_SomeD [OF Some] by simp
  have find: "ends (find_by_id_raw rid pid) Q E s = Q r s" for Q E by (simp add: ends_def Some)
  have row: "first_row (sel (is_reservation rid pid) (reservations s)) = Some r" using Some by (simp add: reservation_of_def)
  define Q :: "amendment_result \<Rightarrow> hotel \<Rightarrow> bool" where "Q = (\<lambda>res t. \<exists>r nights es. reservation_of s rid pid = Some r \<and>
      \<not> terminal (r_status r) \<and> t = (reservations_update (upd (is_reservation rid pid) (modified dk dto nights)) s)\<lparr>events := es\<rparr> \<and>
      (changes_stay dto r \<longrightarrow> nights_ok s pid r (or_else (md_room_type dto) (r_room_type r))
         (or_else (md_arrival dto) (r_arrival r)) (or_else (md_departure dto) (r_departure r))))"
  define E :: "error \<Rightarrow> hotel \<Rightarrow> bool" where "E = (\<lambda>_ t. t = s)"
  have stored: "ends (update_one reservations reservations_update (is_reservation rid pid) (modified dk dto nights))
      (\<lambda>updated. ends (bnd (emit ''reservation.modified'' ''reservation'' (r_id updated) (r_property updated)) (\<lambda>_.
         ret (amendment_of r updated))) Q E) E' s"
    if "changes_stay dto r \<longrightarrow> nights_ok s pid r (or_else (md_room_type dto) (r_room_type r))
         (or_else (md_arrival dto) (r_arrival r)) (or_else (md_departure dto) (r_departure r))" "\<not> terminal (r_status r)" for nights E'
    using that Some by (auto simp: ends_update_one row ends_bnd ends_emit ends_ret Q_def)
  have tail: "ends (store_modification dk r rid pid dto nights) Q E s" if "\<not> terminal (r_status r)" for nights
    unfolding store_modification_def changes_stay_def [symmetric] ends_bnd [of "transact m" for m] ends_transact
      ends_bnd [of "if b then x else y" for b x y]
  proof (cases "changes_stay dto r")
    case True
    show "ends (if changes_stay dto r then recheck_availability r pid dto else ret ()) (\<lambda>_.
        ends (update_one reservations reservations_update (is_reservation rid pid) (modified dk dto nights))
          (\<lambda>updated. ends (bnd (emit ''reservation.modified'' ''reservation'' (r_id updated) (r_property updated)) (\<lambda>_.
            ret (amendment_of r updated))) Q E) (\<lambda>e t. E e s)) (\<lambda>e t. E e s) s"
      unfolding if_P [OF True]
      by (rule ends_weaken [OF recheck_ends [OF types pid refl refl refl]]) (use that stored in \<open>simp_all add: E_def\<close>)
  next
    case False
    then show "ends (if changes_stay dto r then recheck_availability r pid dto else ret ()) (\<lambda>_.
        ends (update_one reservations reservations_update (is_reservation rid pid) (modified dk dto nights))
          (\<lambda>updated. ends (bnd (emit ''reservation.modified'' ''reservation'' (r_id updated) (r_property updated)) (\<lambda>_.
            ret (amendment_of r updated))) Q E) (\<lambda>e t. E e s)) (\<lambda>e t. E e s) s"
      unfolding if_not_P [OF False] ends_ret by (intro stored that) simp
  qed
  have "ends (modify_reservation dk rid pid dto) Q E s"
    unfolding modify_reservation_def assert_room_type_here_def assert_rate_plan_here_def
    by (simp add: ends_bnd find ends_guard ends_if ends_lift_result ends_case_option ends_find_row ends_ret tail
        split: option.split sum.split) (simp add: E_def)
  then show ?thesis by (simp add: Q_def E_def)
qed

lemma free_units_modified:
  assumes wf: "wf_hotel s" and r: "reservation_of s rid pid = Some r"
    and t: "t = (reservations_update (upd (is_reservation rid pid) f) s)\<lparr>events := es\<rparr>"
  shows "free_units t pid ty d = free_units s pid ty d + (if occupies pid (t_id ty) d r then 1 else 0) -
    (if occupies pid (t_id ty) d (f r) then 1 else 0)"
proof -
  have "capacity_of t pid ty = capacity_of s pid ty"
    by (simp add: capacity_of_def total_rooms_of_def overbooking_of_def t)
  moreover have "imported_on t pid (t_id ty) d = imported_on s pid (t_id ty) d"
    by (simp add: imported_on_def active_import_def t)
  moreover have "int (sold_on t pid (t_id ty) d) = int (sold_on s pid (t_id ty) d) -
      (if occupies pid (t_id ty) d r then 1 else 0) + (if occupies pid (t_id ty) d (f r) then 1 else 0)"
  proof -
    let ?v = "\<lambda>x. if occupies pid (t_id ty) d x then 1 else 0 :: int"
    have "distinct (map r_id (reservations s))" using wf by (simp add: wf_hotel_def keys_ok_def)
    moreover have "r \<in> set (reservations s)" "is_reservation rid pid r"
      using reservation_of_SomeD [OF r] by (simp_all add: is_reservation_def)
    ultimately have "sum_list (map ?v (upd (is_reservation rid pid) f (reservations s))) =
        sum_list (map ?v (reservations s)) - ?v r + ?v (f r)"
      by (rule sum_list_upd_one) (use reservation_of_SomeD [OF r] in \<open>auto simp: is_reservation_def\<close>)
    then show ?thesis by (simp add: sold_on_def count_rows_sum t)
  qed
  ultimately show ?thesis by (simp add: free_units_def)
qed

lemma modification_sells:
  assumes wf: "wf_hotel s" and types: "distinct (map t_id (room_types s))"
    and run: "modify_reservation dk rid pid dto s = (Inr res, t)" and ty: "ty \<in> set (room_types s)"
  shows "0 \<le> free_units t pid ty d \<or> free_units s pid ty d \<le> free_units t pid ty d"
proof -
  from ends_InrD [OF modify_ends [OF types] run] obtain r nights es
    where r: "reservation_of s rid pid = Some r" "\<not> terminal (r_status r)"
      and t: "t = (reservations_update (upd (is_reservation rid pid) (modified dk dto nights)) s)\<lparr>events := es\<rparr>"
      and ok: "changes_stay dto r \<Longrightarrow> nights_ok s pid r (or_else (md_room_type dto) (r_room_type r))
         (or_else (md_arrival dto) (r_arrival r)) (or_else (md_departure dto) (r_departure r))" by blast
  note free = free_units_modified [OF wf r(1) t, of ty d]
  show ?thesis
  proof (cases "occupies pid (t_id ty) d (modified dk dto nights r) \<and> \<not> occupies pid (t_id ty) d r")
    case False
    then show ?thesis using free by auto
  next
    case True
    then have new: "t_id ty = or_else (md_room_type dto) (r_room_type r)"
      "d \<in> {or_else (md_arrival dto) (r_arrival r)..<or_else (md_departure dto) (r_departure r)}"
      by (auto simp: occupies_def modified_def)
    have pid: "r_property r = pid" using reservation_of_SomeD [OF r(1)] by simp
    have "changes_stay dto r"
      using True pid r(2) by (auto simp: changes_stay_def changes_def or_else_def occupies_def modified_def terminal_def
          split: option.splits)
    from ok [OF this] new ty have "night_ok s pid r (t_id ty) ty d" by (simp add: nights_ok_def)
    then have "0 < free_units s pid ty d"
      using True pid r(2) by (auto simp: night_ok_def occupies_def terminal_def)
    then show ?thesis using free True by simp
  qed
qed

end
