(* ===== verification/Stay_Facts.thy ===== *)
theory Stay_Facts
  imports Reservation_Facts
begin

text \<open>
  The reservation service and the money: every operation keeps the books and the bound on refunds;
  a check-in that returns leaves the stay checked in and its room occupied, and one whose assigned
  room is not ready fails after the claim; a check-out that returns leaves the stay departed, its
  room to be cleaned and, in the express form, its folios settled; a cancellation leaves no deposit
  held. What runs during a gateway call is constrained where the effect depends on it.
\<close>

section \<open>The books under every operation\<close>

lemma sound_stays [sounds]:
  assumes "same_stay f"
  shows "keeps_inv (sound {}) (claim_transition rid pid froms f)"
    "keeps_inv (sound {}) (update_one reservations reservations_update c f)"
    "keeps_inv (sound {}) (update_where reservations reservations_update c f)"
proof -
  have "sound {} (reservations_update (upd c f) s)" if "sound {} s" for c s
    using assms that only_stay_sound [OF only_stay_reservations] by (simp add: same_stay_def)
  then show "keeps_inv (sound {}) (claim_transition rid pid froms f)"
    "keeps_inv (sound {}) (update_one reservations reservations_update c f)"
    "keeps_inv (sound {}) (update_where reservations reservations_update c f)"
    by (intro keeps_claim_transition keeps_update_one keeps_update_where; simp)+
qed

lemma sound_orderly: "orderly m \<Longrightarrow> keeps_inv (sound {}) m"
  by (simp add: orderly_def keeps_inv_def)

lemma sound_create:
  assumes "distinct (map t_id (room_types s))" and "sound {} s"
  shows "sound {} (snd (create_reservation dk tx dto opts s))"
proof -
  have "ends (create_reservation dk tx dto opts) (\<lambda>_. sound {}) (\<lambda>_. sound {}) s"
  proof (rule ends_weaken [OF create_ends [OF assms(1)]])
    fix res t assume "fst res = new_reservation dk dto opts (fresh s) (fresh s + 1) \<and>
      (\<exists>es. t = (booked dk dto opts s)\<lparr>events := es\<rparr>) \<and> nr_arrival dto < nr_departure dto \<and>
      bookable s (nr_property dto) (nr_room_type dto) (nr_arrival dto) (nr_departure dto)"
    then obtain es where t: "t = (booked dk dto opts s)\<lparr>events := es\<rparr>" by blast
    have "only_stay s t" by (simp add: t only_stay_events only_stay_booked)
    then show "sound {} t" using assms(2) by (rule only_stay_sound)
  qed (use assms(2) in simp)
  then show ?thesis by (simp add: ends_def split: prod.splits sum.splits)
qed

lemma sound_desk_ops:
  "keeps_inv (sound {}) (confirm_reservation dk rid pid)" "keeps_inv (sound {}) (assign_room dk rid pid mid)"
  "keeps_inv (sound {}) (move_room dk rid pid mid ov)" "keeps_inv (sound {}) (cancel_reservation dk rid pid why reason)"
  "keeps_inv (sound {}) (mark_no_show dk rid pid)" "keeps_inv (sound {}) (pre_register dk rid pid g)"
  "keeps_inv (sound {}) (modify_reservation dk rid pid dto)"
  "keeps_inv (sound {}) (modify_accepted_stay dk locked pid a d amount pricing)"
  unfolding confirm_reservation_def assign_room_def move_room_def cancel_reservation_def mark_no_show_def pre_register_def
    modify_reservation_def store_modification_def modify_accepted_stay_def recheck_availability_def desk_checks
  by (intro combinators sounds; simp)+

lemma sound_check_in:
  assumes "orderly_gateway (dk_gateway dk)"
  shows "keeps_inv (sound {}) (check_in dk rid pid dto)"
  unfolding check_in_def after_check_in_def desk_checks
  by (intro combinators sounds sound_orderly orderly_gateway.orderly_authorize assms) simp_all

lemma sound_check_out:
  assumes "orderly_gateway (dk_gateway dk)"
  shows "keeps_inv (sound {}) (check_out dk rid pid False fee)"
  unfolding check_out_def after_check_out_def if_False post_late_fee_def assert_settled_folio_def void_authorized_def
    authorized_payments_def list_folios_def find_folio_def desk_checks
  by (intro combinators sounds sound_orderly orderly_gateway.orderly_void assms) simp_all


lemma sound_group:
  assumes "orderly_gateway (dk_gateway dk)"
  shows "keeps_inv (sound {}) (group_check_in dk pid items)" "keeps_inv (sound {}) (bulk_action dk pid ids kind reason)"
  unfolding group_check_in_def group_check_in_one_def bulk_action_def bulk_one_def find_by_id_raw_def
  by (cases kind; intro combinators sounds sound_desk_ops sound_check_in sound_check_out assms; simp)+

lemma sound_extras:
  "keeps_inv (sound {}) (ensure_package_components tx now rid pid fz)" "keeps_inv (sound {}) (attach_to_reservation tx now rid at_dto ov)"
  "keeps_inv (sound {}) (cancel_reservation_service i pid rid)" "keeps_inv (sound {}) (post_once_for_reservation rid pid)"
  "keeps_inv (sound {}) (post_per_night_for_property ck pid night)"
  by (intro keeps_sound keeps side)+

section \<open>Check-in\<close>

interpretation unmoved: desk_view "\<lambda>s. reservations s = rs" for rs
  by unfold_locales simp_all

interpretation rooms_kept: payment_view "\<lambda>s. rooms s = ms" for ms
  by unfold_locales simp_all

definition room_is :: "hotel \<Rightarrow> ident \<Rightarrow> ident \<Rightarrow> room_status \<Rightarrow> bool" where
  "room_is s mid pid q \<longleftrightarrow> (\<exists>m. room_of s mid pid = Some m \<and> m_status m = q)"

interpretation room_state: side_view "\<lambda>s. room_is s mid pid q" for mid pid q
  by unfold_locales (simp_all add: room_is_def room_of_def)

lemma transition_makes:
  "ends (transition_status now mid pid q note) (\<lambda>_ t. room_is t mid pid q) (\<lambda>_ t. t = s) s"
proof (cases "room_of s mid pid")
  case None
  then show ?thesis by (simp add: ends_def transition_status_apply)
next
  case (Some m)
  have "is_room mid pid m" using room_of_SomeD [OF Some] by (simp add: is_room_def)
  then have "room_is (rooms_update (upd (is_room mid pid) (stamp_room now q note)) s\<lparr>events := es\<rparr>) mid pid q" for es
    using Some by (simp add: room_is_def room_of_upd)
  then show ?thesis by (simp add: ends_def transition_status_apply Some)
qed

lemma after_check_in_room:
  "ends (after_check_in dk r pid dto mid fee updated)
    (\<lambda>res t. fst res = updated \<and> room_is t mid (r_property r) Occupied) (\<lambda>_ _. True) s"
proof -
  let ?I = "\<lambda>t. room_is t mid (r_property r) Occupied"
  have rest: "ends (bnd (attempt (
            bnd (ensure_package_components False (dk_now dk) (r_id updated) pid None) (\<lambda>_.
            post_once_for_reservation (r_id updated) pid))) (\<lambda>_.
     bnd (attempt (apply_held_deposits (dk_clock dk) (r_id updated) pid (f_id folio))) (\<lambda>_.
     bnd (emit ''reservation.checked_in'' ''reservation'' (r_id updated) (r_property r)) (\<lambda>_.
     ret (updated, folio, x))))) (\<lambda>res t. fst res = updated \<and> ?I t) (\<lambda>_ _. True) t" if "?I t" for folio x t
    using that by (intro ends_then [where I = ?I] combinators side) (simp_all add: ends_ret)
  show ?thesis
    unfolding after_check_in_def
    by (rule ends_then [OF keeps_true], simp, rule ends_then [OF keeps_true], simp, rule ends_then [OF keeps_true], simp)
      (rule ends_bnd [THEN iffD2], unfold mark_occupied_def, rule ends_weaken [OF transition_makes], rule rest, simp_all)
qed

text \<open>The checks before the claim change nothing; the claim moves the stay to the room.\<close>

lemma quiet_ops:
  assumes "quiet_gateway g"
  shows "keeps_inv I (gw_authorize g tok a cur)" "keeps_inv I (gw_capture g tx a k)" "keeps_inv I (gw_void g tx a k)"
  using quiet_gateway.quiet_calls [OF assms] by (simp_all add: keeps_inv_def)

lemma after_check_in_stay:
  assumes "quiet_gateway (dk_gateway dk)"
  shows "keeps_inv (\<lambda>s. reservations s = rs) (after_check_in dk r pid dto mid fee updated)"
  unfolding after_check_in_def by (intro combinators side unmoved.side_authorize quiet_ops assms)

definition may_check_in :: "hotel \<Rightarrow> reservation \<Rightarrow> check_in_dto \<Rightarrow> bool" where
  "may_check_in s r dto \<longleftrightarrow> r_status r = Assigned \<and>
     (case first_row (sel (\<lambda>g. g_id g = r_guest r) (guests s)) of None \<Rightarrow> True | Some g \<Rightarrow> \<not> g_is_dnr g) \<and>
     (case first_row (sel (\<lambda>h. h_id h = r_property r) (properties s)) of None \<Rightarrow> True
      | Some h \<Rightarrow> \<not> (h_registration_required h \<and> \<not> gd_signed (ci_registration dto)))"

definition room_for :: "hotel \<Rightarrow> reservation \<Rightarrow> check_in_dto \<Rightarrow> ident option" where
  "room_for s r dto = (case ci_room dto of None \<Rightarrow> r_room r
     | Some mid \<Rightarrow> (case first_row (sel (is_room mid (r_property r)) (rooms s)) of None \<Rightarrow> None
         | Some m \<Rightarrow> if m_type m = r_room_type r \<and> (m_status m = GuestReady \<or> m_status m = VacantClean) then Some mid else None))"

lemma check_in_form:
  assumes wf: "wf_hotel s" and r: "reservation_of s rid pid = Some r"
  shows "(may_check_in s r dto \<and> room_for s r dto \<noteq> None \<longrightarrow> check_in dk rid pid dto s =
      (let mid = the (room_for s r dto); property = first_row (sel (\<lambda>h. h_id h = r_property r) (properties s));
           ef = early_check_in dk property; f = checked_in dk dto mid (fst ef) (snd ef) (r_requests r) in
       after_check_in dk r pid dto mid (snd ef) (f r)
         (reservations_update (upd (claim_hit rid pid [Assigned]) f) s))) \<and>
    (\<not> (may_check_in s r dto \<and> room_for s r dto \<noteq> None) \<longrightarrow> (\<exists>e. check_in dk rid pid dto s = (Inl e, s)))"
proof (cases "r_status r = Assigned")
  case False
  then have "validate_transition (r_status r) CheckedIn = False"
    by (cases "r_status r") (auto simp: validate_transition_def)
  with r False show ?thesis by (simp add: check_in_def may_check_in_def)
next
  case True
  have claim: "bnd (claim_transition rid pid [Assigned] f) k s =
      k (f r) (reservations_update (upd (claim_hit rid pid [Assigned]) f) s)" for f k
    by (rule bnd_Inr) (simp add: claim_transition_cases [OF wf] r True)
  have ok: "validate_transition Assigned CheckedIn" by (simp add: validate_transition_def)
  have rest: "(case early_check_in dk h of (early, fee) \<Rightarrow>
        bnd (claim_transition rid pid [Assigned] (checked_in dk dto mid early fee q)) (after_check_in dk r pid dto mid fee)) s =
      after_check_in dk r pid dto mid (snd (early_check_in dk h))
        (checked_in dk dto mid (fst (early_check_in dk h)) (snd (early_check_in dk h)) q r)
        (reservations_update (upd (claim_hit rid pid [Assigned])
          (checked_in dk dto mid (fst (early_check_in dk h)) (snd (early_check_in dk h)) q)) s)" for h mid q
    by (simp add: claim split: prod.split)
  show ?thesis
    unfolding check_in_def room_ready_def
    by (auto simp: r True ok rest bnd_assoc may_check_in_def room_for_def Let_def guard_apply split: option.split)
qed

lemma reservation_after_claim:
  assumes "same_stay f" and "reservation_of s rid pid = Some r" and "r_status r \<in> set froms"
  shows "reservation_of (reservations_update (upd (claim_hit rid pid froms) f) s) rid pid = Some (f r)"
  using assms reservation_of_SomeD [OF assms(2)] reservation_of_upd [of rid pid f "claim_hit rid pid froms" s]
  by (simp add: same_stay_def is_reservation_def claim_hit_def)

lemma check_in_arrives:
  assumes wf: "wf_hotel s" and g: "quiet_gateway (dk_gateway dk)"
    and run: "check_in dk rid pid dto s = (Inr (r', folio, auth), t)"
  shows "status_in s (rid, pid) = Some Assigned \<and> reservation_of t rid pid = Some r' \<and> r_status r' = CheckedIn \<and>
    (\<exists>mid. r_room r' = Some mid \<and> room_is t mid pid Occupied)"
proof -
  obtain r where r: "reservation_of s rid pid = Some r" using run by (auto simp: check_in_def split: option.splits)
  have pid: "r_property r = pid" using reservation_of_SomeD [OF r] by simp
  note form = check_in_form [OF wf r, of dto dk]
  have ok: "may_check_in s r dto \<and> room_for s r dto \<noteq> None" using form run by auto
  then obtain mid where mid: "room_for s r dto = Some mid" by auto
  let ?ef = "early_check_in dk (first_row (sel (\<lambda>h. h_id h = r_property r) (properties s)))"
  let ?f = "checked_in dk dto mid (fst ?ef) (snd ?ef) (r_requests r)"
  let ?s = "reservations_update (upd (claim_hit rid pid [Assigned]) ?f) s"
  have after: "after_check_in dk r pid dto mid (snd ?ef) (?f r) ?s = (Inr (r', folio, auth), t)"
    using form ok mid run by (simp add: Let_def)
  have "r' = ?f r \<and> room_is t mid pid Occupied"
    using ends_InrD [OF after_check_in_room after] pid by simp
  moreover have "reservations t = reservations ?s"
    using keeps_invD [OF after_check_in_stay [OF g, of "reservations ?s"], of ?s] after by (metis snd_conv)
  moreover have "reservation_of ?s rid pid = Some (?f r)"
    using r ok by (intro reservation_after_claim) (simp_all add: may_check_in_def)
  ultimately show ?thesis
    using r ok by (auto simp: status_in_def may_check_in_def reservation_of_def checked_in_def)
qed

text \<open>
  The room of an earlier assignment is not looked at before the claim. When it is not ready, the
  request fails after the stay has been checked in.
\<close>

lemma check_in_half_done:
  assumes wf: "wf_hotel s" and g: "quiet_gateway (dk_gateway dk)" and r: "reservation_of s rid pid = Some r"
    and may: "may_check_in s r dto" and own: "ci_room dto = None" "r_room r = Some mid"
    and busy: "\<And>m. room_of s mid pid = Some m \<Longrightarrow> Occupied \<notin> set (room_transitions (m_status m))"
  shows "\<exists>e t. check_in dk rid pid dto s = (Inl e, t) \<and> status_in t (rid, pid) = Some CheckedIn"
proof -
  have pid: "r_property r = pid" using reservation_of_SomeD [OF r] by simp
  let ?ef = "early_check_in dk (first_row (sel (\<lambda>h. h_id h = r_property r) (properties s)))"
  let ?f = "checked_in dk dto mid (fst ?ef) (snd ?ef) (r_requests r)"
  let ?s = "reservations_update (upd (claim_hit rid pid [Assigned]) ?f) s"
  have run: "check_in dk rid pid dto s = after_check_in dk r pid dto mid (snd ?ef) (?f r) ?s"
    using check_in_form [OF wf r, of dto dk] may own by (simp add: Let_def room_for_def)
  have none: "room_of t mid pid = room_of s mid pid" if "rooms t = rooms s" for t
    using that by (simp add: room_of_def)
  have stuck: "ends (bnd (mark_occupied (dk_now dk) mid (r_property r)) k) (\<lambda>_ _. False) (\<lambda>_ _. True) t"
    if "rooms t = rooms s" for k :: "room \<Rightarrow> (reservation \<times> folio \<times> payment option) op" and t
  proof -
    have "\<exists>e. transition_status (dk_now dk) mid (r_property r) Occupied None t = (Inl e, t)"
      using busy none [OF that] pid by (auto simp: transition_status_apply split: option.split)
    then obtain e where "transition_status (dk_now dk) mid (r_property r) Occupied None t = (Inl e, t)" by blast
    then show ?thesis by (simp add: ends_def mark_occupied_def bnd_Inl)
  qed
  have "ends (after_check_in dk r pid dto mid (snd ?ef) (?f r)) (\<lambda>_ _. False) (\<lambda>_ _. True) ?s"
    unfolding after_check_in_def
    by (rule ends_then [where I = "\<lambda>t. rooms t = rooms s"], intro combinators side, simp,
        rule ends_then [where I = "\<lambda>t. rooms t = rooms s"], intro combinators side, assumption,
        rule ends_then [where I = "\<lambda>t. rooms t = rooms s"],
        intro combinators side rooms_kept.side_authorize quiet_ops g, assumption, erule stuck) simp_all
  moreover have "reservations (snd (check_in dk rid pid dto s)) = reservations ?s"
    unfolding run by (rule keeps_invD [OF after_check_in_stay [OF g]]) simp
  moreover have "reservation_of ?s rid pid = Some (?f r)"
    using r may by (intro reservation_after_claim) (simp_all add: may_check_in_def)
  ultimately show ?thesis
    unfolding run by (cases "after_check_in dk r pid dto mid (snd ?ef) (?f r) ?s" rule: prod.exhaust [case_product sum.exhaust])
      (auto simp: ends_def status_in_def reservation_of_def split: sum.splits)
qed

section \<open>Check-out\<close>

definition is_settled :: "hotel \<Rightarrow> ident \<Rightarrow> ident \<Rightarrow> bool" where
  "is_settled s fid pid \<longleftrightarrow> map_option f_status (folio_of s fid pid) = Some FolioSettled"

definition settled_row :: "timestamp \<Rightarrow> folio \<Rightarrow> folio" where
  "settled_row now f = f\<lparr>f_status := FolioSettled, f_settled_at := Some now\<rparr>"

lemma folio_of_settled:
  "folio_of (folios_update (upd (is_folio i p) (settled_row now)) s) fid pid =
     map_option (\<lambda>f. if is_folio i p f then settled_row now f else f) (folio_of s fid pid)"
  unfolding folio_of_def by (simp add: first_sel_upd settled_row_def is_folio_def)

lemma is_settled_simps [simp]:
  "is_settled (s\<lparr>events := es\<rparr>) fid pid = is_settled s fid pid" "is_settled (rooms_update m s) fid pid = is_settled s fid pid"
  by (simp_all add: is_settled_def folio_of_def)

lemma settle_keeps_settled: "keeps_inv (\<lambda>s. is_settled s fid pid) (settle_folio now fid' pid')"
proof -
  have "is_settled (folios_update (upd (is_folio fid' pid') (settled_row now)) s) fid pid" if "is_settled s fid pid" for s
    using that by (cases "folio_of s fid pid") (auto simp: is_settled_def folio_of_settled settled_row_def)
  then show ?thesis
    unfolding settle_folio_def find_folio_def settled_row_def [abs_def]
    by (intro combinators keeps_emit keeps_update_one) simp_all
qed

lemma settle_settles: "ends (settle_folio now fid pid) (\<lambda>_ t. is_settled t fid pid) (\<lambda>_ _. True) s"
proof -
  have "is_settled (folios_update (upd (is_folio fid pid) (settled_row now)) s) fid pid" if "folio_of s fid pid = Some f" for f
    using that folio_of_SomeD [OF that] by (simp add: is_settled_def folio_of_settled is_folio_def settled_row_def)
  then show ?thesis
    unfolding settle_folio_def settled_row_def [abs_def] by (auto simp: wp split: option.split)
qed

lemma settle_all:
  "ends (collect fs (settle_open dk pid)) (\<lambda>_ t. \<forall>f \<in> set fs. is_settled t (f_id f) pid) (\<lambda>_ _. True) s"
proof (induction fs arbitrary: s)
  case Nil
  then show ?case by (simp add: wp)
next
  case (Cons f fs)
  have kept: "keeps_inv (\<lambda>s. is_settled s (f_id f) pid) (collect fs (settle_open dk pid))"
    unfolding settle_open_def by (intro combinators settle_keeps_settled)
  have rest: "ends (collect fs (settle_open dk pid)) (\<lambda>_ t. (\<forall>g \<in> set fs. is_settled t (f_id g) pid) \<and> is_settled t (f_id f) pid)
      (\<lambda>_ _. True \<and> True) t" if "is_settled t (f_id f) pid" for t
    unfolding ends_conj using Cons.IH ends_weaken [OF keeps_inv_endsD [OF kept that]] by auto
  show ?case unfolding collect.simps settle_open_def ends_bnd ends_ret
    by (rule ends_weaken [OF settle_settles], rule ends_weaken [OF rest [unfolded settle_open_def]]) (auto simp: ends_ret)
qed

definition departed :: "hotel \<Rightarrow> reservation \<Rightarrow> folio list \<Rightarrow> bool \<Rightarrow> bool" where
  "departed t r fs express \<longleftrightarrow> (\<forall>mid. r_room r = Some mid \<longrightarrow> room_is t mid (r_property r) VacantDirty) \<and>
     (express \<longrightarrow> (\<forall>f \<in> set fs. is_open_folio f \<longrightarrow> is_settled t (f_id f) (r_property r)))"

lemma departed_event [simp]: "departed (t\<lparr>events := es\<rparr>) r fs express = departed t r fs express"
  by (simp add: departed_def room_is_def)

lemma leave_room:
  assumes "express \<Longrightarrow> \<forall>f \<in> set fs. is_open_folio f \<longrightarrow> is_settled s (f_id f) (r_property r)"
  shows "ends (case r_room r of None \<Rightarrow> ret ()
      | Some mid \<Rightarrow> bnd (mark_vacant_dirty (dk_now dk) mid (r_property r)) (\<lambda>_. ret ()))
    (\<lambda>_ t. departed t r fs express) (\<lambda>_ _. True) s"
proof (cases "r_room r")
  case None
  then show ?thesis using assms by (simp add: ends_ret departed_def)
next
  case (Some mid)
  have "keeps_inv (\<lambda>s. is_settled s fid pid) (transition_status n m p q v)" for fid pid n m p q v
    by (rule keeps_transition_status) simp_all
  then have kept: "is_settled (snd (transition_status n m p q v s)) fid pid" if "is_settled s fid pid" for fid pid n m p q v
    using that by (auto simp: keeps_inv_def)
  have "ends (transition_status (dk_now dk) mid (r_property r) VacantDirty None) (\<lambda>_ t. departed t r fs express) (\<lambda>_ _. True) s"
  proof (rule endsI)
    fix m t assume run: "transition_status (dk_now dk) mid (r_property r) VacantDirty None s = (Inr m, t)"
    have "is_settled t fid (r_property r)" if "is_settled s fid (r_property r)" for fid
      using kept [OF that, of "dk_now dk" mid "r_property r" VacantDirty None] run by simp
    with ends_InrD [OF transition_makes run] Some assms show "departed t r fs express" by (auto simp: departed_def)
  qed simp
  with Some show ?thesis by (simp add: mark_vacant_dirty_def ends_bnd ends_fun)
qed

lemma after_check_out_did:
  "ends (after_check_out dk r fs express fee updated) (\<lambda>res t. fst res = updated \<and> departed t r fs express) (\<lambda>_ _. True) s"
proof -
  have rest: "ends (bnd (case r_room r of None \<Rightarrow> ret ()
          | Some mid \<Rightarrow> bnd (mark_vacant_dirty (dk_now dk) mid (r_property r)) (\<lambda>_. ret ())) (\<lambda>_.
     bnd (emit ''reservation.checked_out'' ''reservation'' (r_id updated) (r_property r)) (\<lambda>_.
     ret (updated, summary)))) (\<lambda>res t. fst res = updated \<and> departed t r fs express) (\<lambda>_ _. True) t"
    if "express \<Longrightarrow> \<forall>f \<in> set fs. is_open_folio f \<longrightarrow> is_settled t (f_id f) (r_property r)" for summary t
    unfolding ends_bnd by (rule ends_weaken [OF leave_room [OF that]]) (simp_all add: ends_emit ends_ret)
  have settle: "ends (if express
          then
            bnd (for_each fs (capture_authorized dk (r_property r))) (\<lambda>_.
            collect (filter is_open_folio fs) (settle_open dk (r_property r)))
          else
            bnd (for_each fs (void_authorized dk (r_property r))) (\<lambda>_.
            ret (map summary_of fs)))
     (\<lambda>_ t. express \<longrightarrow> (\<forall>f \<in> set fs. is_open_folio f \<longrightarrow> is_settled t (f_id f) (r_property r))) (\<lambda>_ _. True) t" for t
  proof (cases express)
    case True
    then show ?thesis
      using ends_weaken [OF settle_all [of "filter is_open_folio fs" dk "r_property r"]]
      by (auto intro!: ends_then [OF keeps_true])
  next
    case False
    then show ?thesis by (auto intro!: ends_then [OF keeps_true] simp: ends_ret)
  qed
  show ?thesis
    unfolding after_check_out_def
    by (rule ends_then [OF keeps_true], simp, rule ends_bnd [THEN iffD2], rule ends_weaken [OF settle], rule rest, simp_all)
qed

lemma after_check_out_stay:
  assumes "quiet_gateway (dk_gateway dk)"
  shows "keeps_inv (\<lambda>s. reservations s = rs) (after_check_out dk r fs express fee updated)"
  unfolding after_check_out_def post_late_fee_def capture_authorized_def void_authorized_def authorized_payments_def
    settle_open_def
  by (intro combinators side unmoved.side_capture unmoved.side_void quiet_ops assms)

lemma check_out_departs:
  assumes ok: "ledger_ok s" and g: "quiet_gateway (dk_gateway dk)"
    and run: "check_out dk rid pid express late_fee s = (Inr (r', summary), t)"
  shows "\<exists>r. reservation_of s rid pid = Some r \<and> r_status r \<in> {CheckedIn, Stayover, DueOut} \<and>
    reservation_of t rid pid = Some r' \<and> r_status r' = CheckedOut \<and>
    departed t r (take 100 (sel (\<lambda>f. f_property f = pid \<and> f_reservation f = Some rid) (folios s))) express"
proof -
  obtain r where r: "reservation_of s rid pid = Some r" using run by (auto simp: check_out_def split: option.splits)
  have rp: "r_property r = pid" "r_id r = rid" using reservation_of_SomeD [OF r] by simp_all
  let ?fs = "take 100 (sel (\<lambda>f. f_property f = pid \<and> f_reservation f = Some rid) (folios s))"
  let ?h = "first_row (sel (\<lambda>h. h_id h = r_property r) (properties s))"
  obtain late fee where lf: "late_check_out dk ?h late_fee = (late, fee)" by (cases "late_check_out dk ?h late_fee")
  have "ends (check_out dk rid pid express late_fee) (\<lambda>res t. r_status r \<in> {CheckedIn, Stayover, DueOut} \<and>
      reservation_of t rid pid = Some (fst res) \<and> r_status (fst res) = CheckedOut \<and> departed t r ?fs express) (\<lambda>_ _. True) s"
  proof (cases "validate_transition (r_status r) CheckedOut")
    case False
    then show ?thesis by (simp add: check_out_def ends_def r)
  next
    case True
    then have house: "r_status r \<in> {CheckedIn, Stayover, DueOut}"
      by (cases "r_status r") (simp_all add: validate_transition_def)
    let ?I = "\<lambda>u. ledger_ok u \<and> reservations u = reservations s"
    have claim: "ends (bnd (claim_transition rid pid [CheckedIn, Stayover, DueOut] (checked_out dk late fee))
        (after_check_out dk r ?fs express fee)) (\<lambda>res t. r_status r \<in> {CheckedIn, Stayover, DueOut} \<and>
          reservation_of t rid pid = Some (fst res) \<and> r_status (fst res) = CheckedOut \<and> departed t r ?fs express) (\<lambda>_ _. True) u"
      if u: "?I u" for u
    proof -
      let ?v = "reservations_update (upd (claim_hit rid pid [CheckedIn, Stayover, DueOut]) (checked_out dk late fee)) u"
      have ru: "reservation_of u rid pid = Some r" using u r by (simp add: reservation_of_def)
      have run: "claim_transition rid pid [CheckedIn, Stayover, DueOut] (checked_out dk late fee) u = (Inr (checked_out dk late fee r), ?v)"
        using house ru u by (simp add: claim_transition_cases [OF ledger_wf])
      have rv: "reservation_of ?v rid pid = Some (checked_out dk late fee r)"
        using house by (intro reservation_after_claim ru) simp_all
      have "ends (after_check_out dk r ?fs express fee (checked_out dk late fee r)) (\<lambda>_ t. reservations t = reservations ?v) (\<lambda>_ _. True) ?v"
        by (rule ends_weaken [OF keeps_inv_endsD [OF after_check_out_stay [OF g]]]) simp_all
      with after_check_out_did have "ends (after_check_out dk r ?fs express fee (checked_out dk late fee r))
          (\<lambda>res t. (fst res = checked_out dk late fee r \<and> departed t r ?fs express) \<and> reservations t = reservations ?v)
          (\<lambda>_ _. True \<and> True) ?v" unfolding ends_conj by blast
      then show ?thesis
        unfolding ends_def bnd_Inr [where m = "claim_transition rid pid [CheckedIn, Stayover, DueOut] (checked_out dk late fee)"
            and s = u, OF run] using rv house
        by (auto split: prod.splits sum.splits simp: reservation_of_def)
    qed
    have page: "page_of 1 100 (sel (\<lambda>f. f_property f = r_property r \<and> (case Some (r_id r) of None \<Rightarrow> True
        | Some i \<Rightarrow> f_reservation f = Some i) \<and> opt_eq None (f_guest f) \<and> opt_eq None (f_type f) \<and> opt_eq None (f_status f)) (folios s)) = ?fs"
      by (simp add: page_of_def rp opt_eq_def)
    have "check_out dk rid pid express late_fee s =
        bnd (if express then post_late_fee dk r ?fs fee else ret ()) (\<lambda>_.
        bnd (for_each ?fs (assert_settled_folio (r_property r))) (\<lambda>_.
        bnd (claim_transition rid pid [CheckedIn, Stayover, DueOut] (checked_out dk late fee))
          (after_check_out dk r ?fs express fee))) s"
      unfolding check_out_def list_folios_def by (simp add: r True lf page [simplified] Let_def del: page_of_def)
    moreover have "ends (bnd (if express then post_late_fee dk r ?fs fee else ret ()) (\<lambda>_.
        bnd (for_each ?fs (assert_settled_folio (r_property r))) (\<lambda>_.
        bnd (claim_transition rid pid [CheckedIn, Stayover, DueOut] (checked_out dk late fee))
          (after_check_out dk r ?fs express fee)))) (\<lambda>res t. r_status r \<in> {CheckedIn, Stayover, DueOut} \<and>
          reservation_of t rid pid = Some (fst res) \<and> r_status (fst res) = CheckedOut \<and> departed t r ?fs express) (\<lambda>_ _. True) s"
    proof (rule ends_then [where I = ?I])
      show "keeps_inv ?I (if express then post_late_fee dk r ?fs fee else ret ())"
        unfolding post_late_fee_def post_fee_def by (intro keeps_conj; intro keeps combinators side)
      show "?I s" using ok by simp
    next
      fix x and u :: hotel assume u: "?I u"
      show "ends (bnd (for_each ?fs (assert_settled_folio (r_property r))) (\<lambda>_.
        bnd (claim_transition rid pid [CheckedIn, Stayover, DueOut] (checked_out dk late fee))
          (after_check_out dk r ?fs express fee))) (\<lambda>res t. r_status r \<in> {CheckedIn, Stayover, DueOut} \<and>
          reservation_of t rid pid = Some (fst res) \<and> r_status (fst res) = CheckedOut \<and> departed t r ?fs express) (\<lambda>_ _. True) u"
      proof (rule ends_then [where I = ?I])
        show "keeps_inv ?I (for_each ?fs (assert_settled_folio (r_property r)))"
          unfolding assert_settled_folio_def find_folio_def by (intro combinators)
      qed (use u claim in simp_all)
    qed simp
    ultimately show ?thesis by (simp add: ends_def)
  qed
  from ends_InrD [OF this run] r show ?thesis by simp
qed

section \<open>Cancellation\<close>

interpretation deposits_kept: ledger_view "\<lambda>s. deposits s = ds" for ds
  by unfold_locales simp_all

lemma evaluate_elsewhere:
  "evaluate_cancellation pid plan d a n now (reservations_update f s) =
    (fst (evaluate_cancellation pid plan d a n now s), reservations_update f s)"
  "snd (evaluate_cancellation pid plan d a n now s) = s"
  unfolding evaluate_cancellation_def resolve_policy_for_rate_plan_def
  by (simp_all add: bnd_assoc split: option.split)

lemma settlement_deposits:
  assumes "wf_hotel s"
  shows "ends (settle_from_evaluation ck rid pid cur ev txt None etxt) (\<lambda>v t. se_penalty v = ev_penalty ev \<and>
      deposits t = map (settled_deposit ck rid pid (ev_action ev)) (deposits s)) (\<lambda>_ _. True) s"
proof -
  let ?ds = "map (settled_deposit ck rid pid (ev_action ev)) (deposits s)"
  have post: "keeps_inv (\<lambda>s. deposits s = ?ds) (if 0 < ev_penalty ev \<or> False then
            bnd (ensure_guest_folio ck rid pid) (\<lambda>folio.
            bnd (if 0 < ev_penalty ev then post_fee ck (f_id folio) pid txt (ev_penalty ev) cur
                 else ret ()) (\<lambda>_.
            if False then post_fee ck (f_id folio) pid etxt (cents (or_else None 0)) cur
            else ret ()))
          else ret ())"
    by (intro combinators side)
  show ?thesis
    unfolding settle_from_evaluation_def Let_def option.case
    by (rule ends_bnd [THEN iffD2], rule ends_weaken [OF settle_depositsI [OF assms]], elim conjE,
        rule ends_then [OF post]) (simp_all add: ends_ret)
qed

lemma cancel_settles:
  assumes ok: "ledger_ok s" and run: "cancel_reservation dk rid pid why reason s = (Inr (r', se), t)"
  shows "\<exists>r. reservation_of s rid pid = Some r \<and> r_status r \<in> {Pending, Confirmed, Assigned} \<and>
    reservation_of t rid pid = Some r' \<and> r_status r' = Cancelled \<and>
    (\<forall>v. se = Some v \<longrightarrow> (\<forall>d \<in> set (deposits t). \<not> held_for rid pid d) \<and>
      (\<exists>ev. evaluate_cancellation pid (r_rate_plan r) (r_arrival r) (r_total r) (int (r_nights r)) (dk_now dk) s = (Inr ev, s) \<and>
         se_penalty v = ev_penalty ev))"
proof -
  obtain r where r: "reservation_of s rid pid = Some r" using run by (auto simp: cancel_reservation_def split: option.splits)
  have rp: "r_property r = pid" "r_id r = rid" using reservation_of_SomeD [OF r] by simp_all
  have valid: "validate_transition (r_status r) Cancelled"
    using run r by (auto simp: cancel_reservation_def split: if_splits)
  then have open_stay: "r_status r \<in> {Pending, Confirmed, Assigned}" by (cases "r_status r") (simp_all add: validate_transition_def)
  let ?f = "\<lambda>r. r\<lparr>r_status := Cancelled, r_cancelled_at := Some (dk_now dk),
     r_cancel_reason := resolve_cancellation_reason why reason, r_updated := dk_now dk\<rparr>"
  let ?u = "reservations_update (upd (claim_hit rid pid [Pending, Confirmed, Assigned]) ?f) s"
  have claim: "claim_transition rid pid [Pending, Confirmed, Assigned] ?f s = (Inr (?f r), ?u)"
    using open_stay r by (simp add: claim_transition_cases [OF ledger_wf [OF ok]])
  have wfu: "wf_hotel ?u" using ledger_wf [OF ok] by (simp add: wf_update_reservations)
  have ru: "reservation_of ?u rid pid = Some (?f r)" using open_stay by (intro reservation_after_claim r) simp_all
  let ?evaluate = "evaluate_cancellation pid (r_rate_plan r) (r_arrival r) (r_total r) (int (r_nights r)) (dk_now dk)"
  define work where "work = bnd ?evaluate (\<lambda>evaluation.
     settle_from_evaluation (dk_clock dk) rid pid (r_currency r) evaluation ''Cancellation penalty'' None '''')"
  have "cancel_reservation dk rid pid why reason s =
      bnd (attempt work) (\<lambda>settled. bnd (emit ''reservation.cancelled'' ''reservation'' rid pid) (\<lambda>_. ret (?f r, settled))) ?u"
    unfolding cancel_reservation_def work_def
    by (simp add: r valid rp bnd_Inr [where m = "claim_transition rid pid [Pending, Confirmed, Assigned] ?f" and s = s, OF claim])
  moreover have "reservations (snd (work ?u)) = reservations ?u"
    unfolding work_def by (rule keeps_invD [where I = "\<lambda>s. reservations s = reservations ?u"]) (intro combinators side, simp)
  ultimately have t: "r' = ?f r" "reservation_of t rid pid = Some (?f r)" "deposits t = deposits (snd (work ?u))"
      "fst (work ?u) = (case se of None \<Rightarrow> Inl (projl (fst (work ?u))) | Some v \<Rightarrow> Inr v)"
    using run ru by (auto simp: bnd_def attempt_def reservation_of_def split: prod.splits sum.splits)
  have "(\<forall>d \<in> set (deposits t). \<not> held_for rid pid d) \<and> (\<exists>ev. ?evaluate s = (Inr ev, s) \<and> se_penalty v = ev_penalty ev)"
    if "se = Some v" for v
  proof -
    have w: "work ?u = (Inr v, snd (work ?u))" using t(4) that by (cases "work ?u") simp
    then obtain ev where ev: "?evaluate ?u = (Inr ev, ?u)"
      by (auto simp: work_def bnd_Inr_iff evaluate_elsewhere)
    have "settle_from_evaluation (dk_clock dk) rid pid (r_currency r) ev ''Cancellation penalty'' None '''' ?u = (Inr v, snd (work ?u))"
      using w ev by (simp add: work_def bnd_def)
    from ends_InrD [OF settlement_deposits [OF wfu] this]
    have "se_penalty v = ev_penalty ev" "deposits t = map (settled_deposit (dk_clock dk) rid pid (ev_action ev)) (deposits s)"
      by (simp_all add: t(3))
    moreover have "fst (?evaluate s) = Inr ev" using ev by (simp add: evaluate_elsewhere(1))
    then have "?evaluate s = (Inr ev, s)" using evaluate_elsewhere(2) by (intro prod_eqI) simp_all
    moreover have "\<not> held_for rid pid (settled_deposit ck rid pid act d)" for ck act d
      by (simp add: settled_deposit_def held_for_def fate_def)
    ultimately show ?thesis by simp
  qed
  with r open_stay t show ?thesis by auto
qed

end
