(* ===== verification/Stay_Examples.thy ===== *)
theory Stay_Examples
  imports Examples Stay_Facts
begin

text \<open>
  The runs of the reservation and ancillary services on the deployment of \<open>Examples\<close>, on which the
  witnesses of their properties rest: the night posting of a parking space, a new stay, a longer stay,
  an arrival, a departure and a cancellation.
\<close>

section \<open>Stays\<close>

text \<open>
  The desk of a quiet morning; the guest in house with a parking space charged every night; and a
  rate plan that includes it.
\<close>

definition ex_desk :: desk where
  "ex_desk = \<lparr>dk_clock = ex_clock, dk_seconds = (\<lambda>_. 36000), dk_cipher = None, dk_gateway = mock_gateway ''u'',
     dk_merchants = ex_merchants, dk_number = ''C2''\<rparr>"

definition ex_service :: service where
  "ex_service = \<lparr>sv_id = 16, sv_property = 30, sv_code = ''P'', sv_name = ''Parking'', sv_charge_type = ChParking,
     sv_price = 10, sv_currency = ''EUR'', sv_tax_code = None, sv_rule = PostPerNight, sv_channels = [],
     sv_is_active = True, sv_sort = 0\<rparr>"

definition ex_component :: plan_component where
  "ex_component = \<lparr>pk_id = 17, pk_property = 30, pk_plan = 4, pk_service = 16, pk_quantity = 1, pk_amount = Some 10,
     pk_included = False\<rparr>"

definition ex_parking :: reservation_service where
  "ex_parking = \<lparr>rs_id = 18, rs_property = 30, rs_reservation = 7, rs_service = 16, rs_quantity = 1, rs_unit_price = 10,
     rs_currency = ''EUR'', rs_start = None, rs_end = None, rs_status = ServiceConfirmed, rs_source = ''front_desk'',
     rs_rule = PostPerNight, rs_charge_type = ChParking, rs_notes = None, rs_created = 0\<rparr>"

definition ex_in_house :: hotel where
  "ex_in_house = ex_hotel\<lparr>reservations := [ex_reservation\<lparr>r_status := CheckedIn\<rparr>], rooms := [ex_room\<lparr>m_status := Occupied\<rparr>],
     services := [ex_service], reservation_services := [ex_parking]\<rparr>"

definition ex_package :: hotel where
  "ex_package = ex_hotel\<lparr>services := [ex_service], plan_components := [ex_component]\<rparr>"

definition ex_request :: create_dto where
  "ex_request = \<lparr>nr_property = 30, nr_guest = 5, nr_arrival = 738010, nr_departure = 738012, nr_room_type = 2,
     nr_rate_plan = 4, nr_total = 200, nr_currency = ''EUR'', nr_adults = None, nr_children = None, nr_requests = None\<rparr>"

definition ex_options :: create_opts where
  "ex_options = \<lparr>co_number = None, co_snapshot = None\<rparr>"

definition ex_longer :: modify_dto where
  "ex_longer = \<lparr>md_arrival = None, md_departure = Some 738003, md_room_type = None, md_rate_plan = None, md_total = None,
     md_adults = None, md_children = None, md_requests = None, md_do_not_move = None\<rparr>"

lemma ex_in_house_wf: "wf_hotel ex_in_house"
  by (simp add: wf_hotel_def keys_ok_def ex_rows ex_in_house_def ex_parking_def)

lemma returns_bnd: "returns m s \<Longrightarrow> (\<And>x t. m s = (Inr x, t) \<Longrightarrow> returns (k x) t) \<Longrightarrow> returns (bnd m k) s"
  by (auto simp: returns_iff bnd_def)

lemma returns_attempt [simp]: "returns (attempt m) s"
  by (simp add: returns_def wp ends_def split: prod.split sum.split)

lemma ex_package_returns: "returns (ensure_package_components False 0 7 30 None) ex_package"
  by (simp add: returns_def ensure_package_components_def attach_component_def find_reservation_def find_service_by_id_def
      is_reservation_def is_service_def of_reservation_def wp ex_rows ex_package_def ex_component_def ex_service_def)

lemma epoch_day: "day_number (1970, 1, 1) = 719529"
  by (simp add: year_start_def)

lemma ex_epoch: "utc_day 0 \<noteq> 738000"
  unfolding utc_day_def epoch_day by simp

lemma ex_tag: "show_nat 18 = [dig 1, dig 8]"
  using show_nat_digits(2) [of 18] by simp

lemma ex_tag_fits: "length (svc_tag 18) \<le> 10"
  unfolding svc_tag_def ex_tag by simp

lemma ex_night: "\<exists>c t. post_per_night_for_property ex_clock 30 (Some 738000) ex_in_house = (Inr [NightPosted 18 c], t)"
proof -
  have "cents 10 = 10" using to_fixed_id [OF fits_of_int, of 2 10] by simp
  then have "ends (post_per_night_for_property ex_clock 30 (Some 738000)) (\<lambda>xs t. \<exists>c. xs = [NightPosted 18 c]) (\<lambda>_ _. False) ex_in_house"
    using ex_tag_fits
    by (simp add: post_per_night_for_property_def night_rows_def post_night_row_def post_plain_night_def
        find_open_guest_folio_def open_guest_folio_def has_posted_charge_def tagged_charge_def within_service_dates_def
        in_house_def is_service_def is_reservation_def service_charge_dto_def post_charge_def ex_epoch
        run_ledger wp ex_rows ex_in_house_def ex_service_def ex_parking_def)
  then show ?thesis by (auto simp: ends_def split: prod.splits sum.splits)
qed

lemma ex_searched: "searched_types ex_hotel 30 (Some 2) = [ex_room_type]"
  by (simp add: searched_types_def ex_room_type_def)

lemma ex_free: "738010 \<le> d \<Longrightarrow> free_units ex_hotel 30 ex_room_type d = 1"
  by (simp add: free_units_def capacity_of_def total_rooms_of_def overbooking_of_def sold_on_def imported_on_def
      occupies_def count_rows_def ex_rows)

lemma ex_stay_free:
  "assert_full_stay_availability (map (night_row ex_hotel 30 None ex_room_type) [738010..<738012]) 2 738010 738012 = Inr ()"
proof -
  have "0 < a_available (night_row ex_hotel 30 None ex_room_type d)" if "738010 \<le> d" for d
    using a_available_free [OF refl, of ex_hotel 30 ex_room_type d] ex_free [OF that] by simp
  then show ?thesis
    using assert_full_stay_row [of 738010 738012 ex_hotel 30 None ex_room_type] by (simp add: ex_room_type_def)
qed

lemma ex_create_returns: "returns (create_reservation ex_desk False ex_request ex_options) ex_hotel"
  using ex_stay_free
  by (simp add: returns_def create_reservation_def create_in_transaction_def lock_inventory_def assert_room_type_here_def
      assert_rate_plan_here_def assert_sellable_def restrictions_on_def find_rate_plan_def wp ends_search ex_searched
      ex_request_def ex_guest_def ex_plan_def ex_room_type_def is_plan_def del: upt_rec_numeral)

lemma ex_longer_free:
  "assert_full_stay_availability (map (release_own ex_reservation True 2) (map (night_row ex_hotel 30 None ex_room_type) [738000..<738003]))
     2 738000 738003 = Inr ()"
proof -
  let ?g = "\<lambda>d. release_own ex_reservation True 2 (night_row ex_hotel 30 None ex_room_type d)"
  have same: "a_room_type (?g d) = 2" "a_date (?g d) = d" for d
    by (simp_all add: release_own_def ex_room_type_def)
  have "0 < a_available (?g d)" if "738000 \<le> d" for d
  proof (cases "d < 738002")
    case True
    with that show ?thesis by (simp add: release_own_def ex_reservation_def ex_room_type_def)
  next
    case False
    then have "free_units ex_hotel 30 ex_room_type d = 1"
      by (simp add: free_units_def capacity_of_def total_rooms_of_def overbooking_of_def sold_on_def imported_on_def
          occupies_def count_rows_def ex_rows)
    then have "0 < a_available (night_row ex_hotel 30 None ex_room_type d)"
      using a_available_free [OF refl, of ex_hotel 30 ex_room_type d] by simp
    then show ?thesis by (simp add: release_own_def)
  qed
  then show ?thesis using assert_full_stay_map [of 738000 738003 ?g 2] same by (simp add: comp_def)
qed

lemma ex_modify_returns: "returns (modify_reservation ex_desk 7 30 ex_longer) ex_hotel"
  using ex_longer_free
  by (simp add: returns_def modify_reservation_def store_modification_def recheck_availability_def lock_inventory_def
      changes_def changes_accepted_pricing_def Let_def ex_longer_def find_by_id_raw_def reservation_of_def is_reservation_def wp ends_search ex_searched
      ex_reservation_def ex_guest_def ex_plan_def ex_room_type_def stay_nights_def terminal_iff del: upt_rec_numeral)

lemma ends_transition_status:
  "ends (transition_status now mid pid q note) Q E s =
    (case room_of s mid pid of
       None \<Rightarrow> E (NotFound ''Room not found'') s
     | Some m \<Rightarrow> if q \<in> set (room_transitions (m_status m))
         then Q (stamp_room now q note m) ((rooms_update (upd (is_room mid pid) (stamp_room now q note)) s)
                 \<lparr>events := events s @ [\<lparr>e_name = ''room.status_changed'', e_entity = ''room'',
                                         e_id = mid, e_property = pid\<rparr>]\<rparr>)
         else E (BadRequest ''Cannot transition room'') s)"
  by (simp add: ends_def transition_status_apply split: option.split)

lemma ends_anyhow [simp]: "ends m (\<lambda>_ _. True) (\<lambda>_ _. True) = (\<lambda>_. True)"
  by (rule ext) (auto simp: ends_def split: prod.split sum.split)

lemma ex_checkout_returns: "returns (check_out ex_desk 7 30 False None) ex_in_house"
  by (simp add: returns_def check_out_def after_check_out_def late_check_out_def list_folios_def post_late_fee_def
     void_authorized_def authorized_payments_def find_by_id_raw_def reservation_of_def is_reservation_def assert_transition_def
     time_of_day_def assert_settled_folio_def find_folio_def is_folio_def claim_transition_def mark_vacant_dirty_def
     ends_transition_status ends_fun room_of_def is_room_def checked_out_def page_of_def opt_eq_def validate_transition_def
     wp ex_in_house_def ex_desk_def ex_rows)

lemma ex_free_cancel: "ev_penalty (evaluate_terms (terms_of None) 738000 200 2 (ck_now ex_clock)) = 0"
proof -
  have "within_free_window (terms_of None) 738000 (ck_now ex_clock)"
    unfolding within_free_window_def check_in_at_def utc_midnight_def epoch_day by (simp add: terms_of_def default_policy_def ex_clock_def)
  then show ?thesis by (simp add: evaluate_terms_def penalty_of_def)
qed

lemma ex_cancel_returns:
  "\<exists>r v t. cancel_reservation ex_desk 7 30 None None ex_hotel = (Inr (r, Some v), t)"
proof -
  have "ends (cancel_reservation ex_desk 7 30 None None) (\<lambda>x t. snd x \<noteq> None) (\<lambda>_ _. False) ex_hotel"
    by (simp add: cancel_reservation_def evaluate_cancellation_def resolve_policy_for_rate_plan_def claim_transition_def
      settle_from_evaluation_def settle_deposits_def wp ex_rows find_by_id_raw_def is_reservation_def assert_transition_def
      validate_transition_def ex_desk_def list_held_deposits_def held_for_def settle_one_def refund_deposit_def forfeit_deposit_def
      deposit_of_def is_deposit_def ex_free_cancel)
  then show ?thesis by (auto simp: ends_def split: prod.splits sum.splits)
qed

definition ex_late_desk :: desk where
  "ex_late_desk = ex_desk\<lparr>dk_clock := ex_clock\<lparr>ck_day := (2020, 7, 19)\<rparr>, dk_seconds := (\<lambda>_. 57600)\<rparr>"

lemma auto_folio_opens:
  assumes "numbers_sequential s day (r_property r)" and "r \<in> set (reservations s)"
    and "\<exists>b \<in> set (bookings s). b_id b = r_booking r \<and> b_property b = r_property r"
  shows "ends (create_auto_folio in_tx day r) (\<lambda>_ t. rooms t = rooms s) (\<lambda>_ _. False) s"
proof -
  let ?dto = "\<lparr>fd_property = r_property r, fd_reservation = Some (r_id r), fd_booking = Some (r_booking r),
     fd_guest = r_guest r, fd_type = GuestFolio, fd_currency = r_currency r\<rparr>"
  obtain n where "create_folio in_tx day ?dto s =
    (Inr (new_folio ?dto (sequence_number day n) (fresh s)), sent in_tx ''folio.created'' ''folio'' (fresh s) (fd_property ?dto)
       (folios_update (\<lambda>t. t @ [new_folio ?dto (sequence_number day n) (fresh s)]) (bump s)))"
    by (rule create_folio_returns [of s day ?dto in_tx]) (use assms in auto)
  then show ?thesis by (simp add: create_auto_folio_def ends_def bump_def)
qed

lemma arrival_tail: "returns (bnd (attempt m) (\<lambda>_. bnd (attempt n) (\<lambda>_. bnd (emit a b c d) (\<lambda>_. ret z)))) t"
  by (intro returns_bnd returns_attempt) (simp_all add: returns_def ends_emit ends_ret)

lemma plain_arrival:
  assumes "ends (create_auto_folio False (ck_day (dk_clock dk)) updated) (\<lambda>_ t. room_of t mid (r_property r) = Some m) (\<lambda>_ _. False) s"
    and "Occupied \<in> set (room_transitions (m_status m))"
  shows "returns (after_check_in dk r pid (plain_check_in room True) mid None updated) s"
proof -
  have plain: "(case ci_method (plain_check_in room True) of Some x \<Rightarrow> Some x | None \<Rightarrow> ci_token (plain_check_in room True)) = None"
    by (simp add: plain_check_in_def)
  show ?thesis
    unfolding after_check_in_def returns_def plain option.case
    by (rule ends_bnd [THEN iffD2], rule ends_weaken [OF assms(1)])
      (simp_all add: ends_bnd [of "ret ()"] ends_bnd [of "ret None"] ends_bnd [of "transition_status a b c d e" for a b c d e] ends_ret
        mark_occupied_def ends_transition_status assms(2) arrival_tail [unfolded returns_def])
qed

lemma ex_check_in_returns: "returns (check_in ex_late_desk 7 30 (plain_check_in None True)) ex_hotel"
proof -
  let ?f = "checked_in ex_late_desk (plain_check_in None True) 3 False None None"
  let ?s = "reservations_update (upd (claim_hit 7 30 [Assigned]) ?f) ex_hotel"
  have rs: "reservations ?s = [?f ex_reservation]" "r_property (?f ex_reservation) = 30" "r_booking (?f ex_reservation) = 6"
    by (simp_all add: claim_hit_def is_reservation_def ex_reservation_def checked_in_def register_guest_def)
  have "numbers_of_day ?s (2020, 7, 19) 30 = []" using ex_no_numbers by (simp add: numbers_of_day_def)
  then have "ends (create_auto_folio False (2020, 7, 19) (?f ex_reservation)) (\<lambda>_ t. rooms t = rooms ?s) (\<lambda>_ _. False) ?s"
    by (intro auto_folio_opens) (simp_all add: rs numbers_sequential_def ex_booking_def)
  then have "ends (create_auto_folio False (2020, 7, 19) (?f ex_reservation)) (\<lambda>_ t. room_of t 3 30 = Some ex_room) (\<lambda>_ _. False) ?s"
    by (rule ends_weaken) (simp_all add: room_of_def is_room_def ex_room_def)
  moreover have "ck_day (dk_clock ex_late_desk) = (2020, 7, 19)" "r_property ex_reservation = 30"
    by (simp_all add: ex_late_desk_def ex_desk_def ex_reservation_def)
  ultimately have "returns (after_check_in ex_late_desk ex_reservation 30 (plain_check_in None True) 3 None (?f ex_reservation)) ?s"
    by (intro plain_arrival [where m = ex_room]) (simp_all add: ex_room_def)
  moreover have "room_for ex_hotel ex_reservation (plain_check_in None True) = Some 3"
    "may_check_in ex_hotel ex_reservation (plain_check_in None True)"
    "early_check_in ex_late_desk (first_row (sel (\<lambda>h. h_id h = r_property ex_reservation) (properties ex_hotel))) = (False, None)"
    by (simp_all add: room_for_def may_check_in_def plain_check_in_def early_check_in_def time_of_day_def ex_late_desk_def ex_rows)
  moreover have "reservation_of ex_hotel 7 30 = Some ex_reservation" "r_requests ex_reservation = None"
    by (simp_all add: reservation_of_def is_reservation_def ex_reservation_def)
  ultimately show ?thesis
    using check_in_form [OF ex_hotel_wf, of 7 30 ex_reservation "plain_check_in None True" ex_late_desk]
    by (simp add: returns_def ends_def Let_def)
qed

lemma ex_in_house_ok: "ledger_ok ex_in_house"
proof -
  have "only_stay ex_hotel ex_in_house" using ex_in_house_wf by (simp add: only_stay_def ex_in_house_def)
  then show ?thesis using ex_hotel_ledger by (rule only_stay_ledger)
qed

definition ex_dirty :: hotel where
  "ex_dirty = ex_hotel\<lparr>rooms := [ex_room\<lparr>m_status := VacantDirty\<rparr>]\<rparr>"

definition ex_cancelled :: hotel where
  "ex_cancelled = ex_hotel\<lparr>reservations := [ex_reservation\<lparr>r_status := Cancelled\<rparr>]\<rparr>"

lemma ex_dirty_wf: "wf_hotel ex_dirty"
  using ex_hotel_wf by (simp add: ex_dirty_def wf_hotel_def keys_ok_def ex_rows)

lemma ex_statuses: "status_in ex_cancelled (7, 30) = Some Cancelled"
  by (simp_all add: status_in_def reservation_of_def is_reservation_def ex_cancelled_def ex_reservation_def)

end
