(* ===== verification/Request_Money.thy ===== *)
theory Request_Money
  imports Currency Ledger
begin

text \<open>
  The money rules of booking requests (\<open>booking-request-money.ts\<close> in
  \<open>packages/booking-requests/src/domain\<close>): accepted totals, installments, allocations and the
  resolution of a denial; the one decision of a request (\<open>booking-request-state.ts\<close>); and the
  transition policy of provider events (\<open>packages/shared/src/stripe-financial-state.ts\<close>).

  A \<open>money_value\<close> is what \<open>new Decimal(value)\<close> makes of an input: \<open>None\<close> where it throws or is not
  finite.
\<close>

type_synonym money_value = "decimal option"

section \<open>Results\<close>

definition sbind :: "error + 'a \<Rightarrow> ('a \<Rightarrow> error + 'b) \<Rightarrow> error + 'b" where
  "sbind r f = (case r of Inl e \<Rightarrow> Inl e | Inr x \<Rightarrow> f x)"

definition ensure :: "bool \<Rightarrow> error \<Rightarrow> error + unit" where
  "ensure b e = (if b then Inr () else Inl e)"

fun traverse :: "('a \<Rightarrow> error + 'b) \<Rightarrow> 'a list \<Rightarrow> error + 'b list" where
  "traverse f [] = Inr []"
| "traverse f (x # xs) = sbind (f x) (\<lambda>y. sbind (traverse f xs) (\<lambda>ys. Inr (y # ys)))"

lemma sbind_simps [simp]: "sbind (Inl e) f = Inl e" "sbind (Inr x) f = f x"
  by (simp_all add: sbind_def)

lemma sbind_Inr_iff: "sbind r f = Inr y \<longleftrightarrow> (\<exists>x. r = Inr x \<and> f x = Inr y)"
  by (cases r) simp_all

lemma ensure_Inr_iff [simp]: "ensure b e = Inr u \<longleftrightarrow> b"
  by (simp add: ensure_def)

lemma sbind_ensure [simp]: "sbind (ensure b e) f = (if b then f () else Inl e)"
  by (simp add: ensure_def)

lemma traverse_Inr_iff: "traverse f xs = Inr ys \<longleftrightarrow> list_all2 (\<lambda>x y. f x = Inr y) xs ys"
  by (induction xs arbitrary: ys) (auto simp: sbind_Inr_iff list_all2_Cons1)

section \<open>Amounts\<close>

definition decimal_of :: "money_value \<Rightarrow> error + decimal" where
  "decimal_of value = (case value of None \<Rightarrow> Inl (Conflict ''Invalid amount'') | Some x \<Rightarrow> Inr x)"

definition positive :: "money_value \<Rightarrow> error + decimal" where
  "positive value = sbind (decimal_of value) (\<lambda>x. if x \<le> 0 then Inl (Conflict ''must be positive'') else Inr x)"

definition non_negative :: "money_value \<Rightarrow> error + decimal" where
  "non_negative value = sbind (decimal_of value) (\<lambda>x. if x < 0 then Inl (Conflict ''must be non-negative'') else Inr x)"

definition in_currency :: "decimal \<Rightarrow> nat \<Rightarrow> decimal" where
  "in_currency value exponent = to_fixed exponent value"

lemma positive_iff: "positive v = Inr x \<longleftrightarrow> v = Some x \<and> 0 < x"
  by (auto simp: positive_def decimal_of_def split: option.splits)

lemma non_negative_iff: "non_negative v = Inr x \<longleftrightarrow> v = Some x \<and> 0 \<le> x"
  by (auto simp: non_negative_def decimal_of_def split: option.splits)

section \<open>Accepted totals\<close>

datatype request_source = FromSubmitted | FromCurrent | FromCustom

record accepted_input =
  ai_source :: request_source
  ai_submitted :: "money_value option"
  ai_current :: "money_value option"
  ai_custom :: "money_value option"
  ai_reason :: "string option"

record accepted_total =
  tt_source :: request_source
  tt_total :: decimal
  tt_reason :: "string option"

definition selected_total :: "request_source \<Rightarrow> accepted_input \<Rightarrow> error + money_value" where
  "selected_total source inp = (case source of
       FromSubmitted \<Rightarrow> (case ai_submitted inp of None \<Rightarrow> Inl (Conflict ''Submitted total is required'') | Some x \<Rightarrow> Inr x)
     | FromCurrent \<Rightarrow> (case ai_current inp of None \<Rightarrow> Inl (Conflict ''Current total is required'') | Some x \<Rightarrow> Inr x)
     | FromCustom \<Rightarrow> (case ai_custom inp of None \<Rightarrow> Inl (Conflict ''Custom total is required'') | Some x \<Rightarrow> Inr x))"

text \<open>\<open>reason?.trim()\<close>, \<open>None\<close> when the result is falsy.\<close>

definition given_reason :: "string option \<Rightarrow> string option" where
  "given_reason reason = (case reason of None \<Rightarrow> None | Some x \<Rightarrow> if trim x = [] then None else Some (trim x))"

definition resolve_accepted_total :: "accepted_input \<Rightarrow> error + accepted_total" where
  "resolve_accepted_total inp =
     sbind (selected_total (ai_source inp) inp) (\<lambda>selected.
     sbind (if ai_source inp = FromCustom then positive selected
            else sbind (decimal_of selected) (\<lambda>x. Inr (in_currency x 2))) (\<lambda>tot.
     if ai_source inp = FromCustom then
       (case given_reason (ai_reason inp) of
          None \<Rightarrow> Inl (Conflict ''A reason is required for a custom accepted price'')
        | Some reason \<Rightarrow> Inr \<lparr>tt_source = FromCustom, tt_total = in_currency tot 2, tt_reason = Some reason\<rparr>)
     else Inr \<lparr>tt_source = ai_source inp, tt_total = in_currency tot 2, tt_reason = None\<rparr>))"

section \<open>Installments\<close>

record installment_input =
  ii_total :: "money_value option"
  ii_accepted :: "money_value option"
  ii_fixed :: "money_value option"
  ii_percentage :: "money_value option"
  ii_allocated :: "money_value option"
  ii_exponent :: "nat option"

definition installment_basis :: "installment_input \<Rightarrow> error + decimal" where
  "installment_basis inp = (case ii_fixed inp of
       Some fixed_amount \<Rightarrow> positive fixed_amount
     | None \<Rightarrow>
         sbind (positive (the (ii_percentage inp))) (\<lambda>percentage.
         case (case ii_total inp of Some t \<Rightarrow> Some t | None \<Rightarrow> ii_accepted inp) of
           None \<Rightarrow> Inl (Conflict ''Accepted total is required for a percentage installment'')
         | Some t \<Rightarrow> sbind (positive t) (\<lambda>tot. Inr (tot * percentage / 100))))"

definition resolve_installment_amount :: "installment_input \<Rightarrow> error + decimal" where
  "resolve_installment_amount inp =
     (if (ii_fixed inp \<noteq> None) = (ii_percentage inp \<noteq> None)
      then Inl (Conflict ''An installment requires exactly one fixed amount or percentage'')
      else
        sbind (installment_basis inp) (\<lambda>basis.
        let result = in_currency basis (case ii_exponent inp of None \<Rightarrow> 2 | Some n \<Rightarrow> n) in
        if result \<le> 0 then Inl (Conflict ''Installment amount must be positive'')
        else case ii_allocated inp of
          None \<Rightarrow> Inr result
        | Some a \<Rightarrow> sbind (positive a) (\<lambda>allocated.
            if result < allocated then Inl (Conflict ''Allocated amount cannot exceed the installment total'')
            else Inr result)))"

section \<open>Allocations\<close>

record allocation_input =
  ci_amount :: money_value
  ci_movement :: money_value
  ci_installment :: money_value
  ci_already_movement :: "money_value option"
  ci_already_installment :: "money_value option"
  ci_remaining_movement :: "money_value option"
  ci_remaining_installment :: "money_value option"

definition allocated_so_far :: "money_value option \<Rightarrow> error + decimal" where
  "allocated_so_far v = (case v of None \<Rightarrow> Inr 0 | Some x \<Rightarrow> non_negative x)"

definition within_remaining :: "decimal \<Rightarrow> money_value option \<Rightarrow> string \<Rightarrow> error + unit" where
  "within_remaining amount remaining message = (case remaining of
       None \<Rightarrow> Inr ()
     | Some x \<Rightarrow> sbind (non_negative x) (\<lambda>left. ensure (\<not> left < amount) (Conflict message)))"

definition assert_allocation_amount :: "allocation_input \<Rightarrow> error + unit" where
  "assert_allocation_amount inp =
     sbind (positive (ci_amount inp)) (\<lambda>amount.
     sbind (positive (ci_movement inp)) (\<lambda>movement.
     sbind (positive (ci_installment inp)) (\<lambda>installment.
     sbind (ensure (\<not> movement < amount) (Conflict ''Allocation amount cannot exceed the payment movement amount'')) (\<lambda>_.
     sbind (ensure (\<not> installment < amount) (Conflict ''Allocation amount cannot exceed the installment amount'')) (\<lambda>_.
     sbind (allocated_so_far (ci_already_movement inp)) (\<lambda>already_movement.
     sbind (allocated_so_far (ci_already_installment inp)) (\<lambda>already_installment.
     sbind (within_remaining amount (ci_remaining_movement inp)
              ''Allocation amount cannot exceed the remaining payment movement amount'') (\<lambda>_.
     sbind (within_remaining amount (ci_remaining_installment inp)
              ''Allocation amount cannot exceed the remaining installment amount'') (\<lambda>_.
     sbind (ensure (\<not> movement < already_movement + amount)
              (Conflict ''Cumulative allocation cannot exceed the payment movement amount'')) (\<lambda>_.
     ensure (\<not> installment < already_installment + amount)
              (Conflict ''Cumulative allocation cannot exceed the installment amount'')))))))))))"

lemma allocated_so_far_iff: "allocated_so_far v = Inr x \<longleftrightarrow> (v = None \<and> x = 0 \<or> v = Some (Some x) \<and> 0 \<le> x)"
  by (auto simp: allocated_so_far_def non_negative_iff split: option.splits)

lemma allocation_bounded:
  assumes "assert_allocation_amount inp = Inr ()"
  obtains amount movement installment a b where "ci_amount inp = Some amount" and "ci_movement inp = Some movement"
    and "ci_installment inp = Some installment" and "0 < amount"
    and "allocated_so_far (ci_already_movement inp) = Inr a" and "allocated_so_far (ci_already_installment inp) = Inr b"
    and "0 \<le> a" and "0 \<le> b" and "a + amount \<le> movement" and "b + amount \<le> installment"
  using assms by (auto simp: assert_allocation_amount_def sbind_Inr_iff positive_iff allocated_so_far_iff not_less split: if_splits)

section \<open>Denial\<close>

record captured_movement =
  mv_id :: "ident option"
  mv_payment :: "ident option"
  mv_status :: "string option"
  mv_type :: "string option"
  mv_amount :: money_value
  mv_net :: "money_value option"

record denial_resolution =
  dr_payment :: "ident option"
  dr_movement :: "ident option"
  dr_retained :: bool
  dr_amount :: money_value
  dr_reason :: "string option"

definition movement_key :: "captured_movement \<Rightarrow> ident option" where
  "movement_key m = (case mv_payment m of Some k \<Rightarrow> Some k | None \<Rightarrow> mv_id m)"

definition resolution_key :: "denial_resolution \<Rightarrow> ident option" where
  "resolution_key r = (case dr_payment r of Some k \<Rightarrow> Some k | None \<Rightarrow> dr_movement r)"

definition net_value :: "captured_movement \<Rightarrow> money_value" where
  "net_value m = (case mv_net m of Some v \<Rightarrow> v | None \<Rightarrow> mv_amount m)"

definition is_captured_movement :: "captured_movement \<Rightarrow> error + bool" where
  "is_captured_movement m =
     (if (case mv_status m of None \<Rightarrow> False
          | Some q \<Rightarrow> q \<noteq> [] \<and> q \<notin> {''captured'', ''settled'', ''partially_refunded'', ''refunded''})
      then Inr False
      else if mv_type m = Some ''refund'' \<or> mv_type m = Some ''external_return'' then Inr False
      else
        sbind (decimal_of (mv_amount m)) (\<lambda>captured.
        sbind (ensure (\<not> captured < 0) (Conflict ''Captured payment amount must not be negative'')) (\<lambda>_.
        sbind (decimal_of (net_value m)) (\<lambda>net.
        sbind (ensure (\<not> net < 0) (Conflict ''Captured payment net amount must not be negative'')) (\<lambda>_.
        Inr (0 < net))))))"

fun keep_if :: "('a \<Rightarrow> error + bool) \<Rightarrow> 'a list \<Rightarrow> error + 'a list" where
  "keep_if f [] = Inr []"
| "keep_if f (x # xs) = sbind (f x) (\<lambda>b. sbind (keep_if f xs) (\<lambda>ys. Inr (if b then x # ys else ys)))"

text \<open>One resolution: its key and amount, \<open>None\<close> when it concerns no remaining captured money.\<close>

definition tally ::
  "ident option list \<Rightarrow> ident option list \<Rightarrow> denial_resolution \<Rightarrow> error + (ident option \<times> decimal) option" where
  "tally known captured r =
     sbind (ensure (\<not> (dr_retained r \<and> given_reason (dr_reason r) = None))
              (Conflict ''A reason is required for retained money'')) (\<lambda>_.
     sbind (positive (dr_amount r)) (\<lambda>amount.
     let key = resolution_key r in
     if key \<noteq> None \<and> key \<notin> set known then Inl (Conflict ''Resolution references unknown captured movement'')
     else if key \<noteq> None \<and> key \<notin> set captured then Inr None
     else Inr (Some (key, amount))))"

definition resolved_for :: "ident option \<Rightarrow> (ident option \<times> decimal) option list \<Rightarrow> decimal" where
  "resolved_for key tallies = sum_list [a. Some (k, a) \<leftarrow> tallies, k = key]"

fun all_resolved :: "(ident option \<times> decimal) option list \<Rightarrow> captured_movement list \<Rightarrow> error + unit" where
  "all_resolved tallies [] = Inr ()"
| "all_resolved tallies (m # ms) =
     sbind (decimal_of (net_value m)) (\<lambda>net.
     sbind (ensure (resolved_for (movement_key m) tallies = in_currency net 2)
              (Conflict ''Captured movement has unresolved money'')) (\<lambda>_.
     all_resolved tallies ms))"

definition assert_denial_money_resolved :: "captured_movement list \<Rightarrow> denial_resolution list \<Rightarrow> error + unit" where
  "assert_denial_money_resolved movements denials =
     sbind (keep_if is_captured_movement movements) (\<lambda>captured.
     let known = filter (\<lambda>k. k \<noteq> None) (map movement_key movements);
         captured_keys = filter (\<lambda>k. k \<noteq> None) (map movement_key captured)
     in sbind (traverse (tally known captured_keys) denials) (\<lambda>tallies.
        if captured = [] then
          ensure (\<not> list_ex (\<lambda>r. resolution_key r = None \<or> resolution_key r \<in> set captured_keys) denials)
            (Conflict ''Resolution references no captured movement'')
        else all_resolved tallies captured))"

lemma all_resolved_iff: "all_resolved tallies ms = Inr u \<longleftrightarrow>
    (\<forall>m \<in> set ms. \<exists>net. net_value m = Some net \<and> resolved_for (movement_key m) tallies = in_currency net 2)"
  by (induction ms) (auto simp: sbind_Inr_iff decimal_of_def split: option.splits)

section \<open>The decision of a request\<close>

definition assert_booking_request_transition :: "request_status \<Rightarrow> request_status \<Rightarrow> error + unit" where
  "assert_booking_request_transition old new =
     (if old \<noteq> RequestPending then Inl (Conflict ''Cannot transition booking request'') else Inr ())"

section \<open>Provider events\<close>

datatype intent_event = IntentProcessing | IntentSucceeded | IntentFailed | IntentCanceled | IntentRequiresAction

datatype intent_action = Transition | Repair | RecordPending | Unexpected

definition target_status :: "intent_event \<Rightarrow> payment_status" where
  "target_status ev = (case ev of
       IntentSucceeded \<Rightarrow> PayCaptured
     | IntentFailed \<Rightarrow> PayFailed
     | IntentCanceled \<Rightarrow> PayVoided
     | IntentRequiresAction \<Rightarrow> PayFailed
     | IntentProcessing \<Rightarrow> PayPending)"

definition decide_payment_intent_transition ::
  "payment_status \<Rightarrow> intent_event \<Rightarrow> request_status option \<Rightarrow> error + (intent_action \<times> payment_status)" where
  "decide_payment_intent_transition current ev request =
     (if ev = IntentProcessing then Inr (if current = PayPending then (Repair, current) else (Unexpected, current))
      else
        let target = target_status ev in
        if ev = IntentSucceeded \<and> request = Some RequestDenied \<and> current \<noteq> PayCaptured then
          Inl (Conflict ''A captured provider payment cannot finalize after the booking request was denied'')
        else if current = target then Inr (Repair, current)
        else if current = PayPending \<or> current = PayAuthorized \<and> ev = IntentSucceeded then Inr (Transition, target)
        else Inr (Unexpected, current))"

datatype refund_event = RefundSucceeded | RefundPending | RefundRequiresAction | RefundFailed | RefundCanceled

definition refund_target :: "refund_event \<Rightarrow> resolution_status" where
  "refund_target ev = (if ev = RefundSucceeded then ResolutionCompleted
     else if ev = RefundFailed \<or> ev = RefundCanceled then ResolutionFailed else ResolutionPending)"

definition decide_refund_transition ::
  "resolution_status \<Rightarrow> refund_event \<Rightarrow> intent_action \<times> resolution_status" where
  "decide_refund_transition current ev =
     (let target = refund_target ev in
      if current = target then (if current = ResolutionPending then RecordPending else Repair, current)
      else if current = ResolutionPending then (Transition, target)
      else (Unexpected, current))"

text \<open>A decision leaves a status only out of a waiting one, so a delivery repeated changes nothing more.\<close>

lemma intent_decided_once:
  assumes "decide_payment_intent_transition current ev request = Inr (act, status)"
  shows "decide_payment_intent_transition status ev request = Inr (act', status') \<Longrightarrow> status' = status"
    and "act \<noteq> Transition \<Longrightarrow> status = current"
    and "act = Transition \<Longrightarrow> current \<in> {PayPending, PayAuthorized}"
  using assms
  by (auto simp: decide_payment_intent_transition_def Let_def target_status_def split: if_splits intent_event.splits)

lemma refund_decided_once:
  "decide_refund_transition current ev = (act, status) \<Longrightarrow> current \<noteq> ResolutionPending \<Longrightarrow> status = current"
  by (auto simp: decide_refund_transition_def Let_def split: if_splits)

end
