(* ===== verification/Request_Ledger.thy ===== *)
theory Request_Ledger
  imports Request_Money Folio
begin

text \<open>
  The money of a booking request seen from one of its payments: what is still held, promised and
  given back (\<open>booking-request-payment-ledger.ts\<close>), which allocations survive a return
  (\<open>booking-request-allocation-reconciler.ts\<close>), and how the installments they pay for follow.
  Identifiers, which stand for UUIDs, are compared as numbers where the code compares their text;
  no fact below depends on which of two allocations of the same instant is the older.
\<close>

section \<open>The ledger of one payment\<close>

record ledger_summary =
  ls_net :: decimal
  ls_allocated :: decimal
  ls_reserved :: decimal
  ls_completed :: decimal
  ls_to_allocate :: decimal
  ls_to_resolve :: decimal
  ls_unresolved :: decimal
  ls_returned :: decimal
  ls_retained :: decimal

definition zero_summary :: ledger_summary where
  "zero_summary = \<lparr>ls_net = 0, ls_allocated = 0, ls_reserved = 0, ls_completed = 0, ls_to_allocate = 0,
     ls_to_resolve = 0, ls_unresolved = 0, ls_returned = 0, ls_retained = 0\<rparr>"

text \<open>\<open>BOOKING_REQUEST_PARENT_PAYMENT_STATUSES\<close>.\<close>

definition parent_status :: "payment_status \<Rightarrow> bool" where
  "parent_status q \<longleftrightarrow> q \<in> {PayCaptured, PaySettled, PayPartiallyRefunded, PayRefunded}"

definition is_parent :: "payment \<Rightarrow> bool" where
  "is_parent y \<longleftrightarrow> \<not> (y_original y \<noteq> None \<or> \<not> parent_status (y_status y) \<or> y_amount y \<le> 0)"

definition returned_children :: "ident \<Rightarrow> payment list \<Rightarrow> payment list" where
  "returned_children i movements =
     filter (\<lambda>z. y_original z = Some i \<and> y_status z = PayCaptured \<and> y_amount z < 0) movements"

definition without_movement :: "payment list \<Rightarrow> resolution \<Rightarrow> bool" where
  "without_movement children r \<longleftrightarrow>
     (case rz_movement r of None \<Rightarrow> True | Some m \<Rightarrow> m \<notin> y_id ` set children)"

definition summarize_ledger ::
  "payment \<Rightarrow> payment list \<Rightarrow> allocation list \<Rightarrow> resolution list \<Rightarrow> ledger_summary" where
  "summarize_ledger y movements allocs resols =
     (if \<not> is_parent y then zero_summary
      else
        let children = returned_children (y_id y) movements;
            net = max (remaining_captured_amount (y_amount y) children) 0;
            allocated = total aa_amount (filter (\<lambda>a. aa_payment a = y_id y) allocs);
            mine = filter (\<lambda>r. rz_payment r = y_id y) resols;
            reserved = total rz_amount (filter (\<lambda>r. rz_status r = ResolutionPending) mine);
            closed = filter (without_movement children) (filter (\<lambda>r. rz_status r = ResolutionCompleted) mine);
            completed = total rz_amount closed;
            retained = total rz_amount (filter (\<lambda>r. rz_type r = RetainedMoney) closed);
            returned = y_amount y - net + total rz_amount (filter (\<lambda>r. rz_type r \<noteq> RetainedMoney) closed);
            unresolved = max (net - completed) 0;
            to_resolve = max (unresolved - reserved) 0;
            to_allocate = max (to_resolve - allocated) 0
        in \<lparr>ls_net = net, ls_allocated = allocated, ls_reserved = reserved, ls_completed = completed,
             ls_to_allocate = to_allocate, ls_to_resolve = to_resolve, ls_unresolved = unresolved,
             ls_returned = returned, ls_retained = retained\<rparr>)"

section \<open>Which allocations survive\<close>

record allocation_plan =
  pl_left :: decimal
  pl_amounts :: "ident \<rightharpoonup> decimal"
  pl_totals :: "ident \<rightharpoonup> decimal"

definition plan_step :: "allocation \<Rightarrow> allocation_plan \<Rightarrow> allocation_plan" where
  "plan_step a p =
     (let retained = min (aa_amount a) (pl_left p);
          before = (case pl_totals p (aa_installment a) of None \<Rightarrow> 0 | Some x \<Rightarrow> x)
      in \<lparr>pl_left = max (pl_left p - retained) 0,
           pl_amounts = (pl_amounts p)(aa_id a \<mapsto> cents retained),
           pl_totals = (pl_totals p)(aa_installment a \<mapsto> cents (before + retained))\<rparr>)"

definition oldest_first :: "allocation list \<Rightarrow> allocation list" where
  "oldest_first allocs = sort_key aa_created (sort_key aa_id allocs)"

definition plan_net_allocation_reconciliation :: "decimal \<Rightarrow> allocation list \<Rightarrow> allocation_plan" where
  "plan_net_allocation_reconciliation net allocs =
     fold plan_step (oldest_first allocs)
       \<lparr>pl_left = max net 0, pl_amounts = Map.empty, pl_totals = Map.empty\<rparr>"

definition planned :: "allocation_plan \<Rightarrow> allocation \<Rightarrow> decimal" where
  "planned p a = (case pl_amounts p (aa_id a) of None \<Rightarrow> 0 | Some x \<Rightarrow> x)"

section \<open>Applying the plan\<close>

definition is_allocation :: "ident \<Rightarrow> ident \<Rightarrow> ident \<Rightarrow> allocation \<Rightarrow> bool" where
  "is_allocation i pid rid a \<longleftrightarrow> aa_id a = i \<and> aa_property a = pid \<and> aa_request a = rid"

definition is_installment :: "ident \<Rightarrow> ident \<Rightarrow> ident \<Rightarrow> installment \<Rightarrow> bool" where
  "is_installment i pid rid x \<longleftrightarrow> it_id x = i \<and> it_property x = pid \<and> it_request x = rid"

definition allocation_of_request :: "ident \<Rightarrow> ident \<Rightarrow> allocation \<Rightarrow> bool" where
  "allocation_of_request rid pid a \<longleftrightarrow> aa_request a = rid \<and> aa_property a = pid"

definition installment_state :: "decimal \<Rightarrow> decimal \<Rightarrow> installment_status" where
  "installment_state allocated resolved =
     (if allocated = 0 then InstallmentUnpaid else if resolved \<le> allocated then InstallmentPaid else InstallmentPartial)"

definition child_where :: "ident \<Rightarrow> ident \<Rightarrow> ident \<Rightarrow> payment \<Rightarrow> bool" where
  "child_where i rid pid z \<longleftrightarrow>
     y_original z = Some i \<and> y_request z = Some rid \<and> y_property z = pid \<and> y_status z = PayCaptured"

definition apply_planned :: "ident \<Rightarrow> ident \<Rightarrow> allocation_plan \<Rightarrow> allocation \<Rightarrow> unit op" where
  "apply_planned rid pid p a =
     (if planned p a = aa_amount a then ret ()
      else if planned p a = 0 then delete_where allocations_update (is_allocation (aa_id a) pid rid)
      else bnd (update_where allocations allocations_update (is_allocation (aa_id a) pid rid)
             (\<lambda>b. b\<lparr>aa_amount := planned p a\<rparr>)) (\<lambda>_. ret ()))"

definition restate_installment ::
  "timestamp \<Rightarrow> ident \<Rightarrow> ident \<Rightarrow> allocation list \<Rightarrow> ident \<Rightarrow> unit op" where
  "restate_installment now rid pid after i =
     bnd (ask (\<lambda>s. first_row (sel (is_installment i pid rid) (installments s)))) (\<lambda>row.
     case (case row of None \<Rightarrow> None | Some x \<Rightarrow> it_resolved x) of
       None \<Rightarrow> throw (Failure ''Installment has no resolved amount'')
     | Some resolved \<Rightarrow>
         let allocated = total aa_amount (filter (\<lambda>a. aa_installment a = i) after)
         in bnd (update_where installments installments_update (is_installment i pid rid)
              (\<lambda>x. x\<lparr>it_allocated := cents allocated, it_status := installment_state allocated resolved, it_updated := now\<rparr>))
            (\<lambda>_. ret ()))"

definition reconcile_request_allocations :: "timestamp \<Rightarrow> ident \<Rightarrow> ident \<Rightarrow> payment \<Rightarrow> unit op" where
  "reconcile_request_allocations now rid pid y =
     bnd (ask (\<lambda>s. sel (allocation_of_request rid pid) (allocations s))) (\<lambda>all_rows.
     let mine = filter (\<lambda>a. aa_payment a = y_id y) all_rows in
     if mine = [] then ret () else
     bnd (ask (\<lambda>s. sel (child_where (y_id y) rid pid) (payments s))) (\<lambda>children.
     let net = remaining_captured_amount (y_amount y) children;
         p = plan_net_allocation_reconciliation (cents net) mine;
         affected = rev (remdups (rev (map aa_installment (filter (\<lambda>a. planned p a \<noteq> aa_amount a) mine))));
         after = filter (\<lambda>a. 0 < aa_amount a)
           (map (\<lambda>a. if aa_payment a = y_id y then a\<lparr>aa_amount := planned p a\<rparr> else a) all_rows)
     in bnd (for_each mine (apply_planned rid pid p)) (\<lambda>_.
        for_each affected (restate_installment now rid pid after))))"

end
