(* ===== verification/Request_Payment.thy ===== *)
theory Request_Payment
  imports Request_Ledger Payment Ancillary
begin

text \<open>
  The payments of a booking request
  (\<open>packages/booking-requests/src/domain/booking-request-payment.service.ts\<close>): the installment plan,
  the allocation of captured payments to it, charges of the saved card, payments recorded from
  outside, refunds, returns and money retained, with the outbox rows they leave
  (\<open>booking-request-payment-consequence.ts\<close>). Gateways are parameters, programs over the hotel.
  SHA-256 digests are parameters too (\<open>hashes\<close>). Audit rows, the text and the delivery of mails and
  the card's display data are left out. The check constraints of the tables restate what the
  operations guarantee and are not repeated.
\<close>

section \<open>Digests and texts\<close>

record refund_print =
  fp_property :: ident
  fp_request :: ident
  fp_payment :: ident
  fp_amount :: decimal
  fp_currency :: string
  fp_transaction :: string

record hashes =
  hs_key :: "ident \<Rightarrow> string \<Rightarrow> string"
  hs_print :: "refund_print \<Rightarrow> string"

text \<open>
  The text of an identifier. UUIDs are equally long; numbers are not, so the digits are delimited and
  one identifier's text is part of another's only when the two are the same.
\<close>

definition uuid_text :: "ident \<Rightarrow> string" where
  "uuid_text i = ''<'' @ show_nat i @ ''>''"

fun error_text :: "error \<Rightarrow> string" where
  "error_text (NotFound m) = m"
| "error_text (BadRequest m) = m"
| "error_text (Conflict m) = m"
| "error_text (Failure m) = m"

definition provider_text :: "provider_status \<Rightarrow> string" where
  "provider_text q = (case q of
       Succeeded \<Rightarrow> ''succeeded'' | ProviderPending \<Rightarrow> ''pending'' | RequiresAction \<Rightarrow> ''requires_action''
     | ProviderFailed \<Rightarrow> ''failed'' | Canceled \<Rightarrow> ''canceled'' | UnknownStatus \<Rightarrow> ''unknown'')"

text \<open>\<open>a || b\<close> of texts.\<close>

definition or_text :: "string option \<Rightarrow> string option \<Rightarrow> string option" where
  "or_text a b = (if falsy a then b else a)"

text \<open>\<open>scopedKey\<close>.\<close>

definition scoped_key :: "hashes \<Rightarrow> string \<Rightarrow> ident \<Rightarrow> string \<Rightarrow> error + string" where
  "scoped_key hs kind pid identity =
     (if trim identity = [] then Inl (BadRequest ''idempotency identity is required'')
      else Inr (''booking-request-'' @ kind @ '':'' @ hs_key hs pid (trim identity)))"

section \<open>Amounts and dates\<close>

definition assert_not_denied :: "booking_request \<Rightarrow> error + unit" where
  "assert_not_denied rq =
     ensure (rq_status rq \<noteq> RequestDenied) (Conflict ''Cannot move money on a denied booking request'')"

definition request_total :: "booking_request \<Rightarrow> error + decimal" where
  "request_total rq =
     (case (if rq_status rq = RequestAccepted then map_option Some (rq_accepted_total rq) else rq_quote_total rq) of
        None \<Rightarrow> Inl (Conflict ''Booking request has no authoritative total'')
      | Some None \<Rightarrow> Inl (BadRequest ''Invalid booking request total'')
      | Some (Some x) \<Rightarrow> if x < 0 then Inl (Conflict ''Booking request total cannot be negative'') else Inr x)"

definition positive_money :: "money_value \<Rightarrow> string \<Rightarrow> error + decimal" where
  "positive_money v cur =
     (case v of
        None \<Rightarrow> Inl (BadRequest ''Invalid amount'')
      | Some x \<Rightarrow>
          if x \<le> 0 then Inl (Conflict ''must be positive'')
          else sbind (assert_ledger_currency_supported cur BadRequest) (\<lambda>e.
            if \<not> fits e x then Inl (BadRequest ''has fractional minor units'')
            else if \<not> fits 2 x then Inl (BadRequest ''exceeds ledger storage precision'')
            else Inr x))"

definition positive_percentage :: "money_value \<Rightarrow> error + decimal" where
  "positive_percentage v =
     (case v of
        None \<Rightarrow> Inl (BadRequest ''Invalid Installment percentage'')
      | Some x \<Rightarrow>
          if x \<le> 0 then Inl (Conflict ''Installment percentage must be positive'')
          else if \<not> fits 2 x then Inl (BadRequest ''Installment percentage supports at most two decimal places'')
          else if 100 < x then Inl (BadRequest ''Installment percentage cannot exceed 100'')
          else Inr x)"

text \<open>\<open>processedDate\<close>; \<open>None\<close> is a date that does not parse.\<close>

definition processed_date :: "timestamp \<Rightarrow> timestamp option \<Rightarrow> error + timestamp" where
  "processed_date now v =
     (case v of
        None \<Rightarrow> Inl (BadRequest ''date is invalid'')
      | Some t \<Rightarrow> if now < t then Inl (BadRequest ''processed date cannot be in the future'') else Inr t)"

section \<open>Lookups\<close>

definition is_request :: "ident \<Rightarrow> ident \<Rightarrow> booking_request \<Rightarrow> bool" where
  "is_request rid pid rq \<longleftrightarrow> rq_id rq = rid \<and> rq_property rq = pid"

definition find_request :: "ident \<Rightarrow> ident \<Rightarrow> booking_request op" where
  "find_request rid pid = find_row booking_requests (is_request rid pid) (NotFound ''Booking request not found'')"

definition find_installment :: "ident \<Rightarrow> ident \<Rightarrow> ident \<Rightarrow> installment op" where
  "find_installment rid i pid = find_row installments (is_installment i pid rid) (NotFound ''Installment not found'')"

definition find_movement :: "ident \<Rightarrow> ident \<Rightarrow> payment op" where
  "find_movement i pid = find_row payments (is_payment i pid) (NotFound ''Payment not found'')"

definition find_parent_payment :: "ident \<Rightarrow> ident \<Rightarrow> ident \<Rightarrow> payment op" where
  "find_parent_payment rid i pid =
     bnd (find_movement i pid) (\<lambda>y.
     bnd (guard (\<not> (y_request y \<noteq> Some rid \<or> y_original y \<noteq> None)) (NotFound ''Payment not found'')) (\<lambda>_.
     bnd (guard (parent_status (y_status y)) (Conflict ''Payment is not a captured movement'')) (\<lambda>_.
     bnd (guard (\<not> y_amount y \<le> 0) (Conflict ''Captured payment amount must be positive'')) (\<lambda>_.
     ret y))))"

definition has_key :: "ident \<Rightarrow> string \<Rightarrow> payment \<Rightarrow> bool" where
  "has_key pid key y \<longleftrightarrow> y_property y = pid \<and> y_idempotency y = Some key"

definition find_payment_by_key :: "ident \<Rightarrow> string \<Rightarrow> payment op" where
  "find_payment_by_key pid key =
     find_row payments (has_key pid key) (Conflict ''Idempotent payment could not be recovered'')"

definition payment_of_request :: "ident \<Rightarrow> ident \<Rightarrow> payment \<Rightarrow> bool" where
  "payment_of_request rid pid y \<longleftrightarrow> y_request y = Some rid \<and> y_property y = pid"

definition resolution_of_request :: "ident \<Rightarrow> ident \<Rightarrow> resolution \<Rightarrow> bool" where
  "resolution_of_request rid pid r \<longleftrightarrow> rz_request r = rid \<and> rz_property r = pid"

definition is_resolution :: "ident \<Rightarrow> ident \<Rightarrow> ident \<Rightarrow> ident \<Rightarrow> resolution \<Rightarrow> bool" where
  "is_resolution i pid rid yid r \<longleftrightarrow>
     rz_id r = i \<and> rz_property r = pid \<and> rz_request r = rid \<and> rz_payment r = yid"

definition find_resolution :: "ident \<Rightarrow> ident \<Rightarrow> ident \<Rightarrow> ident \<Rightarrow> resolution op" where
  "find_resolution rid yid i pid =
     find_row resolutions (is_resolution i pid rid yid) (NotFound ''Payment resolution not found'')"

definition resolution_key_is :: "ident \<Rightarrow> string \<Rightarrow> resolution \<Rightarrow> bool" where
  "resolution_key_is pid key r \<longleftrightarrow> rz_property r = pid \<and> rz_key r = Some key"

text \<open>\<open>paymentAllocationSummaryFromDatabase\<close>.\<close>

definition payment_summary :: "ident \<Rightarrow> ident \<Rightarrow> payment \<Rightarrow> ledger_summary op" where
  "payment_summary rid pid y =
     ask (\<lambda>s. summarize_ledger y (sel (payment_of_request rid pid) (payments s))
       (sel (allocation_of_request rid pid) (allocations s)) (sel (resolution_of_request rid pid) (resolutions s)))"

definition assert_resolution_capacity :: "ident \<Rightarrow> ident \<Rightarrow> payment \<Rightarrow> decimal \<Rightarrow> unit op" where
  "assert_resolution_capacity rid pid y amount =
     bnd (payment_summary rid pid y) (\<lambda>summary.
     guard (\<not> ls_to_resolve summary < amount) (Conflict ''Resolution amount exceeds remaining captured amount''))"

definition resolved_installment_amount :: "installment \<Rightarrow> error + decimal" where
  "resolved_installment_amount x =
     (case it_resolved x of None \<Rightarrow> Inl (Conflict ''Installment has no resolved amount'') | Some r \<Rightarrow> Inr r)"

definition installment_allocation_total :: "ident \<Rightarrow> ident \<Rightarrow> ident \<Rightarrow> decimal op" where
  "installment_allocation_total rid i pid =
     ask (\<lambda>s. total aa_amount (filter (\<lambda>a. aa_installment a = i) (sel (allocation_of_request rid pid) (allocations s))))"

section \<open>The outbox\<close>

definition insert_unless_present ::
  "('s \<Rightarrow> 'r list) \<Rightarrow> (('r list \<Rightarrow> 'r list) \<Rightarrow> 's \<Rightarrow> 's) \<Rightarrow> ('r \<Rightarrow> bool) \<Rightarrow> 'r \<Rightarrow> ('s, unit) prog" where
  "insert_unless_present get modify c r =
     bnd (ask (\<lambda>s. sel c (get s))) (\<lambda>clash. if clash = [] then bnd (insert_row modify r) (\<lambda>_. ret ()) else ret ())"

definition mail_kind :: "string \<Rightarrow> delivery_kind" where
  "mail_kind ev = (if ev = ''payment.received'' then PaymentMail
     else if ev = ''payment.refunded'' then RefundMail else FailureMail)"

definition ensure_financial_email :: "string \<Rightarrow> ident \<Rightarrow> ident \<Rightarrow> ident \<Rightarrow> string \<Rightarrow> unit op" where
  "ensure_financial_email ev logical pid rid cur =
     (if cur = [] then ret ()
      else
        bnd (ask (\<lambda>s. first_row (sel (is_request rid pid) (booking_requests s)))) (\<lambda>request.
        case request of
          None \<Rightarrow> ret ()
        | Some rq \<Rightarrow>
            bnd new_id (\<lambda>i.
            insert_unless_present deliveries deliveries_update
              (\<lambda>d. de_property d = pid \<and> de_request d = rid \<and> de_kind d = mail_kind ev \<and> de_logical d = logical)
              \<lparr>de_id = i, de_property = pid, de_request = rid, de_kind = mail_kind ev, de_logical = logical,
               de_recipient = rq_email rq\<rparr>)))"

definition ensure_financial_consequence :: "string \<Rightarrow> ident \<Rightarrow> ident \<Rightarrow> ident \<Rightarrow> string \<Rightarrow> unit op" where
  "ensure_financial_consequence ev logical pid rid cur =
     bnd (insert_unless_present consequences consequences_update
            (\<lambda>c. cq_property c = pid \<and> cq_request c = rid \<and> cq_event c = ev \<and> cq_logical c = logical)
            \<lparr>cq_property = pid, cq_request = rid, cq_event = ev, cq_logical = logical\<rparr>) (\<lambda>_.
     ensure_financial_email ev logical pid rid cur)"

section \<open>The installment plan\<close>

record installment_dto =
  td_label :: string
  td_sort :: "int option"
  td_milestone :: milestone
  td_due :: "date option"
  td_fixed :: "money_value option"
  td_percentage :: "money_value option"

record terms =
  tm_label :: string
  tm_sort :: int
  tm_fixed :: "decimal option"
  tm_percentage :: "decimal option"
  tm_resolved :: decimal
  tm_milestone :: milestone
  tm_due :: "date option"

definition optional :: "('a \<Rightarrow> error + 'b) \<Rightarrow> 'a option \<Rightarrow> error + 'b option" where
  "optional f v = (case v of None \<Rightarrow> Inr None | Some x \<Rightarrow> sbind (f x) (\<lambda>y. Inr (Some y)))"

definition normalize_installment :: "booking_request \<Rightarrow> installment_dto \<Rightarrow> error + terms" where
  "normalize_installment rq dto =
     sbind (ensure (trim (td_label dto) \<noteq> []) (BadRequest ''An installment label is required'')) (\<lambda>_.
     sbind (ensure (\<not> (td_milestone dto = OnDate \<and> td_due dto = None))
              (BadRequest ''A due date is required for the date milestone'')) (\<lambda>_.
     sbind (ensure (\<not> (td_milestone dto \<noteq> OnDate \<and> td_due dto \<noteq> None))
              (BadRequest ''A due date is valid only for the date milestone'')) (\<lambda>_.
     sbind (optional positive_percentage (td_percentage dto)) (\<lambda>percentage.
     sbind (optional (\<lambda>v. positive_money v (rq_currency rq)) (td_fixed dto)) (\<lambda>fixed_amount.
     sbind (request_total rq) (\<lambda>tot.
     sbind (assert_ledger_currency_supported (rq_currency rq) BadRequest) (\<lambda>e.
     sbind (resolve_installment_amount \<lparr>ii_total = Some (Some tot), ii_accepted = None,
              ii_fixed = map_option Some fixed_amount, ii_percentage = map_option Some percentage,
              ii_allocated = None, ii_exponent = Some e\<rparr>) (\<lambda>resolved.
     Inr \<lparr>tm_label = trim (td_label dto), tm_sort = (case td_sort dto of None \<Rightarrow> 0 | Some n \<Rightarrow> n),
          tm_fixed = map_option cents fixed_amount, tm_percentage = map_option cents percentage,
          tm_resolved = cents resolved, tm_milestone = td_milestone dto,
          tm_due = (if td_milestone dto = OnDate then td_due dto else None)\<rparr>))))))))"

definition with_terms :: "terms \<Rightarrow> installment \<Rightarrow> installment" where
  "with_terms t x = x\<lparr>it_label := tm_label t, it_sort := tm_sort t, it_fixed := tm_fixed t,
     it_percentage := tm_percentage t, it_resolved := Some (tm_resolved t), it_milestone := tm_milestone t,
     it_due := tm_due t\<rparr>"

definition chargeable_total :: "booking_request \<Rightarrow> error \<Rightarrow> unit op" where
  "chargeable_total rq e = bnd (lift_result (request_total rq)) (\<lambda>t. guard (\<not> t \<le> 0) e)"

definition create_installment :: "timestamp \<Rightarrow> ident \<Rightarrow> ident \<Rightarrow> installment_dto \<Rightarrow> installment op" where
  "create_installment now rid pid dto = transact (
     bnd (find_request rid pid) (\<lambda>rq.
     bnd (lift_result (assert_not_denied rq)) (\<lambda>_.
     bnd (chargeable_total rq (Conflict ''A zero-total booking request cannot have installments'')) (\<lambda>_.
     bnd (lift_result (normalize_installment rq dto)) (\<lambda>t.
     bnd new_id (\<lambda>i.
     insert_row installments_update (with_terms t
       \<lparr>it_id = i, it_property = pid, it_request = rid, it_label = [], it_sort = 0, it_fixed = None,
        it_percentage = None, it_resolved = None, it_milestone = Manually, it_due = None, it_allocated = 0,
        it_status = InstallmentUnpaid, it_updated = now\<rparr>)))))))"

record installment_changes =
  tc_label :: "string option"
  tc_sort :: "int option"
  tc_milestone :: "milestone option"
  tc_due :: "date option"
  tc_fixed :: "money_value option"
  tc_percentage :: "money_value option"

definition or_else :: "'a option \<Rightarrow> 'a option \<Rightarrow> 'a option" where
  "or_else a b = (case a of None \<Rightarrow> b | Some x \<Rightarrow> Some x)"

definition merged_terms :: "installment_changes \<Rightarrow> installment \<Rightarrow> installment_dto" where
  "merged_terms inp x =
     (let milestone = (case tc_milestone inp of None \<Rightarrow> it_milestone x | Some m \<Rightarrow> m)
      in \<lparr>td_label = (case tc_label inp of None \<Rightarrow> it_label x | Some l \<Rightarrow> l),
          td_sort = Some (case tc_sort inp of None \<Rightarrow> it_sort x | Some n \<Rightarrow> n),
          td_milestone = milestone,
          td_due = (if milestone \<noteq> OnDate then None else or_else (tc_due inp) (it_due x)),
          td_fixed = (if tc_percentage inp \<noteq> None then None
                      else or_else (tc_fixed inp) (map_option Some (it_fixed x))),
          td_percentage = (if tc_fixed inp \<noteq> None then None
                           else or_else (tc_percentage inp) (map_option Some (it_percentage x)))\<rparr>)"

definition update_installment ::
  "timestamp \<Rightarrow> ident \<Rightarrow> ident \<Rightarrow> ident \<Rightarrow> installment_changes \<Rightarrow> installment op" where
  "update_installment now rid i pid inp = transact (
     bnd (find_request rid pid) (\<lambda>rq.
     bnd (lift_result (assert_not_denied rq)) (\<lambda>_.
     bnd (chargeable_total rq (Conflict ''A zero-total booking request cannot be allocated'')) (\<lambda>_.
     bnd (find_installment rid i pid) (\<lambda>existing.
     bnd (installment_allocation_total rid i pid) (\<lambda>persisted.
     bnd (lift_result (normalize_installment rq (merged_terms inp existing))) (\<lambda>t.
     bnd (guard (\<not> tm_resolved t < persisted)
            (Conflict ''Installment total cannot be below its durable allocation'')) (\<lambda>_.
     bnd (update_where installments installments_update (is_installment i pid rid)
            (\<lambda>x. (with_terms t x)\<lparr>it_allocated := cents persisted,
               it_status := installment_state persisted (tm_resolved t), it_updated := now\<rparr>)) (\<lambda>rows.
     require (first_row rows) (NotFound ''Installment not found''))))))))))"

datatype deletion = InstallmentDeleted ident | InstallmentTrimmed installment

definition delete_installment :: "timestamp \<Rightarrow> ident \<Rightarrow> ident \<Rightarrow> ident \<Rightarrow> deletion op" where
  "delete_installment now rid i pid = transact (
     bnd (find_request rid pid) (\<lambda>rq.
     bnd (lift_result (assert_not_denied rq)) (\<lambda>_.
     bnd (find_installment rid i pid) (\<lambda>existing.
     bnd (installment_allocation_total rid i pid) (\<lambda>persisted.
     if persisted = 0 then
       bnd (delete_where installments_update (is_installment i pid rid)) (\<lambda>_. ret (InstallmentDeleted i))
     else
       bnd (lift_result (resolved_installment_amount existing)) (\<lambda>resolved.
       bnd (guard (\<not> resolved \<le> persisted)
              (Conflict ''A fully allocated installment has no removable remainder'')) (\<lambda>_.
       bnd (update_where installments installments_update (is_installment i pid rid)
              (\<lambda>x. x\<lparr>it_fixed := Some (cents persisted), it_percentage := None, it_resolved := Some (cents persisted),
                 it_allocated := cents persisted, it_status := InstallmentPaid, it_updated := now\<rparr>)) (\<lambda>rows.
       bnd (require (first_row rows) (NotFound ''Installment not found'')) (\<lambda>x.
       ret (InstallmentTrimmed x))))))))))"

definition reorder_installments :: "timestamp \<Rightarrow> ident \<Rightarrow> ident \<Rightarrow> ident list \<Rightarrow> installment list op" where
  "reorder_installments now rid pid ids = transact (
     bnd (find_request rid pid) (\<lambda>rq.
     bnd (lift_result (assert_not_denied rq)) (\<lambda>_.
     bnd (ask (\<lambda>s. sel (\<lambda>x. it_property x = pid \<and> it_request x = rid) (installments s))) (\<lambda>rows.
     bnd (guard (\<not> (length (remdups ids) \<noteq> length ids \<or> length ids \<noteq> length rows \<or>
              list_ex (\<lambda>i. i \<notin> it_id ` set rows) ids))
            (BadRequest ''Installment reorder must contain the exact unique set belonging to the request'')) (\<lambda>_.
     bnd (for_each (enumerate 0 ids) (\<lambda>p.
            bnd (update_where installments installments_update (is_installment (snd p) pid rid)
              (\<lambda>x. x\<lparr>it_sort := int (fst p), it_updated := now\<rparr>)) (\<lambda>_. ret ()))) (\<lambda>_.
     ret (map (\<lambda>p. (the (find (\<lambda>x. it_id x = snd p) rows))\<lparr>it_sort := int (fst p), it_updated := now\<rparr>)
            (enumerate 0 ids))))))))"

definition list_installments :: "ident \<Rightarrow> ident \<Rightarrow> installment list op" where
  "list_installments rid pid =
     bnd (find_request rid pid) (\<lambda>_.
     ask (\<lambda>s. sort_key it_sort (sel (\<lambda>x. it_property x = pid \<and> it_request x = rid) (installments s))))"

definition list_request_payments ::
  "ident \<Rightarrow> ident \<Rightarrow> ((payment \<times> ledger_summary) list \<times> allocation list \<times> resolution list) op" where
  "list_request_payments rid pid =
     bnd (find_request rid pid) (\<lambda>_.
     ask (\<lambda>s. let movements = sel (payment_of_request rid pid) (payments s);
                 allocs = sel (allocation_of_request rid pid) (allocations s);
                 resols = sel (resolution_of_request rid pid) (resolutions s)
       in (map (\<lambda>y. (y, summarize_ledger y movements allocs resols)) movements, allocs, resols)))"

section \<open>Allocating a payment\<close>

definition insert_allocation :: "allocation \<Rightarrow> allocation op" where
  "insert_allocation a =
     bnd new_id (\<lambda>i.
     bnd (ask (\<lambda>s. sel (\<lambda>b. aa_payment b = aa_payment a \<and> aa_installment b = aa_installment a) (allocations s))) (\<lambda>clash.
     bnd (guard (clash = []) (Failure ''duplicate key'')) (\<lambda>_.
     insert_row allocations_update (a\<lparr>aa_id := i\<rparr>))))"

definition store_allocation ::
  "timestamp \<Rightarrow> ident \<Rightarrow> ident \<Rightarrow> ident \<Rightarrow> ident \<Rightarrow> decimal \<Rightarrow> allocation option \<Rightarrow> allocation op" where
  "store_allocation now rid pid yid i amount existing =
     (case existing of
        Some a \<Rightarrow>
          bnd (update_where allocations allocations_update (is_allocation (aa_id a) pid rid)
                 (\<lambda>b. b\<lparr>aa_amount := cents (aa_amount a + amount)\<rparr>)) (\<lambda>rows.
          ret (case first_row rows of None \<Rightarrow> a\<lparr>aa_amount := cents (aa_amount a + amount)\<rparr> | Some b \<Rightarrow> b))
      | None \<Rightarrow>
          insert_allocation \<lparr>aa_id = 0, aa_property = pid, aa_request = rid, aa_payment = yid, aa_installment = i,
            aa_amount = cents amount, aa_created = now\<rparr>)"

definition allocation_checks ::
  "decimal \<Rightarrow> ident \<Rightarrow> ident \<Rightarrow> allocation list \<Rightarrow> decimal \<Rightarrow> decimal \<Rightarrow> error + unit" where
  "allocation_checks amount yid i allocs movement installment =
     assert_allocation_amount
       \<lparr>ci_amount = Some amount, ci_movement = Some movement, ci_installment = Some installment,
        ci_already_movement = Some (Some (total aa_amount (filter (\<lambda>a. aa_payment a = yid) allocs))),
        ci_already_installment = Some (Some (total aa_amount (filter (\<lambda>a. aa_installment a = i) allocs))),
        ci_remaining_movement = None, ci_remaining_installment = None\<rparr>"

definition allocate_payment ::
  "timestamp \<Rightarrow> ident \<Rightarrow> ident \<Rightarrow> ident \<Rightarrow> ident \<Rightarrow> money_value \<Rightarrow> (allocation \<times> installment) op" where
  "allocate_payment now rid i pid yid value = transact (
     bnd (find_request rid pid) (\<lambda>rq.
     bnd (chargeable_total rq (Conflict ''A zero-total booking request cannot be allocated'')) (\<lambda>_.
     bnd (lift_result (assert_not_denied rq)) (\<lambda>_.
     bnd (find_parent_payment rid yid pid) (\<lambda>y.
     bnd (find_installment rid i pid) (\<lambda>x.
     bnd (guard (parent_status (y_status y)) (Conflict ''Only captured payment movements can be allocated'')) (\<lambda>_.
     bnd (lift_result (positive_money value (rq_currency rq))) (\<lambda>amount.
     bnd (lift_result (resolved_installment_amount x)) (\<lambda>resolved.
     bnd (payment_summary rid pid y) (\<lambda>summary.
     bnd (guard (\<not> ls_to_resolve summary \<le> 0) (Conflict ''Fully returned payment movement cannot be allocated'')) (\<lambda>_.
     bnd (ask (\<lambda>s. sel (allocation_of_request rid pid) (allocations s))) (\<lambda>allocs.
     bnd (lift_result (allocation_checks amount (y_id y) (it_id x) allocs (ls_to_resolve summary) resolved)) (\<lambda>_.
     bnd (store_allocation now rid pid (y_id y) (it_id x) amount
            (find (\<lambda>a. aa_payment a = y_id y \<and> aa_installment a = it_id x) allocs)) (\<lambda>a.
     bnd (installment_allocation_total rid (it_id x) pid) (\<lambda>allocated.
     bnd (update_where installments installments_update (is_installment (it_id x) pid rid)
            (\<lambda>z. z\<lparr>it_allocated := cents allocated, it_status := installment_state allocated resolved, it_updated := now\<rparr>)) (\<lambda>rows.
     ret (a, case first_row rows of
               Some z \<Rightarrow> z
             | None \<Rightarrow> x\<lparr>it_allocated := cents allocated, it_status := installment_state allocated resolved\<rparr>)))))))))))))))))"

section \<open>Replays\<close>

record expected_payment =
  ep_request :: ident
  ep_amount :: decimal
  ep_currency :: string
  ep_method :: payment_method
  ep_reference :: "string option"
  ep_original :: "ident option"
  ep_provider :: "string option option"
  ep_processed :: "timestamp option"
  ep_notes :: "string option option"
  ep_prefix :: "string option"

definition differs :: "'a option \<Rightarrow> ('a \<Rightarrow> bool) \<Rightarrow> bool" where
  "differs v same \<longleftrightarrow> (case v of None \<Rightarrow> False | Some x \<Rightarrow> \<not> same x)"

definition key_starts :: "payment \<Rightarrow> string \<Rightarrow> bool" where
  "key_starts y p \<longleftrightarrow> (case y_idempotency y of None \<Rightarrow> False | Some k \<Rightarrow> starts_with p k)"

definition assert_payment_replay :: "payment \<Rightarrow> expected_payment \<Rightarrow> error + unit" where
  "assert_payment_replay y e =
     ensure (\<not> (y_request y \<noteq> Some (ep_request e) \<or> y_amount y \<noteq> ep_amount e \<or>
         upper (y_currency y) \<noteq> upper (ep_currency e) \<or> y_method y \<noteq> ep_method e \<or>
         differs (ep_reference e) (\<lambda>v. y_transaction y = Some v) \<or> differs (ep_provider e) (\<lambda>v. y_provider y = v) \<or>
         differs (ep_processed e) (\<lambda>v. y_processed y = Some v) \<or> differs (ep_notes e) (\<lambda>v. y_notes y = v) \<or>
         differs (ep_prefix e) (key_starts y) \<or> differs (ep_original e) (\<lambda>v. y_original y = Some v)))
       (Conflict ''was already used for different payment data'')"

text \<open>\<open>insert(payments).onConflictDoNothing()\<close>.\<close>

definition insert_payment_unless_claimed :: "payment \<Rightarrow> payment option op" where
  "insert_payment_unless_claimed y =
     bnd (ask (\<lambda>s. sel (same_idempotency y) (payments s))) (\<lambda>clash.
     if clash = [] then bnd (insert_payment y) (\<lambda>row. ret (Some row)) else ret None)"

definition request_movement ::
  "timestamp \<Rightarrow> ident \<Rightarrow> booking_request \<Rightarrow> string \<Rightarrow> payment_method \<Rightarrow> payment_status \<Rightarrow> decimal \<Rightarrow> string \<Rightarrow> payment" where
  "request_movement now pid rq key m q amount currency =
     \<lparr>y_id = 0, y_property = pid, y_folio = rq_folio rq, y_house = None, y_request = Some (rq_id rq),
      y_idempotency = Some key, y_method = m, y_status = q, y_amount = amount, y_currency = currency,
      y_provider = None, y_transaction = None, y_is_preauth = False, y_preauth_expires = None,
      y_original = None, y_finalization = None, y_notes = None, y_processed = None, y_created = now\<rparr>"

definition request_payment_where :: "ident \<Rightarrow> ident \<Rightarrow> ident \<Rightarrow> payment \<Rightarrow> bool" where
  "request_payment_where i rid pid y \<longleftrightarrow> y_id y = i \<and> y_property y = pid \<and> y_request y = Some rid"

section \<open>Charging the saved card\<close>

record charge_request =
  cg_customer :: string
  cg_card :: string
  cg_payment :: ident
  cg_property :: ident
  cg_request :: ident
  cg_amount :: decimal
  cg_currency :: string
  cg_key :: string

record charge_result =
  cr_success :: bool
  cr_transaction :: string
  cr_requires_action :: bool
  cr_indeterminate :: bool
  cr_provider_status :: "string option"
  cr_error :: "string option"

type_synonym card_gateway = "charge_request \<Rightarrow> charge_result op"

definition charge_replay :: "ident \<Rightarrow> ident \<Rightarrow> booking_request \<Rightarrow> string \<Rightarrow> decimal \<Rightarrow> payment op" where
  "charge_replay rid pid rq key amount =
     bnd (find_payment_by_key pid key) (\<lambda>existing.
     bnd (lift_result (assert_payment_replay existing
            \<lparr>ep_request = rid, ep_amount = cents amount, ep_currency = rq_currency rq, ep_method = CreditCard,
             ep_reference = None, ep_original = None, ep_provider = None, ep_processed = None, ep_notes = None,
             ep_prefix = None\<rparr>)) (\<lambda>_.
     let folio = or_else (rq_folio rq) (y_folio existing) in
     bnd (if y_status existing = PayCaptured \<and> folio \<noteq> None \<and> y_folio existing \<noteq> folio
          then bnd (update_where payments payments_update (request_payment_where (y_id existing) rid pid)
                      (\<lambda>y. y\<lparr>y_folio := folio\<rparr>)) (\<lambda>rows.
               ret (case first_row rows of Some y \<Rightarrow> y | None \<Rightarrow> existing\<lparr>y_folio := folio\<rparr>))
          else ret existing) (\<lambda>current.
     bnd (if y_status existing = PayCaptured then recalculate_of folio pid else ret ()) (\<lambda>_.
     bnd (if y_status current = PayCaptured \<or> y_status current = PayFailed
          then ensure_financial_consequence
            (if y_status current = PayCaptured then ''payment.received'' else ''payment.failed'')
            (y_id current) pid rid (y_currency current)
          else ret ()) (\<lambda>_.
     ret current)))))"

definition prepare_charge ::
  "timestamp \<Rightarrow> ident \<Rightarrow> ident \<Rightarrow> string \<Rightarrow> money_value \<Rightarrow> (payment \<times> booking_request \<times> bool) op" where
  "prepare_charge now rid pid key value = transact (
     bnd (find_request rid pid) (\<lambda>rq.
     bnd (lift_result (assert_not_denied rq)) (\<lambda>_.
     bnd (lift_result (positive_money value (rq_currency rq))) (\<lambda>amount.
     bnd (chargeable_total rq (Conflict ''A zero-total booking request cannot be charged'')) (\<lambda>_.
     bnd (guard (\<not> (falsy (rq_customer rq) \<or> falsy (rq_card rq)))
            (Conflict ''The booking request has no saved payment method'')) (\<lambda>_.
     bnd (insert_payment_unless_claimed
            ((request_movement now pid rq key CreditCard PayPending (cents amount) (rq_currency rq))
               \<lparr>y_provider := Some ''stripe'', y_notes := Some ''Staff-initiated Booking Request saved-card charge''\<rparr>))
       (\<lambda>created.
     case created of
       Some y \<Rightarrow> ret (y, rq, True)
     | None \<Rightarrow> bnd (charge_replay rid pid rq key amount) (\<lambda>y. ret (y, rq, False)))))))))"

text \<open>The answer is missing or not final: the row stays pending, and the caller is told to retry.\<close>

definition note_pending_charge :: "ident \<Rightarrow> ident \<Rightarrow> ident \<Rightarrow> string option \<Rightarrow> string \<Rightarrow> unit op" where
  "note_pending_charge rid pid i transaction note_text = transact (
     bnd (find_request rid pid) (\<lambda>rq.
     bnd (lift_result (assert_not_denied rq)) (\<lambda>_.
     bnd (find_movement i pid) (\<lambda>existing.
     if y_status existing \<noteq> PayPending then ret ()
     else
       bnd (update_where payments payments_update
              (\<lambda>y. request_payment_where (y_id existing) rid pid y \<and> y_status y = PayPending)
              (\<lambda>y. y\<lparr>y_transaction := or_text transaction (y_transaction existing), y_notes := Some note_text\<rparr>))
         (\<lambda>_. ret ())))))"

definition finalize_charge :: "timestamp \<Rightarrow> ident \<Rightarrow> ident \<Rightarrow> ident \<Rightarrow> charge_result \<Rightarrow> payment op" where
  "finalize_charge now rid pid i result = transact (
     bnd (find_request rid pid) (\<lambda>rq.
     bnd (lift_result (assert_not_denied rq)) (\<lambda>_.
     bnd (find_movement i pid) (\<lambda>existing.
     if y_status existing \<noteq> PayPending then ret existing
     else
       let changes = (\<lambda>y. y\<lparr>y_status := (if cr_success result then PayCaptured else PayFailed),
             y_folio := rq_folio rq, y_transaction := or_null (cr_transaction result),
             y_processed := (if cr_success result then Some now else None),
             y_notes := Some (if cr_success result then ''Staff-initiated Booking Request saved-card charge captured''
               else if cr_requires_action result
               then ''Payment failed: additional authentication is required; no recovery link is available''
               else ''Payment failed: '' @
                 (case cr_error result of None \<Rightarrow> ''Gateway declined the charge'' | Some e \<Rightarrow> e))\<rparr>) in
       bnd (update_where payments payments_update
              (\<lambda>y. request_payment_where (y_id existing) rid pid y \<and> y_status y = PayPending) changes) (\<lambda>rows.
       let updated = (case first_row rows of Some y \<Rightarrow> y | None \<Rightarrow> changes existing) in
       bnd (ensure_financial_consequence (if cr_success result then ''payment.received'' else ''payment.failed'')
              (y_id updated) pid rid (y_currency updated)) (\<lambda>_.
       bnd (if cr_success result then recalculate_of (y_folio updated) pid else ret ()) (\<lambda>_.
       ret updated)))))))"

definition charge_saved_card ::
  "hashes \<Rightarrow> card_gateway \<Rightarrow> timestamp \<Rightarrow> timestamp \<Rightarrow> ident \<Rightarrow> ident \<Rightarrow> money_value \<Rightarrow> string \<Rightarrow> payment op" where
  "charge_saved_card hs g now later rid pid value identity =
     bnd (lift_result (scoped_key hs ''charge'' pid identity)) (\<lambda>key.
     bnd (prepare_charge now rid pid key value) (\<lambda>(y, rq, is_new).
     if \<not> is_new \<and> y_status y \<noteq> PayPending then ret y
     else
       bnd (handle
              (bnd (g \<lparr>cg_customer = the (rq_customer rq), cg_card = the (rq_card rq), cg_payment = y_id y,
                   cg_property = pid, cg_request = rid, cg_amount = y_amount y, cg_currency = y_currency y,
                   cg_key = key\<rparr>) (\<lambda>result. ret (Some result)))
              (\<lambda>e. bnd (note_pending_charge rid pid (y_id y) None
                    (''Gateway result unknown; retry with the same payment identity. '' @ take 500 (error_text e)))
                  (\<lambda>_. ret None))) (\<lambda>answer.
       case answer of
         None \<Rightarrow> throw (Failure ''Saved-card gateway result is unknown; retry with the same idempotency key'')
       | Some result \<Rightarrow>
           if cr_indeterminate result then
             bnd (note_pending_charge rid pid (y_id y) (Some (cr_transaction result))
                    (''Gateway result pending ('' @ (case cr_provider_status result of None \<Rightarrow> ''unknown'' | Some q \<Rightarrow> q) @
                     ''); retry with the same payment identity'')) (\<lambda>_.
             throw (Failure ''Saved-card gateway result is pending; retry with the same idempotency key''))
           else finalize_charge later rid pid (y_id y) result)))"

section \<open>Payments recorded from outside\<close>

record external_payment =
  xp_amount :: money_value
  xp_currency :: string
  xp_method :: payment_method
  xp_processed :: "timestamp option"
  xp_provider :: "string option"
  xp_reference :: string
  xp_notes :: "string option"

text \<open>\<open>input.notes?.trim() || null\<close>.\<close>

definition trimmed :: "string option \<Rightarrow> string option" where
  "trimmed v = (case v of None \<Rightarrow> None | Some x \<Rightarrow> or_null (trim x))"

definition external_methods :: "payment_method list" where
  "external_methods = [CreditCard, DebitCard, Cash, BankTransfer, Pix, OtherMethod]"

definition record_external_payment ::
  "hashes \<Rightarrow> timestamp \<Rightarrow> ident \<Rightarrow> ident \<Rightarrow> external_payment \<Rightarrow> payment op" where
  "record_external_payment hs now rid pid inp =
     (let reference = trim (xp_reference inp);
          provider = (case trimmed (xp_provider inp) of None \<Rightarrow> ''external'' | Some p \<Rightarrow> p);
          currency = upper (trim (xp_currency inp)) in
     bnd (guard (reference \<noteq> []) (BadRequest ''An external payment reference is required'')) (\<lambda>_.
     bnd (lift_result (scoped_key hs ''external'' pid reference)) (\<lambda>key.
     transact (
       bnd (find_request rid pid) (\<lambda>rq.
       bnd (lift_result (assert_not_denied rq)) (\<lambda>_.
       bnd (chargeable_total rq (Conflict ''A zero-total booking request cannot receive payments'')) (\<lambda>_.
       bnd (guard (\<not> currency \<noteq> upper (rq_currency rq)) (Conflict ''External payment currency does not match'')) (\<lambda>_.
       bnd (guard (xp_method inp \<in> set external_methods) (BadRequest ''Unsupported external payment method'')) (\<lambda>_.
       bnd (lift_result (positive_money (xp_amount inp) currency)) (\<lambda>amount.
       bnd (lift_result (processed_date now (xp_processed inp))) (\<lambda>processed.
       bnd (insert_payment_unless_claimed
              ((request_movement now pid rq key (xp_method inp) PayCaptured (cents amount) currency)
                 \<lparr>y_provider := Some provider, y_transaction := Some reference, y_notes := trimmed (xp_notes inp),
                  y_processed := Some processed\<rparr>)) (\<lambda>created.
       case created of
         None \<Rightarrow>
           bnd (find_payment_by_key pid key) (\<lambda>existing.
           bnd (lift_result (assert_payment_replay existing
                  \<lparr>ep_request = rid, ep_amount = cents amount, ep_currency = currency, ep_method = xp_method inp,
                   ep_reference = Some reference, ep_original = None, ep_provider = Some (Some provider),
                   ep_processed = Some processed, ep_notes = Some (trimmed (xp_notes inp)),
                   ep_prefix = Some ''booking-request-external:''\<rparr>)) (\<lambda>_.
           bnd (recalculate_of (y_folio existing) pid) (\<lambda>_.
           bnd (ensure_financial_consequence ''payment.received'' (y_id existing) pid rid (y_currency existing)) (\<lambda>_.
           ret existing))))
       | Some y \<Rightarrow>
           bnd (ensure_financial_consequence ''payment.received'' (y_id y) pid rid (y_currency y)) (\<lambda>_.
           bnd (recalculate_of (y_folio y) pid) (\<lambda>_.
           ret y))))))))))))))"

section \<open>Refunds\<close>

text \<open>The unique index on a property's provider transactions, checked when a claim is written.\<close>

definition write_resolution :: "ident \<Rightarrow> ident \<Rightarrow> string option \<Rightarrow> (resolution \<Rightarrow> resolution) \<Rightarrow> resolution list op" where
  "write_resolution i pid transaction f =
     bnd (ask (\<lambda>s. sel (\<lambda>r. rz_id r \<noteq> i \<and> rz_property r = pid \<and> rz_transaction r = transaction \<and> transaction \<noteq> None)
            (resolutions s))) (\<lambda>clash.
     bnd (guard (clash = []) (Failure ''duplicate key'')) (\<lambda>_.
     update_where resolutions resolutions_update
       (\<lambda>r. rz_id r = i \<and> rz_property r = pid \<and> rz_status r = ResolutionPending)
       (\<lambda>r. (f r)\<lparr>rz_transaction := transaction\<rparr>)))"

definition insert_resolution :: "resolution \<Rightarrow> resolution op" where
  "insert_resolution r =
     bnd new_id (\<lambda>i.
     bnd (ask (\<lambda>s. sel (\<lambda>q. rz_property q = rz_property r \<and> rz_key q = rz_key r \<and> rz_key r \<noteq> None) (resolutions s))) (\<lambda>clash.
     bnd (guard (clash = []) (Failure ''duplicate key'')) (\<lambda>_.
     insert_row resolutions_update (r\<lparr>rz_id := i, rz_amount := cents (rz_amount r)\<rparr>))))"

text \<open>What a finished refund repeats whenever it is asked for again.\<close>

definition settle_movement :: "timestamp \<Rightarrow> ident \<Rightarrow> ident \<Rightarrow> payment \<Rightarrow> payment \<Rightarrow> unit op" where
  "settle_movement now rid pid original movement =
     bnd (reconcile_request_allocations now rid pid original) (\<lambda>_.
     bnd (recalculate_of (y_folio movement) pid) (\<lambda>_.
     ensure_financial_consequence ''payment.refunded'' (y_id movement) pid rid (y_currency original)))"

datatype refund_claim = RefundDone payment resolution | RefundOpen payment decimal resolution

definition refund_replay :: "timestamp \<Rightarrow> ident \<Rightarrow> ident \<Rightarrow> payment \<Rightarrow> decimal \<Rightarrow> string \<Rightarrow> resolution \<Rightarrow> refund_claim op" where
  "refund_replay now rid pid original amount fp replay =
     bnd (guard (\<not> rz_print replay \<noteq> Some fp)
            (Conflict ''Refund idempotency key was already used for different financial data'')) (\<lambda>_.
     case (if rz_status replay = ResolutionCompleted then rz_movement replay else None) of
       Some m \<Rightarrow>
         bnd (find_movement m pid) (\<lambda>movement.
         bnd (settle_movement now rid pid original movement) (\<lambda>_.
         ret (RefundDone movement replay)))
     | None \<Rightarrow>
         if rz_status replay = ResolutionFailed
         then throw (Conflict (case rz_error replay of None \<Rightarrow> ''Refund was declined by the gateway'' | Some e \<Rightarrow> e))
         else ret (RefundOpen original amount replay))"

definition claim_refund ::
  "hashes \<Rightarrow> timestamp \<Rightarrow> ident option \<Rightarrow> ident \<Rightarrow> ident \<Rightarrow> ident \<Rightarrow> string \<Rightarrow> money_value \<Rightarrow> refund_claim op" where
  "claim_refund hs now actor rid yid pid key value = transact (
     bnd (find_request rid pid) (\<lambda>rq.
     bnd (lift_result (assert_not_denied rq)) (\<lambda>_.
     bnd (find_parent_payment rid yid pid) (\<lambda>original.
     bnd (guard (key_starts original ''booking-request-charge:'')
            (Conflict ''Externally recorded payments must use the external return operation'')) (\<lambda>_.
     bnd (guard (\<not> (falsy (y_transaction original) \<or> y_method original \<noteq> CreditCard))
            (Conflict ''Only a captured gateway card payment can be refunded'')) (\<lambda>_.
     bnd (lift_result (positive_money value (y_currency original))) (\<lambda>amount.
     let fp = hs_print hs \<lparr>fp_property = pid, fp_request = rid, fp_payment = yid, fp_amount = cents amount,
                fp_currency = upper (y_currency original), fp_transaction = the (y_transaction original)\<rparr> in
     bnd (ask (\<lambda>s. first_row (sel (resolution_key_is pid key) (resolutions s)))) (\<lambda>replay.
     case replay of
       Some r \<Rightarrow> refund_replay now rid pid original amount fp r
     | None \<Rightarrow>
         bnd (assert_resolution_capacity rid pid original amount) (\<lambda>_.
         bnd (insert_resolution
                \<lparr>rz_id = 0, rz_property = pid, rz_request = rid, rz_payment = yid, rz_type = RefundResolution,
                 rz_status = ResolutionPending, rz_amount = amount, rz_key = Some key, rz_print = Some fp,
                 rz_transaction = None, rz_provider_status = None, rz_movement = None,
                 rz_reason = Some ''Gateway refund pending'', rz_attempts = 0, rz_error = None, rz_by = actor,
                 rz_resolved_at = None\<rparr>) (\<lambda>claim.
         ret (RefundOpen original amount claim)))))))))))"

definition record_unknown_attempt ::
  "ident \<Rightarrow> ident \<Rightarrow> ident \<Rightarrow> ident \<Rightarrow> string \<Rightarrow> string option \<Rightarrow> string option \<Rightarrow> unit op" where
  "record_unknown_attempt rid pid yid i message transaction status = transact (
     bnd (find_request rid pid) (\<lambda>rq.
     bnd (lift_result (assert_not_denied rq)) (\<lambda>_.
     bnd (find_parent_payment rid yid pid) (\<lambda>_.
     bnd (find_resolution rid yid i pid) (\<lambda>claim.
     if rz_status claim \<noteq> ResolutionPending then ret ()
     else
       bnd (write_resolution i pid (or_text transaction (or_text (rz_transaction claim) None))
              (\<lambda>r. r\<lparr>rz_attempts := rz_attempts claim + 1, rz_error := Some (take 500 message),
                 rz_provider_status := or_text status (or_text (rz_provider_status claim) (Some ''unknown''))\<rparr>))
         (\<lambda>_. ret ()))))))"

definition finalize_failed_refund ::
  "timestamp \<Rightarrow> ident \<Rightarrow> ident \<Rightarrow> ident \<Rightarrow> ident \<Rightarrow> string \<Rightarrow> string option \<Rightarrow> string option \<Rightarrow> unit op" where
  "finalize_failed_refund now rid pid yid i message transaction status = transact (
     bnd (find_request rid pid) (\<lambda>rq.
     bnd (lift_result (assert_not_denied rq)) (\<lambda>_.
     bnd (find_parent_payment rid yid pid) (\<lambda>parent.
     bnd (find_resolution rid yid i pid) (\<lambda>claim.
     if rz_status claim \<noteq> ResolutionPending then ret ()
     else
       bnd (write_resolution i pid (or_text transaction (or_text (rz_transaction claim) None))
              (\<lambda>r. r\<lparr>rz_status := ResolutionFailed, rz_attempts := rz_attempts claim + 1,
                 rz_error := Some (take 500 message),
                 rz_provider_status := or_text status (or_text (rz_provider_status claim) (Some ''failed'')),
                 rz_resolved_at := Some now\<rparr>)) (\<lambda>_.
       ensure_financial_consequence ''payment.failed'' (rz_id claim) pid rid (y_currency parent)))))))"

definition refund_movement ::
  "timestamp \<Rightarrow> ident \<Rightarrow> booking_request \<Rightarrow> payment \<Rightarrow> string \<Rightarrow> decimal \<Rightarrow> string option \<Rightarrow> string option \<Rightarrow> timestamp \<Rightarrow> payment" where
  "refund_movement now pid rq original key amount transaction notes processed =
     (request_movement now pid rq key (y_method original) PayCaptured (- amount) (y_currency original))
       \<lparr>y_provider := y_provider original, y_transaction := transaction, y_original := Some (y_id original),
        y_notes := notes, y_processed := Some processed\<rparr>"

definition complete_claim :: "timestamp \<Rightarrow> ident \<Rightarrow> resolution \<Rightarrow> payment \<Rightarrow> gateway_result \<Rightarrow> resolution op" where
  "complete_claim now pid claim movement result =
     (let f = (\<lambda>r. r\<lparr>rz_status := ResolutionCompleted, rz_movement := Some (y_id movement),
            rz_provider_status := Some (provider_text (case gr_status result of None \<Rightarrow> Succeeded | Some q \<Rightarrow> q)),
            rz_reason := Some (''Gateway refund movement '' @ uuid_text (y_id movement)),
            rz_attempts := rz_attempts claim + 1, rz_error := None, rz_resolved_at := Some now\<rparr>) in
     bnd (write_resolution (rz_id claim) pid (Some (gr_transaction result)) f) (\<lambda>rows.
     ret (case first_row rows of Some r \<Rightarrow> r
       | None \<Rightarrow> (f claim)\<lparr>rz_provider_status := rz_provider_status claim\<rparr>)))"

definition finalize_captured_refund ::
  "timestamp \<Rightarrow> ident \<Rightarrow> ident \<Rightarrow> ident \<Rightarrow> ident \<Rightarrow> string \<Rightarrow> gateway_result \<Rightarrow> (payment \<times> resolution) op" where
  "finalize_captured_refund now rid pid yid i key result = transact (
     bnd (find_request rid pid) (\<lambda>rq.
     bnd (lift_result (assert_not_denied rq)) (\<lambda>_.
     bnd (find_parent_payment rid yid pid) (\<lambda>original.
     bnd (find_resolution rid yid i pid) (\<lambda>claim.
     case (if rz_status claim = ResolutionCompleted then rz_movement claim else None) of
       Some m \<Rightarrow>
         bnd (find_movement m pid) (\<lambda>movement.
         bnd (settle_movement now rid pid original movement) (\<lambda>_.
         ret (movement, claim)))
     | None \<Rightarrow>
         bnd (guard (rz_status claim = ResolutionPending) (Conflict ''Refund claim cannot be finalized'')) (\<lambda>_.
         bnd (insert_payment (refund_movement now pid rq original key (rz_amount claim) (Some (gr_transaction result))
                (Some (''Refund of Booking Request payment '' @ uuid_text (y_id original))) now)) (\<lambda>movement.
         bnd (complete_claim now pid claim movement result) (\<lambda>resolution.
         bnd (ensure_financial_consequence ''payment.refunded'' (y_id movement) pid rid (y_currency original)) (\<lambda>_.
         bnd (reconcile_request_allocations now rid pid original) (\<lambda>_.
         bnd (recalculate_of (y_folio movement) pid) (\<lambda>_.
         ret (movement, resolution))))))))))))"

text \<open>The second half of \<open>refund\<close>, from the gateway's answer on.\<close>

definition finish_request_refund ::
  "timestamp \<Rightarrow> ident \<Rightarrow> ident \<Rightarrow> ident \<Rightarrow> string \<Rightarrow> resolution \<Rightarrow> gateway_result \<Rightarrow> (payment \<times> resolution) op" where
  "finish_request_refund now rid yid pid key claim result =
     (let status = (case gr_status result of None \<Rightarrow> if gr_success result then Succeeded else ProviderFailed | Some q \<Rightarrow> q) in
      if status \<in> {ProviderPending, RequiresAction, UnknownStatus} then
        bnd (record_unknown_attempt rid pid yid (rz_id claim)
               (case gr_error result of None \<Rightarrow> ''Gateway refund is '' @ provider_text status | Some e \<Rightarrow> e)
               (Some (gr_transaction result)) (Some (provider_text status))) (\<lambda>_.
        throw (Failure ''Gateway refund is not final; retry with the same idempotency key''))
      else if \<not> gr_success result \<or> status \<noteq> Succeeded then
        bnd (finalize_failed_refund now rid pid yid (rz_id claim)
               (case gr_error result of None \<Rightarrow> ''Gateway declined the refund'' | Some e \<Rightarrow> e)
               (Some (gr_transaction result)) (Some (provider_text status))) (\<lambda>_.
        throw (Conflict ''Refund failed''))
      else finalize_captured_refund now rid pid yid (rz_id claim) key result)"

definition refund_request_payment ::
  "hashes \<Rightarrow> gateway \<Rightarrow> timestamp \<Rightarrow> timestamp \<Rightarrow> ident option \<Rightarrow> ident \<Rightarrow> ident \<Rightarrow> ident \<Rightarrow> money_value \<Rightarrow> string \<Rightarrow>
   (payment \<times> resolution) op" where
  "refund_request_payment hs g now later actor rid yid pid value identity =
     bnd (lift_result (scoped_key hs ''refund'' pid identity)) (\<lambda>key.
     bnd (claim_refund hs now actor rid yid pid key value) (\<lambda>prepared.
     case prepared of
       RefundDone movement r \<Rightarrow> ret (movement, r)
     | RefundOpen original amount claim \<Rightarrow>
         bnd (handle
                (bnd (gw_refund g (y_transaction original) amount (CallerKey key)) (\<lambda>result. ret (Some result)))
                (\<lambda>e. bnd (record_unknown_attempt rid pid yid (rz_id claim) (error_text e) None None) (\<lambda>_. ret None))) (\<lambda>answer.
         case answer of
           None \<Rightarrow> throw (Failure ''Gateway refund result is unknown; retry with the same idempotency key'')
         | Some result \<Rightarrow> finish_request_refund later rid yid pid key claim result)))"

section \<open>Returns outside the gateway and retained money\<close>

record resolution_input =
  ri_type :: resolution_type
  ri_amount :: decimal
  ri_reason :: string
  ri_marker :: "ident option"
  ri_movement :: "ident option"

definition marked :: "ident \<Rightarrow> resolution \<Rightarrow> bool" where
  "marked m r \<longleftrightarrow> (case rz_reason r of None \<Rightarrow> False | Some t \<Rightarrow> contains (uuid_text m) t)"

definition ensure_resolution ::
  "timestamp \<Rightarrow> ident option \<Rightarrow> ident \<Rightarrow> ident \<Rightarrow> ident \<Rightarrow> resolution_input \<Rightarrow> resolution op" where
  "ensure_resolution now actor rid pid yid inp =
     bnd (ask (\<lambda>s. case ri_marker inp of
              None \<Rightarrow> None
            | Some m \<Rightarrow> find (\<lambda>r. rz_payment r = yid \<and> rz_type r = ri_type inp \<and> marked m r)
                (sel (resolution_of_request rid pid) (resolutions s)))) (\<lambda>existing.
     case existing of
       Some r \<Rightarrow>
         if ri_type inp = ExternalReturn then
           bnd (guard (rz_movement r \<noteq> None)
                  (Conflict ''Existing external return resolution is missing canonical movement provenance'')) (\<lambda>_.
           bnd (guard (\<not> (ri_movement inp \<noteq> None \<and> rz_movement r \<noteq> ri_movement inp))
                  (Conflict ''External return resolution movement does not match replay'')) (\<lambda>_.
           ret r))
         else ret r
     | None \<Rightarrow>
         insert_resolution
           \<lparr>rz_id = 0, rz_property = pid, rz_request = rid, rz_payment = yid, rz_type = ri_type inp,
            rz_status = ResolutionCompleted, rz_amount = ri_amount inp, rz_key = None, rz_print = None,
            rz_transaction = None, rz_provider_status = None, rz_movement = ri_movement inp,
            rz_reason = Some (ri_reason inp), rz_attempts = 0, rz_error = None, rz_by = actor,
            rz_resolved_at = Some now\<rparr>)"

record external_return =
  xr_amount :: money_value
  xr_processed :: "timestamp option"
  xr_reference :: string
  xr_notes :: "string option"

definition return_resolution :: "payment \<Rightarrow> decimal \<Rightarrow> resolution_input" where
  "return_resolution movement amount =
     \<lparr>ri_type = ExternalReturn, ri_amount = cents amount,
      ri_reason = ''External return movement '' @ uuid_text (y_id movement),
      ri_marker = Some (y_id movement), ri_movement = Some (y_id movement)\<rparr>"

definition record_external_return ::
  "hashes \<Rightarrow> timestamp \<Rightarrow> ident option \<Rightarrow> ident \<Rightarrow> ident \<Rightarrow> ident \<Rightarrow> external_return \<Rightarrow> (payment \<times> resolution) op" where
  "record_external_return hs now actor rid yid pid inp =
     (let reference = trim (xr_reference inp) in
     bnd (lift_result (processed_date now (xr_processed inp))) (\<lambda>processed.
     bnd (guard (reference \<noteq> []) (BadRequest ''An external return reference is required'')) (\<lambda>_.
     bnd (lift_result (scoped_key hs ''external-return'' pid reference)) (\<lambda>key.
     transact (
       bnd (find_request rid pid) (\<lambda>rq.
       bnd (lift_result (assert_not_denied rq)) (\<lambda>_.
       bnd (find_parent_payment rid yid pid) (\<lambda>original.
       bnd (guard (key_starts original ''booking-request-external:'')
              (Conflict ''Gateway payments must use the refund operation'')) (\<lambda>_.
       bnd (lift_result (positive_money (xr_amount inp) (y_currency original))) (\<lambda>amount.
       let notes = or_text (trimmed (xr_notes inp)) (Some (''External return of payment '' @ uuid_text (y_id original))) in
       bnd (ask (\<lambda>s. first_row (sel (has_key pid key) (payments s)))) (\<lambda>replay.
       case replay of
         Some existing \<Rightarrow>
           bnd (lift_result (assert_payment_replay existing
                  \<lparr>ep_request = rid, ep_amount = cents (- amount), ep_currency = y_currency original,
                   ep_method = y_method original, ep_reference = Some reference, ep_original = Some (y_id original),
                   ep_provider = Some (y_provider original), ep_processed = Some processed, ep_notes = Some notes,
                   ep_prefix = Some ''booking-request-external-return:''\<rparr>)) (\<lambda>_.
           bnd (ensure_resolution now actor rid pid yid (return_resolution existing amount)) (\<lambda>r.
           bnd (settle_movement now rid pid original existing) (\<lambda>_.
           ret (existing, r))))
       | None \<Rightarrow>
           bnd (assert_resolution_capacity rid pid original amount) (\<lambda>_.
           bnd (insert_payment (refund_movement now pid rq original key amount (Some reference) notes processed)) (\<lambda>movement.
           bnd (ensure_resolution now actor rid pid yid (return_resolution movement amount)) (\<lambda>r.
           bnd (ensure_financial_consequence ''payment.refunded'' (y_id movement) pid rid (y_currency original)) (\<lambda>_.
           bnd (reconcile_request_allocations now rid pid original) (\<lambda>_.
           bnd (recalculate_of (y_folio movement) pid) (\<lambda>_.
           ret (movement, r))))))))))))))))))"

definition retain_for_denial ::
  "timestamp \<Rightarrow> ident option \<Rightarrow> ident \<Rightarrow> ident \<Rightarrow> ident \<Rightarrow> money_value \<Rightarrow> string \<Rightarrow> resolution op" where
  "retain_for_denial now actor rid yid pid value text_given =
     (let reason = trim text_given in
     bnd (guard (reason \<noteq> []) (BadRequest ''A reason is required for retained money'')) (\<lambda>_.
     transact (
       bnd (find_request rid pid) (\<lambda>rq.
       bnd (guard (rq_status rq = RequestPending) (Conflict ''Money may be retained only for a pending request'')) (\<lambda>_.
       bnd (find_parent_payment rid yid pid) (\<lambda>original.
       bnd (lift_result (positive_money value (y_currency original))) (\<lambda>amount.
       bnd (ask (\<lambda>s. find (\<lambda>r. rz_payment r = yid \<and> rz_type r = RetainedMoney \<and> rz_amount r = amount \<and>
                map_option trim (rz_reason r) = Some reason) (sel (resolution_of_request rid pid) (resolutions s)))) (\<lambda>existing.
       case existing of
         Some r \<Rightarrow> ret r
       | None \<Rightarrow>
           bnd (assert_resolution_capacity rid pid original amount) (\<lambda>_.
           ensure_resolution now actor rid pid yid
             \<lparr>ri_type = RetainedMoney, ri_amount = cents amount, ri_reason = reason, ri_marker = None,
              ri_movement = None\<rparr>)))))))))"

end
