(* ===== verification/Request_Accounts.thy ===== *)
theory Request_Accounts
  imports Request_Payment Payment_Facts
begin

text \<open>
  The accounts of a booking request's payments: for each payment what came in (\<open>capacity\<close>), what went
  back (\<open>given_back\<close>), what is promised or settled without a movement (\<open>claimed\<close>) and what pays for
  installments (\<open>allocated\<close>), and for each installment what its allocations add up to. The invariant
  \<open>request_money\<close> says that the money of a payment is never given away twice and that every
  installment states what is paid on it. This theory shows how each write changes the accounts.
\<close>

section \<open>The plan of a reconciliation\<close>

lemma planned_kept:
  "aa_id a \<notin> aa_id ` set xs \<Longrightarrow> planned (fold plan_step xs p) a = planned p a"
  by (induction xs arbitrary: p) (simp_all add: planned_def plan_step_def Let_def)

lemma plan_fold:
  assumes "distinct (map aa_id xs)" and "0 \<le> pl_left p" and "fits 2 (pl_left p)"
    and "\<And>a. a \<in> set xs \<Longrightarrow> 0 < aa_amount a \<and> fits 2 (aa_amount a)"
  shows "total (planned (fold plan_step xs p)) xs = min (pl_left p) (total aa_amount xs) \<and>
    (\<forall>a \<in> set xs. 0 \<le> planned (fold plan_step xs p) a \<and> planned (fold plan_step xs p) a \<le> aa_amount a \<and>
       fits 2 (planned (fold plan_step xs p) a))"
  using assms
proof (induction xs arbitrary: p)
  case Nil
  then show ?case by simp
next
  case (Cons a xs)
  let ?q = "plan_step a p" and ?kept = "min (aa_amount a) (pl_left p)"
  let ?r = "fold plan_step xs ?q"
  have a: "0 < aa_amount a" "fits 2 (aa_amount a)" and kept: "fits 2 ?kept"
    using Cons.prems(4) [of a] Cons.prems(3) by auto
  have left: "pl_left ?q = pl_left p - ?kept" "0 \<le> pl_left ?q" "fits 2 (pl_left ?q)"
    using Cons.prems(2,3) a kept by (auto simp: plan_step_def Let_def)
  have own: "planned ?r a = ?kept"
    using Cons.prems(1) kept by (simp add: planned_kept) (simp add: planned_def plan_step_def Let_def to_fixed_id)
  have "distinct (map aa_id xs)" using Cons.prems(1) by simp
  from Cons.IH [OF this left(2,3)] Cons.prems(4)
  have rest: "total (planned ?r) xs = min (pl_left ?q) (total aa_amount xs)"
    and each: "\<forall>b \<in> set xs. 0 \<le> planned ?r b \<and> planned ?r b \<le> aa_amount b \<and> fits 2 (planned ?r b)"
    by auto
  have "0 \<le> total aa_amount xs" using Cons.prems(4) by (intro total_nonneg) (simp add: less_imp_le)
  then have "planned ?r a + total (planned ?r) xs = min (pl_left p) (aa_amount a + total aa_amount xs)"
    using a(1) Cons.prems(2) unfolding own rest left(1) by (auto simp: min_def)
  with each own kept a(1) Cons.prems(2) show ?case by auto
qed

lemma oldest_first_set [simp]: "set (oldest_first xs) = set xs"
  by (simp add: oldest_first_def)

lemma sum_list_sort_key: "sum_list (map f (sort_key k xs)) = (sum_list (map f xs) :: decimal)"
proof -
  have "mset (map f (sort_key k xs)) = mset (map f xs)" by simp
  then show ?thesis by (metis sum_mset_sum_list)
qed

lemma oldest_first_total [simp]: "total f (oldest_first xs) = total f xs"
  by (simp add: oldest_first_def total_eq sum_list_sort_key)

lemma oldest_first_distinct [simp]: "distinct (map aa_id (oldest_first xs)) = distinct (map aa_id xs)"
proof -
  have "mset (map aa_id (oldest_first xs)) = mset (map aa_id xs)" by (simp add: oldest_first_def)
  then show ?thesis by (rule mset_eq_imp_distinct_iff)
qed

text \<open>What survives of a payment's allocations: together the least of their sum and what is left.\<close>

lemma plan_exact:
  assumes "distinct (map aa_id xs)" and "fits 2 net"
    and "\<And>a. a \<in> set xs \<Longrightarrow> 0 < aa_amount a \<and> fits 2 (aa_amount a)"
  defines "p \<equiv> plan_net_allocation_reconciliation net xs"
  shows "total (planned p) xs = min (max net 0) (total aa_amount xs)"
    and "\<And>a. a \<in> set xs \<Longrightarrow> 0 \<le> planned p a \<and> planned p a \<le> aa_amount a \<and> fits 2 (planned p a)"
proof -
  have "total (planned p) (oldest_first xs) = min (max net 0) (total aa_amount (oldest_first xs)) \<and>
      (\<forall>a \<in> set (oldest_first xs). 0 \<le> planned p a \<and> planned p a \<le> aa_amount a \<and> fits 2 (planned p a))"
    unfolding p_def plan_net_allocation_reconciliation_def
    using plan_fold [of "oldest_first xs" "\<lparr>pl_left = max net 0, pl_amounts = Map.empty, pl_totals = Map.empty\<rparr>"]
      assms(1-3) by simp
  then show "total (planned p) xs = min (max net 0) (total aa_amount xs)"
    and "\<And>a. a \<in> set xs \<Longrightarrow> 0 \<le> planned p a \<and> planned p a \<le> aa_amount a \<and> fits 2 (planned p a)"
    by simp_all
qed

section \<open>Accounts\<close>

type_synonym key = "ident \<times> ident \<times> ident"

text \<open>A payment, an installment: the request, the property and the identifier.\<close>

definition payment_at :: "key \<Rightarrow> payment \<Rightarrow> bool" where
  "payment_at k y \<longleftrightarrow> (case k of (rid, pid, i) \<Rightarrow> y_id y = i \<and> payment_of_request rid pid y)"

definition child_at :: "key \<Rightarrow> payment \<Rightarrow> bool" where
  "child_at k z \<longleftrightarrow> (case k of (rid, pid, i) \<Rightarrow> payment_of_request rid pid z \<and> y_original z = Some i \<and>
     y_status z = PayCaptured \<and> y_amount z < 0)"

definition resolution_at :: "resolution \<Rightarrow> key" where
  "resolution_at r = (rz_request r, rz_property r, rz_payment r)"

definition allocation_at :: "allocation \<Rightarrow> key" where
  "allocation_at a = (aa_request a, aa_property a, aa_payment a)"

definition pays_for :: "allocation \<Rightarrow> key" where
  "pays_for a = (aa_request a, aa_property a, aa_installment a)"

definition installment_at :: "installment \<Rightarrow> key" where
  "installment_at x = (it_request x, it_property x, it_id x)"

definition brought_in :: "payment \<Rightarrow> decimal" where
  "brought_in y = (if is_parent y then y_amount y else 0)"

definition capacity :: "hotel \<Rightarrow> key \<Rightarrow> decimal" where
  "capacity s k = total brought_in (filter (payment_at k) (payments s))"

definition given_back :: "hotel \<Rightarrow> key \<Rightarrow> decimal" where
  "given_back s k = total (\<lambda>z. - y_amount z) (filter (child_at k) (payments s))"

definition holds_claim :: "payment list \<Rightarrow> resolution \<Rightarrow> bool" where
  "holds_claim t r \<longleftrightarrow> rz_status r = ResolutionPending \<or>
     rz_status r = ResolutionCompleted \<and> without_movement (filter (child_at (resolution_at r)) t) r"

definition claimed :: "hotel \<Rightarrow> key \<Rightarrow> decimal" where
  "claimed s k = total rz_amount (filter (\<lambda>r. resolution_at r = k \<and> holds_claim (payments s) r) (resolutions s))"

definition allocated :: "hotel \<Rightarrow> key \<Rightarrow> decimal" where
  "allocated s k = total aa_amount (filter (\<lambda>a. allocation_at a = k) (allocations s))"

definition paid_on :: "hotel \<Rightarrow> key \<Rightarrow> decimal" where
  "paid_on s k = total aa_amount (filter (\<lambda>a. pays_for a = k) (allocations s))"

definition stated_on :: "hotel \<Rightarrow> key \<Rightarrow> decimal" where
  "stated_on s k = total it_allocated (filter (\<lambda>x. installment_at x = k) (installments s))"

section \<open>The invariant\<close>

text \<open>
  Rows hold positive amounts at the ledger's scale. What hangs on a request's payment is captured money
  on its way back, which the table \<open>payments\<close> checks, and an allocation pays for an installment that
  exists, which its foreign key says.
\<close>

definition request_rows :: "hotel \<Rightarrow> bool" where
  "request_rows s \<longleftrightarrow>
     keys_ok it_id (fresh s) (installments s) \<and> keys_ok aa_id (fresh s) (allocations s) \<and>
     keys_ok rz_id (fresh s) (resolutions s) \<and> keys_ok y_id (fresh s) (payments s) \<and>
     (\<forall>a \<in> set (allocations s). 0 < aa_amount a \<and> fits 2 (aa_amount a) \<and>
        (\<exists>x \<in> set (installments s). installment_at x = pays_for a)) \<and>
     (\<forall>r \<in> set (resolutions s). 0 < rz_amount r \<and> fits 2 (rz_amount r)) \<and>
     (\<forall>y \<in> set (payments s). fits 2 (y_amount y) \<and>
        (y_request y \<noteq> None \<and> y_original y \<noteq> None \<longrightarrow> y_status y = PayCaptured \<and> y_amount y < 0))"

text \<open>
  An installment never has more paid on it than is due; outside \<open>X\<close> it states what is paid, and its
  status follows.
\<close>

definition states_truly :: "key set \<Rightarrow> hotel \<Rightarrow> installment \<Rightarrow> bool" where
  "states_truly X s x \<longleftrightarrow> (case it_resolved x of None \<Rightarrow> False
     | Some r \<Rightarrow> fits 2 r \<and> paid_on s (installment_at x) \<le> r \<and>
         (installment_at x \<notin> X \<longrightarrow> it_allocated x = paid_on s (installment_at x) \<and>
            it_status x = installment_state (it_allocated x) r))"

definition plan_states :: "key set \<Rightarrow> hotel \<Rightarrow> bool" where
  "plan_states X s \<longleftrightarrow> (\<forall>x \<in> set (installments s). states_truly X s x)"

text \<open>What went back and what is promised, and what went back and what pays for installments, is covered.\<close>

definition claims_covered :: "hotel \<Rightarrow> key \<Rightarrow> bool" where
  "claims_covered s k \<longleftrightarrow> given_back s k + claimed s k \<le> capacity s k"

definition allocations_covered :: "hotel \<Rightarrow> key \<Rightarrow> bool" where
  "allocations_covered s k \<longleftrightarrow> given_back s k + allocated s k \<le> capacity s k"

text \<open>The invariant, the allocations of the payments in \<open>X\<close> still waiting to be reconciled.\<close>

definition money_but :: "key set \<Rightarrow> hotel \<Rightarrow> bool" where
  "money_but X s \<longleftrightarrow> request_rows s \<and> (\<forall>k. claims_covered s k) \<and> (\<forall>k. k \<notin> X \<longrightarrow> allocations_covered s k) \<and>
     plan_states {} s"

abbreviation request_money :: "hotel \<Rightarrow> bool" where
  "request_money \<equiv> money_but {}"

lemma money_butI:
  "request_rows s \<Longrightarrow> (\<And>k. claims_covered s k) \<Longrightarrow> (\<And>k. k \<notin> X \<Longrightarrow> allocations_covered s k) \<Longrightarrow> plan_states {} s \<Longrightarrow>
   money_but X s"
  unfolding money_but_def by blast

lemma money_butD: "money_but X s \<Longrightarrow> request_rows s" "money_but X s \<Longrightarrow> claims_covered s k"
    "money_but X s \<Longrightarrow> k \<notin> X \<Longrightarrow> allocations_covered s k" "money_but X s \<Longrightarrow> plan_states {} s"
  unfolding money_but_def by blast+

lemma money_but_mono: "money_but X s \<Longrightarrow> X \<subseteq> Y \<Longrightarrow> money_but Y s"
  unfolding money_but_def by blast

lemma given_back_nonneg: "0 \<le> given_back s k"
  unfolding given_back_def by (rule total_nonneg) (auto simp: child_at_def split: prod.splits)

lemma claimed_nonneg: "request_rows s \<Longrightarrow> 0 \<le> claimed s k"
  unfolding claimed_def by (rule total_nonneg) (auto simp: request_rows_def less_imp_le)

lemma allocated_nonneg: "request_rows s \<Longrightarrow> 0 \<le> allocated s k"
  unfolding allocated_def by (rule total_nonneg) (auto simp: request_rows_def less_imp_le)

lemma fits_accounts:
  assumes "request_rows s"
  shows "fits 2 (given_back s k)" "fits 2 (claimed s k)" "fits 2 (allocated s k)" "fits 2 (paid_on s k)"
  using assms unfolding given_back_def claimed_def allocated_def paid_on_def request_rows_def
  by (auto intro!: fits_total)

section \<open>The summary and the accounts\<close>

lemma filter_key_one:
  assumes "distinct (map k t)" and "r \<in> set t" and "c r" and "\<And>q. c q \<Longrightarrow> k q = k r"
  shows "filter c t = [r]"
  using assms(1,2)
proof (induction t)
  case Nil
  then show ?case by simp
next
  case (Cons x t)
  have other: "filter c u = []" if "k r \<notin> k ` set u" for u
    using that assms(4) by (auto simp: filter_empty_conv image_iff)
  show ?case
  proof (cases "x = r")
    case True
    with Cons.prems(1) assms(3) show ?thesis by (simp add: other)
  next
    case False
    with Cons.prems have "r \<in> set t" "k x \<noteq> k r" by auto
    with Cons assms(4) [of x] show ?thesis by auto
  qed
qed

lemma capacity_of:
  assumes "request_rows s" and "y \<in> set (payments s)" and "payment_at k y" and "is_parent y"
  shows "capacity s k = y_amount y"
proof -
  have "filter (payment_at k) (payments s) = [y]"
    using assms by (intro filter_key_one [where k = y_id])
      (auto simp: request_rows_def keys_ok_def payment_at_def split: prod.splits)
  with assms(4) show ?thesis by (simp add: capacity_def brought_in_def)
qed

lemma total_filter_or:
  "(\<And>r. r \<in> set t \<Longrightarrow> \<not> (p r \<and> q r)) \<Longrightarrow>
   total f (filter (\<lambda>r. p r \<or> q r) t) = total f (filter p t) + total f (filter q t)"
  by (induction t) auto

lemma child_at_fun: "child_at (rid, pid, i) =
    (\<lambda>z. payment_of_request rid pid z \<and> y_original z = Some i \<and> y_status z = PayCaptured \<and> y_amount z < 0)"
  by (simp add: fun_eq_iff child_at_def)

lemma children_at:
  "returned_children i (sel (payment_of_request rid pid) t) = filter (child_at (rid, pid, i)) t"
  by (simp add: sel_def returned_children_def child_at_fun)

lemma children_sum:
  "total (\<lambda>z. \<bar>y_amount z\<bar>) (filter (child_at k) t) = total (\<lambda>z. - y_amount z) (filter (child_at k) t)"
  by (rule total_cong) (auto simp: child_at_def split: prod.splits)

lemma summary_accounts:
  assumes "is_parent y" and "k = (rid, pid, y_id y)" and "y_amount y = capacity s k"
  defines "sm \<equiv> summarize_ledger y (sel (payment_of_request rid pid) (payments s))
       (sel (allocation_of_request rid pid) (allocations s)) (sel (resolution_of_request rid pid) (resolutions s))"
  shows "ls_net sm = max (capacity s k - given_back s k) 0" and "ls_allocated sm = allocated s k"
    and "ls_reserved sm + ls_completed sm = claimed s k"
    and "ls_unresolved sm = max (ls_net sm - ls_completed sm) 0"
    and "ls_to_resolve sm = max (ls_unresolved sm - ls_reserved sm) 0"
    and "ls_returned sm + ls_retained sm = y_amount y - ls_net sm + ls_completed sm"
proof -
  let ?ch = "filter (child_at k) (payments s)"
  have ch: "returned_children (y_id y) (sel (payment_of_request rid pid) (payments s)) = ?ch"
    by (simp add: children_at assms(2))
  note fields = sm_def summarize_ledger_def Let_def ch assms(1) not_True_eq_False if_False ledger_summary.simps
  show "ls_net sm = max (capacity s k - given_back s k) 0"
    by (simp only: fields assms(3) remaining_captured_amount_def sum_refund_children_eq children_sum given_back_def)
  have al: "filter (\<lambda>a. aa_payment a = y_id y) (sel (allocation_of_request rid pid) (allocations s)) =
      filter (\<lambda>a. allocation_at a = k) (allocations s)"
    unfolding sel_def filter_filter
    by (rule filter_cong) (auto simp: assms(2) allocation_at_def allocation_of_request_def)
  show "ls_allocated sm = allocated s k"
    by (simp only: fields al allocated_def)
  have rz: "filter (\<lambda>r. rz_payment r = y_id y) (sel (resolution_of_request rid pid) (resolutions s)) =
      filter (\<lambda>r. resolution_at r = k) (resolutions s)"
    unfolding sel_def filter_filter
    by (rule filter_cong) (auto simp: assms(2) resolution_at_def resolution_of_request_def)
  have "claimed s k = total rz_amount (filter (\<lambda>r. rz_status r = ResolutionPending \<or>
      (without_movement ?ch r \<and> rz_status r = ResolutionCompleted)) (filter (\<lambda>r. resolution_at r = k) (resolutions s)))"
    unfolding claimed_def filter_filter
    by (rule arg_cong [where f = "total rz_amount"], rule filter_cong) (auto simp: holds_claim_def)
  also have "total rz_amount (filter (\<lambda>r. rz_status r = ResolutionPending \<or>
        (without_movement ?ch r \<and> rz_status r = ResolutionCompleted)) t) =
      total rz_amount (filter (\<lambda>r. rz_status r = ResolutionPending) t) +
      total rz_amount (filter (without_movement ?ch) (filter (\<lambda>r. rz_status r = ResolutionCompleted) t))" for t
    unfolding filter_filter by (subst total_filter_or) (auto simp: conj_commute)
  finally show "ls_reserved sm + ls_completed sm = claimed s k"
    by (simp only: fields rz)
  show "ls_unresolved sm = max (ls_net sm - ls_completed sm) 0"
    and "ls_to_resolve sm = max (ls_unresolved sm - ls_reserved sm) 0"
    by (simp_all only: fields)
  have two: "total rz_amount (filter (\<lambda>r. rz_type r \<noteq> RetainedMoney) t) + total rz_amount (filter (\<lambda>r. rz_type r = RetainedMoney) t) =
      total rz_amount t" for t
    using total_partition [of rz_amount "\<lambda>r. rz_type r = RetainedMoney" t] by simp
  show "ls_returned sm + ls_retained sm = y_amount y - ls_net sm + ls_completed sm"
    by (simp only: fields add.assoc two)
qed

lemma resolutions_nonneg: "request_rows s \<Longrightarrow> set rs \<subseteq> set (resolutions s) \<Longrightarrow> 0 \<le> total rz_amount rs"
  by (rule total_nonneg) (auto simp: request_rows_def less_imp_le)

lemma summary_nonneg:
  fixes rid pid :: ident and y :: payment
  assumes "request_rows s"
  defines "sm \<equiv> summarize_ledger y (sel (payment_of_request rid pid) (payments s))
       (sel (allocation_of_request rid pid) (allocations s)) (sel (resolution_of_request rid pid) (resolutions s))"
  shows "0 \<le> ls_reserved sm" and "0 \<le> ls_completed sm"
proof -
  have "0 \<le> ls_reserved sm \<and> 0 \<le> ls_completed sm"
  proof (cases "is_parent y")
    case False
    then show ?thesis by (simp add: sm_def summarize_ledger_def zero_summary_def)
  next
    case True
    note fields = sm_def summarize_ledger_def Let_def True not_True_eq_False if_False ledger_summary.simps
    show ?thesis
      by (simp only: fields) (intro conjI resolutions_nonneg [OF assms(1)]; auto simp: sel_def)
  qed
  then show "0 \<le> ls_reserved sm" and "0 \<le> ls_completed sm" by simp_all
qed

text \<open>With the claims covered, what may still be resolved is exactly what is neither back nor promised.\<close>

lemma to_resolve_exact:
  assumes "request_rows s" and "is_parent y" and "k = (rid, pid, y_id y)" and "y_amount y = capacity s k"
    and "claims_covered s k"
  defines "sm \<equiv> summarize_ledger y (sel (payment_of_request rid pid) (payments s))
       (sel (allocation_of_request rid pid) (allocations s)) (sel (resolution_of_request rid pid) (resolutions s))"
  shows "ls_to_resolve sm = capacity s k - given_back s k - claimed s k"
    and "ls_returned sm + ls_retained sm + ls_unresolved sm = y_amount y"
proof -
  note parts = summary_accounts [OF assms(2-4), folded sm_def]
  note pos = summary_nonneg [OF assms(1), where y = y and rid = rid and pid = pid, folded sm_def]
  have net: "ls_net sm = capacity s k - given_back s k" and un: "ls_unresolved sm = ls_net sm - ls_completed sm"
    using parts(1,3,4) pos assms(5) claimed_nonneg [OF assms(1), of k] unfolding claims_covered_def by linarith+
  show "ls_to_resolve sm = capacity s k - given_back s k - claimed s k"
    using parts(3,5) net un assms(5) unfolding claims_covered_def by linarith
  show "ls_returned sm + ls_retained sm + ls_unresolved sm = y_amount y"
    using parts(6) un by linarith
qed

section \<open>Writes that leave the accounts alone\<close>

definition same_money :: "hotel \<Rightarrow> hotel \<Rightarrow> bool" where
  "same_money s t \<longleftrightarrow> payments t = payments s \<and> resolutions t = resolutions s \<and> allocations t = allocations s \<and>
     installments t = installments s \<and> fresh s \<le> fresh t"

lemma same_money_refl [simp]: "same_money s s"
  by (simp add: same_money_def)

lemma accounts_same:
  assumes "payments t = payments s" and "resolutions t = resolutions s"
  shows "capacity t = capacity s" and "given_back t = given_back s" and "claimed t = claimed s"
  using assms by (simp_all add: fun_eq_iff capacity_def given_back_def claimed_def)

lemma allocations_same:
  assumes "allocations t = allocations s"
  shows "allocated t = allocated s" and "paid_on t = paid_on s"
  using assms by (simp_all add: fun_eq_iff allocated_def paid_on_def)

lemma request_rows_same: "same_money s t \<Longrightarrow> request_rows s \<Longrightarrow> request_rows t"
  unfolding same_money_def request_rows_def by (elim conjE) (simp, blast intro: keys_ok_mono)

lemma plan_states_cong:
  assumes "installments t = installments s" and "paid_on t = paid_on s"
  shows "plan_states X t = plan_states X s"
  unfolding plan_states_def states_truly_def assms ..

lemma plan_states_same: "same_money s t \<Longrightarrow> plan_states X s \<Longrightarrow> plan_states X t"
  using plan_states_cong [of t s X] allocations_same [of t s] by (simp add: same_money_def)

lemma money_but_same: "same_money s t \<Longrightarrow> money_but X s \<Longrightarrow> money_but X t"
  using request_rows_same [of s t] plan_states_same [of s t "{}"] accounts_same [of t s] allocations_same [of t s]
  unfolding money_but_def claims_covered_def allocations_covered_def same_money_def by simp

section \<open>Writes to payments\<close>

lemma total_filter_mono:
  "(\<And>r. r \<in> set t \<Longrightarrow> p r \<Longrightarrow> q r) \<Longrightarrow> (\<And>r. r \<in> set t \<Longrightarrow> 0 \<le> f r) \<Longrightarrow>
   total f (filter p t) \<le> total f (filter q t)"
  by (induction t) (auto simp: add_increasing)

abbreviation stored_payment :: "payment \<Rightarrow> hotel \<Rightarrow> payment" where
  "stored_payment y s \<equiv> y\<lparr>y_id := fresh s, y_amount := cents (y_amount y)\<rparr>"

lemma capacity_add: "capacity (add_payment y s) k =
    capacity s k + (if payment_at k (stored_payment y s) then brought_in (stored_payment y s) else 0)"
  by (simp add: capacity_def)

lemma given_back_add: "given_back (add_payment y s) k =
    given_back s k + (if child_at k (stored_payment y s) then - cents (y_amount y) else 0)"
  by (simp add: given_back_def)

lemma holds_claim_add: "holds_claim (payments (add_payment y s)) r \<Longrightarrow> holds_claim (payments s) r"
  by (auto simp: holds_claim_def without_movement_def split: option.splits if_splits)

lemma claimed_add_le: "request_rows s \<Longrightarrow> claimed (add_payment y s) k \<le> claimed s k"
  using holds_claim_add [of y s] unfolding claimed_def
  by (auto intro!: total_filter_mono simp: request_rows_def less_imp_le)

lemma brought_in_nonneg [simp]: "0 \<le> brought_in y"
  by (auto simp: brought_in_def is_parent_def)

lemma request_rows_add:
  assumes "request_rows s"
    and "y_request y \<noteq> None \<Longrightarrow> y_original y \<noteq> None \<Longrightarrow> y_status y = PayCaptured \<and> cents (y_amount y) < 0"
  shows "request_rows (add_payment y s)"
  using assms unfolding request_rows_def by (auto simp: keys_ok_append intro: keys_ok_Suc)

lemma plan_states_add [simp]: "plan_states X (add_payment y s) = plan_states X s"
  by (rule plan_states_cong) (simp_all add: fun_eq_iff paid_on_def)

lemma allocated_add [simp]: "allocated (add_payment y s) = allocated s"
  by (simp add: fun_eq_iff allocated_def)

lemma money_but_add:
  assumes "money_but X s" and "y_original y = None"
  shows "money_but X (add_payment y s)"
proof (rule money_butI)
  note D = money_butD [OF assms(1)]
  have gb: "given_back (add_payment y s) k = given_back s k" for k
    using assms(2) by (simp add: given_back_add child_at_def split: prod.splits)
  have cap: "capacity s k \<le> capacity (add_payment y s) k" for k
    by (simp add: capacity_add)
  show "request_rows (add_payment y s)" using D(1) assms(2) by (intro request_rows_add) simp_all
  show "claims_covered (add_payment y s) k" for k
    using D(2) [of k] cap [of k] claimed_add_le [OF D(1), of y k] unfolding claims_covered_def gb by linarith
  show "allocations_covered (add_payment y s) k" if "k \<notin> X" for k
    using D(3) [OF that] cap [of k] unfolding allocations_covered_def gb by simp
  show "plan_states {} (add_payment y s)" using D(4) by simp
qed

text \<open>A row that changes neither its place nor its amount, and stays a parent if it was one.\<close>

definition same_place :: "payment \<Rightarrow> payment \<Rightarrow> bool" where
  "same_place y z \<longleftrightarrow> y_id z = y_id y \<and> y_property z = y_property y \<and> y_request z = y_request y \<and>
     y_amount z = y_amount y \<and> y_original z = y_original y \<and> (y_original y \<noteq> None \<longrightarrow> y_status z = y_status y) \<and>
     (is_parent y \<longrightarrow> is_parent z)"

lemma child_at_place: "same_place y z \<Longrightarrow> child_at k z = child_at k y"
  by (auto simp: same_place_def child_at_def payment_of_request_def split: prod.splits)

lemma children_upd:
  assumes "\<And>y. y \<in> set t \<Longrightarrow> c y \<Longrightarrow> same_place y (f y)"
  shows "total (\<lambda>z. - y_amount z) (filter (child_at k) (upd c f t)) = total (\<lambda>z. - y_amount z) (filter (child_at k) t) \<and>
    y_id ` set (filter (child_at k) (upd c f t)) = y_id ` set (filter (child_at k) t) \<and>
    total brought_in (filter (payment_at k) t) \<le> total brought_in (filter (payment_at k) (upd c f t))"
  using assms
proof (induction t)
  case Nil
  then show ?case by (simp add: upd_def)
next
  case (Cons y t)
  have step: "child_at k (f y) = child_at k y \<and> y_amount (f y) = y_amount y \<and> y_id (f y) = y_id y \<and>
      payment_at k (f y) = payment_at k y \<and> brought_in y \<le> brought_in (f y)" if "c y"
  proof -
    have p: "same_place y (f y)" using Cons.prems that by simp
    then have "brought_in y \<le> brought_in (f y)" by (auto simp: same_place_def brought_in_def is_parent_def)
    moreover have "payment_at k (f y) = payment_at k y"
      using p by (auto simp: same_place_def payment_at_def payment_of_request_def split: prod.splits)
    ultimately show ?thesis using p child_at_place [OF p] by (simp add: same_place_def)
  qed
  have rest: "total (\<lambda>z. - y_amount z) (filter (child_at k) (upd c f t)) = total (\<lambda>z. - y_amount z) (filter (child_at k) t) \<and>
      y_id ` set (filter (child_at k) (upd c f t)) = y_id ` set (filter (child_at k) t) \<and>
      total brought_in (filter (payment_at k) t) \<le> total brought_in (filter (payment_at k) (upd c f t))"
    using Cons by simp
  have u: "upd c f (y # t) = (if c y then f y else y) # upd c f t" by (simp add: upd_def)
  show ?case using rest step unfolding u by (cases "c y") (auto intro: add_mono)
qed

lemma money_but_upd_payments:
  assumes "money_but X s" and place: "\<And>y. y \<in> set (payments s) \<Longrightarrow> c y \<Longrightarrow> same_place y (f y)"
  shows "money_but X (payments_update (upd c f) s)" (is "money_but X ?t")
proof (rule money_butI)
  note D = money_butD [OF assms(1)]
  have gb: "given_back ?t = given_back s" and cap: "capacity s k \<le> capacity ?t k" for k
    using children_upd [of "payments s" c f] place by (simp_all add: fun_eq_iff given_back_def capacity_def)
  have "holds_claim (payments ?t) r = holds_claim (payments s) r" for r
    using children_upd [of "payments s" c f] place
    by (simp add: holds_claim_def without_movement_def split: option.splits)
  then have cl: "claimed ?t = claimed s" by (simp add: fun_eq_iff claimed_def)
  have al: "allocated ?t = allocated s" "paid_on ?t = paid_on s" by (rule allocations_same; simp)+
  have keys: "keys_ok y_id (fresh s) (upd c f (payments s))"
  proof -
    have "map y_id (upd c f (payments s)) = map y_id (payments s)"
      using place by (auto simp: upd_def same_place_def)
    moreover have "\<forall>y \<in> set (upd c f (payments s)). y_id y < fresh s"
      using D(1) place by (auto simp: upd_def request_rows_def keys_ok_def same_place_def)
    ultimately show ?thesis using D(1) by (simp add: keys_ok_def request_rows_def)
  qed
  have rows: "\<forall>y \<in> set (upd c f (payments s)). fits 2 (y_amount y) \<and>
      (y_request y \<noteq> None \<and> y_original y \<noteq> None \<longrightarrow> y_status y = PayCaptured \<and> y_amount y < 0)"
    using D(1) place by (auto simp: set_upd request_rows_def same_place_def)
  show "request_rows ?t" using D(1) keys rows by (simp add: request_rows_def)
  show "claims_covered ?t k" for k using D(2) [of k] cap [of k] by (simp add: claims_covered_def gb cl)
  show "allocations_covered ?t k" if "k \<notin> X" for k using D(3) [OF that] cap [of k] by (simp add: allocations_covered_def gb al)
  show "plan_states {} ?t" using D(4) plan_states_cong [of ?t s, OF _ al(2)] by simp
qed

text \<open>Money on its way back: a child of the payment with key \<open>k\<close>.\<close>

definition return_of :: "key \<Rightarrow> decimal \<Rightarrow> payment \<Rightarrow> bool" where
  "return_of k v y \<longleftrightarrow> (case k of (rid, pid, i) \<Rightarrow> payment_of_request rid pid y \<and> y_original y = Some i) \<and>
     y_status y = PayCaptured \<and> y_amount y = - v \<and> 0 < v \<and> fits 2 v"

lemma return_accounts:
  assumes "return_of k v y"
  shows "given_back (add_payment y s) j = given_back s j + (if j = k then v else 0)"
    and "capacity (add_payment y s) = capacity s"
proof -
  have "child_at j (stored_payment y s) \<longleftrightarrow> j = k"
    using assms by (auto simp: return_of_def child_at_def payment_of_request_def to_fixed_id split: prod.splits)
  then show "given_back (add_payment y s) j = given_back s j + (if j = k then v else 0)"
    using assms by (simp add: given_back_add return_of_def to_fixed_id)
  have "brought_in (stored_payment y s) = 0"
    using assms by (auto simp: brought_in_def is_parent_def return_of_def split: prod.splits)
  then show "capacity (add_payment y s) = capacity s" by (simp add: fun_eq_iff capacity_add)
qed

lemma request_rows_add_return: "request_rows s \<Longrightarrow> return_of k v y \<Longrightarrow> request_rows (add_payment y s)"
  by (rule request_rows_add) (auto simp: return_of_def to_fixed_id)

lemma money_but_return:
  assumes "money_but X s" and y: "return_of k v y" and slack: "given_back s k + v + claimed s k \<le> capacity s k"
  shows "money_but (insert k X) (add_payment y s)"
proof (rule money_butI)
  note D = money_butD [OF assms(1)]
  show "request_rows (add_payment y s)" using D(1) y by (rule request_rows_add_return)
  show "claims_covered (add_payment y s) j" for j
    using D(2) [of j] slack claimed_add_le [OF D(1), of y j]
    unfolding claims_covered_def return_accounts [OF y] by (cases "j = k") simp_all
  show "allocations_covered (add_payment y s) j" if "j \<notin> insert k X" for j
    using D(3) [of j] that unfolding allocations_covered_def return_accounts [OF y] by simp
  show "plan_states {} (add_payment y s)" using D(4) by simp
qed

section \<open>Writes to resolutions\<close>

abbreviation with_resolution :: "resolution \<Rightarrow> hotel \<Rightarrow> hotel" where
  "with_resolution r s \<equiv> resolutions_update (\<lambda>t. t @ [r]) (s\<lparr>fresh := Suc (fresh s)\<rparr>)"

lemma money_but_resolution:
  assumes "money_but X s" and r: "rz_id r = fresh s" "0 < rz_amount r" "fits 2 (rz_amount r)"
    and slack: "holds_claim (payments s) r \<Longrightarrow>
      given_back s (resolution_at r) + claimed s (resolution_at r) + rz_amount r \<le> capacity s (resolution_at r)"
  shows "money_but X (with_resolution r s)" (is "money_but X ?t")
proof (rule money_butI)
  note D = money_butD [OF assms(1)]
  have acc: "capacity ?t = capacity s" "given_back ?t = given_back s" "allocated ?t = allocated s" "paid_on ?t = paid_on s"
    by (simp_all add: fun_eq_iff capacity_def given_back_def allocated_def paid_on_def)
  have cl: "claimed ?t k = claimed s k + (if resolution_at r = k \<and> holds_claim (payments s) r then rz_amount r else 0)" for k
    by (simp add: claimed_def)
  show "request_rows ?t" using D(1) r by (auto simp: request_rows_def keys_ok_append keys_ok_Suc)
  show "claims_covered ?t k" for k
    using D(2) [of k] slack unfolding claims_covered_def acc cl by auto
  show "allocations_covered ?t k" if "k \<notin> X" for k
    using D(3) [OF that] unfolding allocations_covered_def acc .
  show "plan_states {} ?t" using D(4) plan_states_cong [of ?t s, OF _ acc(4)] by simp
qed

definition same_claim :: "(resolution \<Rightarrow> resolution) \<Rightarrow> bool" where
  "same_claim f \<longleftrightarrow> (\<forall>r. rz_id (f r) = rz_id r \<and> resolution_at (f r) = resolution_at r \<and> rz_amount (f r) = rz_amount r)"

lemma request_rows_upd_resolutions:
  "request_rows s \<Longrightarrow> same_claim f \<Longrightarrow> request_rows (resolutions_update (upd c f) s)"
  by (auto simp: request_rows_def same_claim_def keys_ok_upd set_upd)

lemma total_upd_le:
  "(\<And>r. r \<in> set t \<Longrightarrow> c r \<Longrightarrow> q (g r) \<Longrightarrow> p r) \<Longrightarrow> (\<And>r. r \<in> set t \<Longrightarrow> \<not> c r \<Longrightarrow> q r \<Longrightarrow> p r) \<Longrightarrow>
   (\<And>r. r \<in> set t \<Longrightarrow> f (g r) = f r \<and> 0 \<le> f r) \<Longrightarrow> total f (filter q (upd c g t)) \<le> total f (filter p t)"
proof (induction t)
  case (Cons x t)
  then have "total f (filter q (upd c g t)) \<le> total f (filter p t)" by simp
  with Cons.prems(1-3) [of x] show ?case by (auto simp: upd_def add_increasing)
qed (simp add: upd_def)

lemma money_but_upd_resolutions:
  assumes "money_but X s" and "same_claim f" and "\<And>r. c r \<Longrightarrow> rz_status r = ResolutionPending"
  shows "money_but X (resolutions_update (upd c f) s)" (is "money_but X ?t")
proof (rule money_butI)
  note D = money_butD [OF assms(1)]
  have acc: "capacity ?t = capacity s" "given_back ?t = given_back s" "allocated ?t = allocated s" "paid_on ?t = paid_on s"
    by (simp_all add: fun_eq_iff capacity_def given_back_def allocated_def paid_on_def)
  have cl: "claimed ?t k \<le> claimed s k" for k
    unfolding claimed_def using assms(2,3) D(1)
    by (auto intro!: total_upd_le simp: same_claim_def request_rows_def less_imp_le holds_claim_def)
  show "request_rows ?t" using D(1) assms(2) by (rule request_rows_upd_resolutions)
  show "claims_covered ?t k" for k using D(2) [of k] cl [of k] unfolding claims_covered_def acc by linarith
  show "allocations_covered ?t k" if "k \<notin> X" for k using D(3) [OF that] unfolding allocations_covered_def acc .
  show "plan_states {} ?t" using D(4) plan_states_cong [of ?t s, OF _ acc(4)] by simp
qed

text \<open>
  A refund that went through: the promise \<open>r\<close> becomes the movement just appended, so that its amount
  moves from what is promised to what is back.
\<close>

lemma total_upd_drop:
  fixes f :: "'r \<Rightarrow> decimal"
  assumes "distinct (map k t)" and "r \<in> set t" and "c r" and "\<And>q. c q \<Longrightarrow> k q = k r" and "p r"
    and "\<not> q (g r)" and "\<And>x. x \<in> set t \<Longrightarrow> \<not> c x \<Longrightarrow> q x \<Longrightarrow> p x" and "\<And>x. x \<in> set t \<Longrightarrow> 0 \<le> f x"
  shows "total f (filter q (upd c g t)) + f r \<le> total f (filter p t)"
proof -
  have one: "x = r" if "x \<in> set t" "c x" for x
    using distinct_key_unique [OF assms(1) that(1) assms(2)] assms(4) [OF that(2)] by simp
  have rest: "total f (filter q (upd c g u)) \<le> total f (filter (\<lambda>x. p x \<and> \<not> c x) u)" if "set u \<subseteq> set t" for u
    using that
  proof (induction u)
    case (Cons x u)
    then show ?case
      using one [of x] assms(6) assms(7,8) [of x] by (cases "c x") (auto simp: upd_def add_increasing)
  qed (simp add: upd_def)
  have "filter (\<lambda>x. p x \<and> c x) t = [r]"
    using assms(1-5) by (intro filter_key_one [where k = k]) blast+
  then have "total f (filter p t) = total f (filter (\<lambda>x. p x \<and> \<not> c x) t) + f r"
    using total_partition [of f c "filter p t"] unfolding filter_filter by simp
  with rest [OF subset_refl] show ?thesis by simp
qed

lemma money_but_completed:
  assumes "money_but X s" and y: "return_of (resolution_at r) (rz_amount r) y"
    and r: "r \<in> set (resolutions s)" "rz_status r = ResolutionPending"
    and c: "\<And>q. c q \<longleftrightarrow> rz_id q = rz_id r \<and> rz_property q = rz_property r \<and> rz_status q = ResolutionPending"
    and f: "same_claim f" "rz_status (f r) = ResolutionCompleted" "rz_movement (f r) = Some (fresh s)"
  shows "money_but (insert (resolution_at r) X) (resolutions_update (upd c f) (add_payment y s))"
    (is "money_but (insert ?k X) ?t")
proof (rule money_butI)
  note D = money_butD [OF assms(1)]
  let ?u = "add_payment y s"
  have acc: "capacity ?t = capacity s" "allocated ?t = allocated s" "paid_on ?t = paid_on s"
    "given_back ?t j = given_back s j + (if j = ?k then rz_amount r else 0)" for j
    using return_accounts [OF y] by (simp_all add: fun_eq_iff capacity_def given_back_def allocated_def paid_on_def)
  have mem: "fresh s \<in> y_id ` set (filter (child_at ?k) (payments ?u))"
    using y by (auto simp: return_of_def child_at_def payment_of_request_def to_fixed_id split: prod.splits)
  define P where "P = payments ?u"
  have gone: "\<not> holds_claim P (f r)" and pending: "\<And>q. rz_status q = ResolutionPending \<Longrightarrow> holds_claim t q" for t
    using mem f by (simp_all add: P_def holds_claim_def without_movement_def same_claim_def)
  have fewer: "holds_claim P q \<Longrightarrow> holds_claim (payments s) q" for q
    unfolding P_def by (rule holds_claim_add)
  have rows: "distinct (map rz_id (resolutions s))" "\<And>q. q \<in> set (resolutions s) \<Longrightarrow> 0 \<le> rz_amount q"
    using D(1) by (auto simp: request_rows_def keys_ok_def less_imp_le)
  have "total rz_amount (filter (\<lambda>q. resolution_at q = ?k \<and> holds_claim P q) (upd c f (resolutions s))) + rz_amount r
      \<le> total rz_amount (filter (\<lambda>q. resolution_at q = ?k \<and> holds_claim (payments s) q) (resolutions s))"
    using rows r gone pending fewer c by (intro total_upd_drop [where k = rz_id]) simp_all
  then have le: "claimed ?t ?k + rz_amount r \<le> claimed s ?k" by (simp add: claimed_def P_def)
  have other: "claimed ?t j \<le> claimed s j" for j
  proof -
    have "claimed ?t j \<le> claimed ?u j"
      unfolding claimed_def using D(1) f(1)
      by (auto intro!: total_upd_le simp: c same_claim_def request_rows_def less_imp_le holds_claim_def)
    then show ?thesis using claimed_add_le [OF D(1), of y j] by simp
  qed
  show "request_rows ?t"
    using request_rows_add_return [OF D(1) y] f(1) by (rule request_rows_upd_resolutions)
  show "claims_covered ?t j" for j
    using D(2) [of j] le other [of j] unfolding claims_covered_def acc by (cases "j = ?k") simp_all
  show "allocations_covered ?t j" if "j \<notin> insert ?k X" for j
    using D(3) [of j] that unfolding allocations_covered_def acc by simp
  show "plan_states {} ?t" using D(4) plan_states_cong [of ?t s, OF _ acc(3)] by simp
qed

end
