(* ===== verification/Request_Reconcile.thy ===== *)
theory Request_Reconcile
  imports Request_Accounts
begin

text \<open>
  Allocations and installments: what a change of the allocations does to the accounts, and the
  reconciliation of a payment's allocations, which turns a state that waits for it (\<open>money_but\<close>) into
  one where everything is covered again.
\<close>

section \<open>Changing the allocations\<close>

lemma total_filter_map: "total f (filter p t) = sum_list (map (\<lambda>r. if p r then f r else 0) t)"
  by (induction t) simp_all

text \<open>Only the allocations change; the installments in \<open>Y\<close> have to be restated.\<close>

lemma plan_states_but:
  assumes "plan_states X s" and "installments t = installments s"
    and "\<And>k. k \<notin> Y \<Longrightarrow> paid_on t k = paid_on s k"
    and "\<And>x r. x \<in> set (installments s) \<Longrightarrow> installment_at x \<in> Y \<Longrightarrow> it_resolved x = Some r \<Longrightarrow> fits 2 r \<Longrightarrow>
      paid_on s (installment_at x) \<le> r \<Longrightarrow> paid_on t (installment_at x) \<le> r"
  shows "plan_states (X \<union> Y) t"
  unfolding plan_states_def
proof
  fix x assume x: "x \<in> set (installments t)"
  then have "states_truly X s x" using assms(1,2) by (simp add: plan_states_def)
  then obtain r where r: "it_resolved x = Some r" "fits 2 r" "paid_on s (installment_at x) \<le> r"
    and true: "installment_at x \<notin> X \<Longrightarrow> it_allocated x = paid_on s (installment_at x) \<and>
      it_status x = installment_state (it_allocated x) r"
    by (auto simp: states_truly_def split: option.splits)
  have "paid_on t (installment_at x) \<le> r"
    using assms(3) [of "installment_at x"] assms(4) [OF _ _ r(1,2,3)] x assms(2) r(3)
    by (cases "installment_at x \<in> Y") auto
  then show "states_truly (X \<union> Y) t x"
    using r true assms(3) [of "installment_at x"] by (simp add: states_truly_def)
qed

lemma plan_states_restated:
  assumes "plan_states X s" and same: "\<And>x. installment_at (g x) = installment_at x"
    and new: "\<And>x. x \<in> set (installments s) \<Longrightarrow> is_installment i pid rid x \<Longrightarrow> \<exists>r. it_resolved (g x) = Some r \<and> fits 2 r \<and>
      paid_on s (rid, pid, i) \<le> r \<and> it_allocated (g x) = paid_on s (rid, pid, i) \<and>
      it_status (g x) = installment_state (paid_on s (rid, pid, i)) r"
  shows "plan_states (X - {(rid, pid, i)}) (installments_update (upd (is_installment i pid rid) g) s)"
    (is "plan_states ?X ?t")
  unfolding plan_states_def
proof
  have paid: "paid_on ?t = paid_on s" by (simp add: fun_eq_iff paid_on_def)
  fix z assume "z \<in> set (installments ?t)"
  then obtain x where x: "x \<in> set (installments s)" and z: "z = (if is_installment i pid rid x then g x else x)"
    by (auto simp: upd_def)
  have key: "is_installment i pid rid x \<longleftrightarrow> installment_at x = (rid, pid, i)"
    by (auto simp: is_installment_def installment_at_def)
  show "states_truly ?X ?t z"
  proof (cases "is_installment i pid rid x")
    case True
    with new [OF x True] same [of x] key show ?thesis by (auto simp: z states_truly_def paid)
  next
    case False
    have "states_truly X s x" using assms(1) x by (simp add: plan_states_def)
    with False key show ?thesis by (auto simp: z states_truly_def paid split: option.splits)
  qed
qed

lemma request_rows_restated:
  "request_rows s \<Longrightarrow> (\<And>x. installment_at (g x) = installment_at x) \<Longrightarrow>
   request_rows (installments_update (upd c g) s)"
proof -
  assume rows: "request_rows s" and same: "\<And>x. installment_at (g x) = installment_at x"
  have id: "it_id (g x) = it_id x" for x using same [of x] by (simp add: installment_at_def)
  have "\<exists>x \<in> set (upd c g (installments s)). installment_at x = k"
    if "\<exists>x \<in> set (installments s). installment_at x = k" for k
  proof -
    from that obtain x where x: "x \<in> set (installments s)" "installment_at x = k" ..
    then have "(if c x then g x else x) \<in> set (upd c g (installments s))" by (auto simp: upd_def)
    then show ?thesis using x(2) same [of x] by (metis (full_types))
  qed
  with rows id show ?thesis by (auto simp: request_rows_def keys_ok_upd)
qed

section \<open>The rows a reconciliation leaves\<close>

definition kept_rows :: "allocation_plan \<Rightarrow> ident set \<Rightarrow> allocation list \<Rightarrow> allocation list" where
  "kept_rows p M t =
     filter (\<lambda>a. 0 < aa_amount a) (map (\<lambda>a. if aa_id a \<in> M then a\<lparr>aa_amount := planned p a\<rparr> else a) t)"

definition plan_row :: "ident \<Rightarrow> ident \<Rightarrow> allocation_plan \<Rightarrow> allocation \<Rightarrow> allocation list \<Rightarrow> allocation list" where
  "plan_row rid pid p a t =
     (if planned p a = aa_amount a then t
      else if planned p a = 0 then filter (\<lambda>b. \<not> is_allocation (aa_id a) pid rid b) t
      else upd (is_allocation (aa_id a) pid rid) (\<lambda>b. b\<lparr>aa_amount := planned p a\<rparr>) t)"

lemma allocations_update_same [simp]: "allocations_update (\<lambda>t. t) s = s" "allocations_update id s = s"
  by simp_all

lemma ends_apply_planned:
  "ends (apply_planned rid pid p a) Q E s = Q () (allocations_update (plan_row rid pid p a) s)"
  unfolding apply_planned_def plan_row_def
  by (cases "planned p a = aa_amount a"; cases "planned p a = 0") (simp_all add: wp)

lemma ends_apply_all:
  "ends (for_each xs (apply_planned rid pid p)) Q E s = Q () (allocations_update (fold (plan_row rid pid p) xs) s)"
proof (induction xs arbitrary: s)
  case Nil
  then show ?case by (simp add: wp)
next
  case (Cons a xs)
  then show ?case by (simp add: ends_bnd ends_apply_planned comp_def)
qed

lemma planned_update [simp]: "planned p (a\<lparr>aa_amount := v\<rparr>) = planned p a"
  by (simp add: planned_def)

lemma kept_rows_simps [simp]:
  "kept_rows p M [] = []"
  "kept_rows p M (a # t) =
    (if aa_id a \<in> M then if 0 < planned p a then a\<lparr>aa_amount := planned p a\<rparr> # kept_rows p M t else kept_rows p M t
     else if 0 < aa_amount a then a # kept_rows p M t else kept_rows p M t)"
  by (simp_all add: kept_rows_def)

lemma kept_rows_twice:
  assumes "\<And>a. a \<in> set t \<Longrightarrow> 0 < aa_amount a"
  shows "kept_rows p M (kept_rows p N t) = kept_rows p (M \<union> N) t"
  using assms
proof (induction t)
  case Nil
  then show ?case by simp
next
  case (Cons a t)
  then show ?case by (cases "aa_id a \<in> N"; cases "aa_id a \<in> M"; cases "0 < planned p a") simp_all
qed

lemma plan_row_simps:
  "plan_row rid pid p a [] = []"
  "plan_row rid pid p a (b # t) =
    (if planned p a = aa_amount a then b # t
     else if planned p a = 0 then if is_allocation (aa_id a) pid rid b then plan_row rid pid p a t else b # plan_row rid pid p a t
     else (if is_allocation (aa_id a) pid rid b then b\<lparr>aa_amount := planned p a\<rparr> else b) # plan_row rid pid p a t)"
  by (simp_all add: plan_row_def upd_def)

lemma plan_row_unchanged: "planned p a = aa_amount a \<Longrightarrow> plan_row rid pid p a t = t"
  by (simp add: plan_row_def)

lemma plan_row_eq:
  assumes "allocation_of_request rid pid a" and "0 \<le> planned p a"
    and "\<And>b. b \<in> set t \<Longrightarrow> 0 < aa_amount b \<and> (aa_id b = aa_id a \<longrightarrow> b = a)"
  shows "plan_row rid pid p a t = kept_rows p {aa_id a} t"
  using assms(3)
proof (induction t)
  case Nil
  then show ?case by (simp add: plan_row_simps)
next
  case (Cons b t)
  have self: "is_allocation (aa_id a) pid rid b \<longleftrightarrow> b = a"
    using Cons.prems [of b] assms(1) by (auto simp: is_allocation_def allocation_of_request_def)
  have eq: "aa_id b = aa_id a \<longleftrightarrow> b = a" and pos: "0 < aa_amount b" using Cons.prems [of b] by auto
  have rest: "plan_row rid pid p a t = kept_rows p {aa_id a} t" using Cons by simp
  consider "planned p a = aa_amount a" | "planned p a \<noteq> aa_amount a" "planned p a = 0"
    | "planned p a \<noteq> aa_amount a" "0 < planned p a" using assms(2) by fastforce
  then show ?case
  proof cases
    case 1
    with rest have "t = kept_rows p {aa_id a} t" by (simp add: plan_row_unchanged)
    with 1 eq pos show ?thesis by (cases "b = a") (simp_all add: plan_row_unchanged)
  next
    case 2
    with eq pos rest self show ?thesis by (cases "b = a") (simp_all add: plan_row_simps)
  next
    case 3
    with eq pos rest self show ?thesis by (cases "b = a") (simp_all add: plan_row_simps)
  qed
qed

lemma plan_rows_eq:
  assumes "distinct (map aa_id xs)"
    and "\<And>a. a \<in> set xs \<Longrightarrow> allocation_of_request rid pid a \<and> 0 \<le> planned p a"
    and "\<And>b. b \<in> set t \<Longrightarrow> 0 < aa_amount b \<and> (\<forall>a \<in> set xs. aa_id b = aa_id a \<longrightarrow> b = a)"
  shows "fold (plan_row rid pid p) xs t = kept_rows p (aa_id ` set xs) t"
  using assms
proof (induction xs arbitrary: t)
  case Nil
  then have "filter (\<lambda>a. 0 < aa_amount a) t = t" by (simp add: filter_id_conv)
  then show ?case by (simp add: kept_rows_def)
next
  case (Cons a xs)
  have step: "plan_row rid pid p a t = kept_rows p {aa_id a} t"
    using Cons.prems(2,3) by (intro plan_row_eq) auto
  have "fold (plan_row rid pid p) xs (kept_rows p {aa_id a} t) = kept_rows p (aa_id ` set xs) (kept_rows p {aa_id a} t)"
  proof (rule Cons.IH)
    show "distinct (map aa_id xs)" using Cons.prems(1) by simp
    show "allocation_of_request rid pid b \<and> 0 \<le> planned p b" if "b \<in> set xs" for b using Cons.prems(2) that by simp
    fix b assume b: "b \<in> set (kept_rows p {aa_id a} t)"
    then obtain c where c: "c \<in> set t" "b = (if aa_id c = aa_id a then c\<lparr>aa_amount := planned p c\<rparr> else c)"
      by (auto simp: kept_rows_def)
    have "b = d" if "d \<in> set xs" "aa_id b = aa_id d" for d
    proof -
      have "aa_id a \<noteq> aa_id d" using Cons.prems(1) that(1) by auto
      with that(2) c(2) have "b = c" by (auto split: if_splits)
      with Cons.prems(3) [OF c(1)] that show ?thesis by simp
    qed
    with b show "0 < aa_amount b \<and> (\<forall>d \<in> set xs. aa_id b = aa_id d \<longrightarrow> b = d)" by (auto simp: kept_rows_def)
  qed
  then show ?case using Cons.prems(3) by (simp add: step kept_rows_twice)
qed

section \<open>Sums over the rows that stay\<close>

lemma total_kept:
  assumes "\<And>a. a \<in> set t \<Longrightarrow> 0 < aa_amount a \<and> (aa_id a \<in> M \<longrightarrow> 0 \<le> planned p a)"
    and "\<And>a v. q (a\<lparr>aa_amount := v\<rparr>) = q a"
  shows "total aa_amount (filter q (kept_rows p M t)) =
    total (\<lambda>a. if aa_id a \<in> M then planned p a else aa_amount a) (filter q t)"
  using assms(1)
proof (induction t)
  case Nil
  then show ?case by simp
next
  case (Cons a t)
  have "aa_id a \<in> M \<Longrightarrow> \<not> 0 < planned p a \<Longrightarrow> planned p a = 0" using Cons.prems [of a] by simp
  with Cons assms(2) show ?case by (cases "aa_id a \<in> M"; cases "0 < planned p a"; cases "q a") simp_all
qed

lemma set_kept: "b \<in> set (kept_rows p M t) \<Longrightarrow> 0 < aa_amount b \<and>
    (\<exists>a \<in> set t. b = (if aa_id a \<in> M then a\<lparr>aa_amount := planned p a\<rparr> else a))"
  by (auto simp: kept_rows_def)

lemma distinct_kept:
  assumes "distinct (map aa_id t)"
  shows "distinct (map aa_id (kept_rows p M t))"
proof -
  have "map aa_id (map (\<lambda>a. if aa_id a \<in> M then a\<lparr>aa_amount := planned p a\<rparr> else a) t) = map aa_id t"
    by (induction t) simp_all
  with assms have "distinct (map aa_id (map (\<lambda>a. if aa_id a \<in> M then a\<lparr>aa_amount := planned p a\<rparr> else a) t))"
    by (simp only:)
  then show ?thesis unfolding kept_rows_def by (rule distinct_map_filter)
qed

lemma total_mono_le: "(\<And>a. a \<in> set t \<Longrightarrow> f a \<le> g a) \<Longrightarrow> total f t \<le> total g t"
  by (induction t) (auto intro: add_mono)

lemma plan_states_mono: "plan_states X s \<Longrightarrow> X \<subseteq> Y \<Longrightarrow> plan_states Y s"
  using plan_states_but [of X s s Y] by (simp add: sup.absorb2)

section \<open>Restating the installments\<close>

definition only_installments :: "hotel \<Rightarrow> hotel \<Rightarrow> bool" where
  "only_installments s t \<longleftrightarrow> (\<exists>I. t = s\<lparr>installments := I\<rparr>)"

lemma only_installmentsD:
  assumes "only_installments s t"
  shows "payments t = payments s" and "resolutions t = resolutions s" and "allocations t = allocations s"
    and "fresh t = fresh s"
proof -
  obtain I where "t = s\<lparr>installments := I\<rparr>" using assms unfolding only_installments_def by blast
  then show "payments t = payments s" and "resolutions t = resolutions s" and "allocations t = allocations s"
    and "fresh t = fresh s" by simp_all
qed

lemma only_installments_refl [simp]: "only_installments s s"
proof -
  have "s = s\<lparr>installments := installments s\<rparr>" by simp
  then show ?thesis unfolding only_installments_def by blast
qed

lemma ends_restate_installment:
  "ends (restate_installment now rid pid after i) Q E s =
    (case first_row (sel (is_installment i pid rid) (installments s)) of
       None \<Rightarrow> E (Failure ''Installment has no resolved amount'') s
     | Some x \<Rightarrow> (case it_resolved x of
         None \<Rightarrow> E (Failure ''Installment has no resolved amount'') s
       | Some r \<Rightarrow>
           let v = total aa_amount (filter (\<lambda>a. aa_installment a = i) after)
           in Q () (installments_update (upd (is_installment i pid rid)
             (\<lambda>x. x\<lparr>it_allocated := cents v, it_status := installment_state v r, it_updated := now\<rparr>)) s)))"
  unfolding restate_installment_def by (simp add: wp Let_def split: option.split)

lemma restate_all:
  assumes "request_rows s" and "plan_states ((\<lambda>i. (rid, pid, i)) ` set ids) s"
    and "\<And>i. total aa_amount (filter (\<lambda>a. aa_installment a = i) after) = paid_on s (rid, pid, i)"
  shows "ends (for_each ids (restate_installment now rid pid after))
    (\<lambda>_ t. request_rows t \<and> plan_states {} t \<and> only_installments s t) (\<lambda>_ _. True) s"
  using assms
proof (induction ids arbitrary: s)
  case Nil
  then show ?case by (simp add: wp)
next
  case (Cons i ids)
  show ?case
  proof (cases "first_row (sel (is_installment i pid rid) (installments s))")
    case None
    then show ?thesis by (simp add: ends_bnd ends_restate_installment)
  next
    case (Some x)
    then have x: "x \<in> set (installments s)" "is_installment i pid rid x" by (auto dest: first_sel_SomeD)
    then have key: "installment_at x = (rid, pid, i)" by (simp add: is_installment_def installment_at_def)
    from x(1) Cons.prems(2) obtain r where r: "it_resolved x = Some r" "fits 2 r" "paid_on s (rid, pid, i) \<le> r"
      by (auto simp: plan_states_def states_truly_def key split: option.splits)
    define g where "g = (\<lambda>z :: installment. z\<lparr>it_allocated := cents (paid_on s (rid, pid, i)),
        it_status := installment_state (paid_on s (rid, pid, i)) r, it_updated := now\<rparr>)"
    let ?t = "installments_update (upd (is_installment i pid rid) g) s"
    have one: "z = x" if "z \<in> set (installments s)" "is_installment i pid rid z" for z
      using distinct_key_unique [where k = it_id, OF _ that(1) x(1)] that(2) x(2) Cons.prems(1)
      by (simp add: request_rows_def keys_ok_def is_installment_def)
    have same: "installment_at (g z) = installment_at z" for z by (simp add: g_def installment_at_def)
    have "plan_states ((\<lambda>i. (rid, pid, i)) ` set (i # ids) - {(rid, pid, i)}) ?t"
    proof (rule plan_states_restated [OF Cons.prems(2) same])
      fix z assume "z \<in> set (installments s)" "is_installment i pid rid z"
      then have "z = x" by (rule one)
      with r fits_accounts(4) [OF Cons.prems(1)]
      show "\<exists>r. it_resolved (g z) = Some r \<and> fits 2 r \<and> paid_on s (rid, pid, i) \<le> r \<and>
          it_allocated (g z) = paid_on s (rid, pid, i) \<and> it_status (g z) = installment_state (paid_on s (rid, pid, i)) r"
        by (simp add: g_def to_fixed_id)
    qed
    then have plan: "plan_states ((\<lambda>i. (rid, pid, i)) ` set ids) ?t" by (rule plan_states_mono) auto
    have rows: "request_rows ?t" using Cons.prems(1) same by (rule request_rows_restated)
    have paid: "paid_on ?t = paid_on s" by (rule allocations_same) simp
    have "ends (for_each ids (restate_installment now rid pid after))
        (\<lambda>_ t. request_rows t \<and> plan_states {} t \<and> only_installments ?t t) (\<lambda>_ _. True) ?t"
      using rows plan Cons.prems(3) by (intro Cons.IH) (simp_all add: paid)
    then have "ends (for_each ids (restate_installment now rid pid after))
        (\<lambda>_ t. request_rows t \<and> plan_states {} t \<and> only_installments s t) (\<lambda>_ _. True) ?t"
      by (rule ends_weaken) (auto simp: only_installments_def)
    then show ?thesis
      using Some r(1) by (simp add: ends_bnd ends_restate_installment Let_def Cons.prems(3) g_def)
  qed
qed

section \<open>Reconciliation\<close>

definition only_plan :: "hotel \<Rightarrow> hotel \<Rightarrow> bool" where
  "only_plan s t \<longleftrightarrow> (\<exists>A I. t = s\<lparr>allocations := A, installments := I\<rparr>)"

lemma only_plan_refl [simp]: "only_plan s s"
proof -
  have "s = s\<lparr>allocations := allocations s, installments := installments s\<rparr>" by simp
  then show ?thesis unfolding only_plan_def by blast
qed

text \<open>The table of allocations once the plan of one payment is applied.\<close>

lemma planned_table:
  assumes M: "money_but {k} s" and k: "k = (rid, pid, i)"
    and mine: "mine = filter (\<lambda>a. allocation_at a = k) (allocations s)"
    and p: "p = plan_net_allocation_reconciliation (capacity s k - given_back s k) mine"
    and Y: "Y = pays_for ` {a \<in> set mine. planned p a \<noteq> aa_amount a}"
  defines "u \<equiv> s\<lparr>allocations := kept_rows p (aa_id ` set mine) (allocations s)\<rparr>"
  shows "request_rows u" and "claims_covered u j" and "allocations_covered u j"
    and "plan_states Y u" and "\<And>a. a \<in> set mine \<Longrightarrow> 0 \<le> planned p a"
proof -
  note D = money_butD [OF M]
  have rows: "distinct (map aa_id (allocations s))" "\<And>a. a \<in> set (allocations s) \<Longrightarrow> 0 < aa_amount a \<and> fits 2 (aa_amount a)"
    using D(1) by (auto simp: request_rows_def keys_ok_def)
  have slack: "given_back s k \<le> capacity s k"
    using D(2) [of k] claimed_nonneg [OF D(1), of k] by (simp add: claims_covered_def)
  have fit: "fits 2 (capacity s k - given_back s k)"
  proof -
    have "fits 2 (capacity s k)" unfolding capacity_def using D(1)
      by (intro fits_total) (auto simp: brought_in_def request_rows_def)
    with fits_accounts(1) [OF D(1)] show ?thesis by simp
  qed
  have dist: "distinct (map aa_id mine)" using rows(1) unfolding mine by (metis distinct_map_filter)
  have in_rows: "0 < aa_amount a \<and> fits 2 (aa_amount a)" if "a \<in> set mine" for a using that rows(2) by (simp add: mine)
  note plan = plan_exact [OF dist fit in_rows, folded p]
  show "0 \<le> planned p a" if "a \<in> set mine" for a using plan(2) that by simp
  have own: "aa_id a \<in> aa_id ` set mine \<longleftrightarrow> allocation_at a = k" if "a \<in> set (allocations s)" for a
  proof
    assume "aa_id a \<in> aa_id ` set mine"
    then obtain b where "b \<in> set mine" "aa_id a = aa_id b" by auto
    then show "allocation_at a = k" using distinct_key_unique [OF rows(1) that, of b] by (auto simp: mine)
  qed (use that in \<open>auto simp: mine\<close>)
  have tot: "total aa_amount (filter q (allocations u)) =
      total (\<lambda>a. if allocation_at a = k then planned p a else aa_amount a) (filter q (allocations s))"
    if "\<And>a v. q (a\<lparr>aa_amount := v\<rparr>) = q a" for q
  proof -
    have "total aa_amount (filter q (allocations u)) =
        total (\<lambda>a. if aa_id a \<in> aa_id ` set mine then planned p a else aa_amount a) (filter q (allocations s))"
      unfolding u_def using rows(2) own plan(2) that by (simp add: mine) (intro total_kept; simp add: own mine)
    also have "\<dots> = total (\<lambda>a. if allocation_at a = k then planned p a else aa_amount a) (filter q (allocations s))"
      by (rule total_cong) (simp add: own)
    finally show ?thesis .
  qed
  have at: "allocation_at (a\<lparr>aa_amount := v\<rparr>) = allocation_at a" "pays_for (a\<lparr>aa_amount := v\<rparr>) = pays_for a" for a v
    by (simp_all add: allocation_at_def pays_for_def)
  have mine_total: "allocated u k \<le> capacity s k - given_back s k"
  proof -
    have "allocated u k = total (planned p) mine"
      unfolding allocated_def tot [of "\<lambda>a. allocation_at a = k", OF arg_cong [OF at(1), where f = "\<lambda>z. z = k"]] mine
      by (rule total_cong) simp
    also have "\<dots> \<le> max (capacity s k - given_back s k) 0" using plan(1) by simp
    finally show ?thesis using slack by simp
  qed
  have other: "allocated u j = allocated s j" if "j \<noteq> k" for j
    unfolding allocated_def tot [of "\<lambda>a. allocation_at a = j", OF arg_cong [OF at(1), where f = "\<lambda>z. z = j"]]
    using that by (intro total_cong) auto
  have acc: "capacity u = capacity s" "given_back u = given_back s" "claimed u = claimed s"
    by (simp_all add: u_def fun_eq_iff capacity_def given_back_def claimed_def)
  show "request_rows u"
  proof -
    have sub: "0 < aa_amount b \<and> fits 2 (aa_amount b) \<and> aa_id b < fresh s \<and> (\<exists>x \<in> set (installments s). installment_at x = pays_for b)"
      if b: "b \<in> set (allocations u)" for b
    proof -
      from set_kept [of b p "aa_id ` set mine" "allocations s"] b
      obtain a where a: "a \<in> set (allocations s)" "0 < aa_amount b"
        "b = (if aa_id a \<in> aa_id ` set mine then a\<lparr>aa_amount := planned p a\<rparr> else a)" by (auto simp: u_def)
      have "fits 2 (aa_amount b)"
        using a rows(2) [OF a(1)] own [OF a(1)] plan(2) [of a] by (auto simp: mine split: if_splits)
      moreover have "aa_id b = aa_id a" "pays_for b = pays_for a" using a(3) by (auto simp: at)
      ultimately show ?thesis using a(1,2) D(1) by (auto simp: request_rows_def keys_ok_def)
    qed
    then show ?thesis
      using D(1) distinct_kept [OF rows(1)] by (auto simp: request_rows_def keys_ok_def u_def)
  qed
  show "claims_covered u j" using D(2) by (simp add: claims_covered_def acc)
  show "allocations_covered u j"
    using mine_total D(3) [of j] other [of j] by (cases "j = k") (simp_all add: allocations_covered_def acc)
  have "plan_states ({} \<union> Y) u"
  proof (rule plan_states_but [OF D(4)])
    show "installments u = installments s" by (simp add: u_def)
    have paid: "paid_on u j = total (\<lambda>a. if allocation_at a = k then planned p a else aa_amount a)
        (filter (\<lambda>a. pays_for a = j) (allocations s))" for j
      unfolding paid_on_def by (rule tot [of "\<lambda>a. pays_for a = j", OF arg_cong [OF at(2), where f = "\<lambda>z. z = j"]])
    show "paid_on u j = paid_on s j" if "j \<notin> Y" for j
      unfolding paid unfolding paid_on_def using that Y by (intro total_cong) (auto simp: mine)
    have "paid_on u j \<le> paid_on s j" for j
      unfolding paid unfolding paid_on_def using plan(2) by (intro total_mono_le) (simp add: mine)
    then show "paid_on u (installment_at x) \<le> r" if "paid_on s (installment_at x) \<le> r" for x r
      using that order_trans by blast
  qed
  then show "plan_states Y u" by simp
qed

text \<open>The sums the code takes over the rows in memory are the sums over the new table.\<close>

lemma after_total:
  assumes "\<And>a. a \<in> set t \<Longrightarrow> 0 < aa_amount a \<and> (aa_id a \<in> M \<longleftrightarrow> allocation_at a = (rid, pid, i))"
  shows "total aa_amount (filter (\<lambda>a. aa_installment a = j) (filter (\<lambda>a. 0 < aa_amount a)
      (map (\<lambda>a. if aa_payment a = i then a\<lparr>aa_amount := planned p a\<rparr> else a) (sel (allocation_of_request rid pid) t)))) =
    total aa_amount (filter (\<lambda>a. pays_for a = (rid, pid, j)) (kept_rows p M t))"
  using assms
proof (induction t)
  case Nil
  then show ?case by (simp add: sel_def)
next
  case (Cons a t)
  have own: "aa_id a \<in> M \<longleftrightarrow> allocation_of_request rid pid a \<and> aa_payment a = i" and pos: "0 < aa_amount a"
    using Cons.prems [of a] by (auto simp: allocation_at_def allocation_of_request_def)
  have pays: "pays_for a = (rid, pid, j) \<longleftrightarrow> allocation_of_request rid pid a \<and> aa_installment a = j"
    "pays_for (a\<lparr>aa_amount := v\<rparr>) = pays_for a" for v
    by (auto simp: pays_for_def allocation_of_request_def)
  have rest: "total aa_amount (filter (\<lambda>a. aa_installment a = j) (filter (\<lambda>a. 0 < aa_amount a)
      (map (\<lambda>a. if aa_payment a = i then a\<lparr>aa_amount := planned p a\<rparr> else a) (sel (allocation_of_request rid pid) t)))) =
    total aa_amount (filter (\<lambda>a. pays_for a = (rid, pid, j)) (kept_rows p M t))" (is "?l t = ?r t")
    using Cons by simp
  let ?b = "if aa_payment a = i then a\<lparr>aa_amount := planned p a\<rparr> else a"
  have "?l (a # t) = (if allocation_of_request rid pid a \<and> 0 < aa_amount ?b \<and> aa_installment a = j then aa_amount ?b else 0) + ?l t"
    by (cases "allocation_of_request rid pid a"; cases "0 < aa_amount ?b") (auto simp: sel_def)
  also have "\<dots> = ?r (a # t)"
    unfolding rest using own pos pays
    by (cases "allocation_of_request rid pid a"; cases "aa_payment a = i"; cases "0 < planned p a"; cases "aa_installment a = j") simp_all
  finally show ?case .
qed

theorem reconcile_covers:
  assumes M: "money_but {k} s" and k: "k = (rid, pid, y_id y)" and cap: "y_amount y = capacity s k"
  shows "ends (reconcile_request_allocations now rid pid y) (\<lambda>_ t. money_but {} t \<and> only_plan s t) (\<lambda>_ _. True) s"
proof -
  note D = money_butD [OF M]
  define mine where "mine = filter (\<lambda>a. aa_payment a = y_id y) (sel (allocation_of_request rid pid) (allocations s))"
  have mine: "mine = filter (\<lambda>a. allocation_at a = k) (allocations s)"
    unfolding mine_def sel_def filter_filter
    by (rule filter_cong) (auto simp: k allocation_at_def allocation_of_request_def)
  show ?thesis
  proof (cases "mine = []")
    case True
    then have "allocated s k = 0" by (simp add: allocated_def mine)
    then have "allocations_covered s j" for j
      using D(2) [of k] D(3) [of j] claimed_nonneg [OF D(1), of k]
      by (cases "j = k") (simp_all add: allocations_covered_def claims_covered_def)
    then have "money_but {} s" using D by (intro money_butI)
    with True show ?thesis by (simp add: reconcile_request_allocations_def wp Let_def mine_def)
  next
    case False
    have ch: "sel (child_where (y_id y) rid pid) (payments s) = filter (child_at k) (payments s)"
      unfolding sel_def using D(1)
      by (intro filter_cong) (auto simp: k child_where_def child_at_def payment_of_request_def request_rows_def)
    define n where "n = remaining_captured_amount (y_amount y) (sel (child_where (y_id y) rid pid) (payments s))"
    have n: "n = capacity s k - given_back s k"
      by (simp add: n_def ch remaining_captured_amount_def sum_refund_children_eq children_sum given_back_def cap)
    define p where "p = plan_net_allocation_reconciliation (capacity s k - given_back s k) mine"
    have "fits 2 n"
    proof -
      have "fits 2 (capacity s k)" unfolding capacity_def using D(1)
        by (intro fits_total) (auto simp: brought_in_def request_rows_def)
      with fits_accounts(1) [OF D(1)] show ?thesis by (simp add: n)
    qed
    then have p: "plan_net_allocation_reconciliation (cents n) mine = p" by (simp add: p_def n to_fixed_id)
    define ids where "ids = rev (remdups (rev (map aa_installment (filter (\<lambda>a. planned p a \<noteq> aa_amount a) mine))))"
    define after where "after = filter (\<lambda>a. 0 < aa_amount a)
        (map (\<lambda>a. if aa_payment a = y_id y then a\<lparr>aa_amount := planned p a\<rparr> else a) (sel (allocation_of_request rid pid) (allocations s)))"
    define u where "u = s\<lparr>allocations := kept_rows p (aa_id ` set mine) (allocations s)\<rparr>"
    have Y: "(\<lambda>i. (rid, pid, i)) ` set ids = pays_for ` {a \<in> set mine. planned p a \<noteq> aa_amount a}"
      by (force simp: ids_def mine k pays_for_def allocation_at_def image_iff)
    note table = planned_table [OF M k mine p_def Y, folded u_def]
    have rows: "distinct (map aa_id (allocations s))" "\<And>a. a \<in> set (allocations s) \<Longrightarrow> 0 < aa_amount a"
      using D(1) by (auto simp: request_rows_def keys_ok_def)
    have own: "aa_id a \<in> aa_id ` set mine \<longleftrightarrow> allocation_at a = k" if "a \<in> set (allocations s)" for a
      using that distinct_key_unique [OF rows(1) that] by (auto simp: mine)
    have moved: "fold (plan_row rid pid p) mine (allocations s) = kept_rows p (aa_id ` set mine) (allocations s)"
    proof (rule plan_rows_eq)
      show "distinct (map aa_id mine)" using rows(1) unfolding mine by (metis distinct_map_filter)
      show "allocation_of_request rid pid a \<and> 0 \<le> planned p a" if "a \<in> set mine" for a
        using table(5) [OF that] that by (simp add: mine k allocation_at_def allocation_of_request_def)
      show "0 < aa_amount b \<and> (\<forall>a \<in> set mine. aa_id b = aa_id a \<longrightarrow> b = a)" if "b \<in> set (allocations s)" for b
        using rows(2) [OF that] distinct_key_unique [OF rows(1) that] by (auto simp: mine)
    qed
    have sums: "total aa_amount (filter (\<lambda>a. aa_installment a = i) after) = paid_on u (rid, pid, i)" for i
      using after_total [of "allocations s" "aa_id ` set mine" rid pid "y_id y" i p] own rows(2) k
      unfolding after_def paid_on_def u_def by simp
    have "ends (for_each ids (restate_installment now rid pid after))
        (\<lambda>_ t. request_rows t \<and> plan_states {} t \<and> only_installments u t) (\<lambda>_ _. True) u"
      using table(1,4) sums unfolding Y [symmetric] by (intro restate_all) simp_all
    then have "ends (for_each ids (restate_installment now rid pid after))
        (\<lambda>_ t. money_but {} t \<and> only_plan s t) (\<lambda>_ _. True) u"
    proof (rule ends_weaken)
      fix x t assume t: "request_rows t \<and> plan_states {} t \<and> only_installments u t"
      note same = only_installmentsD [of u t]
      have "claims_covered t j" "allocations_covered t j" for j
        using table(2,3) [of j] t accounts_same [of t u] allocations_same [of t u] same
        by (simp_all add: claims_covered_def allocations_covered_def)
      then have "money_but {} t" using t by (intro money_butI) simp_all
      moreover have "only_plan s t"
        using t by (auto simp: only_plan_def only_installments_def u_def)
      ultimately show "money_but {} t \<and> only_plan s t" ..
    qed simp
    moreover have "allocations_update (fold (plan_row rid pid p) mine) s = u" by (simp add: u_def moved)
    ultimately show ?thesis
      using False by (simp only: reconcile_request_allocations_def Let_def ends_bnd ends_ask mine_def [symmetric] if_False
          n_def [symmetric] p ids_def [symmetric] after_def [symmetric] ends_apply_all)
  qed
qed

end
