(* ===== verification/Request_Payment_Facts.thy ===== *)
theory Request_Payment_Facts
  imports Request_Reconcile
begin

text \<open>
  What the payment operations of a booking request keep: \<open>request_state\<close>, the ledger invariant of the
  folios together with the accounts of the requests' payments, where \<open>F\<close> are the folios that await a
  recalculation and \<open>X\<close> the payments whose allocations await a reconciliation.
\<close>

section \<open>Programs whose errors are rolled back\<close>

abbreviation yields :: "('s, 'a) prog \<Rightarrow> ('a \<Rightarrow> 's \<Rightarrow> bool) \<Rightarrow> 's \<Rightarrow> bool" where
  "yields m Q s \<equiv> ends m Q (\<lambda>_ _. True) s"

named_theorems vc "one rule per construct, for programs inside a transaction"

lemma yields_bnd [vc]: "yields m (\<lambda>x t. yields (k x) Q t) s \<Longrightarrow> yields (bnd m k) Q s"
  by (simp add: ends_bnd)

lemma yields_ret [vc]: "Q x s \<Longrightarrow> yields (ret x) Q s"
  by (simp add: wp)

lemma yields_throw [vc]: "yields (throw e) Q s"
  by (simp add: wp)

lemma yields_guard [vc]: "(b \<Longrightarrow> Q () s) \<Longrightarrow> yields (guard b e) Q s"
  by (simp add: wp)

lemma yields_lift [vc]: "(\<And>x. r = Inr x \<Longrightarrow> Q x s) \<Longrightarrow> yields (lift_result r) Q s"
  by (cases r) (simp_all add: wp)

lemma yields_require [vc]: "(\<And>x. v = Some x \<Longrightarrow> Q x s) \<Longrightarrow> yields (require v e) Q s"
  by (cases v) (simp_all add: wp)

lemma yields_ask [vc]: "Q (f s) s \<Longrightarrow> yields (ask f) Q s"
  by (simp add: wp)

lemma yields_find_row [vc]: "(\<And>r. r \<in> set (get s) \<Longrightarrow> c r \<Longrightarrow> Q r s) \<Longrightarrow> yields (find_row get c e) Q s"
  by (auto simp: wp split: option.split dest: first_sel_SomeD)

lemma yields_update_where [vc]:
  "Q (map f (sel c (get s))) (modify (upd c f) s) \<Longrightarrow> yields (update_where get modify c f) Q s"
  by (simp add: wp)

lemma yields_delete_where [vc]: "Q () (modify (filter (\<lambda>r. \<not> c r)) s) \<Longrightarrow> yields (delete_where modify c) Q s"
  by (simp add: wp)

lemma yields_insert_row [vc]: "Q r (modify (\<lambda>t. t @ [r]) s) \<Longrightarrow> yields (insert_row modify r) Q s"
  by (simp add: wp)

lemma yields_new_id [vc]: "Q (fresh s) (s\<lparr>fresh := Suc (fresh s)\<rparr>) \<Longrightarrow> yields new_id Q s"
  by (simp add: wp)

lemma yields_if [vc]: "(b \<Longrightarrow> yields m Q s) \<Longrightarrow> (\<not> b \<Longrightarrow> yields n Q s) \<Longrightarrow> yields (if b then m else n) Q s"
  by simp

lemma yields_option [vc]:
  "(v = None \<Longrightarrow> yields m Q s) \<Longrightarrow> (\<And>x. v = Some x \<Longrightarrow> yields (f x) Q s) \<Longrightarrow>
   yields (case v of None \<Rightarrow> m | Some x \<Rightarrow> f x) Q s"
  by (cases v) simp_all

lemma yields_Let [vc]: "(\<And>x. x = v \<Longrightarrow> yields (f x) Q s) \<Longrightarrow> yields (Let v f) Q s"
  by simp

lemma yields_then: "yields m R s \<Longrightarrow> (\<And>x t. R x t \<Longrightarrow> Q x t) \<Longrightarrow> yields m Q s"
  by (erule ends_weaken) simp_all

lemma yields_kept: "keeps_inv I m \<Longrightarrow> I s \<Longrightarrow> (\<And>x t. I t \<Longrightarrow> Q x t) \<Longrightarrow> yields m Q s"
  using keeps_inv_endsD [of I m s] by (rule ends_weaken) simp_all

lemma keeps_transactI: "(\<And>s. I s \<Longrightarrow> yields m (\<lambda>_. I) s) \<Longrightarrow> keeps_inv I (transact m)"
  unfolding keeps_inv_ends by (auto simp: ends_transact elim: ends_weaken)

section \<open>The state\<close>

text \<open>A request's payment sits on no folio or on the folio of the accepted request.\<close>

definition request_links :: "hotel \<Rightarrow> bool" where
  "request_links s \<longleftrightarrow> distinct (map rq_id (booking_requests s)) \<and>
     (\<forall>rq \<in> set (booking_requests s). \<forall>f. rq_folio rq = Some f \<longrightarrow> f < fresh s) \<and>
     (\<forall>y \<in> set (payments s). \<forall>rid f. y_request y = Some rid \<longrightarrow> y_folio y = Some f \<longrightarrow>
        (\<exists>rq \<in> set (booking_requests s). is_request rid (y_property y) rq \<and> rq_folio rq = Some f))"

definition request_state :: "(ident \<times> ident) set \<Rightarrow> key set \<Rightarrow> hotel \<Rightarrow> bool" where
  "request_state F X s \<longleftrightarrow> ledger_base s \<and> folio_books F s \<and> request_links s \<and> money_but X s"

abbreviation request_books :: "hotel \<Rightarrow> bool" where
  "request_books \<equiv> request_state {} {}"

lemma request_stateI:
  "ledger_base s \<Longrightarrow> folio_books F s \<Longrightarrow> request_links s \<Longrightarrow> money_but X s \<Longrightarrow> request_state F X s"
  by (simp add: request_state_def)

lemma request_stateD:
  "request_state F X s \<Longrightarrow> ledger_base s" "request_state F X s \<Longrightarrow> folio_books F s"
  "request_state F X s \<Longrightarrow> request_links s" "request_state F X s \<Longrightarrow> money_but X s"
  by (simp_all add: request_state_def)

lemma request_books_ledger: "request_books s \<Longrightarrow> ledger_ok s"
  by (simp add: request_state_def ledger_ok_def)

definition owed :: "ident option \<Rightarrow> ident \<Rightarrow> (ident \<times> ident) set" where
  "owed fo pid = (case fo of None \<Rightarrow> {} | Some f \<Rightarrow> {(f, pid)})"

lemma owed_iff: "k \<in> owed fo pid \<longleftrightarrow> fo = Some (fst k) \<and> pid = snd k"
  by (auto simp: owed_def prod_eq_iff split: option.splits)

lemma same_request:
  "request_links s \<Longrightarrow> rq \<in> set (booking_requests s) \<Longrightarrow> rq' \<in> set (booking_requests s) \<Longrightarrow> rq_id rq' = rq_id rq \<Longrightarrow> rq' = rq"
  by (auto simp: request_links_def intro: distinct_key_unique)

lemma request_state_recalc:
  assumes "request_state F X s"
  shows "request_state (F - {k}) X (recalc_folio k s)"
proof (rule request_stateI)
  note D = request_stateD [OF assms]
  show "ledger_base (recalc_folio k s)" using D(1) by (rule ledger_base_recalc)
  show "folio_books (F - {k}) (recalc_folio k s)" using D(2) by (rule folio_ledger.recalc_fixes)
  show "request_links (recalc_folio k s)" using D(3) by (simp add: request_links_def)
  show "money_but X (recalc_folio k s)"
    by (rule money_but_same [OF _ D(4)]) (simp add: same_money_def)
qed

lemma yields_recalculate_of:
  assumes "request_state (owed fo pid) X s" and "\<And>t. request_state {} X t \<Longrightarrow> Q () t"
  shows "yields (recalculate_of fo pid) Q s"
proof (cases fo)
  case None
  with assms show ?thesis by (simp add: wp owed_def)
next
  case (Some f)
  with request_state_recalc [OF assms(1), of "(f, pid)"] have "request_state {} X (recalc_folio (f, pid) s)"
    by (simp add: owed_def)
  with assms(2) Some show ?thesis by (simp add: wp)
qed

lemma yields_recalculate_anyway:
  assumes "request_state {} X s" and "\<And>t. request_state {} X t \<Longrightarrow> Q () t"
  shows "yields (recalculate_of fo pid) Q s"
  using assms(2)
  by (rule yields_recalculate_of [rotated]) (use request_stateD [OF assms(1)] in
    \<open>auto intro!: request_stateI intro: folio_books_mono\<close>)

section \<open>The outbox leaves it alone\<close>

lemma money_but_eq: "same_money s t \<Longrightarrow> same_money t s \<Longrightarrow> money_but X t = money_but X s"
  by (blast intro: money_but_same)

lemma request_state_outbox:
  "request_state F X (consequences_update g s) = request_state F X s"
  "request_state F X (deliveries_update h s) = request_state F X s"
proof -
  have "ledger_base (consequences_update g s) = ledger_base s" "ledger_base (deliveries_update h s) = ledger_base s"
    by (simp_all add: ledger_base_def wf_hotel_def refs_ok_def cents_ok_def rules_fit_def)
  moreover have "folio_books F (consequences_update g s) = folio_books F s" "folio_books F (deliveries_update h s) = folio_books F s"
    by (simp_all add: books_def folio_charged_def folio_paid_def)
  moreover have "request_links (consequences_update g s) = request_links s" "request_links (deliveries_update h s) = request_links s"
    by (simp_all add: request_links_def)
  moreover have "money_but X (consequences_update g s) = money_but X s" "money_but X (deliveries_update h s) = money_but X s"
    by (intro money_but_eq; simp add: same_money_def)+
  ultimately show "request_state F X (consequences_update g s) = request_state F X s"
    "request_state F X (deliveries_update h s) = request_state F X s" by (simp_all add: request_state_def)
qed

lemma request_links_fresh: "request_links s \<Longrightarrow> request_links (s\<lparr>fresh := Suc (fresh s)\<rparr>)"
  by (auto simp: request_links_def less_Suc_eq)

lemma request_state_fresh: "request_state F X s \<Longrightarrow> request_state F X (s\<lparr>fresh := Suc (fresh s)\<rparr>)"
  using money_but_same [of s "s\<lparr>fresh := Suc (fresh s)\<rparr>" X]
  by (simp add: request_state_def ledger_base_fresh request_links_fresh same_money_def)

lemma keeps_new_ident [keeps]: "keeps_inv (request_state F X) new_id"
  by (simp add: keeps_inv_def request_state_fresh)

lemma keeps_insert_unless:
  "keeps_inv I (insert_row modify r) \<Longrightarrow> keeps_inv I (insert_unless_present get modify c r)"
  unfolding insert_unless_present_def by (intro keeps)

lemma keeps_consequence_inv:
  assumes "\<And>s g. I s \<Longrightarrow> I (consequences_update g s)" and "\<And>s g. I s \<Longrightarrow> I (deliveries_update g s)"
    and "\<And>s. I s \<Longrightarrow> I (s\<lparr>fresh := Suc (fresh s)\<rparr>)"
  shows "keeps_inv I (ensure_financial_consequence ev i pid rid cur)"
proof -
  have "keeps_inv I new_id" using assms(3) by (simp add: keeps_inv_def)
  then show ?thesis
    unfolding ensure_financial_consequence_def ensure_financial_email_def
    by (intro keeps_bnd keeps_if keeps_case_option keeps_ask keeps_ret keeps_insert_unless keeps_insert_row)
      (use assms(1,2) in simp_all)
qed

lemma keeps_consequence [keeps]: "keeps_inv (request_state F X) (ensure_financial_consequence ev i pid rid cur)"
  by (rule keeps_consequence_inv) (simp_all add: request_state_outbox request_state_fresh)

lemma yields_consequence:
  assumes "request_state F X s" and "\<And>t. request_state F X t \<Longrightarrow> capacity t = capacity s \<Longrightarrow> Q () t"
  shows "yields (ensure_financial_consequence ev i pid rid cur) Q s"
proof (rule yields_kept)
  show "keeps_inv (\<lambda>t. request_state F X t \<and> capacity t = capacity s) (ensure_financial_consequence ev i pid rid cur)"
    by (rule keeps_consequence_inv) (simp_all add: request_state_outbox request_state_fresh capacity_def fun_eq_iff)
qed (use assms in auto)

section \<open>Payments\<close>

lemma links_folio_fresh:
  "request_links s \<Longrightarrow> rq \<in> set (booking_requests s) \<Longrightarrow> rq_folio rq = Some f \<Longrightarrow> f < fresh s"
  by (auto simp: request_links_def)

lemma request_links_add:
  assumes "request_links s" and "rq \<in> set (booking_requests s)" and "is_request rid pid rq"
    and "y_request y = Some rid" and "y_property y = pid" and "y_folio y = rq_folio rq"
  shows "request_links (add_payment y s)"
  using assms by (auto simp: request_links_def less_Suc_eq)

text \<open>Everything but the requests' own money.\<close>

definition request_base :: "(ident \<times> ident) set \<Rightarrow> hotel \<Rightarrow> bool" where
  "request_base F s \<longleftrightarrow> ledger_base s \<and> folio_books F s \<and> request_links s"

lemma request_state_base: "request_state F X s \<longleftrightarrow> request_base F s \<and> money_but X s"
  by (auto simp: request_state_def request_base_def)

lemma request_base_add:
  assumes s: "request_state {} X s" and rq: "rq \<in> set (booking_requests s)" "is_request rid pid rq"
    and y: "y_request y = Some rid" "y_property y = pid" "y_folio y = rq_folio rq" "y_house y = None"
  shows "request_base (if counts_as_paid y then owed (rq_folio rq) pid else {}) (add_payment y s)"
  unfolding request_base_def
proof (intro conjI)
  note D = request_stateD [OF s]
  show "ledger_base (add_payment y s)"
    using D(1) links_folio_fresh [OF D(3) rq(1)] y by (intro ledger_base_add_payment) (simp_all add: good_payment_def)
  show "folio_books (if counts_as_paid y then owed (rq_folio rq) pid else {}) (add_payment y s)"
    using D(2) y by (intro folio_books_add_payment) (auto simp: owed_iff intro: folio_books_mono)
  show "request_links (add_payment y s)" using D(3) rq y(1-3) by (rule request_links_add)
qed

lemma request_state_add:
  assumes "request_state {} X s" and "rq \<in> set (booking_requests s)" "is_request rid pid rq"
    and "y_request y = Some rid" "y_property y = pid" "y_folio y = rq_folio rq" "y_house y = None"
    and "money_but X' (add_payment y s)" and "F = (if counts_as_paid y then owed (rq_folio rq) pid else {})"
  shows "request_state F X' (add_payment y s)"
  using request_base_add [OF assms(1-7)] assms(8,9) by (simp add: request_state_base)

lemma folio_paid_upd_uncounted:
  assumes "\<And>y. y \<in> set (payments s) \<Longrightarrow> c y \<Longrightarrow>
      \<not> folio_payment_sum_where (fst k) (snd k) y \<and> \<not> folio_payment_sum_where (fst k) (snd k) (f y)"
  shows "folio_paid (payments_update (upd c f) s) k = folio_paid s k"
proof -
  have "sel d (upd c f t) = sel d t" if "\<And>y. y \<in> set t \<Longrightarrow> c y \<Longrightarrow> \<not> d y \<and> \<not> d (f y)" for d t
    using that by (intro sel_upd_disjoint) auto
  with assms show ?thesis by (simp add: folio_paid_def)
qed

text \<open>A request's payment moves to the folio of its request, or changes there.\<close>

definition stays_request_row :: "ident option \<Rightarrow> payment \<Rightarrow> payment \<Rightarrow> bool" where
  "stays_request_row fo y z \<longleftrightarrow> same_place y z \<and> y_house z = y_house y \<and> (y_folio z = fo \<or> y_folio z = y_folio y)"

lemma request_state_upd_payments:
  assumes s: "request_state {} X s" and rq: "rq \<in> set (booking_requests s)" "is_request rid pid rq"
    and hit: "\<And>y. y \<in> set (payments s) \<Longrightarrow> c y \<Longrightarrow> y_request y = Some rid \<and> y_property y = pid \<and>
      stays_request_row (rq_folio rq) y (f y)"
    and F: "\<And>y. y \<in> set (payments s) \<Longrightarrow> c y \<Longrightarrow> \<not> b \<Longrightarrow> counts_as_paid (f y) = counts_as_paid y \<and>
      (counts_as_paid y \<longrightarrow> y_folio (f y) = y_folio y)"
    and F': "F = (if b then owed (rq_folio rq) pid else {})"
  shows "request_state F X (payments_update (upd c f) s)" (is "request_state F X ?t")
proof (rule request_stateI)
  note D = request_stateD [OF s]
  have place: "y_id (f y) = y_id y" "y_property (f y) = y_property y" "y_request (f y) = y_request y"
    "y_amount (f y) = y_amount y" "y_house (f y) = y_house y" "y_folio (f y) = rq_folio rq \<or> y_folio (f y) = y_folio y"
    if "y \<in> set (payments s)" "c y" for y
    using hit [OF that] by (auto simp: stays_request_row_def same_place_def)
  have at: "y_folio y = None \<or> y_folio y = rq_folio rq" if "y \<in> set (payments s)" "c y" for y
  proof (cases "y_folio y")
    case (Some g)
    with D(3) that hit [OF that] obtain rq' where "rq' \<in> set (booking_requests s)" "is_request rid pid rq'" "rq_folio rq' = Some g"
      by (force simp: request_links_def)
    with same_request [OF D(3) rq(1), of rq'] rq(2) Some show ?thesis by (simp add: is_request_def)
  qed simp
  show "ledger_base ?t"
  proof -
    have "keys_ok y_id (fresh s) (upd c f (payments s))"
    proof -
      have "map y_id (upd c f (payments s)) = map y_id (payments s)" using place by (auto simp: upd_def)
      moreover have "\<forall>y \<in> set (upd c f (payments s)). y_id y < fresh s"
        using D(1) place by (auto simp: upd_def ledger_base_def wf_hotel_def keys_ok_def)
      ultimately show ?thesis using D(1) by (simp add: keys_ok_def ledger_base_def wf_hotel_def)
    qed
    moreover have "\<forall>y \<in> set (upd c f (payments s)). fits 2 (y_amount y) \<and> (\<forall>i. y_folio y = Some i \<or> y_house y = Some i \<longrightarrow> i < fresh s)"
      using D(1) place links_folio_fresh [OF D(3) rq(1)]
      by (auto simp: set_upd ledger_base_def cents_ok_def refs_ok_def) metis+
    ultimately show ?thesis using D(1) by (auto simp: ledger_base_def wf_hotel_def cents_ok_def refs_ok_def rules_fit_def)
  qed
  show "folio_books F ?t"
  proof (rule folio_ledger.posting [OF D(2)])
    fix k assume k: "k \<notin> F"
    have "folio_paid ?t k = folio_paid s k"
    proof (cases b)
      case False
      have "total y_amount (sel d (upd c f t)) = total y_amount (sel d t)"
        if "\<And>y. y \<in> set t \<Longrightarrow> c y \<Longrightarrow> d (f y) = d y \<and> y_amount (f y) = y_amount y" for d t
        using that by (induction t) (auto simp: sel_def upd_def)
      moreover have "folio_payment_sum_where (fst k) (snd k) (f y) = folio_payment_sum_where (fst k) (snd k) y"
        if "y \<in> set (payments s)" "c y" for y
        using F [OF that False] place(2) [OF that] by (auto simp: folio_payment_sum_where_def)
      ultimately show ?thesis using place by (simp add: folio_paid_def)
    next
      case True
      then have "F = owed (rq_folio rq) pid" using F' by simp
      with k have off: "\<not> (rq_folio rq = Some (fst k) \<and> pid = snd k)" by (simp add: owed_iff)
      have "\<not> (g = Some (fst k) \<and> pid = snd k)" if "g = None \<or> g = rq_folio rq" for g using off that by auto
      then show ?thesis using at place(2,6) hit
        by (intro folio_paid_upd_uncounted) (metis folio_payment_sum_where_def)
    qed
    then show "folio_charged ?t k = folio_charged s k \<and> folio_paid ?t k = folio_paid s k" by simp
  qed simp_all
  show "request_links ?t"
    unfolding request_links_def
  proof (intro conjI ballI allI impI)
    show "distinct (map rq_id (booking_requests ?t))" using D(3) by (simp add: request_links_def)
    show "g < fresh ?t" if "q \<in> set (booking_requests ?t)" "rq_folio q = Some g" for q g
      using D(3) that by (simp add: request_links_def)
    fix z rid' g assume z: "z \<in> set (payments ?t)" "y_request z = Some rid'" "y_folio z = Some g"
    then obtain y where y: "y \<in> set (payments s)" "z = (if c y then f y else y)" by (auto simp: upd_def)
    show "\<exists>q \<in> set (booking_requests ?t). is_request rid' (y_property z) q \<and> rq_folio q = Some g"
    proof (cases "c y")
      case True
      with y z place [OF y(1) True] at [OF y(1) True] hit [OF y(1) True] rq show ?thesis by auto
    next
      case False
      with y z D(3) show ?thesis by (simp add: request_links_def)
    qed
  qed
  show "money_but X ?t"
    using D(4) by (rule money_but_upd_payments) (use hit in \<open>auto simp: stays_request_row_def\<close>)
qed

section \<open>The other tables\<close>

text \<open>The tables of a request's money other than the payments.\<close>

definition request_tables :: "hotel \<Rightarrow> hotel \<Rightarrow> bool" where
  "request_tables s t \<longleftrightarrow> (\<exists>f g h n. fresh s \<le> n \<and>
     t = allocations_update f (installments_update g (resolutions_update h (s\<lparr>fresh := n\<rparr>))))"

lemma request_tables_simps [simp]:
  "request_tables s (allocations_update f s)" "request_tables s (installments_update g s)"
  "request_tables s (resolutions_update h s)" "request_tables s (resolutions_update h (s\<lparr>fresh := Suc (fresh s)\<rparr>))"
  "request_tables s (installments_update g (s\<lparr>fresh := Suc (fresh s)\<rparr>))"
  "request_tables s (allocations_update f (s\<lparr>fresh := Suc (fresh s)\<rparr>))"
proof -
  have all: "request_tables s (allocations_update f (installments_update g (resolutions_update h (s\<lparr>fresh := n\<rparr>))))"
    if "fresh s \<le> n" for f g h n
    using that unfolding request_tables_def by blast
  have same: "installments_update (\<lambda>t. t) u = u" "resolutions_update (\<lambda>t. t) u = u" for u :: hotel by simp_all
  note simps = same allocations_update_same
  show "request_tables s (allocations_update f s)" using all [of "fresh s" f "\<lambda>t. t" "\<lambda>t. t"] by (simp add: simps)
  show "request_tables s (installments_update g s)" using all [of "fresh s" "\<lambda>t. t" g "\<lambda>t. t"] by (simp add: simps)
  show "request_tables s (resolutions_update h s)" using all [of "fresh s" "\<lambda>t. t" "\<lambda>t. t" h] by (simp add: simps)
  show "request_tables s (resolutions_update h (s\<lparr>fresh := Suc (fresh s)\<rparr>))"
    using all [of "Suc (fresh s)" "\<lambda>t. t" "\<lambda>t. t" h] by (simp add: simps)
  show "request_tables s (installments_update g (s\<lparr>fresh := Suc (fresh s)\<rparr>))"
    using all [of "Suc (fresh s)" "\<lambda>t. t" g "\<lambda>t. t"] by (simp add: simps)
  show "request_tables s (allocations_update f (s\<lparr>fresh := Suc (fresh s)\<rparr>))"
    using all [of "Suc (fresh s)" f "\<lambda>t. t" "\<lambda>t. t"] by (simp add: simps)
qed

lemma request_base_tables:
  assumes "request_base F s" and "request_tables s t"
  shows "request_base F t"
proof -
  obtain f g h n where t: "t = allocations_update f (installments_update g (resolutions_update h (s\<lparr>fresh := n\<rparr>)))"
    and n: "fresh s \<le> n"
    using assms(2) unfolding request_tables_def by blast
  note D = conjunct1 [OF assms(1) [unfolded request_base_def]] conjunct2 [OF assms(1) [unfolded request_base_def]]
  show ?thesis
    unfolding request_base_def
  proof (intro conjI)
    show "ledger_base t"
    proof -
      have "wf_hotel t" using D(1) n by (auto simp: t ledger_base_def wf_hotel_def intro: keys_ok_mono)
      moreover have "refs_ok t"
        using D(1) less_le_trans [OF _ n] by (auto simp: t ledger_base_def refs_ok_def)
      ultimately show ?thesis using D(1) by (simp add: t ledger_base_def cents_ok_def rules_fit_def)
    qed
    show "folio_books F t" using conjunct1 [OF D(2)] by (simp add: t books_def folio_charged_def folio_paid_def)
    show "request_links t" using conjunct2 [OF D(2)] n by (auto simp: t request_links_def)
  qed
qed

lemma request_state_tables: "request_state F X s \<Longrightarrow> request_tables s t \<Longrightarrow> money_but X' t \<Longrightarrow> request_state F X' t"
  using request_base_tables by (auto simp: request_state_base)


lemma only_plan_tables: "only_plan s t \<Longrightarrow> request_tables s t"
proof -
  assume "only_plan s t"
  then obtain A I where t: "t = s\<lparr>allocations := A, installments := I\<rparr>" unfolding only_plan_def by blast
  have same: "resolutions_update (\<lambda>t. t) u = u" for u :: hotel by simp
  have "t = allocations_update (\<lambda>_. A) (installments_update (\<lambda>_. I) (resolutions_update (\<lambda>t. t) (s\<lparr>fresh := fresh s\<rparr>)))"
    unfolding same by (simp add: t)
  then show ?thesis unfolding request_tables_def by blast
qed

text \<open>A parent payment holds what its account has room for.\<close>

definition parent_at :: "key \<Rightarrow> hotel \<Rightarrow> payment \<Rightarrow> bool" where
  "parent_at k s y \<longleftrightarrow> (case k of (rid, pid, i) \<Rightarrow> y_id y = i \<and> y_request y = Some rid \<and> y_property y = pid) \<and>
     is_parent y \<and> y_amount y = capacity s k"

lemma yields_reconcile:
  assumes "request_state F {(rid, pid, y_id y)} s" and "y_amount y = capacity s (rid, pid, y_id y)"
    and "\<And>t. request_state F {} t \<Longrightarrow> Q () t"
  shows "yields (reconcile_request_allocations now rid pid y) Q s"
  by (rule yields_then [OF reconcile_covers [OF request_stateD(4) [OF assms(1)] refl assms(2)]])
    (auto intro!: assms(3) request_state_tables [OF assms(1)] only_plan_tables)

lemma yields_find_parent:
  assumes "request_state F X s"
    and "\<And>y. y \<in> set (payments s) \<Longrightarrow> y_id y = i \<Longrightarrow> parent_at (rid, pid, i) s y \<Longrightarrow> Q y s"
  shows "yields (find_parent_payment rid i pid) Q s"
  unfolding find_parent_payment_def find_movement_def
proof (intro vc)
  fix y assume y: "y \<in> set (payments s)" "is_payment i pid y" "\<not> (y_request y \<noteq> Some rid \<or> y_original y \<noteq> None)"
    "parent_status (y_status y)" "\<not> y_amount y \<le> 0"
  then have p: "is_parent y" by (simp add: is_parent_def)
  have "capacity s (rid, pid, i) = y_amount y"
    using request_stateD(4) [OF assms(1)] y p
    by (intro capacity_of) (auto simp: payment_at_def payment_of_request_def is_payment_def money_but_def)
  with y p show "Q y s" by (intro assms(2)) (simp_all add: parent_at_def is_payment_def)
qed

section \<open>The installment plan\<close>

lemma request_rows_installment:
  "request_rows s \<Longrightarrow> a \<in> set (allocations s) \<Longrightarrow> \<exists>x \<in> set (installments s). installment_at x = pays_for a"
  by (simp add: request_rows_def)

lemma paid_on_nowhere:
  assumes "request_rows s" and "\<And>x. x \<in> set (installments s) \<Longrightarrow> installment_at x \<noteq> k"
  shows "paid_on s k = 0"
proof -
  have "filter (\<lambda>a. pays_for a = k) (allocations s) = []"
    using assms by (auto simp: filter_empty_conv request_rows_def)
  then show ?thesis by (simp add: paid_on_def)
qed

lemma total_ge_member: "a \<in> set t \<Longrightarrow> (\<And>b. b \<in> set t \<Longrightarrow> 0 \<le> f b) \<Longrightarrow> f a \<le> total f t"
proof (induction t)
  case Nil
  then show ?case by simp
next
  case (Cons b t)
  then have "0 \<le> f b" "0 \<le> total f t" by (auto intro: total_nonneg)
  with Cons show ?case by fastforce
qed

lemma paid_on_zero:
  assumes "request_rows s" and "paid_on s k = 0" and "a \<in> set (allocations s)"
  shows "pays_for a \<noteq> k"
proof
  assume "pays_for a = k"
  then have a: "a \<in> set (filter (\<lambda>a. pays_for a = k) (allocations s))" using assms(3) by simp
  have "0 < aa_amount b" if "b \<in> set (allocations s)" for b
    using that assms(1) by (simp add: request_rows_def)
  then have "aa_amount a \<le> paid_on s k" and "0 < aa_amount a"
    unfolding paid_on_def using a assms(3) by (auto intro!: total_ge_member simp: less_imp_le)
  with assms(2) show False by simp
qed

lemma money_but_new_installment:
  assumes "money_but X s" and x: "it_id x = fresh s" "it_allocated x = 0" "it_status x = InstallmentUnpaid"
    "it_resolved x = Some r" "fits 2 r" "0 \<le> r"
  shows "money_but X (installments_update (\<lambda>t. t @ [x]) (s\<lparr>fresh := Suc (fresh s)\<rparr>))" (is "money_but X ?t")
proof (rule money_butI)
  note D = money_butD [OF assms(1)]
  have acc: "capacity ?t = capacity s" "given_back ?t = given_back s" "claimed ?t = claimed s"
    "allocated ?t = allocated s" "paid_on ?t = paid_on s"
    by (simp_all add: fun_eq_iff capacity_def given_back_def claimed_def allocated_def paid_on_def)
  have "paid_on s (installment_at x) = 0"
    by (rule paid_on_nowhere [OF D(1)]) (use D(1) x(1) in \<open>auto simp: request_rows_def keys_ok_def installment_at_def\<close>)
  then have "states_truly {} ?t x" using x unfolding states_truly_def acc by (simp add: installment_state_def)
  moreover have "states_truly {} ?t z" if "z \<in> set (installments s)" for z
    using D(4) that unfolding plan_states_def states_truly_def acc by blast
  ultimately show "plan_states {} ?t" by (simp add: plan_states_def)
  show "request_rows ?t"
    using D(1) x(1) by (auto simp: request_rows_def keys_ok_append keys_ok_Suc)
  show "claims_covered ?t k" for k using D(2) by (simp add: claims_covered_def acc)
  show "allocations_covered ?t k" if "k \<notin> X" for k using D(3) [OF that] by (simp add: allocations_covered_def acc)
qed

lemma money_but_restated:
  assumes "money_but X s" and same: "\<And>x. installment_at (g x) = installment_at x"
    and new: "\<And>x. x \<in> set (installments s) \<Longrightarrow> is_installment i pid rid x \<Longrightarrow> \<exists>r. it_resolved (g x) = Some r \<and> fits 2 r \<and>
      paid_on s (rid, pid, i) \<le> r \<and> it_allocated (g x) = paid_on s (rid, pid, i) \<and>
      it_status (g x) = installment_state (paid_on s (rid, pid, i)) r"
  shows "money_but X (installments_update (upd (is_installment i pid rid) g) s)" (is "money_but X ?t")
proof (rule money_butI)
  note D = money_butD [OF assms(1)]
  have acc: "capacity ?t = capacity s" "given_back ?t = given_back s" "claimed ?t = claimed s" "allocated ?t = allocated s"
    by (simp_all add: fun_eq_iff capacity_def given_back_def claimed_def allocated_def)
  show "request_rows ?t" using D(1) same by (rule request_rows_restated)
  show "plan_states {} ?t" using plan_states_restated [OF D(4) same new] by simp
  show "claims_covered ?t k" for k using D(2) by (simp add: claims_covered_def acc)
  show "allocations_covered ?t k" if "k \<notin> X" for k using D(3) [OF that] by (simp add: allocations_covered_def acc)
qed

lemma allocation_total_paid:
  "total aa_amount (filter (\<lambda>a. aa_installment a = i) (sel (allocation_of_request rid pid) (allocations s))) = paid_on s (rid, pid, i)"
proof -
  have "(\<lambda>a. allocation_of_request rid pid a \<and> aa_installment a = i) = (\<lambda>a. pays_for a = (rid, pid, i))"
    by (auto simp: fun_eq_iff pays_for_def allocation_of_request_def)
  then show ?thesis by (simp add: paid_on_def sel_def)
qed

lemma normalized_terms:
  assumes "normalize_installment rq dto = Inr t"
  shows "0 \<le> tm_resolved t \<and> fits 2 (tm_resolved t)"
  using assms
  by (auto simp: normalize_installment_def sbind_Inr_iff resolve_installment_amount_def Let_def less_imp_le
      split: if_splits option.splits)

lemma with_terms_simps [simp]:
  "installment_at (with_terms t x) = installment_at x" "it_id (with_terms t x) = it_id x"
  "it_allocated (with_terms t x) = it_allocated x" "it_status (with_terms t x) = it_status x"
  "it_resolved (with_terms t x) = Some (tm_resolved t)"
  by (simp_all add: with_terms_def installment_at_def)

lemma installment_at_stated [simp]:
  "installment_at (x\<lparr>it_allocated := a, it_status := q, it_updated := n\<rparr>) = installment_at x"
  by (simp add: installment_at_def)

theorem keeps_create_installment: "keeps_inv request_books (create_installment now rid pid dto)"
  unfolding create_installment_def find_request_def chargeable_total_def
  apply (rule keeps_transactI, intro vc)
  subgoal premises p for s rq u tot t
  proof -
    have t: "0 \<le> tm_resolved t" "fits 2 (tm_resolved t)" using normalized_terms [OF p(7)] by blast+
    show ?thesis
      using t by (intro request_state_tables [OF p(1)] money_but_new_installment [OF request_stateD(4) [OF p(1)]]) simp_all
  qed
  done

theorem keeps_update_installment: "keeps_inv request_books (update_installment now rid i pid inp)"
  unfolding update_installment_def find_request_def find_installment_def chargeable_total_def installment_allocation_total_def
  apply (rule keeps_transactI, unfold allocation_total_paid, intro vc)
  subgoal premises p for s rq u tot existing t x
  proof -
    have fit: "fits 2 (paid_on s (rid, pid, i))"
      using request_stateD(4) [OF p(1)] by (intro fits_accounts) (simp add: money_but_def)
    have t: "0 \<le> tm_resolved t" "fits 2 (tm_resolved t)" and room: "\<not> tm_resolved t < paid_on s (rid, pid, i)"
      using normalized_terms [of rq _ t] p by blast+
    show ?thesis
      using t room fit
      by (intro request_state_tables [OF p(1)] money_but_restated [OF request_stateD(4) [OF p(1)]]) (simp_all add: to_fixed_id)
  qed
  done

lemma money_but_drop_installment:
  assumes "money_but X s" and "paid_on s (rid, pid, i) = 0"
  shows "money_but X (installments_update (filter (\<lambda>x. \<not> is_installment i pid rid x)) s)" (is "money_but X ?t")
proof (rule money_butI)
  note D = money_butD [OF assms(1)]
  have acc: "capacity ?t = capacity s" "given_back ?t = given_back s" "claimed ?t = claimed s"
    "allocated ?t = allocated s" "paid_on ?t = paid_on s"
    by (simp_all add: fun_eq_iff capacity_def given_back_def claimed_def allocated_def paid_on_def)
  have key: "is_installment i pid rid x \<longleftrightarrow> installment_at x = (rid, pid, i)" for x
    by (auto simp: is_installment_def installment_at_def)
  have "keys_ok it_id (fresh s) (filter (\<lambda>x. \<not> is_installment i pid rid x) (installments s))"
    using D(1) by (auto simp: request_rows_def keys_ok_def distinct_map_filter)
  moreover have "\<exists>x \<in> set (filter (\<lambda>x. \<not> is_installment i pid rid x) (installments s)). installment_at x = pays_for a"
    if a: "a \<in> set (allocations s)" for a
  proof -
    obtain x where "x \<in> set (installments s)" "installment_at x = pays_for a"
      using request_rows_installment [OF D(1) a] by blast
    with paid_on_zero [OF D(1) assms(2) a] show ?thesis by (auto simp: key)
  qed
  ultimately show "request_rows ?t" using D(1) by (simp add: request_rows_def)
  show "plan_states {} ?t" using D(4) unfolding plan_states_def states_truly_def acc by simp
  show "claims_covered ?t k" for k using D(2) by (simp add: claims_covered_def acc)
  show "allocations_covered ?t k" if "k \<notin> X" for k using D(3) [OF that] by (simp add: allocations_covered_def acc)
qed

theorem keeps_delete_installment: "keeps_inv request_books (delete_installment now rid i pid)"
  unfolding delete_installment_def find_request_def find_installment_def installment_allocation_total_def
  apply (rule keeps_transactI, unfold allocation_total_paid, intro vc)
  subgoal premises p for s rq u existing
    using p by (intro request_state_tables [OF p(1)] money_but_drop_installment [OF request_stateD(4) [OF p(1)]]) simp_all
  subgoal premises p for s rq u existing r x
  proof -
    have fit: "fits 2 (paid_on s (rid, pid, i))"
      using request_stateD(4) [OF p(1)] by (intro fits_accounts) (simp add: money_but_def)
    have nz: "paid_on s (rid, pid, i) \<noteq> 0" using p by simp
    show ?thesis
      using nz fit
      by (intro request_state_tables [OF p(1)] money_but_restated [OF request_stateD(4) [OF p(1)]])
        (simp_all add: to_fixed_id installment_at_def installment_state_def)
  qed
  done

lemma request_state_renumbered:
  assumes "request_state F X s"
  shows "request_state F X (installments_update (upd c (\<lambda>x. x\<lparr>it_sort := n, it_updated := now\<rparr>)) s)" (is "request_state F X ?t")
proof (rule request_state_tables [OF assms], simp, rule money_butI)
  note D = money_butD [OF request_stateD(4) [OF assms]]
  have acc: "capacity ?t = capacity s" "given_back ?t = given_back s" "claimed ?t = claimed s"
    "allocated ?t = allocated s" "paid_on ?t = paid_on s"
    by (simp_all add: fun_eq_iff capacity_def given_back_def claimed_def allocated_def paid_on_def)
  have same: "installment_at (x\<lparr>it_sort := n, it_updated := now\<rparr>) = installment_at x" for x
    by (simp add: installment_at_def)
  show "request_rows ?t" using D(1) same by (rule request_rows_restated)
  show "plan_states {} ?t"
    using D(4) unfolding plan_states_def states_truly_def acc by (auto simp: upd_def same split: option.splits)
  show "claims_covered ?t k" for k using D(2) by (simp add: claims_covered_def acc)
  show "allocations_covered ?t k" if "k \<notin> X" for k using D(3) [OF that] by (simp add: allocations_covered_def acc)
qed

theorem keeps_reorder_installments: "keeps_inv request_books (reorder_installments now rid pid ids)"
  unfolding reorder_installments_def find_request_def
  by (intro keeps keeps_update_where request_state_renumbered)

end
