(* ===== verification/Request_Allocation.thy ===== *)
theory Request_Allocation
  imports Request_Payment_Facts
begin

text \<open>
  Allocating a captured payment to an installment keeps the accounts of the request, because the amount
  is checked against what the payment still holds and what the installment still wants.
\<close>

section \<open>Allocating a payment\<close>

text \<open>One allocation grows by \<open>v\<close>: the payment \<open>k\<close> pays that much more, the installment \<open>j\<close> has it.\<close>

definition grown :: "key \<Rightarrow> key \<Rightarrow> decimal \<Rightarrow> hotel \<Rightarrow> hotel \<Rightarrow> bool" where
  "grown k j v s t \<longleftrightarrow> payments t = payments s \<and> resolutions t = resolutions s \<and> installments t = installments s \<and>
     request_rows t \<and> (\<forall>m. allocated t m = allocated s m + (if m = k then v else 0)) \<and>
     (\<forall>m. paid_on t m = paid_on s m + (if m = j then v else 0))"

lemma grown_insert:
  assumes "request_rows s" and "aa_id a = fresh s" "0 < aa_amount a" "fits 2 (aa_amount a)"
    and "\<exists>x \<in> set (installments s). installment_at x = pays_for a"
  shows "grown (allocation_at a) (pays_for a) (aa_amount a) s
    (allocations_update (\<lambda>t. t @ [a]) (s\<lparr>fresh := Suc (fresh s)\<rparr>))"
  using assms by (auto simp: grown_def allocated_def paid_on_def request_rows_def keys_ok_append keys_ok_Suc)

lemma grown_update:
  assumes "request_rows s" and a: "a \<in> set (allocations s)" "aa_property a = pid" "aa_request a = rid" and v: "0 < v" "fits 2 v"
  shows "grown (allocation_at a) (pays_for a) v s
    (allocations_update (upd (is_allocation (aa_id a) pid rid) (\<lambda>b. b\<lparr>aa_amount := aa_amount a + v\<rparr>)) s)" (is "grown _ _ _ s ?t")
proof -
  let ?c = "is_allocation (aa_id a) pid rid" and ?f = "\<lambda>b. b\<lparr>aa_amount := aa_amount a + v\<rparr>"
  have d: "distinct (map aa_id (allocations s))" using assms(1) by (simp add: request_rows_def keys_ok_def)
  have ca: "?c a" using a by (simp add: is_allocation_def)
  have one: "b = a" if "b \<in> set (allocations s)" "?c b" for b
    using distinct_key_unique [OF d that(1) a(1)] that(2) by (simp add: is_allocation_def)
  have sums: "total aa_amount (filter q (upd ?c ?f (allocations s))) =
      total aa_amount (filter q (allocations s)) + (if q a then v else 0)" if "\<And>b w. q (b\<lparr>aa_amount := w\<rparr>) = q b" for q
  proof -
    have "sum_list (map (\<lambda>b. if q b then aa_amount b else 0) (upd ?c ?f (allocations s))) =
        sum_list (map (\<lambda>b. if q b then aa_amount b else 0) (allocations s)) - (if q a then aa_amount a else 0) +
        (if q (?f a) then aa_amount (?f a) else 0)"
      by (rule sum_list_upd_one [where k = aa_id and c = ?c and f = ?f and v = "\<lambda>b. if q b then aa_amount b else 0" and r = a, OF d a(1) ca])
        (simp add: is_allocation_def)
    then show ?thesis by (simp add: total_filter_map that)
  qed
  have at: "(allocation_at (b\<lparr>aa_amount := w\<rparr>) = m) = (allocation_at b = m)" "(pays_for (b\<lparr>aa_amount := w\<rparr>) = m) = (pays_for b = m)" for b w m
    by (simp_all add: allocation_at_def pays_for_def)
  have "request_rows ?t"
  proof -
    have "0 < aa_amount z \<and> fits 2 (aa_amount z) \<and> (\<exists>x \<in> set (installments s). installment_at x = pays_for z)"
      if z: "z \<in> set (upd ?c ?f (allocations s))" for z
    proof -
      from z obtain b where b: "b \<in> set (allocations s)" "z = (if ?c b then ?f b else b)" by (auto simp: upd_def)
      have "0 < aa_amount b" "fits 2 (aa_amount b)" "\<exists>x \<in> set (installments s). installment_at x = pays_for b"
        using assms(1) b(1) by (auto simp: request_rows_def)
      moreover have "pays_for z = pays_for b" using b(2) by (simp add: pays_for_def)
      ultimately show ?thesis using b one [OF b(1)] v by auto
    qed
    moreover have "keys_ok aa_id (fresh s) (upd ?c ?f (allocations s))"
      using assms(1) by (intro keys_ok_upd) (simp_all add: request_rows_def)
    ultimately show ?thesis using assms(1) by (simp add: request_rows_def)
  qed
  moreover have "allocated ?t m = allocated s m + (if m = allocation_at a then v else 0)" for m
    using sums [of "\<lambda>b. allocation_at b = m", OF at(1)] by (auto simp: allocated_def)
  moreover have "paid_on ?t m = paid_on s m + (if m = pays_for a then v else 0)" for m
    using sums [of "\<lambda>b. pays_for b = m", OF at(2)] by (auto simp: paid_on_def)
  ultimately show ?thesis by (simp add: grown_def)
qed

lemma grown_covered:
  assumes "money_but {} s" and t: "grown k (rid, pid, i) v s t"
    and room: "given_back s k + allocated s k + v \<le> capacity s k"
    and x: "x \<in> set (installments s)" "is_installment i pid rid x" "it_resolved x = Some r"
    and due: "paid_on s (rid, pid, i) + v \<le> r"
  shows "money_but {} (installments_update (upd (is_installment i pid rid) (\<lambda>z. z\<lparr>it_allocated := cents (paid_on t (rid, pid, i)),
     it_status := installment_state (paid_on t (rid, pid, i)) r, it_updated := now\<rparr>)) t)"
proof -
  note D = money_butD [OF assms(1)]
  note G = t [unfolded grown_def]
  have acc: "capacity t = capacity s" "given_back t = given_back s" "claimed t = claimed s"
    using G by (intro accounts_same; simp)+
  let ?g = "\<lambda>z :: installment. z\<lparr>it_allocated := cents (paid_on t (rid, pid, i)),
     it_status := installment_state (paid_on t (rid, pid, i)) r, it_updated := now\<rparr>"
  let ?u = "installments_update (upd (is_installment i pid rid) ?g) t"
  have same: "installment_at (?g z) = installment_at z" for z by simp
  have key: "installment_at x = (rid, pid, i)" using x(2) by (simp add: is_installment_def installment_at_def)
  have d: "distinct (map it_id (installments s))" using D(1) by (simp add: request_rows_def keys_ok_def)
  have one: "z = x" if "z \<in> set (installments s)" "is_installment i pid rid z" for z
    using distinct_key_unique [OF d that(1) x(1)] that(2) x(2) by (simp add: is_installment_def)
  have is_key: "is_installment i pid rid z \<longleftrightarrow> installment_at z = (rid, pid, i)" for z
    by (auto simp: is_installment_def installment_at_def)
  have P: "paid_on t m = paid_on s m + (if m = (rid, pid, i) then v else 0)"
    and A: "allocated t m = allocated s m + (if m = k then v else 0)" for m
    using G by blast+
  have due': "paid_on t (rid, pid, i) \<le> r" using due P [of "(rid, pid, i)"] by simp
  have "plan_states ({} \<union> {(rid, pid, i)}) t"
  proof (rule plan_states_but [OF D(4)])
    show "installments t = installments s" using G by simp
    show "paid_on t m = paid_on s m" if "m \<notin> {(rid, pid, i)}" for m using P [of m] that by simp
    fix z q assume z: "z \<in> set (installments s)" "installment_at z \<in> {(rid, pid, i)}" "it_resolved z = Some q"
    then have "z = x" using one is_key by simp
    with z x(3) due' key show "paid_on t (installment_at z) \<le> q" by simp
  qed
  moreover have "fits 2 r"
    using D(4) x by (auto simp: plan_states_def states_truly_def split: option.splits)
  moreover have "cents (paid_on t (rid, pid, i)) = paid_on t (rid, pid, i)"
    using fits_accounts(4) [of t "(rid, pid, i)"] G by (simp add: to_fixed_id)
  moreover have "z = x" if "z \<in> set (installments t)" "is_installment i pid rid z" for z
    using one that G by simp
  ultimately have "plan_states (({} \<union> {(rid, pid, i)}) - {(rid, pid, i)}) ?u"
    using due' x(3) by (intro plan_states_restated) auto
  moreover have "request_rows ?u" using G by (intro request_rows_restated) simp_all
  moreover have acc': "capacity ?u = capacity s" "given_back ?u = given_back s" "claimed ?u = claimed s" "allocated ?u = allocated t"
    using G by (simp_all add: fun_eq_iff capacity_def given_back_def claimed_def allocated_def)
  moreover have "claims_covered ?u m" for m using D(2) [of m] acc' by (simp add: claims_covered_def)
  moreover have "allocations_covered ?u m" for m
  proof -
    from acc' show ?thesis using D(3) [of m] A [of m] room by (simp add: allocations_covered_def)
  qed
  ultimately show ?thesis by (intro money_butI) simp_all
qed

lemma allocated_total:
  "total aa_amount (filter (\<lambda>a. aa_payment a = i) (sel (allocation_of_request rid pid) (allocations s))) = allocated s (rid, pid, i)"
proof -
  have "(\<lambda>a. allocation_of_request rid pid a \<and> aa_payment a = i) = (\<lambda>a. allocation_at a = (rid, pid, i))"
    by (auto simp: fun_eq_iff allocation_at_def allocation_of_request_def)
  then show ?thesis by (simp add: allocated_def sel_def)
qed

lemma positive_money_iff: "positive_money v cur = Inr x \<Longrightarrow> 0 < x \<and> fits 2 x"
  by (auto simp: positive_money_def sbind_Inr_iff not_le split: option.splits if_splits)

lemma allocation_checked:
  assumes "allocation_checks v yid i rows movement installment = Inr u"
  shows "total aa_amount (filter (\<lambda>a. aa_payment a = yid) rows) + v \<le> movement"
    and "total aa_amount (filter (\<lambda>a. aa_installment a = i) rows) + v \<le> installment"
  using assms by (auto simp: allocation_checks_def assert_allocation_amount_def sbind_Inr_iff positive_iff
      allocated_so_far_iff not_less split: if_splits)

lemma first_of_key:
  assumes "find c (sel d t) = Some a"
  shows "a \<in> set t" and "c a" and "d a"
  using assms by (auto simp: find_Some_iff sel_def dest: nth_mem)

lemma yields_store:
  assumes s: "request_rows s" and x: "\<exists>x \<in> set (installments s). is_installment i pid rid x"
    and v: "0 < v" "fits 2 v" and Q: "\<And>a t. grown (rid, pid, yid) (rid, pid, i) v s t \<Longrightarrow> request_tables s t \<Longrightarrow> Q a t"
  shows "yields (store_allocation now rid pid yid i v
    (find (\<lambda>a. aa_payment a = yid \<and> aa_installment a = i) (sel (allocation_of_request rid pid) (allocations s)))) Q s"
  unfolding store_allocation_def insert_allocation_def
proof (intro vc)
  fix u clash
  let ?a = "\<lparr>aa_id = fresh s, aa_property = pid, aa_request = rid, aa_payment = yid, aa_installment = i,
      aa_amount = cents v, aa_created = now\<rparr>"
  have "grown (allocation_at ?a) (pays_for ?a) (aa_amount ?a) s (allocations_update (\<lambda>t. t @ [?a]) (s\<lparr>fresh := Suc (fresh s)\<rparr>))"
    using s x v by (intro grown_insert) (auto simp: pays_for_def is_installment_def installment_at_def to_fixed_id)
  then show "Q (\<lparr>aa_id = 0, aa_property = pid, aa_request = rid, aa_payment = yid, aa_installment = i,
      aa_amount = cents v, aa_created = now\<rparr>\<lparr>aa_id := fresh s\<rparr>)
     (allocations_update (\<lambda>t. t @ [\<lparr>aa_id = 0, aa_property = pid, aa_request = rid, aa_payment = yid, aa_installment = i,
      aa_amount = cents v, aa_created = now\<rparr>\<lparr>aa_id := fresh s\<rparr>]) (s\<lparr>fresh := Suc (fresh s)\<rparr>))"
    using v by (intro Q) (simp_all add: allocation_at_def pays_for_def to_fixed_id)
next
  fix a
  assume a: "find (\<lambda>a. aa_payment a = yid \<and> aa_installment a = i) (sel (allocation_of_request rid pid) (allocations s)) = Some a"
  note A = first_of_key [OF a]
  have "fits 2 (aa_amount a + v)" using s A(1) v by (auto simp: request_rows_def)
  then have c: "cents (aa_amount a + v) = aa_amount a + v" by (simp add: to_fixed_id)
  have "grown (allocation_at a) (pays_for a) v s
      (allocations_update (upd (is_allocation (aa_id a) pid rid) (\<lambda>b. b\<lparr>aa_amount := aa_amount a + v\<rparr>)) s)"
    using s A v by (intro grown_update) (simp_all add: allocation_of_request_def)
  then show "Q (case first_row (map (\<lambda>b. b\<lparr>aa_amount := cents (aa_amount a + v)\<rparr>)
        (sel (is_allocation (aa_id a) pid rid) (allocations s))) of
      None \<Rightarrow> a\<lparr>aa_amount := cents (aa_amount a + v)\<rparr> | Some b \<Rightarrow> b)
     (allocations_update (upd (is_allocation (aa_id a) pid rid) (\<lambda>b. b\<lparr>aa_amount := cents (aa_amount a + v)\<rparr>)) s)"
    using A unfolding c by (intro Q) (simp_all add: allocation_at_def pays_for_def allocation_of_request_def)
qed

text \<open>What a payment has left to allocate is at most what it holds less what is promised.\<close>

lemma parent_to_resolve:
  assumes "money_but X s" and "parent_at (rid, pid, y_id y) s y"
  shows "ls_to_resolve (summarize_ledger y (sel (payment_of_request rid pid) (payments s))
       (sel (allocation_of_request rid pid) (allocations s)) (sel (resolution_of_request rid pid) (resolutions s))) =
     capacity s (rid, pid, y_id y) - given_back s (rid, pid, y_id y) - claimed s (rid, pid, y_id y)"
  using assms money_butD(1,2) [OF assms(1)] by (intro to_resolve_exact(1)) (simp_all add: parent_at_def)

lemma allocation_fits_in:
  assumes "money_but {} s" and y: "parent_at (rid, pid, y_id y) s y"
    and c: "allocation_checks v (y_id y) i (sel (allocation_of_request rid pid) (allocations s))
      (ls_to_resolve (summarize_ledger y (sel (payment_of_request rid pid) (payments s))
       (sel (allocation_of_request rid pid) (allocations s)) (sel (resolution_of_request rid pid) (resolutions s)))) r = Inr u"
  shows "given_back s (rid, pid, y_id y) + allocated s (rid, pid, y_id y) + v \<le> capacity s (rid, pid, y_id y)"
    and "paid_on s (rid, pid, i) + v \<le> r"
  using allocation_checked [OF c] claimed_nonneg [OF money_butD(1) [OF assms(1)], of "(rid, pid, y_id y)"]
  unfolding allocated_total allocation_total_paid parent_to_resolve [OF assms(1) y] by simp_all

lemma positive_money_is: "positive_money v cur = Inr x \<Longrightarrow> v = Some x"
  by (auto simp: positive_money_def sbind_Inr_iff not_le split: option.splits if_splits)

lemma ends_transactI: "yields m Q s \<Longrightarrow> ends (transact m) Q (\<lambda>_ t. t = s) s"
  by (simp add: ends_transact)

lemma ends_transact_keeps: "(\<And>s. I s \<Longrightarrow> ends m (\<lambda>_. I) (\<lambda>_ t. t = s) s) \<Longrightarrow> keeps_inv I m"
  unfolding keeps_inv_ends by (fastforce elim: ends_weaken)

lemma request_tables_installments:
  assumes "request_tables s t"
  shows "request_tables s (installments_update g' t)"
proof -
  obtain f g h n where t: "t = allocations_update f (installments_update g (resolutions_update h (s\<lparr>fresh := n\<rparr>)))"
    and n: "fresh s \<le> n"
    using assms unfolding request_tables_def by blast
  have "installments_update g' t = allocations_update f (installments_update (\<lambda>x. g' (g x)) (resolutions_update h (s\<lparr>fresh := n\<rparr>)))"
    by (simp add: t)
  with n show ?thesis unfolding request_tables_def by blast
qed

text \<open>An allocation grows the accounts of the payment and of the installment by the amount asked for.\<close>

theorem allocate_ends:
  assumes "request_books s"
  shows "ends (allocate_payment now rid i pid yid value)
    (\<lambda>_ t. request_books t \<and> (\<exists>v. value = Some v \<and> 0 < v \<and>
       allocated t (rid, pid, yid) = allocated s (rid, pid, yid) + v \<and> paid_on t (rid, pid, i) = paid_on s (rid, pid, i) + v))
    (\<lambda>_ t. t = s) s"
  unfolding allocate_payment_def find_request_def chargeable_total_def find_installment_def payment_summary_def
    installment_allocation_total_def
  apply (rule ends_transactI, unfold allocation_total_paid, intro vc, rule yields_find_parent [OF assms], intro vc, rule yields_store)
  subgoal using money_butD(1) [OF request_stateD(4) [OF assms]] .
  subgoal for rq tot u y x v by (auto simp: is_installment_def)
  subgoal for rq tot u y x v using positive_money_iff [of "value"] by blast
  subgoal for rq tot u y x v using positive_money_iff [of "value"] by blast
  apply (intro vc)
  subgoal premises p for rq tot u1 y x v r u2 a t
  proof -
    have y: "parent_at (rid, pid, y_id y) s y" and yid: "y_id y = yid" using p by simp_all
    have x: "is_installment i pid rid x" "it_id x = i" and r: "it_resolved x = Some r"
      using p by (simp_all add: is_installment_def resolved_installment_amount_def split: option.splits)
    have G: "grown (rid, pid, yid) (rid, pid, i) v s t" and T: "request_tables s t" 
      using p(16,17) unfolding yid x(2) by -
    have eff: "allocated t (rid, pid, yid) = allocated s (rid, pid, yid) + v" "paid_on t (rid, pid, i) = paid_on s (rid, pid, i) + v"
      using G by (simp_all add: grown_def)
    note fit = allocation_fits_in [OF request_stateD(4) [OF assms] y p(15), unfolded yid x(2)]
    have "request_books (installments_update (upd (is_installment i pid rid) (\<lambda>z. z\<lparr>it_allocated := cents (paid_on t (rid, pid, i)),
        it_status := installment_state (paid_on t (rid, pid, i)) r, it_updated := now\<rparr>)) t)" (is "request_books ?u")
      using grown_covered [OF request_stateD(4) [OF assms] G fit(1) p(9) x(1) r fit(2)]
        request_tables_installments [OF T] by (rule request_state_tables [OF assms, rotated])
    moreover have "allocated ?u = allocated t" "paid_on ?u = paid_on t" by (rule allocations_same; simp)+
    ultimately show ?thesis using eff positive_money_is positive_money_iff p(12) unfolding x(2) by simp
  qed
  done

theorem keeps_allocate_payment: "keeps_inv request_books (allocate_payment now rid i pid yid value)"
  by (rule ends_transact_keeps, rule ends_weaken [OF allocate_ends]) simp_all
end
