(* ===== verification/Request_Movements.thy ===== *)
theory Request_Movements
  imports Request_Allocation
begin

text \<open>
  Moving the money of a booking request keeps its accounts: charging the saved card, payments recorded
  from outside, refunds through the gateway, returns outside it and money retained. A gateway is a
  program that itself keeps the accounts; a saga's transactions are proved one by one.
\<close>

section \<open>Rules\<close>

lemma yields_insert_payment:
  "Q (stored_payment y s) (add_payment y s) \<Longrightarrow> yields (insert_payment y) Q s"
  by (simp add: wp)

lemma yields_insert_unless_claimed:
  "Q (Some (stored_payment y s)) (add_payment y s) \<Longrightarrow> Q None s \<Longrightarrow> yields (insert_payment_unless_claimed y) Q s"
  unfolding insert_payment_unless_claimed_def by (intro vc yields_insert_payment) simp_all

lemma counted_captured [simp]: "y_status y = PayCaptured \<Longrightarrow> counts_as_paid y"
  by (simp add: counts_as_paid_def)

lemma uncounted [simp]: "y_status y = PayPending \<Longrightarrow> \<not> counts_as_paid y" "y_status y = PayFailed \<Longrightarrow> \<not> counts_as_paid y"
  by (simp_all add: counts_as_paid_def parent_counts_toward_folio_balance_def)

lemma movement_fields [simp]:
  "y_request (request_movement now pid rq key m q a cur) = Some (rq_id rq)"
  "y_property (request_movement now pid rq key m q a cur) = pid"
  "y_folio (request_movement now pid rq key m q a cur) = rq_folio rq"
  "y_house (request_movement now pid rq key m q a cur) = None"
  "y_original (request_movement now pid rq key m q a cur) = None"
  "y_status (request_movement now pid rq key m q a cur) = q"
  "y_amount (request_movement now pid rq key m q a cur) = a"
  by (simp_all add: request_movement_def)

lemma refund_fields [simp]:
  "y_request (refund_movement now pid rq y key a tr nt w) = Some (rq_id rq)"
  "y_property (refund_movement now pid rq y key a tr nt w) = pid"
  "y_folio (refund_movement now pid rq y key a tr nt w) = rq_folio rq"
  "y_house (refund_movement now pid rq y key a tr nt w) = None"
  "y_original (refund_movement now pid rq y key a tr nt w) = Some (y_id y)"
  "y_status (refund_movement now pid rq y key a tr nt w) = PayCaptured"
  "y_amount (refund_movement now pid rq y key a tr nt w) = - a"
  by (simp_all add: refund_movement_def)

lemma replay_fields:
  assumes "assert_payment_replay y e = Inr u"
  shows "y_request y = Some (ep_request e)" and "y_amount y = ep_amount e"
    and "ep_original e = Some i \<Longrightarrow> y_original y = Some i"
  using assms by (auto simp: assert_payment_replay_def differs_def ensure_def split: if_splits)

lemma has_keyD: "has_key pid key y \<Longrightarrow> y_property y = pid"
  by (simp add: has_key_def)

lemma request_rowD: "is_request rid pid rq \<Longrightarrow> rq_id rq = rid \<and> rq_property rq = pid"
  by (simp add: is_request_def)

text \<open>What follows a write to the payments: the mail's consequence, then the folio's balance.\<close>

lemma yields_consequence_recalculate:
  assumes "request_state (owed fo pid) {} s" and "\<And>t. request_books t \<Longrightarrow> yields m Q t"
  shows "yields (bnd (ensure_financial_consequence ev i p r cur) (\<lambda>_. bnd (recalculate_of fo pid) (\<lambda>_. m))) Q s"
  using assms(1) by (intro vc yields_consequence yields_recalculate_of) (auto intro: assms(2))

section \<open>Charging the saved card\<close>

lemma relinked_state:
  assumes s: "request_books s" and rq: "rq \<in> set (booking_requests s)" "is_request rid pid rq" "rq_folio rq = Some f"
  shows "request_state (owed (rq_folio rq) pid) {}
    (payments_update (upd (request_payment_where i rid pid) (\<lambda>y. y\<lparr>y_folio := Some f\<rparr>)) s)"
  by (rule request_state_upd_payments [where b = True, OF s rq(1,2)])
    (use rq(3) in \<open>auto simp: request_payment_where_def stays_request_row_def same_place_def is_parent_def owed_def\<close>)

lemma yields_charge_replay:
  assumes s: "request_books s" and rq: "rq \<in> set (booking_requests s)" "is_request rid pid rq"
    and Q: "\<And>y t. request_books t \<Longrightarrow> Q y t"
  shows "yields (charge_replay rid pid rq key amount) Q s"
  unfolding charge_replay_def find_payment_by_key_def
  apply (intro vc)
  subgoal premises p for y u fo
  proof -
    obtain f where f: "rq_folio rq = Some f" and fo: "fo = Some f"
      using p by (auto simp: or_else_def split: option.splits)
    show ?thesis
      using relinked_state [OF s rq f, of "y_id y"] unfolding fo f
      by (rule yields_recalculate_of) (intro vc; (rule yields_consequence, assumption)?; intro vc Q; assumption)
  qed
  subgoal by blast
  subgoal by blast
  subgoal by (rule yields_recalculate_anyway [OF s]) (intro vc; (rule yields_consequence, assumption)?; intro vc Q; assumption)
  subgoal by (rule yields_consequence [OF s]) (intro vc Q; assumption)
  subgoal by (rule Q [OF s])
  done

theorem keeps_prepare_charge: "keeps_inv request_books (prepare_charge now rid pid key value)"
  unfolding prepare_charge_def find_request_def chargeable_total_def
  apply (rule keeps_transactI, intro vc)
  apply (rule yields_insert_unless_claimed)
   apply (simp_all only: option.case)
   apply (intro vc)
  subgoal premises p for s rq
  proof -
    have "rq_id rq = rid" using p(3) by (simp add: is_request_def)
    then show ?thesis
      using money_but_add [OF request_stateD(4) [OF p(1)]] by (intro request_state_add [OF p(1-3)]) simp_all
  qed
  subgoal premises p for s rq
    by (intro vc yields_charge_replay) (use p in auto)
  done

lemma pending_parent:
  "request_state F X s \<Longrightarrow> y \<in> set (payments s) \<Longrightarrow> y_request y = Some rid \<Longrightarrow> y_status y = PayPending \<Longrightarrow> y_original y = None"
  by (auto simp: request_state_def money_but_def request_rows_def)

theorem keeps_note_pending_charge [keeps]: "keeps_inv request_books (note_pending_charge rid pid i tr nt)"
  unfolding note_pending_charge_def find_request_def find_movement_def
  apply (rule keeps_transactI, intro vc)
  subgoal premises p for s rq u y
    by (rule p(1))
  subgoal premises p for s rq u y
    by (rule request_state_upd_payments [where b = False, OF p(1-3)])
      (use p(3) in \<open>auto simp: request_payment_where_def stays_request_row_def same_place_def is_parent_def counts_as_paid_def\<close>)
  done

theorem keeps_finalize_charge [keeps]: "keeps_inv request_books (finalize_charge now rid pid i result)"
  unfolding finalize_charge_def find_request_def find_movement_def
  apply (rule keeps_transactI, intro vc)
  subgoal premises p for s rq u y by (rule p(1))
  subgoal premises p for s rq u y changes updated
  proof -
    have r: "rq_id rq = rid" using p(3) by (simp add: is_request_def)
    have s': "request_state (if cr_success result then owed (rq_folio rq) pid else {}) {}
        (payments_update (upd (\<lambda>z. request_payment_where (y_id y) rid pid z \<and> y_status z = PayPending) changes) s)"
      by (rule request_state_upd_payments [where b = "cr_success result", OF p(1-3)])
        (use p(3,6) pending_parent [OF p(1)] in \<open>auto simp: p(8) request_payment_where_def stays_request_row_def same_place_def is_parent_def
          parent_status_def counts_as_paid_def parent_counts_toward_folio_balance_def\<close>)
    have at: "y_folio updated = rq_folio rq"
      unfolding p(9) p(8) by (auto split: option.split dest!: first_row_Some_in)
    show ?thesis
    proof (cases "cr_success result")
      case True
      with s' show ?thesis
        by (simp only: True if_True at)
          (rule yields_consequence, assumption, intro vc, rule yields_recalculate_of, assumption, intro vc)
    next
      case False
      with s' show ?thesis
        by (simp only: False if_False) (rule yields_consequence, assumption, intro vc)
    qed
  qed
  done

theorem keeps_charge_saved_card:
  assumes "\<And>c. keeps_inv request_books (g c)"
  shows "keeps_inv request_books (charge_saved_card hs g now later rid pid value identity)"
  unfolding charge_saved_card_def
  by (intro keeps keeps_prepare_charge assms)

section \<open>Payments recorded from outside\<close>

lemma external_row:
  assumes "request_books s" and "rq \<in> set (booking_requests s)" "is_request rid pid rq"
    and "y_request y = Some (rq_id rq)" "y_property y = pid" "y_folio y = rq_folio rq" "y_house y = None"
    and "y_original y = None" "counts_as_paid y"
  shows "request_state (owed (rq_folio rq) pid) {} (add_payment y s)"
proof -
  have "rq_id rq = rid" using assms(3) by (simp add: is_request_def)
  then show ?thesis
    using assms money_but_add [OF request_stateD(4) [OF assms(1)]] by (intro request_state_add [OF assms(1-3)]) simp_all
qed

theorem keeps_record_external_payment:
  "keeps_inv request_books (record_external_payment hs now rid pid inp)"
  unfolding record_external_payment_def find_request_def chargeable_total_def find_payment_by_key_def Let_def
  apply (intro keeps_bnd keeps_guard keeps_lift_result)
  apply (rule keeps_transactI, intro vc, rule yields_insert_unless_claimed)
   apply (simp_all only: option.case)
   apply (intro vc)
  subgoal premises p for key s rq u tot a w
    by (rule yields_consequence [OF external_row [OF p(1-3)]])
      (simp_all, intro vc, rule yields_recalculate_of, assumption, intro vc)
  apply (intro vc)
  subgoal premises p for key s
    by (rule yields_recalculate_anyway [OF p(1)]) (intro vc; (rule yields_consequence, assumption)?; intro vc; assumption)
  done

section \<open>Refunds\<close>

lemma request_state_mono: "request_state F {} s \<Longrightarrow> request_state F X s"
  by (auto simp: request_state_base intro: money_but_mono)

lemma yields_settle_movement:
  assumes "request_books s" and "parent_at (rid, pid, y_id y) s y" and "\<And>t. request_books t \<Longrightarrow> Q () t"
  shows "yields (settle_movement now rid pid y m) Q s"
  unfolding settle_movement_def
  by (intro vc, rule yields_reconcile [OF request_state_mono [OF assms(1)]])
    (use assms(2) in \<open>simp add: parent_at_def\<close>, intro vc yields_recalculate_anyway, assumption,
     rule yields_consequence, assumption, rule assms(3))

text \<open>What follows money on its way back: the mail, the allocations, the folio.\<close>

lemma yields_returned:
  assumes "request_state (owed fo pid) {(rid, pid, y_id y)} s" and "y_amount y = capacity s (rid, pid, y_id y)"
    and "\<And>t. request_books t \<Longrightarrow> yields m Q t"
  shows "yields (bnd (ensure_financial_consequence ev i p r cur) (\<lambda>_. bnd (reconcile_request_allocations now rid pid y) (\<lambda>_.
    bnd (recalculate_of fo pid) (\<lambda>_. m)))) Q s"
  by (rule yields_bnd, rule yields_consequence [OF assms(1)], rule yields_bnd, rule yields_reconcile, assumption)
    (use assms(2) in simp, intro vc yields_recalculate_of, assumption, rule assms(3))

lemma yields_write_resolution:
  assumes "request_state F X s" and "\<And>r. rz_id (f r) = rz_id r \<and> resolution_at (f r) = resolution_at r \<and> rz_amount (f r) = rz_amount r"
    and "\<And>rows t. request_state F X t \<Longrightarrow> Q rows t"
  shows "yields (write_resolution i pid tr f) Q s"
  unfolding write_resolution_def
proof (intro vc)
  let ?c = "\<lambda>r. rz_id r = i \<and> rz_property r = pid \<and> rz_status r = ResolutionPending"
  let ?f = "\<lambda>r. (f r)\<lparr>rz_transaction := tr\<rparr>"
  have "same_claim ?f" using assms(2) by (simp add: same_claim_def resolution_at_def)
  then have "request_state F X (resolutions_update (upd ?c ?f) s)"
    by (intro request_state_tables [OF assms(1)] money_but_upd_resolutions [OF request_stateD(4) [OF assms(1)]]) simp_all
  then show "Q (map ?f (sel ?c (resolutions s))) (resolutions_update (upd ?c ?f) s)" by (rule assms(3))
qed

text \<open>The check of the capacity: a further claim of \<open>v\<close> is covered.\<close>

lemma yields_capacity:
  assumes "request_state F X s" and "parent_at (rid, pid, y_id y) s y"
    and "given_back s (rid, pid, y_id y) + claimed s (rid, pid, y_id y) + v \<le> capacity s (rid, pid, y_id y) \<Longrightarrow> Q () s"
  shows "yields (assert_resolution_capacity rid pid y v) Q s"
  unfolding assert_resolution_capacity_def payment_summary_def
  by (intro vc) (use assms(3) parent_to_resolve [OF request_stateD(4) [OF assms(1)] assms(2)] in simp)

lemma yields_insert_resolution:
  assumes s: "request_state F X s" and r: "0 < rz_amount r" "fits 2 (rz_amount r)"
    and slack: "holds_claim (payments s) r \<Longrightarrow>
      given_back s (resolution_at r) + claimed s (resolution_at r) + rz_amount r \<le> capacity s (resolution_at r)"
    and Q: "\<And>x t. request_state F X t \<Longrightarrow> capacity t = capacity s \<Longrightarrow> Q x t"
  shows "yields (insert_resolution r) Q s"
  unfolding insert_resolution_def
proof (intro vc)
  let ?r = "r\<lparr>rz_id := fresh s, rz_amount := cents (rz_amount r)\<rparr>"
  have "resolution_at ?r = resolution_at r" "holds_claim (payments s) ?r = holds_claim (payments s) r"
    by (simp_all add: resolution_at_def holds_claim_def without_movement_def)
  then have "money_but X (with_resolution ?r s)"
    using r slack by (intro money_but_resolution [OF request_stateD(4) [OF s]]) (simp_all add: to_fixed_id)
  then have "request_state F X (with_resolution ?r s)"
    by (intro request_state_tables [OF s]) simp_all
  then show "Q ?r (resolutions_update (\<lambda>t. t @ [?r]) (s\<lparr>fresh := Suc (fresh s)\<rparr>))"
    by (rule Q) (simp add: fun_eq_iff capacity_def)
qed

lemma yields_refund_replay:
  assumes "request_books s" and "parent_at (rid, pid, y_id y) s y" and "\<And>x t. request_books t \<Longrightarrow> Q x t"
  shows "yields (refund_replay now rid pid y v fp r) Q s"
  unfolding refund_replay_def find_movement_def
  by (intro vc yields_settle_movement [OF assms(1,2)]; rule assms(3); (assumption | rule assms(1)))

theorem keeps_claim_refund [keeps]: "keeps_inv request_books (claim_refund hs now actor rid yid pid key value)"
  unfolding claim_refund_def find_request_def
  apply (rule keeps_transactI, intro vc, rule yields_find_parent, assumption, intro vc)
  subgoal premises p for s rq u y v fp
  proof -
    have y: "y_id y = yid" "parent_at (rid, pid, y_id y) s y" and v: "0 < v" "fits 2 v"
      using p positive_money_iff by simp_all
    show ?thesis
      by (rule yields_capacity [OF p(1) y(2)], rule yields_bnd, rule yields_insert_resolution [OF p(1)])
        (use v y(1) in \<open>simp_all add: resolution_at_def\<close>, intro vc, assumption)
  qed
  subgoal premises p for s rq u y v fp r
    by (rule yields_refund_replay [OF p(1)]) (use p in simp_all)
  done

theorem keeps_record_unknown_attempt [keeps]:
  "keeps_inv request_books (record_unknown_attempt rid pid yid i message tr q)"
  unfolding record_unknown_attempt_def find_request_def find_resolution_def
  apply (rule keeps_transactI, intro vc, rule yields_find_parent, assumption, intro vc, assumption)
  apply (erule yields_write_resolution)
   apply (simp add: resolution_at_def)
  apply (intro vc, assumption)
  done

theorem keeps_finalize_failed_refund [keeps]:
  "keeps_inv request_books (finalize_failed_refund now rid pid yid i message tr q)"
  unfolding finalize_failed_refund_def find_request_def find_resolution_def
  apply (rule keeps_transactI, intro vc, rule yields_find_parent, assumption, intro vc, assumption)
  apply (erule yields_write_resolution)
   apply (simp add: resolution_at_def)
  apply (rule yields_consequence, assumption, assumption)
  done

text \<open>The refund went through: the promise becomes a movement.\<close>

lemma completed_state:
  fixes now w :: timestamp and key :: string and tr nt :: "string option" and y :: payment
  assumes s: "request_books s" and rq: "rq \<in> set (booking_requests s)" "is_request rid pid rq"
    and r: "r \<in> set (resolutions s)" "rz_status r = ResolutionPending" "is_resolution i pid rid (y_id y) r"
    and f: "same_claim f" "rz_status (f r) = ResolutionCompleted" "rz_movement (f r) = Some (fresh s)"
  defines "z \<equiv> refund_movement now pid rq y key (rz_amount r) tr nt w"
  shows "request_state (owed (rq_folio rq) pid) {(rid, pid, y_id y)}
    (resolutions_update (upd (\<lambda>r. rz_id r = i \<and> rz_property r = pid \<and> rz_status r = ResolutionPending) f) (add_payment z s))"
    and "capacity (resolutions_update g (add_payment z s)) = capacity s"
proof -
  let ?t = "resolutions_update (upd (\<lambda>r. rz_id r = i \<and> rz_property r = pid \<and> rz_status r = ResolutionPending) f) (add_payment z s)"
  have rid: "rq_id rq = rid" using rq(2) by (simp add: is_request_def)
  have at: "resolution_at r = (rid, pid, y_id y)" "rz_id r = i" "rz_property r = pid"
    using r(3) by (simp_all add: is_resolution_def resolution_at_def)
  have v: "0 < rz_amount r" "fits 2 (rz_amount r)"
    using request_stateD(4) [OF s] r(1) by (simp_all add: money_but_def request_rows_def)
  have ret: "return_of (resolution_at r) (rz_amount r) z"
    unfolding z_def using v rid by (simp add: return_of_def at(1) payment_of_request_def)
  have "money_but {(rid, pid, y_id y)} ?t"
    using money_but_completed [OF request_stateD(4) [OF s] ret r(1,2) _ f] at by simp
  moreover have "request_base (owed (rq_folio rq) pid) (add_payment z s)"
    using request_base_add [OF s rq, of z] rid by (simp add: z_def)
  ultimately show "request_state (owed (rq_folio rq) pid) {(rid, pid, y_id y)} ?t"
    using request_base_tables by (simp add: request_state_base)
  show "capacity (resolutions_update g (add_payment z s)) = capacity s"
    using return_accounts(2) [OF ret] by (simp add: fun_eq_iff capacity_def)
qed

lemma yields_complete_claim:
  fixes now w :: timestamp and key :: string and tr nt :: "string option" and y :: payment
  assumes s: "request_books s" and rq: "rq \<in> set (booking_requests s)" "is_request rid pid rq"
    and r: "r \<in> set (resolutions s)" "rz_status r = ResolutionPending" "is_resolution (rz_id r) pid rid (y_id y) r"
  defines "z \<equiv> refund_movement now pid rq y key (rz_amount r) tr nt w"
  assumes Q: "\<And>x t. request_state (owed (rq_folio rq) pid) {(rid, pid, y_id y)} t \<Longrightarrow> capacity t = capacity s \<Longrightarrow> Q x t"
  shows "yields (complete_claim now pid r (stored_payment z s) result) Q (add_payment z s)"
  unfolding complete_claim_def write_resolution_def
  apply (intro vc)
  subgoal premises p for f
  proof -
    let ?f = "\<lambda>r. (f r)\<lparr>rz_transaction := Some (gr_transaction result)\<rparr>"
    have "same_claim ?f" "rz_status (?f r) = ResolutionCompleted" "rz_movement (?f r) = Some (fresh s)"
      by (simp_all add: p(1) same_claim_def resolution_at_def)
    from completed_state [OF s rq r this] show ?thesis unfolding z_def by (intro Q)
  qed
  done

lemma is_resolution_id: "is_resolution i pid rid yid r \<Longrightarrow> rz_id r = i"
  by (simp add: is_resolution_def)

theorem keeps_finalize_captured_refund [keeps]:
  "keeps_inv request_books (finalize_captured_refund now rid pid yid i key result)"
  unfolding finalize_captured_refund_def find_request_def find_resolution_def find_movement_def
  apply (rule keeps_transactI, intro vc, rule yields_find_parent, assumption, intro vc)
  subgoal premises p for s rq u y r
  proof -
    have y: "y_id y = yid" "parent_at (rid, pid, y_id y) s y" and r: "rz_status r = ResolutionPending" "is_resolution (rz_id r) pid rid (y_id y) r"
      using p is_resolution_id by simp_all
    show ?thesis
      unfolding y(1) [symmetric]
      by (rule yields_insert_payment, rule yields_bnd, rule yields_complete_claim [OF p(1-3) p(8) r])
        (simp, rule yields_returned, assumption, use y(2) in \<open>simp add: parent_at_def\<close>, intro vc)
  qed
  subgoal premises p for s rq u y r m z
    by (rule yields_settle_movement) (use p in simp_all, intro vc, assumption)
  done

lemma keeps_case_refund [keeps]:
  "(\<And>m r. keeps_inv I (f m r)) \<Longrightarrow> (\<And>y a r. keeps_inv I (h y a r)) \<Longrightarrow>
   keeps_inv I (case c of RefundDone m r \<Rightarrow> f m r | RefundOpen y a r \<Rightarrow> h y a r)"
  by (cases c) simp_all

theorem keeps_refund_request_payment:
  assumes "\<And>tr a key. keeps_inv request_books (gw_refund g tr a key)"
  shows "keeps_inv request_books (refund_request_payment hs g now later actor rid yid pid value identity)"
  unfolding refund_request_payment_def finish_request_refund_def
  by (intro keeps assms)

section \<open>Returns outside the gateway and retained money\<close>

lemma yields_ensure_resolution:
  assumes s: "request_state F X s" and v: "0 < ri_amount inp" "fits 2 (ri_amount inp)"
    and slack: "(case ri_movement inp of None \<Rightarrow> True
        | Some m \<Rightarrow> m \<notin> y_id ` set (filter (child_at (rid, pid, yid)) (payments s))) \<Longrightarrow>
      given_back s (rid, pid, yid) + claimed s (rid, pid, yid) + ri_amount inp \<le> capacity s (rid, pid, yid)"
    and Q: "\<And>x t. request_state F X t \<Longrightarrow> capacity t = capacity s \<Longrightarrow> Q x t"
  shows "yields (ensure_resolution now actor rid pid yid inp) Q s"
  unfolding ensure_resolution_def
  apply (intro vc)
  subgoal
    using v slack
    by (intro yields_insert_resolution [OF s] Q)
      (simp_all add: resolution_at_def holds_claim_def without_movement_def)
  subgoal by (rule Q [OF s refl])
  subgoal by (rule Q [OF s refl])
  done

theorem keeps_retain_for_denial: "keeps_inv request_books (retain_for_denial now actor rid yid pid value reason)"
  unfolding retain_for_denial_def find_request_def Let_def
  apply (intro keeps_bnd keeps_guard)
  apply (rule keeps_transactI, intro vc, rule yields_find_parent, assumption, intro vc)
  subgoal premises p for x s rq y v
  proof -
    have y: "y_id y = yid" "parent_at (rid, pid, y_id y) s y" and v: "0 < v" "fits 2 v"
      using p positive_money_iff by simp_all
    show ?thesis
      by (rule yields_capacity [OF p(1) y(2)], rule yields_ensure_resolution [OF p(1)])
        (use v y(1) in \<open>simp_all add: to_fixed_id\<close>)
  qed
  subgoal by assumption
  done

lemma returned_state:
  fixes now w :: timestamp and key :: string and tr nt :: "string option" and y :: payment
  assumes s: "request_books s" and rq: "rq \<in> set (booking_requests s)" "is_request rid pid rq" and v: "0 < v" "fits 2 v"
    and slack: "given_back s (rid, pid, y_id y) + claimed s (rid, pid, y_id y) + v \<le> capacity s (rid, pid, y_id y)"
  defines "z \<equiv> refund_movement now pid rq y key v tr nt w"
  shows "request_state (owed (rq_folio rq) pid) {(rid, pid, y_id y)} (add_payment z s)"
    and "capacity (add_payment z s) = capacity s"
    and "fresh s \<in> y_id ` set (filter (child_at (rid, pid, y_id y)) (payments (add_payment z s)))"
proof -
  have rid: "rq_id rq = rid" using rq(2) by (simp add: is_request_def)
  have ret: "return_of (rid, pid, y_id y) v z"
    unfolding z_def using v rid by (simp add: return_of_def payment_of_request_def)
  have "money_but {(rid, pid, y_id y)} (add_payment z s)"
    using money_but_return [OF request_stateD(4) [OF s] ret] slack by (simp add: algebra_simps)
  then show "request_state (owed (rq_folio rq) pid) {(rid, pid, y_id y)} (add_payment z s)"
    using rid by (intro request_state_add [OF s rq]) (simp_all add: z_def)
  show "capacity (add_payment z s) = capacity s" by (rule return_accounts(2) [OF ret])
  show "fresh s \<in> y_id ` set (filter (child_at (rid, pid, y_id y)) (payments (add_payment z s)))"
    using v rid by (simp add: z_def child_at_def payment_of_request_def to_fixed_id)
qed

lemma replayed_child:
  assumes "request_state F X s" and found: "first_row (sel (has_key pid key) (payments s)) = Some z"
    and "assert_payment_replay z e = Inr u" and "ep_request e = rid" "ep_original e = Some i"
  shows "y_id z \<in> y_id ` set (filter (child_at (rid, pid, i)) (payments s))"
proof -
  have z: "z \<in> set (payments s)" "has_key pid key z" using first_sel_SomeD [OF found] by blast+
  have "y_request z = Some rid" "y_original z = Some i" "y_property z = pid"
    using replay_fields [OF assms(3)] assms(4,5) has_keyD [OF z(2)] by simp_all
  moreover from this have "y_status z = PayCaptured" "y_amount z < 0"
    using request_stateD(4) [OF assms(1)] z(1) by (auto simp: money_but_def request_rows_def)
  ultimately show ?thesis using z(1) by (auto simp: child_at_def payment_of_request_def)
qed

lemma return_resolution_simps [simp]:
  "ri_amount (return_resolution z v) = cents v" "ri_movement (return_resolution z v) = Some (y_id z)"
  by (simp_all add: return_resolution_def)

theorem keeps_record_external_return: "keeps_inv request_books (record_external_return hs now actor rid yid pid inp)"
  unfolding record_external_return_def find_request_def Let_def
  apply (intro keeps_bnd keeps_guard keeps_lift_result)
  apply (rule keeps_transactI, intro vc, rule yields_find_parent, assumption, intro vc)
  subgoal premises p for w x key s rq u y v
  proof -
    have y: "y_id y = yid" "parent_at (rid, pid, y_id y) s y" and v: "0 < v" "fits 2 v"
      using p positive_money_iff by simp_all
    note R = returned_state [OF p(1-3) v]
    show ?thesis
      unfolding y(1) [symmetric]
      apply (rule yields_capacity [OF p(1) y(2)], rule yields_bnd, rule yields_insert_payment, rule yields_bnd,
          rule yields_ensure_resolution [OF R(1)])
      subgoal by assumption
      subgoal using v by (simp add: to_fixed_id)
      subgoal using v by (simp add: to_fixed_id)
      subgoal using R(3) by simp
      subgoal for r t
        using y(2) R(2) [OF _]
        by simp (rule yields_returned, assumption, simp add: parent_at_def, intro vc, assumption)
      done
  qed
  subgoal premises p for w x key s rq u y v z
  proof -
    have y: "y_id y = yid" "parent_at (rid, pid, y_id y) s y" and v: "0 < v" "fits 2 v"
      using p positive_money_iff by simp_all
    have "y_id z \<in> y_id ` set (filter (child_at (rid, pid, y_id y)) (payments s))"
      by (rule replayed_child [OF p(1,10,11)]) (simp_all add: y(1))
    then show ?thesis
      unfolding y(1) [symmetric]
      by (intro yields_ensure_resolution [OF p(1)])
        (use v y(2) in \<open>simp_all add: to_fixed_id\<close>, rule yields_bnd, rule yields_settle_movement, assumption,
         simp add: parent_at_def, intro vc, assumption)
  qed
  done

end
