(* ===== verification/Request_Effects.thy ===== *)
theory Request_Effects
  imports Request_Movements Examples
begin

text \<open>
  What the payments of a booking request come to: any sequence of operations leaves every payment
  accounted for to the cent, a reference recorded twice or a refund asked for again books nothing new,
  and the first final event a provider delivers decides. The last section adds a request with a
  half-allocated payment to the deployment of \<open>Examples\<close>.
\<close>

section \<open>Sequences of operations\<close>

datatype request_action =
    PlanInstallment installment_dto
  | ReplanInstallment ident installment_changes
  | DropInstallment ident
  | SortInstallments "ident list"
  | Allocate ident ident money_value
  | ChargeCard money_value string
  | RecordPayment external_payment
  | AskRefund ident money_value string
  | ReturnOutside ident external_return
  | RetainMoney ident money_value string

text \<open>One operation, at a time and, for what follows the gateway's answer, a later time.\<close>

record request_call =
  rc_now :: timestamp
  rc_later :: timestamp
  rc_request :: ident
  rc_property :: ident
  rc_actor :: "ident option"
  rc_action :: request_action

definition perform :: "hashes \<Rightarrow> card_gateway \<Rightarrow> gateway \<Rightarrow> request_call \<Rightarrow> unit op" where
  "perform hs cg g c =
     (let now = rc_now c; rid = rc_request c; pid = rc_property c in
      case rc_action c of
        PlanInstallment dto \<Rightarrow> bnd (create_installment now rid pid dto) (\<lambda>_. ret ())
      | ReplanInstallment i inp \<Rightarrow> bnd (update_installment now rid i pid inp) (\<lambda>_. ret ())
      | DropInstallment i \<Rightarrow> bnd (delete_installment now rid i pid) (\<lambda>_. ret ())
      | SortInstallments ids \<Rightarrow> bnd (reorder_installments now rid pid ids) (\<lambda>_. ret ())
      | Allocate i yid v \<Rightarrow> bnd (allocate_payment now rid i pid yid v) (\<lambda>_. ret ())
      | ChargeCard v key \<Rightarrow> bnd (charge_saved_card hs cg now (rc_later c) rid pid v key) (\<lambda>_. ret ())
      | RecordPayment inp \<Rightarrow> bnd (record_external_payment hs now rid pid inp) (\<lambda>_. ret ())
      | AskRefund yid v key \<Rightarrow>
          bnd (refund_request_payment hs g now (rc_later c) (rc_actor c) rid yid pid v key) (\<lambda>_. ret ())
      | ReturnOutside yid inp \<Rightarrow> bnd (record_external_return hs now (rc_actor c) rid yid pid inp) (\<lambda>_. ret ())
      | RetainMoney yid v reason \<Rightarrow> bnd (retain_for_denial now (rc_actor c) rid yid pid v reason) (\<lambda>_. ret ()))"

text \<open>A caller sees the error of a call; the calls that follow go on from where it left the hotel.\<close>

definition perform_all :: "hashes \<Rightarrow> card_gateway \<Rightarrow> gateway \<Rightarrow> request_call list \<Rightarrow> unit op" where
  "perform_all hs cg g calls = for_each calls (\<lambda>c. bnd (attempt (perform hs cg g c)) (\<lambda>_. ret ()))"

lemmas keeps_request_operations = keeps_create_installment keeps_update_installment keeps_delete_installment
  keeps_reorder_installments keeps_allocate_payment keeps_charge_saved_card keeps_record_external_payment
  keeps_refund_request_payment keeps_record_external_return keeps_retain_for_denial

theorem keeps_perform:
  assumes "\<And>c. keeps_inv request_books (cg c)" and "\<And>tr a key. keeps_inv request_books (gw_refund g tr a key)"
  shows "keeps_inv request_books (perform hs cg g c)"
  unfolding perform_def Let_def
  by (cases "rc_action c") (simp_all only: request_action.case, (intro keeps_bnd keeps_ret keeps_request_operations assms)+)

theorem keeps_perform_all:
  assumes "\<And>c. keeps_inv request_books (cg c)" and "\<And>tr a key. keeps_inv request_books (gw_refund g tr a key)"
  shows "keeps_inv request_books (perform_all hs cg g calls)"
  unfolding perform_all_def by (intro keeps keeps_perform assms)

text \<open>The account of one payment, as its ledger shows it.\<close>

definition account_of :: "ident \<Rightarrow> ident \<Rightarrow> payment \<Rightarrow> hotel \<Rightarrow> ledger_summary" where
  "account_of rid pid y s = summarize_ledger y (sel (payment_of_request rid pid) (payments s))
     (sel (allocation_of_request rid pid) (allocations s)) (sel (resolution_of_request rid pid) (resolutions s))"

lemma books_account:
  assumes "request_books s" and "y \<in> set (payments s)" and "payment_of_request rid pid y" and "is_parent y"
  shows "ls_returned (account_of rid pid y s) + ls_retained (account_of rid pid y s) + ls_unresolved (account_of rid pid y s) = y_amount y"
    and "ls_reserved (account_of rid pid y s) \<le> ls_unresolved (account_of rid pid y s)"
    and "ls_allocated (account_of rid pid y s) \<le> ls_net (account_of rid pid y s)"
    and "0 \<le> ls_reserved (account_of rid pid y s)"
proof -
  note M = request_stateD(4) [OF assms(1)]
  let ?k = "(rid, pid, y_id y)"
  have cap: "y_amount y = capacity s ?k"
    using capacity_of [OF money_butD(1) [OF M] assms(2) _ assms(4)] assms(3) by (simp add: payment_at_def)
  note parts = summary_accounts [OF assms(4) refl cap, folded account_of_def]
  note pos = summary_nonneg [OF money_butD(1) [OF M], where y = y and rid = rid and pid = pid, folded account_of_def]
  have cl: "given_back s ?k + claimed s ?k \<le> capacity s ?k" and al: "given_back s ?k + allocated s ?k \<le> capacity s ?k"
    using money_butD(2,3) [OF M, of ?k] by (simp_all add: claims_covered_def allocations_covered_def)
  show "ls_returned (account_of rid pid y s) + ls_retained (account_of rid pid y s) + ls_unresolved (account_of rid pid y s) = y_amount y"
    using to_resolve_exact(2) [OF money_butD(1) [OF M] assms(4) refl cap money_butD(2) [OF M]] by (simp add: account_of_def)
  show "ls_reserved (account_of rid pid y s) \<le> ls_unresolved (account_of rid pid y s)"
    using parts(1,3,4) cl by linarith
  show "ls_allocated (account_of rid pid y s) \<le> ls_net (account_of rid pid y s)"
    using parts(1,2) al by linarith
  show "0 \<le> ls_reserved (account_of rid pid y s)" by (rule pos(1))
qed

section \<open>Events of the provider\<close>

text \<open>A delivery that is refused leaves the status as it is.\<close>

definition deliver_intent :: "request_status option \<Rightarrow> intent_event \<Rightarrow> payment_status \<Rightarrow> payment_status" where
  "deliver_intent request ev q = (case decide_payment_intent_transition q ev request of Inl _ \<Rightarrow> q | Inr (_, q') \<Rightarrow> q')"

definition deliver_refund :: "refund_event \<Rightarrow> resolution_status \<Rightarrow> resolution_status" where
  "deliver_refund ev q = snd (decide_refund_transition q ev)"

definition decides :: "request_status option \<Rightarrow> intent_event \<Rightarrow> bool" where
  "decides request ev \<longleftrightarrow> ev \<noteq> IntentProcessing \<and> \<not> (ev = IntentSucceeded \<and> request = Some RequestDenied)"

lemma intent_final:
  "q \<in> {PayCaptured, PayFailed, PayVoided} \<Longrightarrow> fold (deliver_intent request) evs q = q"
  by (induction evs)
    (auto simp: deliver_intent_def decide_payment_intent_transition_def Let_def target_status_def split: intent_event.splits sum.splits)

lemma intent_first_decides:
  "fold (deliver_intent request) evs PayPending =
     (case filter (decides request) evs of [] \<Rightarrow> PayPending | ev # _ \<Rightarrow> target_status ev)"
proof (induction evs)
  case (Cons ev evs)
  show ?case
  proof (cases "decides request ev")
    case True
    then have "deliver_intent request ev PayPending = target_status ev" "target_status ev \<in> {PayCaptured, PayFailed, PayVoided}"
      by (cases ev; simp add: decides_def deliver_intent_def decide_payment_intent_transition_def target_status_def)+
    then show ?thesis using True intent_final [of "target_status ev"] by simp
  next
    case False
    then have "deliver_intent request ev PayPending = PayPending"
      by (auto simp: decides_def deliver_intent_def decide_payment_intent_transition_def target_status_def)
    with Cons False show ?thesis by simp
  qed
qed simp

lemma refund_final: "q \<noteq> ResolutionPending \<Longrightarrow> fold deliver_refund evs q = q"
  by (induction evs) (auto simp: deliver_refund_def decide_refund_transition_def Let_def)

lemma refund_first_decides:
  "fold deliver_refund evs ResolutionPending =
     (case filter (\<lambda>ev. refund_target ev \<noteq> ResolutionPending) evs of [] \<Rightarrow> ResolutionPending | ev # _ \<Rightarrow> refund_target ev)"
proof (induction evs)
  case (Cons ev evs)
  have "deliver_refund ev ResolutionPending = refund_target ev"
    by (simp add: deliver_refund_def decide_refund_transition_def Let_def)
  then show ?case using Cons refund_final [of "refund_target ev" evs] by simp
qed simp

section \<open>A reference recorded once\<close>

lemma yields_find_first:
  "(\<And>r. first_row (sel c (get s)) = Some r \<Longrightarrow> Q r s) \<Longrightarrow> yields (find_row get c e) Q s"
  by (auto simp: wp split: option.split)

definition external_expected :: "ident \<Rightarrow> external_payment \<Rightarrow> decimal \<Rightarrow> timestamp \<Rightarrow> expected_payment" where
  "external_expected rid inp a w =
     \<lparr>ep_request = rid, ep_amount = cents a, ep_currency = upper (trim (xp_currency inp)), ep_method = xp_method inp,
          ep_reference = Some (trim (xp_reference inp)), ep_original = None,
          ep_provider = Some (Some (case trimmed (xp_provider inp) of None \<Rightarrow> ''external'' | Some p \<Rightarrow> p)),
          ep_processed = Some w, ep_notes = Some (trimmed (xp_notes inp)),
          ep_prefix = Some ''booking-request-external:''\<rparr>"

text \<open>A payment stands where its reference leads, and is what the caller asks for.\<close>

definition recorded :: "hashes \<Rightarrow> timestamp \<Rightarrow> ident \<Rightarrow> ident \<Rightarrow> external_payment \<Rightarrow> payment \<Rightarrow> hotel \<Rightarrow> bool" where
  "recorded hs now rid pid inp y s \<longleftrightarrow> trim (xp_reference inp) \<noteq> [] \<and>
     (\<exists>key rq tot a w. scoped_key hs ''external'' pid (trim (xp_reference inp)) = Inr key \<and>
       first_row (sel (is_request rid pid) (booking_requests s)) = Some rq \<and> assert_not_denied rq = Inr () \<and>
       request_total rq = Inr tot \<and> \<not> tot \<le> 0 \<and> upper (trim (xp_currency inp)) = upper (rq_currency rq) \<and>
       xp_method inp \<in> set external_methods \<and> positive_money (xp_amount inp) (upper (trim (xp_currency inp))) = Inr a \<and>
       xp_processed inp = Some w \<and> w \<le> now \<and> first_row (sel (has_key pid key) (payments s)) = Some y \<and>
       assert_payment_replay y (external_expected rid inp a w) = Inr ())"

lemma recordedI:
  assumes "trim (xp_reference inp) \<noteq> []" and "scoped_key hs ''external'' pid (trim (xp_reference inp)) = Inr key"
    and "first_row (sel (is_request rid pid) (booking_requests s)) = Some rq" and "assert_not_denied rq = Inr ()"
    and "request_total rq = Inr tot" and "\<not> tot \<le> 0" and "upper (trim (xp_currency inp)) = upper (rq_currency rq)"
    and "xp_method inp \<in> set external_methods" and "positive_money (xp_amount inp) (upper (trim (xp_currency inp))) = Inr a"
    and "xp_processed inp = Some w" and "w \<le> now" and "first_row (sel (has_key pid key) (payments s)) = Some y"
    and "assert_payment_replay y (external_expected rid inp a w) = Inr ()"
  shows "recorded hs now rid pid inp y s"
  unfolding recorded_def using assms(1)
  by (rule conjI) (intro exI [of _ key] exI [of _ rq] exI [of _ tot] exI [of _ a] exI [of _ w] conjI; fact)

lemma ends_insert_unless [wp]:
  "ends (insert_unless_present get modify c r) Q E s =
    (if sel c (get s) = [] then Q () (modify (\<lambda>t. t @ [r]) s) else Q () s)"
  by (simp add: insert_unless_present_def wp)

text \<open>The outbox never fails and touches nothing else.\<close>

lemma ends_consequence:
  assumes "\<And>t. payments t = payments s \<Longrightarrow> booking_requests t = booking_requests s \<Longrightarrow> Q () t"
  shows "ends (ensure_financial_consequence ev i pid rid cur) Q E s"
  unfolding ensure_financial_consequence_def ensure_financial_email_def
  by (auto simp: wp assms split: option.split)

lemma ends_recalculate_same:
  assumes "\<And>t. payments t = payments s \<Longrightarrow> booking_requests t = booking_requests s \<Longrightarrow> Q () t"
  shows "ends (recalculate_of fo pid) Q E s"
  by (auto simp: wp assms split: option.split)

lemma recorded_same:
  "recorded hs now rid pid inp y s \<Longrightarrow> payments t = payments s \<Longrightarrow> booking_requests t = booking_requests s \<Longrightarrow>
   recorded hs now rid pid inp y t"
  by (simp add: recorded_def)

lemma processed_date_iff: "processed_date now v = Inr w \<longleftrightarrow> v = Some w \<and> w \<le> now"
  by (auto simp: processed_date_def not_less split: option.splits)

lemma scoped_key_starts: "scoped_key hs kind pid i = Inr key \<Longrightarrow> starts_with (''booking-request-'' @ kind @ '':'') key"
  by (auto simp: scoped_key_def starts_with_def split: if_splits)

lemma first_has_key_add:
  assumes "sel (same_idempotency y) (payments s) = []" and "y_property y = pid" "y_idempotency y = Some key"
  shows "first_row (sel (has_key pid key) (payments (add_payment y s))) = Some (stored_payment y s)"
proof -
  have "sel (has_key pid key) (payments s) = []"
    using assms by (auto simp: sel_Nil_iff same_idempotency_def has_key_def)
  then show ?thesis using assms(2,3) by (simp add: sel_append has_key_def add_payment_def)
qed

lemma recording_records:
  "yields (record_external_payment hs now rid pid inp) (\<lambda>y t. recorded hs now rid pid inp y t) s"
  unfolding record_external_payment_def find_request_def chargeable_total_def find_payment_by_key_def Let_def
    insert_payment_unless_claimed_def
  apply (intro yields_bnd yields_guard yields_lift)
  apply (unfold ends_transact)
  apply (intro yields_bnd yields_find_first yields_guard yields_lift yields_ask yields_if yields_ret yields_insert_payment)
   apply (simp_all only: option.case)
   apply (intro yields_bnd yields_find_first yields_lift ends_consequence ends_recalculate_same yields_ret)
  subgoal premises p for key rq u tot a w t t'
  proof -
    let ?z = "(request_movement now pid rq key (xp_method inp) PayCaptured (cents a) (upper (trim (xp_currency inp))))
        \<lparr>y_provider := Some (case trimmed (xp_provider inp) of None \<Rightarrow> ''external'' | Some p \<Rightarrow> p),
         y_transaction := Some (trim (xp_reference inp)), y_notes := trimmed (xp_notes inp), y_processed := Some w\<rparr>"
    have "rq_id rq = rid" using first_sel_SomeD [OF p(3)] by (simp add: is_request_def)
    then have replay: "assert_payment_replay (stored_payment ?z s) (external_expected rid inp a w) = Inr ()"
      using scoped_key_starts [OF p(2)]
      by (simp add: external_expected_def assert_payment_replay_def differs_def key_starts_def request_movement_def)
    have first: "first_row (sel (has_key pid key) (payments (add_payment ?z s))) = Some (stored_payment ?z s)"
      by (rule first_has_key_add) (use p in \<open>simp_all add: request_movement_def\<close>)
    have "recorded hs now rid pid inp (stored_payment ?z s) (add_payment ?z s)"
      by (rule recordedI [where key = key and rq = rq and tot = tot and a = a and w = w]) (use p replay first in \<open>simp_all add: processed_date_iff\<close>)
    then show ?thesis by (rule recorded_same) (simp_all add: p)
  qed
   apply (intro yields_bnd yields_find_first yields_lift ends_consequence ends_recalculate_same yields_ret)
  subgoal premises p for key rq u tot a w y u' t t'
  proof -
    have "recorded hs now rid pid inp y s"
      by (rule recordedI [where key = key and rq = rq and tot = tot and a = a and w = w]) (use p in \<open>simp_all add: processed_date_iff external_expected_def\<close>)
    then show ?thesis by (rule recorded_same) (simp_all add: p)
  qed
  done

lemma recorded_again:
  assumes "recorded hs now rid pid inp y s" and "now \<le> now'"
  shows "ends (record_external_payment hs now' rid pid inp) (\<lambda>x t. x = y \<and> payments t = payments s) (\<lambda>_ _. False) s"
proof -
  obtain key rq tot a w where r: "trim (xp_reference inp) \<noteq> []" "scoped_key hs ''external'' pid (trim (xp_reference inp)) = Inr key"
    "first_row (sel (is_request rid pid) (booking_requests s)) = Some rq" "assert_not_denied rq = Inr ()"
    "request_total rq = Inr tot" "\<not> tot \<le> 0" "upper (trim (xp_currency inp)) = upper (rq_currency rq)"
    "xp_method inp \<in> set external_methods" "positive_money (xp_amount inp) (upper (trim (xp_currency inp))) = Inr a"
    "xp_processed inp = Some w" "w \<le> now" "first_row (sel (has_key pid key) (payments s)) = Some y"
    "assert_payment_replay y (external_expected rid inp a w) = Inr ()"
    using assms(1) unfolding recorded_def by (elim conjE exE)
  have w: "processed_date now' (xp_processed inp) = Inr w" using r(10,11) assms(2) by (simp add: processed_date_iff)
  have clash: "sel (same_idempotency (request_movement now' pid rq key m q v cur
      \<lparr>y_provider := pr, y_transaction := tr, y_notes := nt, y_processed := pd\<rparr>)) (payments s) \<noteq> []" for m q v cur pr tr nt pd
    using first_sel_SomeD [OF r(12)] by (auto simp: sel_Nil_iff same_idempotency_def has_key_def request_movement_def)
  note r' = r(9,13) [unfolded external_expected_def, unfolded r(7)]
  show ?thesis
    unfolding record_external_payment_def find_request_def chargeable_total_def find_payment_by_key_def Let_def
      insert_payment_unless_claimed_def
    by (simp add: wp r(1-8) r(12) r' w clash del: ends_recalculate_of)
      (intro ends_recalculate_same, simp add: wp del: ends_recalculate_of, intro ends_consequence, simp add: wp)
qed

section \<open>A refund asked for again\<close>

lemma keeps_reconcile:
  assumes "\<And>s g. I s \<Longrightarrow> I (allocations_update g s)" and "\<And>s g. I s \<Longrightarrow> I (installments_update g s)"
  shows "keeps_inv I (reconcile_request_allocations now rid pid y)"
  unfolding reconcile_request_allocations_def apply_planned_def restate_installment_def Let_def
  by (intro keeps keeps_delete_where keeps_update_where assms)

lemma keeps_settle_movement:
  assumes "\<And>s g. I s \<Longrightarrow> I (allocations_update g s)" and "\<And>s g. I s \<Longrightarrow> I (installments_update g s)"
    and "\<And>s g. I s \<Longrightarrow> I (folios_update g s)" and "\<And>s g. I s \<Longrightarrow> I (consequences_update g s)"
    and "\<And>s g. I s \<Longrightarrow> I (deliveries_update g s)" and "\<And>s. I s \<Longrightarrow> I (s\<lparr>fresh := Suc (fresh s)\<rparr>)"
  shows "keeps_inv I (settle_movement now rid pid y z)"
proof -
  have "keeps_inv I (recalculate_of fo pid)" for fo
    unfolding recalculate_of_def by (cases fo) (simp_all add: keeps_inv_def recalculate_balance_eq recalc_folio_def tell_def assms(3))
  then show ?thesis
    unfolding settle_movement_def
    by (intro keeps_bnd keeps_reconcile keeps_consequence_inv) (use assms in simp_all)
qed

definition same_movements :: "hotel \<Rightarrow> hotel \<Rightarrow> bool" where
  "same_movements s t \<longleftrightarrow> payments t = payments s \<and> resolutions t = resolutions s"

lemma settled_same: "keeps_inv (same_movements s) (settle_movement now rid pid y z)"
  by (rule keeps_settle_movement) (simp_all add: same_movements_def)

text \<open>A refund that is settled or was declined never reaches the gateway again.\<close>

lemma refund_stands:
  assumes key: "scoped_key hs ''refund'' pid identity = Inr key"
    and r: "first_row (sel (resolution_key_is pid key) (resolutions s)) = Some r"
    and final: "rz_status r = ResolutionFailed \<or> rz_status r = ResolutionCompleted \<and> rz_movement r \<noteq> None"
  shows "ends (refund_request_payment hs g now later actor rid yid pid value identity)
    (\<lambda>(z, r') t. r' = r \<and> rz_movement r = Some (y_id z) \<and> same_movements s t) (\<lambda>_ t. t = s) s"
proof -
  have claim: "yields (claim_refund hs now actor rid yid pid key value)
      (\<lambda>c t. \<exists>z. c = RefundDone z r \<and> rz_movement r = Some (y_id z) \<and> same_movements s t) s"
    unfolding claim_refund_def find_request_def ends_transact find_parent_payment_def find_movement_def
    apply (intro vc)
    subgoal by (simp add: r)
    subgoal premises p for rq u y v fp q
    proof -
      have q: "q = r" using p r by simp
      show ?thesis
        using final unfolding q refund_replay_def find_movement_def
        by (intro vc yields_kept [OF settled_same]) (auto simp: same_movements_def is_payment_def)
    qed
    done
  have "ends (claim_refund hs now actor rid yid pid key value)
      (\<lambda>c t. \<exists>z. c = RefundDone z r \<and> rz_movement r = Some (y_id z) \<and> same_movements s t) (\<lambda>_ t. t = s) s"
    using claim unfolding claim_refund_def by (simp add: ends_transact)
  then show ?thesis
    unfolding refund_request_payment_def
    by (simp only: ends_bnd ends_lift_result key sum.case) (erule ends_weaken; auto simp: wp)
qed

section \<open>A request with a half-allocated payment\<close>

definition ex_booking_request :: booking_request where
  "ex_booking_request = \<lparr>rq_id = 20, rq_property = 30, rq_status = RequestPending, rq_email = ''g@x'', rq_currency = ''EUR'',
     rq_quote_total = Some (Some 200), rq_customer = Some ''cu'', rq_card = Some ''pm'', rq_accepted_total = None,
     rq_folio = None\<rparr>"

definition ex_external :: payment where
  "ex_external = \<lparr>y_id = 21, y_property = 30, y_folio = None, y_house = None, y_request = Some 20,
     y_idempotency = Some ''booking-request-external:k'', y_method = BankTransfer, y_status = PayCaptured, y_amount = 100,
     y_currency = ''EUR'', y_provider = Some ''external'', y_transaction = Some ''r1'', y_is_preauth = False,
     y_preauth_expires = None, y_original = None, y_finalization = None, y_notes = None, y_processed = Some 5, y_created = 5\<rparr>"

definition ex_installment :: installment where
  "ex_installment = \<lparr>it_id = 22, it_property = 30, it_request = 20, it_label = ''Deposit'', it_sort = 0, it_fixed = Some 100,
     it_percentage = None, it_resolved = Some 100, it_milestone = Manually, it_due = None, it_allocated = 40,
     it_status = InstallmentPartial, it_updated = 5\<rparr>"

definition ex_allocation :: allocation where
  "ex_allocation = \<lparr>aa_id = 23, aa_property = 30, aa_request = 20, aa_payment = 21, aa_installment = 22, aa_amount = 40,
     aa_created = 5\<rparr>"

definition ex_asked :: hotel where
  "ex_asked = ex_hotel\<lparr>payments := [ex_payment, ex_external], booking_requests := [ex_booking_request],
     installments := [ex_installment], allocations := [ex_allocation]\<rparr>"

lemmas ex_request_rows = ex_booking_request_def ex_external_def ex_installment_def ex_allocation_def ex_payment_def

lemma ex_asked_tables [simp]:
  "payments ex_asked = [ex_payment, ex_external]" "booking_requests ex_asked = [ex_booking_request]"
  "installments ex_asked = [ex_installment]" "allocations ex_asked = [ex_allocation]" "resolutions ex_asked = []"
  "fresh ex_asked = 40"
  by (simp_all add: ex_asked_def ex_hotel_def empty_hotel_def)

lemma fits_ints: "fits 2 (100 :: decimal)" "fits 2 (40 :: decimal)" "fits 2 (110 :: decimal)"
  using fits_of_int [of 2 100] fits_of_int [of 2 40] fits_of_int [of 2 110] by simp_all

lemma ex_asked_base: "ledger_base ex_asked"
  using ex_hotel_base fits_ints
  by (simp add: ex_asked_def ledger_base_def wf_hotel_def keys_ok_def refs_ok_def cents_ok_def rules_fit_def ex_external_def ex_payment_def)

lemma ex_asked_books: "folio_books {} ex_asked"
proof -
  have "folio_charged ex_asked = folio_charged ex_hotel" by (simp add: ex_asked_def folio_charged_def fun_eq_iff)
  moreover have "folio_paid ex_asked = folio_paid ex_hotel"
    by (simp add: folio_paid_def fun_eq_iff folio_payment_sum_where_def ex_external_def)
  moreover have "folios ex_asked = folios ex_hotel" by (simp add: ex_asked_def)
  ultimately show ?thesis using ex_hotel_books by (simp add: books_def del: ex_tables)
qed

lemma ex_asked_money: "money_but {} ex_asked"
proof (rule money_butI)
  show "request_rows ex_asked"
    using fits_ints by (simp add: request_rows_def keys_ok_def ex_request_rows pays_for_def installment_at_def)
  show "plan_states {} ex_asked"
    using fits_ints
    by (simp add: plan_states_def states_truly_def paid_on_def pays_for_def installment_at_def ex_request_rows installment_state_def)
  have cap: "0 \<le> capacity ex_asked k" for k by (simp add: capacity_def)
  have none: "given_back ex_asked k = 0" "claimed ex_asked k = 0" for k
    by (simp_all add: given_back_def claimed_def child_at_def ex_external_def ex_payment_def split: prod.splits)
  show "claims_covered ex_asked k" for k using cap [of k] by (simp add: claims_covered_def none)
  show "allocations_covered ex_asked k" for k
  proof (cases "k = (20, 30, 21)")
    case True
    have "capacity ex_asked k = 100" "allocated ex_asked k = 40"
      by (simp_all add: True capacity_def brought_in_def payment_at_def payment_of_request_def is_parent_def parent_status_def
          allocated_def allocation_at_def ex_request_rows)
    then show ?thesis by (simp add: allocations_covered_def none)
  next
    case False
    then have "allocated ex_asked k = 0" by (auto simp: allocated_def allocation_at_def ex_allocation_def)
    then show ?thesis using cap [of k] by (simp add: allocations_covered_def none)
  qed
qed

lemma ex_asked_state: "request_books ex_asked"
  using ex_asked_base ex_asked_books ex_asked_money
  by (intro request_stateI) (simp_all add: request_links_def ex_request_rows)

definition ex_hashes :: hashes where
  "ex_hashes = \<lparr>hs_key = (\<lambda>_ i. i), hs_print = (\<lambda>_. ''p'')\<rparr>"

definition ex_card_gateway :: card_gateway where
  "ex_card_gateway c = ret \<lparr>cr_success = True, cr_transaction = ''tx9'', cr_requires_action = False, cr_indeterminate = False,
     cr_provider_status = None, cr_error = None\<rparr>"

lemma ex_card_gateway_keeps: "keeps_inv I (ex_card_gateway c)"
  unfolding ex_card_gateway_def by (intro keeps)

lemma ex_gateway_keeps: "keeps_inv I (gw_refund (mock_gateway u) tr a key)"
  unfolding mock_gateway_def by (simp, intro keeps)

lemma ex_euro: "assert_ledger_currency_supported ''EUR'' e = Inr 2"
proof -
  have "map_of iso_4217_minor_units (upper (trim ''EUR'')) = Some (Some 2)" by code_simp
  then show ?thesis by (simp add: assert_ledger_currency_supported_def)
qed

lemma ex_positive: "0 < (n :: nat) \<Longrightarrow> positive_money (Some (of_nat n)) ''EUR'' = Inr (of_nat n)"
  using fits_of_int [of 2 "int n"] by (simp add: positive_money_def ex_euro)

lemmas run_request = returns_def find_request_def chargeable_total_def find_parent_payment_def find_movement_def
  find_installment_def payment_summary_def installment_allocation_total_def ensure_def

lemma ex_found:
  "sel (is_request 20 30) [ex_booking_request] = [ex_booking_request]" "sel (is_payment 21 30) [ex_payment, ex_external] = [ex_external]"
  "sel (is_installment 22 30 20) [ex_installment] = [ex_installment]"
  "sel (payment_of_request 20 30) [ex_payment, ex_external] = [ex_external]"
  "sel (allocation_of_request 20 30) [ex_allocation] = [ex_allocation]" "sel (resolution_of_request 20 30) [] = []"
  "request_total ex_booking_request = Inr 200" "assert_not_denied ex_booking_request = Inr ()"
  "rq_currency ex_booking_request = ''EUR''" "resolved_installment_amount ex_installment = Inr 100" "it_id ex_installment = 22"
  "y_id ex_external = 21" "y_request ex_external = Some 20" "y_original ex_external = None" "parent_status (y_status ex_external)"
  "y_amount ex_external = 100" "aa_payment ex_allocation = 21" "aa_installment ex_allocation = 22"
  by (simp_all add: ex_request_rows is_request_def is_payment_def is_installment_def payment_of_request_def
      allocation_of_request_def request_total_def assert_not_denied_def resolved_installment_amount_def parent_status_def)

lemma ex_summary: "ls_to_resolve (summarize_ledger ex_external [ex_external] [ex_allocation] []) = 100"
  by (simp add: summarize_ledger_def Let_def is_parent_def parent_status_def ex_external_def returned_children_def
      remaining_captured_amount_def sum_refund_children_def)

lemma ex_allocate_returns: "returns (allocate_payment 9 20 22 30 21 (Some 60)) ex_asked"
proof -
  have eur: "positive_money (Some 60) ''EUR'' = Inr 60" using ex_positive [of 60] by simp
  have checks: "allocation_checks 60 21 22 [ex_allocation] 100 100 = Inr ()"
    by (simp add: allocation_checks_def assert_allocation_amount_def positive_def decimal_of_def allocated_so_far_def
        non_negative_def within_remaining_def ex_allocation_def)
  show ?thesis
    by (simp add: run_request allocate_payment_def wp eur ex_found ex_summary checks store_allocation_def
        del: run_tables)
qed

text \<open>A transfer recorded from outside, and a refund that was settled before.\<close>

definition ex_transfer :: external_payment where
  "ex_transfer = \<lparr>xp_amount = Some 60, xp_currency = ''EUR'', xp_method = BankTransfer, xp_processed = Some 5,
     xp_provider = None, xp_reference = ''r2'', xp_notes = None\<rparr>"

lemma ex_record_returns: "returns (record_external_payment ex_hashes 9 20 30 ex_transfer) ex_asked"
proof -
  have eur: "positive_money (Some 60) ''EUR'' = Inr 60" using ex_positive [of 60] by simp
  have plain: "trim ''r2'' = ''r2''" "upper (trim ''EUR'') = ''EUR''" "upper ''EUR'' = ''EUR''" by code_simp+
  have none: "sel (same_idempotency y) [ex_payment, ex_external] = []" if "y_idempotency y = Some ''booking-request-external:r2''" for y
    using that by (simp add: same_idempotency_def ex_external_def ex_payment_def)
  show ?thesis
    unfolding returns_def record_external_payment_def find_request_def chargeable_total_def Let_def insert_payment_unless_claimed_def
    by (simp add: wp ex_transfer_def plain scoped_key_def ex_hashes_def eur ex_found external_methods_def processed_date_def
        none request_movement_def del: run_tables ends_recalculate_of)
      (intro ends_consequence, simp add: wp split: option.split)
qed

definition ex_settled_refund :: resolution where
  "ex_settled_refund = \<lparr>rz_id = 25, rz_property = 30, rz_request = 20, rz_payment = 21, rz_type = RefundResolution,
     rz_status = ResolutionCompleted, rz_amount = 10, rz_key = Some ''booking-request-refund:k'', rz_print = Some ''p'',
     rz_transaction = Some ''tx5'', rz_provider_status = Some ''succeeded'', rz_movement = Some 26, rz_reason = None,
     rz_attempts = 1, rz_error = None, rz_by = None, rz_resolved_at = Some 6\<rparr>"

definition ex_refunded_request :: hotel where
  "ex_refunded_request = ex_asked\<lparr>resolutions := [ex_settled_refund],
     payments := [ex_payment, ex_external, ex_external\<lparr>y_id := 26, y_amount := -10, y_original := Some 21,
       y_idempotency := Some ''booking-request-refund:k''\<rparr>]\<rparr>"

definition ex_calls :: "request_call list" where
  "ex_calls = [\<lparr>rc_now = 9, rc_later = 10, rc_request = 20, rc_property = 30, rc_actor = None, rc_action = RecordPayment ex_transfer\<rparr>,
     \<lparr>rc_now = 11, rc_later = 12, rc_request = 20, rc_property = 30, rc_actor = None, rc_action = AskRefund 21 (Some 10) ''k''\<rparr>,
     \<lparr>rc_now = 13, rc_later = 14, rc_request = 20, rc_property = 30, rc_actor = None, rc_action = RetainMoney 21 (Some 30) ''fee''\<rparr>]"

end
