(* ===== verification/House_Account.thy ===== *)
theory House_Account
  imports Examples
begin

text \<open>
  House accounts and the retail catalogue
  (\<open>apps/api/src/modules/house-account/house-account.service.ts\<close>): accounts without a guest whose
  charges and payments are rows of the shared ledger, and the sale of products to them. The account's
  stored totals make it the second instance of the locale \<open>account_ledger\<close>; the operations keep them
  exact, a closed account stays as it is, and the running of any sequence of operations follows.
\<close>

section \<open>Lookup and listing\<close>

definition is_house :: "ident \<Rightarrow> ident \<Rightarrow> house_account \<Rightarrow> bool" where
  "is_house hid pid a \<longleftrightarrow> ha_id a = hid \<and> ha_property a = pid"

definition find_house :: "ident \<Rightarrow> ident \<Rightarrow> house_account op" where
  "find_house hid pid = find_row house_accounts (is_house hid pid) (NotFound ''House account not found'')"

definition list_house_accounts ::
  "ident \<Rightarrow> account_kind option \<Rightarrow> open_status option \<Rightarrow> nat option \<Rightarrow> nat option \<Rightarrow>
   (house_account list \<times> nat \<times> nat \<times> nat) op" where
  "list_house_accounts pid kind status page limit =
     (let page' = (case page of None \<Rightarrow> 1 | Some n \<Rightarrow> n); limit' = (case limit of None \<Rightarrow> 20 | Some n \<Rightarrow> n) in
     ask (\<lambda>s. let rows = sel (\<lambda>a. ha_property a = pid \<and> opt_eq kind (ha_kind a) \<and> opt_eq status (ha_status a))
                (house_accounts s)
       in (page_of page' limit' rows, length rows, page', limit')))"

section \<open>Opening and closing\<close>

record open_account_dto =
  oa_property :: ident
  oa_name :: string
  oa_kind :: "account_kind option"
  oa_currency :: string
  oa_notes :: "string option"
  oa_opened_by :: "ident option"

definition new_house_account :: "open_account_dto \<Rightarrow> ident \<Rightarrow> house_account" where
  "new_house_account dto i =
     \<lparr>ha_id = i, ha_property = oa_property dto, ha_name = oa_name dto,
      ha_kind = (case oa_kind dto of None \<Rightarrow> RetailAccount | Some k \<Rightarrow> k), ha_status = IsOpen, ha_balance = 0,
      ha_total_charges = 0, ha_total_payments = 0, ha_currency = oa_currency dto, ha_notes = oa_notes dto,
      ha_opened_by = oa_opened_by dto, ha_closed_at = None\<rparr>"

definition open_house_account :: "open_account_dto \<Rightarrow> house_account op" where
  "open_house_account dto =
     bnd new_id (\<lambda>i.
     bnd (insert_row house_accounts_update (new_house_account dto i)) (\<lambda>account.
     bnd (emit ''houseaccount.opened'' ''house_account'' (ha_id account) (ha_property account)) (\<lambda>_.
     ret account)))"

definition close_house_account :: "timestamp \<Rightarrow> ident \<Rightarrow> ident \<Rightarrow> house_account op" where
  "close_house_account now hid pid =
     bnd (find_house hid pid) (\<lambda>account.
     bnd (guard (ha_status account = IsOpen) (BadRequest ''House account is not open'')) (\<lambda>_.
     bnd (update_one house_accounts house_accounts_update (is_house hid pid)
            (\<lambda>a. a\<lparr>ha_status := IsClosed, ha_closed_at := Some now\<rparr>)) (\<lambda>updated.
     bnd (emit ''houseaccount.closed'' ''house_account'' (ha_id updated) (ha_property updated)) (\<lambda>_.
     ret updated))))"

section \<open>The stored totals\<close>

definition charge_of_house :: "ident \<Rightarrow> ident \<Rightarrow> charge \<Rightarrow> bool" where
  "charge_of_house hid pid c \<longleftrightarrow> c_house c = Some hid \<and> c_property c = pid"

text \<open>Only captured rows count, whatever the rule for folios is.\<close>

definition payment_of_house :: "ident \<Rightarrow> ident \<Rightarrow> payment \<Rightarrow> bool" where
  "payment_of_house hid pid y \<longleftrightarrow> y_house y = Some hid \<and> y_property y = pid \<and> y_status y = PayCaptured"

definition recalc_house_balance :: "ident \<Rightarrow> ident \<Rightarrow> unit op" where
  "recalc_house_balance hid pid =
     bnd (ask (\<lambda>s. total charge_value (sel (charge_of_house hid pid) (charges s)))) (\<lambda>charge_sum.
     bnd (ask (\<lambda>s. total y_amount (sel (payment_of_house hid pid) (payments s)))) (\<lambda>payment_sum.
     let total_charges = cents charge_sum; total_payments = cents payment_sum;
         balance = cents (total_charges - total_payments)
     in bnd (update_where house_accounts house_accounts_update (is_house hid pid)
          (\<lambda>a. a\<lparr>ha_total_charges := total_charges, ha_total_payments := total_payments, ha_balance := balance\<rparr>))
        (\<lambda>_. ret ())))"

section \<open>Charges and payments\<close>

record house_charge_dto =
  hc_type :: "charge_type option"
  hc_description :: string
  hc_amount :: decimal
  hc_currency :: string
  hc_tax :: "decimal option"
  hc_tax_code :: "string option"
  hc_posted_by :: "ident option"

definition house_charge :: "timestamp \<Rightarrow> ident \<Rightarrow> ident \<Rightarrow> house_charge_dto \<Rightarrow> charge" where
  "house_charge now hid pid dto =
     \<lparr>c_id = 0, c_property = pid, c_folio = None, c_house = Some hid,
      c_type = (case hc_type dto of None \<Rightarrow> ChIncidental | Some t \<Rightarrow> t), c_description = hc_description dto,
      c_amount = hc_amount dto, c_currency = hc_currency dto,
      c_tax = (case hc_tax dto of None \<Rightarrow> 0 | Some t \<Rightarrow> t), c_tax_rate = None, c_tax_code = hc_tax_code dto,
      c_service = now, c_reversal = False, c_original = None, c_parent = None, c_adjusts = None,
      c_source = None, c_locked = False, c_lock_date = None, c_posted_by = hc_posted_by dto\<rparr>"

definition add_house_charge :: "timestamp \<Rightarrow> ident \<Rightarrow> ident \<Rightarrow> house_charge_dto \<Rightarrow> charge op" where
  "add_house_charge now hid pid dto =
     bnd (find_house hid pid) (\<lambda>account.
     bnd (guard (ha_status account = IsOpen) (BadRequest ''Cannot post a charge to a closed house account'')) (\<lambda>_.
     bnd (insert_charge (house_charge now hid pid dto)) (\<lambda>charge.
     bnd (recalc_house_balance hid pid) (\<lambda>_.
     bnd (emit ''houseaccount.charge_posted'' ''charge'' (c_id charge) pid) (\<lambda>_.
     ret charge)))))"

record house_payment_dto =
  hp_method :: payment_method
  hp_amount :: decimal
  hp_currency :: string
  hp_notes :: "string option"

definition house_payment :: "timestamp \<Rightarrow> ident \<Rightarrow> ident \<Rightarrow> house_payment_dto \<Rightarrow> payment" where
  "house_payment now hid pid dto =
     \<lparr>y_id = 0, y_property = pid, y_folio = None, y_house = Some hid, y_request = None, y_idempotency = None,
      y_method = hp_method dto, y_status = PayCaptured, y_amount = hp_amount dto, y_currency = hp_currency dto,
      y_provider = None, y_transaction = None, y_is_preauth = False, y_preauth_expires = None,
      y_original = None, y_finalization = None, y_notes = hp_notes dto, y_processed = Some now, y_created = now\<rparr>"

definition add_house_payment :: "timestamp \<Rightarrow> ident \<Rightarrow> ident \<Rightarrow> house_payment_dto \<Rightarrow> payment op" where
  "add_house_payment now hid pid dto =
     bnd (find_house hid pid) (\<lambda>account.
     bnd (guard (ha_status account = IsOpen) (BadRequest ''Cannot record a payment on a closed house account'')) (\<lambda>_.
     bnd (insert_payment (house_payment now hid pid dto)) (\<lambda>payment.
     bnd (recalc_house_balance hid pid) (\<lambda>_.
     bnd (emit ''houseaccount.payment_recorded'' ''payment'' (y_id payment) pid) (\<lambda>_.
     ret payment)))))"

section \<open>The catalogue\<close>

definition is_product :: "ident \<Rightarrow> ident \<Rightarrow> product \<Rightarrow> bool" where
  "is_product i pid p \<longleftrightarrow> pr_id p = i \<and> pr_property p = pid"

definition find_product :: "ident \<Rightarrow> ident \<Rightarrow> product op" where
  "find_product i pid = find_row products (is_product i pid) (NotFound ''Product not found'')"

record product_dto =
  np_property :: ident
  np_category :: "string option"
  np_name :: string
  np_price :: decimal
  np_currency :: string
  np_tax_code :: "string option"
  np_active :: "bool option"

definition create_product :: "product_dto \<Rightarrow> product op" where
  "create_product dto =
     bnd new_id (\<lambda>i.
     insert_row products_update
       \<lparr>pr_id = i, pr_property = np_property dto, pr_category = np_category dto, pr_name = np_name dto,
        pr_price = cents (np_price dto), pr_currency = np_currency dto, pr_tax_code = np_tax_code dto,
        pr_is_active = (case np_active dto of None \<Rightarrow> True | Some b \<Rightarrow> b)\<rparr>)"

text \<open>An empty category does not filter; \<open>active\<close> is the comparison of the query text with \<open>true\<close>.\<close>

definition list_products ::
  "ident \<Rightarrow> string option \<Rightarrow> bool option \<Rightarrow> nat option \<Rightarrow> nat option \<Rightarrow>
   (product list \<times> nat \<times> nat \<times> nat) op" where
  "list_products pid category active page limit =
     (let page' = (case page of None \<Rightarrow> 1 | Some n \<Rightarrow> n); limit' = (case limit of None \<Rightarrow> 20 | Some n \<Rightarrow> n) in
     ask (\<lambda>s. let rows = sel (\<lambda>p. pr_property p = pid \<and> (falsy category \<or> pr_category p = category) \<and>
                opt_eq active (pr_is_active p)) (products s)
       in (page_of page' limit' rows, length rows, page', limit')))"

text \<open>The fields of an update that are absent leave their columns alone.\<close>

record product_patch =
  up_category :: "string option"
  up_name :: "string option"
  up_price :: "decimal option"
  up_tax_code :: "string option"
  up_active :: "bool option"

definition patched :: "product_patch \<Rightarrow> product \<Rightarrow> product" where
  "patched dto p =
     p\<lparr>pr_category := (case up_category dto of None \<Rightarrow> pr_category p | Some c \<Rightarrow> Some c),
       pr_name := (case up_name dto of None \<Rightarrow> pr_name p | Some n \<Rightarrow> n),
       pr_price := (case up_price dto of None \<Rightarrow> pr_price p | Some v \<Rightarrow> cents v),
       pr_tax_code := (case up_tax_code dto of None \<Rightarrow> pr_tax_code p | Some c \<Rightarrow> Some c),
       pr_is_active := (case up_active dto of None \<Rightarrow> pr_is_active p | Some b \<Rightarrow> b)\<rparr>"

definition update_product :: "ident \<Rightarrow> ident \<Rightarrow> product_patch \<Rightarrow> product op" where
  "update_product i pid dto =
     bnd (find_product i pid) (\<lambda>_.
     update_one products products_update (is_product i pid) (patched dto))"

section \<open>Selling\<close>

record sell_dto =
  sd_product :: ident
  sd_quantity :: "nat option"
  sd_method :: "payment_method option"

record sale =
  sa_account :: ident
  sa_product :: product
  sa_quantity :: nat
  sa_total :: decimal
  sa_currency :: string
  sa_charge :: charge
  sa_payment :: "payment option"
  sa_balance :: decimal

definition sell_product :: "timestamp \<Rightarrow> ident \<Rightarrow> ident \<Rightarrow> sell_dto \<Rightarrow> sale op" where
  "sell_product now hid pid dto =
     bnd (find_house hid pid) (\<lambda>account.
     bnd (guard (ha_status account = IsOpen) (BadRequest ''Cannot sell on a closed house account'')) (\<lambda>_.
     bnd (find_product (sd_product dto) pid) (\<lambda>product.
     bnd (guard (pr_is_active product) (BadRequest ''Product is not active'')) (\<lambda>_.
     let quantity = (case sd_quantity dto of None \<Rightarrow> 1 | Some n \<Rightarrow> n);
         line_total = cents (pr_price product * of_nat quantity) in
     bnd (add_house_charge now hid pid
            \<lparr>hc_type = Some ChIncidental, hc_description = pr_name product @ '' x'' @ show_nat quantity,
             hc_amount = line_total, hc_currency = pr_currency product, hc_tax = None,
             hc_tax_code = pr_tax_code product, hc_posted_by = None\<rparr>) (\<lambda>charge.
     bnd (case sd_method dto of
            None \<Rightarrow> ret None
          | Some tender \<Rightarrow>
              bnd (add_house_payment now hid pid
                     \<lparr>hp_method = tender, hp_amount = line_total, hp_currency = pr_currency product,
                      hp_notes = Some (''Sale of '' @ pr_name product @ '' x'' @ show_nat quantity)\<rparr>) (\<lambda>y.
              ret (Some y))) (\<lambda>payment.
     bnd (find_house hid pid) (\<lambda>account2.
     ret \<lparr>sa_account = hid, sa_product = product, sa_quantity = quantity, sa_total = line_total,
          sa_currency = pr_currency product, sa_charge = charge, sa_payment = payment,
          sa_balance = ha_balance account2\<rparr>)))))))"

section \<open>The account as an instance of the ledger contract\<close>

definition house_key :: "house_account \<Rightarrow> ident \<times> ident" where
  "house_key a = (ha_id a, ha_property a)"

definition house_totals :: "house_account \<Rightarrow> decimal \<times> decimal \<times> decimal" where
  "house_totals a = (ha_total_charges a, ha_total_payments a, ha_balance a)"

definition house_charged :: "hotel \<Rightarrow> ident \<times> ident \<Rightarrow> decimal" where
  "house_charged s k = total charge_value (sel (charge_of_house (fst k) (snd k)) (charges s))"

definition house_paid :: "hotel \<Rightarrow> ident \<times> ident \<Rightarrow> decimal" where
  "house_paid s k = total y_amount (sel (payment_of_house (fst k) (snd k)) (payments s))"

definition stamp_house :: "decimal \<times> decimal \<times> decimal \<Rightarrow> house_account \<Rightarrow> house_account" where
  "stamp_house v a =
     (case v of (c, p, b) \<Rightarrow> a\<lparr>ha_total_charges := c, ha_total_payments := p, ha_balance := b\<rparr>)"

definition recalc_house :: "ident \<times> ident \<Rightarrow> hotel \<Rightarrow> hotel" where
  "recalc_house k s = house_accounts_update
     (upd (is_house (fst k) (snd k)) (stamp_house (statement (house_charged s k) (house_paid s k)))) s"

abbreviation house_books :: "(ident \<times> ident) set \<Rightarrow> hotel \<Rightarrow> bool" where
  "house_books \<equiv> books house_accounts house_key house_charged house_paid house_totals"

lemma recalc_house_balance_eq: "recalc_house_balance hid pid = tell (recalc_house (hid, pid))"
  by (rule ext) (simp add: recalc_house_balance_def Let_def recalc_house_def house_charged_def
      house_paid_def statement_def stamp_house_def [abs_def])

lemma ends_recalc_house_balance [wp]:
  "ends (recalc_house_balance hid pid) Q E s = Q () (recalc_house (hid, pid) s)"
  by (simp add: recalc_house_balance_eq wp)

lemma is_house_key: "is_house hid pid a \<longleftrightarrow> house_key a = (hid, pid)"
  by (auto simp: is_house_def house_key_def)

lemma stamp_house_simps [simp]:
  "ha_id (stamp_house v a) = ha_id a" "ha_property (stamp_house v a) = ha_property a"
  "ha_status (stamp_house v a) = ha_status a" "house_key (stamp_house v a) = house_key a"
  "house_totals (stamp_house v a) = v"
  by (cases v; simp add: stamp_house_def house_key_def house_totals_def)+

lemma recalc_house_tables [simp]:
  "charges (recalc_house k s) = charges s" "payments (recalc_house k s) = payments s"
  "products (recalc_house k s) = products s" "folios (recalc_house k s) = folios s"
  "fresh (recalc_house k s) = fresh s" "tax_rules (recalc_house k s) = tax_rules s"
  by (simp_all add: recalc_house_def)

lemma house_sums_cong:
  "charges t = charges s \<Longrightarrow> house_charged t = house_charged s" "payments t = payments s \<Longrightarrow> house_paid t = house_paid s"
  "charges t = charges s \<Longrightarrow> folio_charged t = folio_charged s" "payments t = payments s \<Longrightarrow> folio_paid t = folio_paid s"
  by (simp_all add: fun_eq_iff house_charged_def house_paid_def folio_charged_def folio_paid_def)

interpretation house_ledger: account_ledger house_accounts house_key house_charged house_paid house_totals recalc_house
proof
  fix a k s j
  show "a \<in> set (house_accounts (recalc_house k s)) \<Longrightarrow>
      (house_key a \<noteq> k \<and> a \<in> set (house_accounts s)) \<or>
      (house_key a = k \<and> house_totals a = statement (house_charged s k) (house_paid s k))"
    by (auto simp: recalc_house_def set_upd is_house_key)
  show "house_charged (recalc_house k s) j = house_charged s j" "house_paid (recalc_house k s) j = house_paid s j"
    by (simp_all add: house_charged_def house_paid_def)
qed

section \<open>What the writes keep\<close>

definition house_ok :: "hotel \<Rightarrow> bool" where
  "house_ok s \<longleftrightarrow> ledger_ok s \<and> house_books {} s"

lemma house_okD: "house_ok s \<Longrightarrow> ledger_ok s" "house_ok s \<Longrightarrow> house_books {} s" "house_ok s \<Longrightarrow> ledger_base s"
  by (simp_all add: house_ok_def ledger_ok_def)

text \<open>Changes that leave charges, payments and folios alone, and at most write house accounts.\<close>

lemma house_ok_upd_houses:
  assumes ok: "house_ok s" and g: "\<And>a. house_key (g a) = house_key a" "\<And>a. house_totals (g a) = house_totals a"
  shows "house_ok (house_accounts_update (upd c g) s)"
proof -
  have id: "ha_id (g a) = ha_id a" for a using g(1) [of a] by (simp add: house_key_def)
  let ?t = "house_accounts_update (upd c g) s"
  have "ledger_base ?t" using house_okD(3) [OF ok] wf_update_house_accounts [of s g c] id
    by (simp add: ledger_base_def refs_ok_def cents_ok_def rules_fit_def)
  moreover have "folio_books {} ?t" using house_okD(1) [OF ok]
    by (simp add: ledger_ok_def books_def house_sums_cong [of ?t s])
  moreover have "house_books {} ?t" using house_okD(2) [OF ok] g
    by (auto simp: books_def set_upd house_sums_cong [of ?t s])
  ultimately show ?thesis by (simp add: house_ok_def ledger_ok_def)
qed

lemma house_ok_frame:
  assumes "house_ok s" and "ledger_ok t" and "charges t = charges s" "payments t = payments s"
    and "house_accounts t = house_accounts s"
  shows "house_ok t"
  using assms by (simp add: house_ok_def books_def house_sums_cong [of t s])

lemma house_ok_events [simp]: "house_ok (s\<lparr>events := es\<rparr>) = house_ok s"
  by (simp add: house_ok_def books_def house_sums_cong [of "s\<lparr>events := es\<rparr>" s])

lemma house_ok_fresh: "house_ok s \<Longrightarrow> house_ok (s\<lparr>fresh := Suc (fresh s)\<rparr>)"
  by (frule house_okD(1), erule house_ok_frame) (simp_all add: ledger_ok_fresh)

lemma ledger_ok_products: "ledger_ok (products_update f s) = ledger_ok s"
  by (simp add: ledger_ok_def ledger_base_def refs_ok_def cents_ok_def rules_fit_def wf_hotel_def books_def
      house_sums_cong [of "products_update f s" s])

lemma house_ok_products: "house_ok s \<Longrightarrow> house_ok (products_update f s)"
  by (frule house_okD(1), erule house_ok_frame) (simp_all add: ledger_ok_products)

lemma house_charged_add_charge:
  "house_charged (add_charge c s) k = house_charged s k +
     (if charge_of_house (fst k) (snd k) c then cents (c_amount c) + cents (c_tax c) else 0)"
  by (simp add: house_charged_def sel_def charge_of_house_def charge_value_def)

lemma house_paid_add_payment:
  "house_paid (add_payment y s) k = house_paid s k +
     (if payment_of_house (fst k) (snd k) y then cents (y_amount y) else 0)"
proof -
  have "payment_of_house a b (y\<lparr>y_id := i, y_amount := v\<rparr>) = payment_of_house a b y" for a b i v
    by (simp add: payment_of_house_def)
  then show ?thesis by (simp add: house_paid_def sel_def)
qed

lemma house_unmoved [simp]:
  "house_paid (add_charge c s) = house_paid s" "house_charged (add_payment y s) = house_charged s"
  "house_charged (recalc_house k s) = house_charged s" "house_paid (recalc_house k s) = house_paid s"
  by (simp_all add: fun_eq_iff house_charged_def house_paid_def)

lemma ledger_ok_recalc_house: "ledger_ok s \<Longrightarrow> ledger_ok (recalc_house k s)"
proof -
  assume ok: "ledger_ok s"
  have "ledger_base (recalc_house k s)" using ledger_okD(1) [OF ok]
    by (simp add: ledger_base_def refs_ok_def cents_ok_def rules_fit_def) (simp add: recalc_house_def wf_update_house_accounts)
  moreover have "folio_books {} (recalc_house k s)" using ledger_okD(2) [OF ok]
    by (simp add: books_def house_sums_cong [of "recalc_house k s" s])
  ultimately show ?thesis by (simp add: ledger_ok_def)
qed

lemma house_ok_charged:
  assumes ok: "house_ok s" and c: "c_folio c = None" "c_house c = Some hid" "c_property c = pid" and i: "hid < fresh s"
  shows "house_ok (recalc_house (hid, pid) (add_charge c s))"
proof -
  have "ledger_ok (add_charge c s)"
    using c i house_okD [OF ok] by (auto simp: ledger_ok_def good_charge_def intro: ledger_base_add_charge folio_books_add_charge)
  moreover have "house_books {(hid, pid)} (add_charge c s)"
    by (rule house_ledger.posting [OF house_okD(2) [OF ok]])
      (use c in \<open>auto simp: house_charged_add_charge charge_of_house_def\<close>)
  ultimately show ?thesis
    by (simp add: house_ok_def ledger_ok_recalc_house house_ledger.recalc_one)
qed

lemma house_ok_paid:
  assumes ok: "house_ok s" and y: "y_folio y = None" "y_house y = Some hid" "y_property y = pid" and i: "hid < fresh s"
  shows "house_ok (recalc_house (hid, pid) (add_payment y s))"
proof -
  have "ledger_ok (add_payment y s)"
    using y i house_okD [OF ok] by (auto simp: ledger_ok_def good_payment_def intro: ledger_base_add_payment folio_books_add_payment)
  moreover have "house_books {(hid, pid)} (add_payment y s)"
    by (rule house_ledger.posting [OF house_okD(2) [OF ok]])
      (use y in \<open>auto simp: house_paid_add_payment payment_of_house_def\<close>)
  ultimately show ?thesis
    by (simp add: house_ok_def ledger_ok_recalc_house house_ledger.recalc_one)
qed

lemma house_ok_opened:
  assumes ok: "house_ok s"
  shows "house_ok (house_accounts_update (\<lambda>t. t @ [new_house_account dto (fresh s)]) (s\<lparr>fresh := Suc (fresh s)\<rparr>))"
    (is "house_ok ?t")
proof -
  have base: "ledger_base s" by (rule house_okD(3) [OF ok])
  have "ledger_base ?t" using base
    by (simp add: ledger_base_def refs_ok_def cents_ok_def rules_fit_def wf_hotel_def keys_ok_Suc keys_ok_append
        new_house_account_def less_Suc_eq)
  moreover have "folio_books {} ?t" using house_okD(1) [OF ok]
    by (simp add: ledger_ok_def books_def house_sums_cong [of ?t s])
  moreover have "house_books {} ?t"
  proof -
    have none: "sel (charge_of_house (fresh s) p) (charges s) = []" "sel (payment_of_house (fresh s) p) (payments s) = []" for p
      using base by (force simp: sel_Nil_iff charge_of_house_def payment_of_house_def ledger_base_def refs_ok_def)+
    then have "house_charged s (fresh s, p) = 0" "house_paid s (fresh s, p) = 0" for p
      by (simp_all add: house_charged_def house_paid_def)
    then show ?thesis using house_okD(2) [OF ok]
      by (simp add: books_def house_sums_cong [of ?t s])
        (simp add: house_key_def house_totals_def new_house_account_def statement_def)
  qed
  ultimately show ?thesis by (simp add: house_ok_def ledger_ok_def)
qed

text \<open>What the stored totals of a kept account say.\<close>

lemma house_exact:
  assumes "house_ok s" and "a \<in> set (house_accounts s)"
  shows "ha_total_charges a = house_charged s (house_key a)" and "ha_total_payments a = house_paid s (house_key a)"
    and "ha_balance a = house_charged s (house_key a) - house_paid s (house_key a)"
proof -
  have "cents_ok s" using house_okD(3) [OF assms(1)] by (simp add: ledger_base_def)
  then have "fits 2 (house_charged s k)" "fits 2 (house_paid s k)" for k
    by (auto simp: house_charged_def house_paid_def cents_ok_def sel_def charge_value_def intro!: fits_total)
  then have "statement (house_charged s (house_key a)) (house_paid s (house_key a)) =
      (house_charged s (house_key a), house_paid s (house_key a),
       house_charged s (house_key a) - house_paid s (house_key a))"
    by (rule statement_exact)
  moreover have "house_totals a = statement (house_charged s (house_key a)) (house_paid s (house_key a))"
    using house_ledger.balanced_after [OF house_okD(2) [OF assms(1)] assms(2)] by simp
  ultimately show "ha_total_charges a = house_charged s (house_key a)"
    and "ha_total_payments a = house_paid s (house_key a)"
    and "ha_balance a = house_charged s (house_key a) - house_paid s (house_key a)"
    by (simp_all add: house_totals_def)
qed

section \<open>What the operations do\<close>

definition house_of :: "hotel \<Rightarrow> ident \<Rightarrow> ident \<Rightarrow> house_account option" where
  "house_of s hid pid = first_row (sel (is_house hid pid) (house_accounts s))"

lemma ends_find_house [wp]:
  "ends (find_house hid pid) Q E s =
    (case house_of s hid pid of None \<Rightarrow> E (NotFound ''House account not found'') s | Some a \<Rightarrow> Q a s)"
  by (simp add: find_house_def wp house_of_def)

lemma ends_find_product [wp]:
  "ends (find_product i pid) Q E s =
    (case first_row (sel (is_product i pid) (products s)) of
       None \<Rightarrow> E (NotFound ''Product not found'') s | Some p \<Rightarrow> Q p s)"
  by (simp add: find_product_def wp)

lemma house_of_SomeD: "house_of s hid pid = Some a \<Longrightarrow> a \<in> set (house_accounts s) \<and> ha_id a = hid \<and> ha_property a = pid"
  unfolding house_of_def by (drule first_sel_SomeD) (simp add: is_house_def)

lemma house_of_fresh: "house_ok s \<Longrightarrow> house_of s hid pid = Some a \<Longrightarrow> hid < fresh s"
  using house_of_SomeD [of s hid pid a] house_okD(3) [of s] by (auto simp: ledger_base_def wf_hotel_def keys_ok_def)

text \<open>
  A state of kept books from which \<open>t\<close> was reached by booking \<open>charged\<close> and \<open>paid\<close> on the account \<open>k\<close>.
\<close>

definition house_moved :: "ident \<times> ident \<Rightarrow> decimal \<Rightarrow> decimal \<Rightarrow> hotel \<Rightarrow> hotel \<Rightarrow> bool" where
  "house_moved k charged paid s t \<longleftrightarrow> house_ok t \<and> products t = products s \<and>
     house_charged t = (house_charged s)(k := house_charged s k + charged) \<and>
     house_paid t = (house_paid s)(k := house_paid s k + paid)"

lemma house_moved_refl: "house_ok s \<Longrightarrow> house_moved k 0 0 s s"
  by (simp add: house_moved_def)

lemma house_moved_trans:
  "house_moved k c p s t \<Longrightarrow> house_moved k d q t u \<Longrightarrow> house_moved k (c + d) (p + q) s u"
  by (auto simp: house_moved_def fun_eq_iff)

lemma house_moved_events [simp]: "house_moved k c p s (t\<lparr>events := es\<rparr>) = house_moved k c p s t"
  by (simp add: house_moved_def house_sums_cong [of "t\<lparr>events := es\<rparr>" t])

lemma house_charge_simps [simp]:
  "c_folio (house_charge now hid pid dto) = None" "c_house (house_charge now hid pid dto) = Some hid"
  "c_property (house_charge now hid pid dto) = pid" "c_amount (house_charge now hid pid dto) = hc_amount dto"
  "c_tax (house_charge now hid pid dto) = (case hc_tax dto of None \<Rightarrow> 0 | Some t \<Rightarrow> t)"
  by (simp_all add: house_charge_def)

lemma house_payment_simps [simp]:
  "y_folio (house_payment now hid pid dto) = None" "y_house (house_payment now hid pid dto) = Some hid"
  "y_property (house_payment now hid pid dto) = pid" "y_amount (house_payment now hid pid dto) = hp_amount dto"
  "y_status (house_payment now hid pid dto) = PayCaptured" "y_idempotency (house_payment now hid pid dto) = None"
  by (simp_all add: house_payment_def)

lemma add_house_charge_did:
  assumes ok: "house_ok s"
  shows "ends (add_house_charge now hid pid dto)
    (\<lambda>c t. c_amount c = cents (hc_amount dto) \<and> c_tax c = cents (case hc_tax dto of None \<Rightarrow> 0 | Some x \<Rightarrow> x) \<and>
       house_moved (hid, pid) (charge_value c) 0 s t)
    (\<lambda>_. house_ok) s"
proof -
  let ?c = "house_charge now hid pid dto"
  have "house_moved (hid, pid) (charge_value ((stored_charge ?c)\<lparr>c_id := fresh s\<rparr>)) 0 s
      (recalc_house (hid, pid) (add_charge ?c s))" if "hid < fresh s"
    using house_ok_charged [of s ?c hid pid] ok that
    by (auto simp: house_moved_def house_charged_add_charge charge_of_house_def charge_value_def fun_eq_iff)
  then show ?thesis
    using ok house_ok_fresh [OF ok] house_of_fresh [OF ok]
    by (simp add: add_house_charge_def wp split: option.split)
qed

lemma add_house_payment_did:
  assumes ok: "house_ok s"
  shows "ends (add_house_payment now hid pid dto)
    (\<lambda>y t. y_amount y = cents (hp_amount dto) \<and> house_moved (hid, pid) 0 (y_amount y) s t) (\<lambda>_. house_ok) s"
proof -
  let ?y = "house_payment now hid pid dto"
  have "house_moved (hid, pid) 0 (cents (hp_amount dto)) s (recalc_house (hid, pid) (add_payment ?y s))" if "hid < fresh s"
    using house_ok_paid [of s ?y hid pid] ok that
    by (auto simp: house_moved_def house_paid_add_payment payment_of_house_def fun_eq_iff)
  then show ?thesis
    using ok house_ok_fresh [OF ok] house_of_fresh [OF ok]
    by (simp add: add_house_payment_def wp split: option.split)
qed

text \<open>The effect of a sale.\<close>

definition sale_did :: "ident \<times> ident \<Rightarrow> hotel \<Rightarrow> sale \<Rightarrow> hotel \<Rightarrow> bool" where
  "sale_did k s r t \<longleftrightarrow>
     house_moved k (sa_total r) (if sa_payment r = None then 0 else sa_total r) s t \<and>
     sa_total r = cents (pr_price (sa_product r) * of_nat (sa_quantity r)) \<and> pr_is_active (sa_product r) \<and>
     sa_product r \<in> set (products s) \<and> c_amount (sa_charge r) = sa_total r \<and>
     sa_balance r = house_charged t k - house_paid t k"

lemma sell_product_did:
  assumes ok: "house_ok s"
  shows "ends (sell_product now hid pid dto)
    (\<lambda>r t. sale_did (hid, pid) s r t \<and> (sa_payment r = None \<longleftrightarrow> sd_method dto = None)) (\<lambda>_. house_ok) s"
    (is "ends _ ?Q _ s")
proof -
  have balance: "ha_balance a = house_charged t (hid, pid) - house_paid t (hid, pid)"
    if "house_ok t" "house_of t hid pid = Some a" for a t
    using house_exact(3) [OF that(1)] house_of_SomeD [OF that(2)] by (simp add: house_key_def)
  let ?n = "case sd_quantity dto of None \<Rightarrow> 1 | Some n \<Rightarrow> n"
  have sold: "ends (bnd (add_house_charge now hid pid d) (\<lambda>charge.
      bnd (case sd_method dto of None \<Rightarrow> ret None
        | Some tender \<Rightarrow> bnd (add_house_payment now hid pid (pay tender)) (\<lambda>y. ret (Some y))) (\<lambda>payment.
      bnd (find_house hid pid) (\<lambda>account2.
      ret \<lparr>sa_account = hid, sa_product = q, sa_quantity = ?n, sa_total = v,
          sa_currency = pr_currency q, sa_charge = charge, sa_payment = payment,
          sa_balance = ha_balance account2\<rparr>)))) ?Q (\<lambda>_. house_ok) s"
    if q: "q \<in> set (products s)" "pr_is_active q" and d: "hc_amount d = v" "v = cents (pr_price q * of_nat ?n)" "hc_tax d = None"
      and pay: "\<And>m. hp_amount (pay m) = v" for q d pay v
    unfolding ends_bnd
  proof (rule ends_weaken [OF add_house_charge_did [OF ok]], goal_cases)
    case (1 c t)
    then have c: "c_amount c = v" "charge_value c = v" "house_moved (hid, pid) (v) 0 s t"
      using d by (auto simp: charge_value_def)
    then have t: "house_ok t" by (simp add: house_moved_def)
    show ?case
    proof (cases "sd_method dto")
      case None
      then show ?thesis using c q d t balance [OF t] by (auto simp: wp sale_did_def split: option.split)
    next
      case (Some m)
      have "ends (add_house_payment now hid pid (pay m))
          (\<lambda>y u. house_moved (hid, pid) (v) (v) s u) (\<lambda>_. house_ok) t"
        using add_house_payment_did [OF t] by (rule ends_weaken)
          (use pay d house_moved_trans [OF c(3)] in \<open>fastforce+\<close>)
      then have "ends (add_house_payment now hid pid (pay m)) (\<lambda>y u. house_ok u \<and>
          house_moved (hid, pid) (v) (v) s u) (\<lambda>_. house_ok) t"
        by (rule ends_weaken) (auto simp: house_moved_def)
      then show ?thesis unfolding Some option.case ends_bnd
        by (rule ends_weaken) (use c q d balance Some in \<open>auto simp: wp sale_did_def split: option.split\<close>)
    qed
  qed auto
  note reads = sell_product_def Let_def ends_bnd [of "find_house a b" for a b] ends_bnd [of "guard b e" for b e]
    ends_bnd [of "find_product a b" for a b] ends_find_house ends_guard ends_find_product
  show ?thesis
  proof (cases "house_of s hid pid")
    case None
    then show ?thesis using ok by (simp add: reads)
  next
    case (Some a)
    note account = this
    show ?thesis
    proof (cases "first_row (sel (is_product (sd_product dto) pid) (products s))")
      case None
      then show ?thesis unfolding reads account option.case by (simp add: ok)
    next
      case (Some q)
      then have q: "q \<in> set (products s)" by (auto dest: first_sel_SomeD)
      show ?thesis
      proof (cases "ha_status a = IsOpen \<and> pr_is_active q")
        case True
        then have g: "ha_status a = IsOpen" "pr_is_active q" by simp_all
        show ?thesis unfolding reads account Some option.case if_P [OF g(1)] if_P [OF g(2)]
          by (rule sold [OF q g(2)]; simp)
      next
        case False
        then show ?thesis unfolding reads account Some option.case using ok
          by (cases "ha_status a = IsOpen") simp_all
      qed
    qed
  qed
qed

section \<open>Sequences of operations\<close>

datatype house_action =
  OpenAccount open_account_dto | CloseAccount timestamp ident ident
| ChargeAccount timestamp ident ident house_charge_dto | PayAccount timestamp ident ident house_payment_dto
| SellProduct timestamp ident ident sell_dto | NewProduct product_dto | PatchProduct ident ident product_patch

fun house_step :: "house_action \<Rightarrow> hotel \<Rightarrow> hotel" where
  "house_step (OpenAccount dto) s = snd (open_house_account dto s)"
| "house_step (CloseAccount now hid pid) s = snd (close_house_account now hid pid s)"
| "house_step (ChargeAccount now hid pid dto) s = snd (add_house_charge now hid pid dto s)"
| "house_step (PayAccount now hid pid dto) s = snd (add_house_payment now hid pid dto s)"
| "house_step (SellProduct now hid pid dto) s = snd (sell_product now hid pid dto s)"
| "house_step (NewProduct dto) s = snd (create_product dto s)"
| "house_step (PatchProduct i pid dto) s = snd (update_product i pid dto s)"

definition house_run :: "house_action list \<Rightarrow> hotel \<Rightarrow> hotel" where
  "house_run acts s = fold house_step acts s"

text \<open>A predicate kept by each operation is kept by every run of them.\<close>

definition house_kept :: "(hotel \<Rightarrow> bool) \<Rightarrow> bool" where
  "house_kept I \<longleftrightarrow> (\<forall>act s. I s \<longrightarrow> I (house_step act s))"

lemma house_keptD: "house_kept I \<Longrightarrow> I s \<Longrightarrow> I (house_run acts s)"
  by (induction acts arbitrary: s) (simp_all add: house_run_def house_kept_def)

lemma house_keptI:
  assumes "\<And>dto. keeps_inv I (open_house_account dto)" and "\<And>now hid pid. keeps_inv I (close_house_account now hid pid)"
    and "\<And>now hid pid dto. keeps_inv I (add_house_charge now hid pid dto)"
    and "\<And>now hid pid dto. keeps_inv I (add_house_payment now hid pid dto)"
    and "\<And>now hid pid dto. keeps_inv I (sell_product now hid pid dto)"
    and "\<And>dto. keeps_inv I (create_product dto)" and "\<And>i pid dto. keeps_inv I (update_product i pid dto)"
  shows "house_kept I"
proof -
  have "I s \<Longrightarrow> I (house_step act s)" for act s
    by (cases act) (simp_all add: keeps_invD [OF assms(1)] keeps_invD [OF assms(2)] keeps_invD [OF assms(3)]
        keeps_invD [OF assms(4)] keeps_invD [OF assms(5)] keeps_invD [OF assms(6)] keeps_invD [OF assms(7)])
  then show ?thesis by (simp add: house_kept_def)
qed

lemma keeps_find_house [keeps]: "keeps_inv I (find_house hid pid)"
  unfolding find_house_def by (rule keeps_find_row)

lemma keeps_find_product [keeps]: "keeps_inv I (find_product i pid)"
  unfolding find_product_def by (rule keeps_find_row)

lemma keeps_open_account: "keeps_inv house_ok (open_house_account dto)"
  using house_ok_opened by (simp add: keeps_inv_ends open_house_account_def wp)

lemma keeps_close_account: "keeps_inv house_ok (close_house_account now hid pid)"
  by (simp add: keeps_inv_ends close_house_account_def wp house_ok_upd_houses house_key_def house_totals_def
      split: option.split)

lemma keeps_house_charge: "keeps_inv house_ok (add_house_charge now hid pid dto)"
  unfolding keeps_inv_ends
  by (intro allI impI, rule ends_weaken [OF add_house_charge_did]) (auto simp: house_moved_def)

lemma keeps_house_payment: "keeps_inv house_ok (add_house_payment now hid pid dto)"
  unfolding keeps_inv_ends
  by (intro allI impI, rule ends_weaken [OF add_house_payment_did]) (auto simp: house_moved_def)

text \<open>A sale reads, posts a charge and perhaps a payment.\<close>

lemma keeps_sell:
  assumes "\<And>dto. keeps_inv I (add_house_charge now hid pid dto)" and "\<And>dto. keeps_inv I (add_house_payment now hid pid dto)"
  shows "keeps_inv I (sell_product now hid pid dto)"
  unfolding sell_product_def Let_def by (intro keeps assms)

lemma keeps_create_product: "keeps_inv house_ok (create_product dto)"
  by (simp add: keeps_inv_ends create_product_def wp house_ok_products house_ok_fresh)

lemma keeps_update_product:
  assumes "\<And>s f. I s \<Longrightarrow> I (products_update f s)"
  shows "keeps_inv I (update_product i pid dto)"
  using assms by (simp add: keeps_inv_ends update_product_def wp split: option.split)

lemma house_ok_kept: "house_kept house_ok"
  by (intro house_keptI keeps_open_account keeps_close_account keeps_house_charge keeps_house_payment
      keeps_sell keeps_create_product keeps_update_product house_ok_products)

section \<open>A closed account\<close>

text \<open>An account in a state of kept books.\<close>

definition stands :: "house_account \<Rightarrow> hotel \<Rightarrow> bool" where
  "stands a s \<longleftrightarrow> house_ok s \<and> a \<in> set (house_accounts s)"

lemma one_account: "house_ok s \<Longrightarrow> a \<in> set (house_accounts s) \<Longrightarrow> b \<in> set (house_accounts s) \<Longrightarrow> ha_id a = ha_id b \<Longrightarrow> a = b"
  using house_okD(3) [of s] distinct_key_unique [of ha_id "house_accounts s" a b]
  by (simp add: ledger_base_def wf_hotel_def keys_ok_def)

text \<open>An open account with the key of a closed one would be the closed one.\<close>

lemma open_elsewhere:
  assumes "stands a s" and "ha_status a = IsClosed" and "house_of s hid pid = Some b" and "ha_status b = IsOpen"
  shows "house_key a \<noteq> (hid, pid)"
  using assms one_account [of s a b] house_of_SomeD [OF assms(3)] by (auto simp: stands_def house_key_def)

lemma in_upd_houses: "a \<in> set t \<Longrightarrow> house_key a \<noteq> (hid, pid) \<Longrightarrow> a \<in> set (upd (is_house hid pid) f t)"
  by (force simp: set_upd is_house_key)

lemma in_recalc_house: "a \<in> set (house_accounts s) \<Longrightarrow> house_key a \<noteq> k \<Longrightarrow> a \<in> set (house_accounts (recalc_house k s))"
  by (cases k) (simp add: recalc_house_def in_upd_houses)

lemma stays_in:
  assumes a: "stands a s" "ha_status a = IsClosed"
  shows "ends (close_house_account now hid pid) (\<lambda>_ t. a \<in> set (house_accounts t)) (\<lambda>_ t. a \<in> set (house_accounts t)) s"
    and "ends (add_house_charge now hid pid cd) (\<lambda>_ t. a \<in> set (house_accounts t)) (\<lambda>_ t. a \<in> set (house_accounts t)) s"
    and "ends (add_house_payment now hid pid yd) (\<lambda>_ t. a \<in> set (house_accounts t)) (\<lambda>_ t. a \<in> set (house_accounts t)) s"
  using a open_elsewhere [OF a] in_upd_houses [of a "house_accounts s" hid pid]
  by (simp_all add: stands_def close_house_account_def add_house_charge_def add_house_payment_def wp in_recalc_house
      split: option.split)

lemma stands_kept:
  assumes "ha_status a = IsClosed"
  shows "house_kept (stands a)"
proof -
  have both: "keeps_inv (stands a) m" if "keeps_inv house_ok m"
      "\<And>s. stands a s \<Longrightarrow> ends m (\<lambda>_ t. a \<in> set (house_accounts t)) (\<lambda>_ t. a \<in> set (house_accounts t)) s"
    for m :: "'r op"
    using that by (auto simp: keeps_inv_ends stands_def [abs_def] ends_conj)
  have "keeps_inv (stands a) (open_house_account dto)" for dto
    by (rule both [OF keeps_open_account]) (simp add: stands_def open_house_account_def wp)
  moreover have "keeps_inv (stands a) (create_product dto)" for dto
    by (rule both [OF keeps_create_product]) (simp add: stands_def create_product_def wp)
  moreover have "stands a (products_update f s)" if "stands a s" for f s
    using that by (simp add: stands_def house_ok_products)
  ultimately show ?thesis
    by (intro house_keptI both [OF keeps_close_account] both [OF keeps_house_charge] both [OF keeps_house_payment]
        keeps_sell keeps_update_product stays_in assms)
qed

section \<open>Voiding a cash payment of an account\<close>

lemma total_sel: "total v (sel c t) = sum_list (map (\<lambda>r. if c r then v r else 0) t)"
  by (induction t) (simp_all add: total_eq sel_def)

text \<open>The payment service voids the row; nobody recalculates the account.\<close>

lemma house_paid_voided:
  assumes "house_ok s" and y: "y \<in> set (payments s)" "y_house y = Some hid" "y_property y = pid" "y_status y = PayCaptured"
  shows "house_paid (payments_update (upd (\<lambda>z. is_payment (y_id y) pid z \<and> y_status z = PayCaptured)
      (\<lambda>z. z\<lparr>y_status := PayVoided\<rparr>)) s) (hid, pid) = house_paid s (hid, pid) - y_amount y"
proof -
  have keys: "distinct (map y_id (payments s))" using house_okD(3) [OF assms(1)]
    by (simp add: ledger_base_def wf_hotel_def keys_ok_def)
  let ?c = "\<lambda>z. is_payment (y_id y) pid z \<and> y_status z = PayCaptured" and ?f = "\<lambda>z. z\<lparr>y_status := PayVoided\<rparr>"
  let ?v = "\<lambda>z. if payment_of_house hid pid z then y_amount z else 0"
  have "sum_list (map ?v (upd ?c ?f (payments s))) = sum_list (map ?v (payments s)) - ?v y + ?v (?f y)"
    by (rule sum_list_upd_one [OF keys y(1)]) (simp_all add: y is_payment_def)
  moreover have "?v y = y_amount y" "?v (?f y) = 0" using y by (simp_all add: payment_of_house_def)
  ultimately show ?thesis by (simp only: house_paid_def total_sel fst_conv snd_conv hotel.simps) simp
qed

section \<open>A shop with an open and a closed account\<close>

definition ex_account :: house_account where
  "ex_account = \<lparr>ha_id = 16, ha_property = 30, ha_name = ''Bar'', ha_kind = RetailAccount, ha_status = IsOpen, ha_balance = 0,
     ha_total_charges = 5, ha_total_payments = 5, ha_currency = ''EUR'', ha_notes = None, ha_opened_by = None,
     ha_closed_at = None\<rparr>"

definition ex_closed_account :: house_account where
  "ex_closed_account = ex_account\<lparr>ha_id := 18, ha_status := IsClosed, ha_total_charges := 0, ha_total_payments := 0\<rparr>"

definition ex_product :: product where
  "ex_product = \<lparr>pr_id = 17, pr_property = 30, pr_category = None, pr_name = ''Water'', pr_price = 3, pr_currency = ''EUR'',
     pr_tax_code = None, pr_is_active = True\<rparr>"

definition ex_bar_charge :: charge where
  "ex_bar_charge = ex_charge\<lparr>c_id := 19, c_folio := None, c_house := Some 16, c_type := ChIncidental, c_amount := 5\<rparr>"

definition ex_bar_payment :: payment where
  "ex_bar_payment = ex_payment\<lparr>y_id := 21, y_folio := None, y_house := Some 16, y_method := Cash, y_amount := 5,
     y_provider := None, y_transaction := None\<rparr>"

definition ex_shop :: hotel where
  "ex_shop = ex_hotel\<lparr>charges := [ex_charge, ex_tax_charge, ex_bar_charge], payments := [ex_payment, ex_bar_payment],
     house_accounts := [ex_account, ex_closed_account], products := [ex_product]\<rparr>"

lemmas ex_shop_rows = ex_account_def ex_closed_account_def ex_product_def ex_bar_charge_def ex_bar_payment_def

lemma ex_shop_tables [simp]:
  "charges ex_shop = [ex_charge, ex_tax_charge, ex_bar_charge]" "payments ex_shop = [ex_payment, ex_bar_payment]"
  "house_accounts ex_shop = [ex_account, ex_closed_account]" "products ex_shop = [ex_product]" "fresh ex_shop = 40"
  "folios ex_shop = folios ex_hotel"
  by (simp_all add: ex_shop_def)

lemma ex_shop_base: "ledger_base ex_shop"
  using ex_hotel_base fits_of_int [of 2 5] fits_of_int [of 2 100] fits_of_int [of 2 110] fits_of_int [of 2 10]
  by (simp add: ledger_base_def wf_hotel_def keys_ok_def refs_ok_def cents_ok_def rules_fit_def ex_shop_def ex_shop_rows
      ex_charge_def ex_tax_charge_def ex_payment_def)

lemma ex_shop_sums:
  "house_charged ex_shop (16, 30) = 5" "house_paid ex_shop (16, 30) = 5" "house_charged ex_shop (18, 30) = 0"
  "house_paid ex_shop (18, 30) = 0" "folio_charged ex_shop = folio_charged ex_hotel" "folio_paid ex_shop = folio_paid ex_hotel"
  by (simp_all add: fun_eq_iff house_charged_def house_paid_def folio_charged_def folio_paid_def sel_def charge_of_house_def
      payment_of_house_def charge_of_folio_def folio_payment_sum_where_def charge_value_def ex_shop_rows ex_charge_def
      ex_tax_charge_def ex_payment_def)

lemma ex_shop_ok: "house_ok ex_shop"
proof -
  have "cents 5 = 5" using to_fixed_id [OF fits_of_int, of 2 5] by simp
  then have "house_books {} ex_shop"
    by (simp add: books_def house_key_def house_totals_def statement_def ex_account_def ex_closed_account_def ex_shop_sums)
  moreover have "folio_books {} ex_shop"
    using ex_hotel_books by (simp add: books_def ex_shop_sums del: ex_tables)
  ultimately show ?thesis by (simp add: house_ok_def ledger_ok_def ex_shop_base)
qed

definition ex_sell :: sell_dto where
  "ex_sell = \<lparr>sd_product = 17, sd_quantity = Some 2, sd_method = None\<rparr>"

lemma ex_sell_returns: "returns (sell_product 9 16 30 ex_sell) ex_shop"
  by (simp add: returns_def sell_product_def Let_def add_house_charge_def wp ex_sell_def house_of_def recalc_house_def is_house_def
      is_product_def ex_shop_rows house_charge_def fits_columns_def same_source_def add_charge_def show_nat.simps dig_def
      ex_charge_def ex_tax_charge_def)

definition ex_bar_actions :: "house_action list" where
  "ex_bar_actions = [SellProduct 9 16 30 ex_sell, ChargeAccount 10 18 30
      \<lparr>hc_type = None, hc_description = ''x'', hc_amount = 1, hc_currency = ''EUR'', hc_tax = None, hc_tax_code = None, hc_posted_by = None\<rparr>,
     CloseAccount 11 16 30]"

end
