(* ===== verification/Cashier.thy ===== *)
theory Cashier
  imports Examples
begin

text \<open>
  Cash drawers and shifts (\<open>apps/api/src/modules/cashier/cashier.service.ts\<close>): drawers, sessions opened
  with a float, cash movements, the reconciliation at close and the cashier's report. Opening a session
  and recording a movement look first and write afterwards, so both are split there: runs of whole
  operations keep every closed session reconciled and one open session per cashier and drawer, and
  requests interleaved at that point do not.
\<close>

section \<open>Drawers\<close>

record drawer_dto =
  nd_property :: ident
  nd_name :: string
  nd_float :: "decimal option"
  nd_active :: "bool option"

definition create_drawer :: "drawer_dto \<Rightarrow> drawer op" where
  "create_drawer dto =
     bnd new_id (\<lambda>i.
     insert_row drawers_update
       \<lparr>dw_id = i, dw_property = nd_property dto, dw_name = nd_name dto,
        dw_float = cents (case nd_float dto of None \<Rightarrow> 0 | Some v \<Rightarrow> v),
        dw_is_active = (case nd_active dto of None \<Rightarrow> True | Some b \<Rightarrow> b)\<rparr>)"

definition is_drawer :: "ident \<Rightarrow> ident \<Rightarrow> drawer \<Rightarrow> bool" where
  "is_drawer i pid d \<longleftrightarrow> dw_id d = i \<and> dw_property d = pid"

definition find_drawer :: "ident \<Rightarrow> ident \<Rightarrow> drawer op" where
  "find_drawer i pid = find_row drawers (is_drawer i pid) (NotFound ''Cash drawer not found'')"

text \<open>Names are ordered by the database's collation: \<open>rank\<close> is the place of a name in it.\<close>

definition list_drawers :: "(string \<Rightarrow> nat) \<Rightarrow> ident \<Rightarrow> bool \<Rightarrow> (drawer list \<times> nat) op" where
  "list_drawers rank pid active_only =
     ask (\<lambda>s. let rows = sort_key (\<lambda>d. rank (dw_name d))
            (sel (\<lambda>d. dw_property d = pid \<and> (active_only \<longrightarrow> dw_is_active d)) (drawers s))
       in (rows, length rows))"

section \<open>Sessions\<close>

definition is_session :: "ident \<Rightarrow> ident \<Rightarrow> cash_session \<Rightarrow> bool" where
  "is_session i pid x \<longleftrightarrow> cs_id x = i \<and> cs_property x = pid"

definition find_session :: "ident \<Rightarrow> ident \<Rightarrow> cash_session op" where
  "find_session i pid = find_row cash_sessions (is_session i pid) (NotFound ''Cash session not found'')"

text \<open>Rows are kept in the order they were opened; the newest comes first.\<close>

definition list_sessions :: "ident \<Rightarrow> ident option \<Rightarrow> open_status option \<Rightarrow> (cash_session list \<times> nat) op" where
  "list_sessions pid drawer status =
     ask (\<lambda>s. let rows = rev (sel (\<lambda>x. cs_property x = pid \<and> opt_eq drawer (cs_drawer x) \<and> opt_eq status (cs_status x))
            (cash_sessions s))
       in (rows, length rows))"

record open_session_dto =
  os_property :: ident
  os_drawer :: ident
  os_cashier :: ident
  os_float :: "decimal option"

definition same_shift :: "open_session_dto \<Rightarrow> cash_session \<Rightarrow> bool" where
  "same_shift dto x \<longleftrightarrow> cs_property x = os_property dto \<and> cs_drawer x = os_drawer dto \<and>
     cs_cashier x = os_cashier dto \<and> cs_status x = IsOpen"

text \<open>\<open>openSession\<close> up to its insert: the opening float.\<close>

definition check_shift :: "open_session_dto \<Rightarrow> decimal op" where
  "check_shift dto =
     bnd (find_drawer (os_drawer dto) (os_property dto)) (\<lambda>drawer.
     bnd (ask (\<lambda>s. count_rows (same_shift dto) (cash_sessions s))) (\<lambda>existing.
     bnd (guard (\<not> 0 < existing) (BadRequest ''Cashier already has an open session on this drawer'')) (\<lambda>_.
     ret (cents (case os_float dto of None \<Rightarrow> dw_float drawer | Some v \<Rightarrow> v)))))"

definition new_session :: "open_session_dto \<Rightarrow> decimal \<Rightarrow> ident \<Rightarrow> cash_session" where
  "new_session dto opening i =
     \<lparr>cs_id = i, cs_property = os_property dto, cs_drawer = os_drawer dto, cs_cashier = os_cashier dto,
      cs_status = IsOpen, cs_opening = opening, cs_expected = None, cs_counted = None, cs_variance = None,
      cs_closed_at = None\<rparr>"

definition insert_session :: "open_session_dto \<Rightarrow> decimal \<Rightarrow> cash_session op" where
  "insert_session dto opening =
     bnd new_id (\<lambda>i.
     bnd (insert_row cash_sessions_update (new_session dto opening i)) (\<lambda>session.
     bnd (emit ''cashdrawer.session_opened'' ''cash_drawer_session'' (cs_id session) (cs_property session)) (\<lambda>_.
     ret session)))"

definition open_session :: "open_session_dto \<Rightarrow> cash_session op" where
  "open_session dto = bnd (check_shift dto) (insert_session dto)"

section \<open>Movements\<close>

record movement_dto =
  md_property :: ident
  md_type :: movement_type
  md_amount :: decimal
  md_reservation :: "ident option"
  md_note :: "string option"
  md_created_by :: "ident option"

text \<open>\<open>recordMovement\<close> up to its insert.\<close>

definition check_movement :: "ident \<Rightarrow> movement_dto \<Rightarrow> unit op" where
  "check_movement sid dto =
     bnd (find_session sid (md_property dto)) (\<lambda>session.
     bnd (guard (cs_status session = IsOpen) (BadRequest ''Cannot record a movement on a closed session'')) (\<lambda>_.
     bnd (ask (\<lambda>s. case md_reservation dto of None \<Rightarrow> True
            | Some r \<Rightarrow> sel (\<lambda>x. r_id x = r \<and> r_property x = md_property dto) (reservations s) \<noteq> [])) (\<lambda>owned.
     guard owned (BadRequest ''reservation not found in this property''))))"

definition new_movement :: "ident \<Rightarrow> movement_dto \<Rightarrow> ident \<Rightarrow> cash_movement" where
  "new_movement sid dto i =
     \<lparr>cm_id = i, cm_property = md_property dto, cm_session = sid, cm_type = md_type dto,
      cm_amount = cents (md_amount dto), cm_reservation = md_reservation dto, cm_note = md_note dto,
      cm_created_by = md_created_by dto\<rparr>"

definition insert_movement :: "ident \<Rightarrow> movement_dto \<Rightarrow> cash_movement op" where
  "insert_movement sid dto =
     bnd new_id (\<lambda>i.
     bnd (insert_row cash_movements_update (new_movement sid dto i)) (\<lambda>movement.
     bnd (emit ''cashdrawer.movement_recorded'' ''cash_movement'' (cm_id movement) (cm_property movement)) (\<lambda>_.
     ret movement)))"

definition record_movement :: "ident \<Rightarrow> movement_dto \<Rightarrow> cash_movement op" where
  "record_movement sid dto = bnd (check_movement sid dto) (\<lambda>_. insert_movement sid dto)"

section \<open>Reconciliation\<close>

definition movement_of :: "ident \<Rightarrow> ident \<Rightarrow> cash_movement \<Rightarrow> bool" where
  "movement_of sid pid m \<longleftrightarrow> cm_session m = sid \<and> cm_property m = pid"

text \<open>\<open>group by type\<close>: one row per type that occurs, with its count and sum.\<close>

definition grouped :: "cash_movement list \<Rightarrow> (movement_type \<times> nat \<times> decimal) list" where
  "grouped ms = map (\<lambda>t. (t, length (sel (\<lambda>m. cm_type m = t) ms), total cm_amount (sel (\<lambda>m. cm_type m = t) ms)))
     (remdups (map cm_type ms))"

definition expected_of :: "decimal \<Rightarrow> (movement_type \<times> nat \<times> decimal) list \<Rightarrow> decimal" where
  "expected_of base rows =
     fold (\<lambda>(t, _, amount) expected. if t = CashPayment then expected + amount else expected - amount) rows base"

definition compute_expected_balance :: "cash_session \<Rightarrow> ident \<Rightarrow> decimal op" where
  "compute_expected_balance session pid =
     bnd (ask (\<lambda>s. grouped (sel (movement_of (cs_id session) pid) (cash_movements s)))) (\<lambda>rows.
     ret (expected_of (cs_opening session) rows))"

record close_dto =
  xd_property :: ident
  xd_counted :: decimal
  xd_drop :: "decimal option"

definition final_drop :: "close_dto \<Rightarrow> decimal \<Rightarrow> movement_dto" where
  "final_drop dto amount =
     \<lparr>md_property = xd_property dto, md_type = CashDrop, md_amount = amount, md_reservation = None,
      md_note = Some ''Final drop at shift close'', md_created_by = None\<rparr>"

definition record_final_drop :: "ident \<Rightarrow> close_dto \<Rightarrow> unit op" where
  "record_final_drop sid dto =
     (case xd_drop dto of
        None \<Rightarrow> ret ()
      | Some amount \<Rightarrow>
          if 0 < amount
          then bnd new_id (\<lambda>i.
               bnd (insert_row cash_movements_update (new_movement sid (final_drop dto amount) i)) (\<lambda>_. ret ()))
          else ret ())"

definition close_session :: "timestamp \<Rightarrow> ident \<Rightarrow> close_dto \<Rightarrow> cash_session op" where
  "close_session now sid dto = transact (
     bnd (find_session sid (xd_property dto)) (\<lambda>session.
     bnd (guard (cs_status session = IsOpen) (BadRequest ''Session is already closed'')) (\<lambda>_.
     bnd (record_final_drop sid dto) (\<lambda>_.
     bnd (compute_expected_balance session (xd_property dto)) (\<lambda>expected.
     let counted = xd_counted dto; variance = counted - expected in
     bnd (update_one cash_sessions cash_sessions_update (is_session sid (xd_property dto))
            (\<lambda>x. x\<lparr>cs_status := IsClosed, cs_expected := Some (cents expected), cs_counted := Some (cents counted),
               cs_variance := Some (cents variance), cs_closed_at := Some now\<rparr>)) (\<lambda>updated.
     bnd (emit ''cashdrawer.session_closed'' ''cash_drawer_session'' (cs_id updated) (cs_property updated)) (\<lambda>_.
     ret updated)))))))"

section \<open>The report\<close>

record cashier_report =
  cr_session :: cash_session
  cr_summary :: "movement_type \<Rightarrow> nat \<times> decimal"
  cr_expected :: decimal
  cr_counted :: "decimal option"
  cr_variance :: "decimal option"

definition movement_summary :: "(movement_type \<times> nat \<times> decimal) list \<Rightarrow> movement_type \<Rightarrow> nat \<times> decimal" where
  "movement_summary rows =
     fold (\<lambda>(t, n, amount) summary. summary(t := (n, cents amount))) rows (\<lambda>_. (0, 0))"

definition make_cashier_report :: "ident \<Rightarrow> ident \<Rightarrow> cashier_report op" where
  "make_cashier_report sid pid =
     bnd (find_session sid pid) (\<lambda>session.
     bnd (ask (\<lambda>s. grouped (sel (movement_of sid pid) (cash_movements s)))) (\<lambda>rows.
     bnd (case (cs_status session, cs_expected session) of
            (IsClosed, Some v) \<Rightarrow> ret v
          | _ \<Rightarrow> compute_expected_balance session pid) (\<lambda>expected.
     ret \<lparr>cr_session = session\<lparr>cs_opening := cents (cs_opening session)\<rparr>, cr_summary = movement_summary rows,
          cr_expected = cents expected, cr_counted = map_option cents (cs_counted session),
          cr_variance = map_option cents (cs_variance session)\<rparr>)))"

end
