(* ===== verification/Cashier_Facts.thy ===== *)
theory Cashier_Facts
  imports Cashier
begin

text \<open>
  What the cashier's operations guarantee: the grouped sums are the sum of signed movements, every
  run of operations leaves closed sessions reconciled and at most one open session per cashier and
  drawer, and what requests that overlap can do to both.
\<close>

section \<open>The expected balance\<close>

text \<open>What is in the drawer: the initial float and the movements, cash paid in counted positive.\<close>

definition movement_value :: "cash_movement \<Rightarrow> decimal" where
  "movement_value m = (if cm_type m = CashPayment then cm_amount m else - cm_amount m)"

definition drawer_balance :: "hotel \<Rightarrow> cash_session \<Rightarrow> decimal" where
  "drawer_balance s x = cs_opening x +
     total movement_value (sel (movement_of (cs_id x) (cs_property x)) (cash_movements s))"

lemma expected_of_sum:
  "expected_of initial rows = initial + sum_list (map (\<lambda>(t, _, a). if t = CashPayment then a else - a) rows)"
  by (induction rows arbitrary: initial) (auto simp: expected_of_def)

lemma sum_by_key:
  assumes "finite T" and "k ` set ms \<subseteq> T"
  shows "(\<Sum>t \<in> T. total v (sel (\<lambda>m. k m = t) ms)) = total v ms"
  using assms(2)
proof (induction ms)
  case Nil
  then show ?case by (simp add: sel_def)
next
  case (Cons m ms)
  have "total v (sel (\<lambda>q. k q = t) (m # ms)) = (if k m = t then v m else 0) + total v (sel (\<lambda>q. k q = t) ms)" for t
    by (simp add: sel_def)
  then show ?case using Cons assms(1) by (simp add: sum.distrib)
qed

lemma expected_grouped: "expected_of initial (grouped ms) = initial + total movement_value ms"
proof -
  have sign: "(if t = CashPayment then total cm_amount (sel (\<lambda>m. cm_type m = t) ms) else - total cm_amount (sel (\<lambda>m. cm_type m = t) ms))
      = total movement_value (sel (\<lambda>m. cm_type m = t) ms)" for t
    by (induction ms) (auto simp: sel_def movement_value_def)
  have "sum_list (map (\<lambda>(t, _, a). if t = CashPayment then a else - a) (grouped ms)) =
      sum_list (map (\<lambda>t. total movement_value (sel (\<lambda>m. cm_type m = t) ms)) (remdups (map cm_type ms)))"
    by (simp add: grouped_def comp_def sign)
  also have "\<dots> = (\<Sum>t \<in> cm_type ` set ms. total movement_value (sel (\<lambda>m. cm_type m = t) ms))"
    by (simp add: sum_list_distinct_conv_sum_set)
  also have "\<dots> = total movement_value ms" by (rule sum_by_key) simp_all
  finally show ?thesis by (simp add: expected_of_sum)
qed

lemma ends_expected [wp]:
  "ends (compute_expected_balance x pid) Q E s =
    Q (cs_opening x + total movement_value (sel (movement_of (cs_id x) pid) (cash_movements s))) s"
  by (simp add: compute_expected_balance_def wp expected_grouped)

section \<open>The invariant\<close>

definition reconciled :: "hotel \<Rightarrow> cash_session \<Rightarrow> bool" where
  "reconciled s x \<longleftrightarrow> (cs_status x = IsClosed \<longrightarrow> cs_expected x = Some (drawer_balance s x))"

definition one_shift :: "cash_session list \<Rightarrow> bool" where
  "one_shift xs \<longleftrightarrow> (\<forall>x \<in> set xs. \<forall>y \<in> set xs. cs_status x = IsOpen \<and> cs_status y = IsOpen \<and>
     cs_property x = cs_property y \<and> cs_drawer x = cs_drawer y \<and> cs_cashier x = cs_cashier y \<longrightarrow> x = y)"

definition cash_rows :: "hotel \<Rightarrow> bool" where
  "cash_rows s \<longleftrightarrow> keys_ok cs_id (fresh s) (cash_sessions s) \<and>
     (\<forall>m \<in> set (cash_movements s). cm_session m < fresh s \<and> fits 2 (cm_amount m)) \<and>
     (\<forall>x \<in> set (cash_sessions s). fits 2 (cs_opening x))"

definition cash_ok :: "hotel \<Rightarrow> bool" where
  "cash_ok s \<longleftrightarrow> cash_rows s \<and> one_shift (cash_sessions s) \<and> (\<forall>x \<in> set (cash_sessions s). reconciled s x)"

lemma cash_okD:
  assumes "cash_ok s"
  shows "cash_rows s" "one_shift (cash_sessions s)" "x \<in> set (cash_sessions s) \<Longrightarrow> reconciled s x"
  using assms by (simp_all add: cash_ok_def)

definition session_of :: "hotel \<Rightarrow> ident \<Rightarrow> ident \<Rightarrow> cash_session option" where
  "session_of s i pid = first_row (sel (is_session i pid) (cash_sessions s))"

lemma ends_find_session [wp]:
  "ends (find_session i pid) Q E s =
    (case session_of s i pid of None \<Rightarrow> E (NotFound ''Cash session not found'') s | Some x \<Rightarrow> Q x s)"
  by (simp add: find_session_def wp session_of_def)

lemma session_of_SomeD: "session_of s i pid = Some x \<Longrightarrow> x \<in> set (cash_sessions s) \<and> cs_id x = i \<and> cs_property x = pid"
  unfolding session_of_def by (drule first_sel_SomeD) (simp add: is_session_def)

lemma one_session:
  "cash_rows s \<Longrightarrow> x \<in> set (cash_sessions s) \<Longrightarrow> y \<in> set (cash_sessions s) \<Longrightarrow> cs_id x = cs_id y \<Longrightarrow> x = y"
  using distinct_key_unique [of cs_id "cash_sessions s" x y] by (simp add: cash_rows_def keys_ok_def)

lemma fits_drawer: "cash_rows s \<Longrightarrow> x \<in> set (cash_sessions s) \<Longrightarrow> fits 2 (drawer_balance s x)"
  unfolding drawer_balance_def
  by (intro fits_add fits_total) (auto simp: cash_rows_def sel_def movement_value_def)

lemma cash_ok_frame:
  assumes "cash_ok s" and "cash_sessions t = cash_sessions s" and "cash_movements t = cash_movements s" and "fresh s \<le> fresh t"
  shows "cash_ok t"
proof -
  have "drawer_balance t = drawer_balance s" by (simp add: fun_eq_iff drawer_balance_def assms(3))
  with assms show ?thesis
    by (auto simp: cash_ok_def cash_rows_def reconciled_def intro: keys_ok_mono less_le_trans)
qed

section \<open>The writes\<close>

lemma cash_ok_opened:
  assumes ok: "cash_ok s" and none: "\<forall>x \<in> set (cash_sessions s). \<not> same_shift dto x" and v: "fits 2 v"
  shows "cash_ok (cash_sessions_update (\<lambda>t. t @ [new_session dto v (fresh s)]) (s\<lparr>fresh := Suc (fresh s)\<rparr>))"
    (is "cash_ok ?t")
proof -
  let ?n = "new_session dto v (fresh s)"
  have rows: "cash_rows s" by (rule cash_okD(1) [OF ok])
  have "cash_rows ?t" using rows v by (auto simp: cash_rows_def keys_ok_append new_session_def)
  moreover have "one_shift (cash_sessions ?t)"
    using none cash_okD(2) [OF ok] by (auto simp: one_shift_def same_shift_def new_session_def)
  moreover have "drawer_balance ?t = drawer_balance s" by (simp add: fun_eq_iff drawer_balance_def)
  then have "reconciled ?t x" if "x \<in> set (cash_sessions ?t)" for x
    using that cash_okD(3) [OF ok, of x] by (auto simp: reconciled_def new_session_def)
  ultimately show ?thesis by (simp add: cash_ok_def)
qed

text \<open>A movement goes to a session that is still open.\<close>

lemma cash_ok_moved:
  assumes ok: "cash_ok s" and x: "session_of s sid (md_property dto) = Some x" "cs_status x = IsOpen"
  shows "cash_ok (cash_movements_update (\<lambda>t. t @ [new_movement sid dto (fresh s)]) (s\<lparr>fresh := Suc (fresh s)\<rparr>))"
    (is "cash_ok ?t")
proof -
  have rows: "cash_rows s" by (rule cash_okD(1) [OF ok])
  have at: "x \<in> set (cash_sessions s)" "cs_id x = sid" "cs_property x = md_property dto"
    using session_of_SomeD [OF x(1)] by simp_all
  have "sid < fresh s" using rows at by (auto simp: cash_rows_def keys_ok_def)
  then have "cash_rows ?t" using rows by (auto simp: cash_rows_def keys_ok_Suc new_movement_def)
  moreover have "reconciled ?t y" if y: "y \<in> set (cash_sessions s)" for y
  proof (cases "cs_status y")
    case IsClosed
    then have "\<not> movement_of (cs_id y) (cs_property y) (new_movement sid dto (fresh s))"
      using one_session [OF rows at(1) y] at x(2) by (auto simp: movement_of_def new_movement_def)
    then have "drawer_balance ?t y = drawer_balance s y" by (simp add: drawer_balance_def sel_def)
    then show ?thesis using cash_okD(3) [OF ok y] by (simp add: reconciled_def)
  qed (simp add: reconciled_def)
  ultimately show ?thesis using cash_okD(2) [OF ok] by (simp add: cash_ok_def)
qed

lemma cash_ok_closed:
  assumes ok: "cash_ok s" and x: "session_of s sid pid = Some x"
    and g: "\<And>z. g z = z\<lparr>cs_status := IsClosed, cs_expected := Some (drawer_balance s x), cs_counted := c, cs_variance := v,
      cs_closed_at := w\<rparr>"
  shows "cash_ok (cash_sessions_update (upd (is_session sid pid) g) s)" (is "cash_ok ?t")
proof -
  have rows: "cash_rows s" by (rule cash_okD(1) [OF ok])
  have at: "x \<in> set (cash_sessions s)" "cs_id x = sid" "cs_property x = pid" using session_of_SomeD [OF x] by simp_all
  have only: "z = x" if "z \<in> set (cash_sessions s)" "is_session sid pid z" for z
    using one_session [OF rows that(1) at(1)] that at by (simp add: is_session_def)
  have bal: "drawer_balance ?t = drawer_balance s" by (simp add: fun_eq_iff drawer_balance_def)
  have "cash_rows ?t" using rows by (auto simp: cash_rows_def keys_ok_upd set_upd g)
  moreover have "z \<in> set (cash_sessions s)" if "z \<in> set (cash_sessions ?t)" "cs_status z = IsOpen" for z
    using that by (auto simp: set_upd g)
  with cash_okD(2) [OF ok] have "one_shift (cash_sessions ?t)" unfolding one_shift_def by blast
  moreover have "reconciled ?t z" if "z \<in> set (cash_sessions ?t)" for z
    using that cash_okD(3) [OF ok] only
    by (auto simp: reconciled_def set_upd g bal) (simp add: drawer_balance_def)
  ultimately show ?thesis by (simp add: cash_ok_def)
qed


section \<open>The operations\<close>

lemma keeps_cash_emit [keeps]: "keeps_inv cash_ok (emit n e i p)"
  by (rule keeps_emit) (erule cash_ok_frame, simp_all)

lemma ends_find_drawer [wp]:
  "ends (find_drawer i pid) Q E s = (case first_row (sel (is_drawer i pid) (drawers s)) of
     None \<Rightarrow> E (NotFound ''Cash drawer not found'') s | Some d \<Rightarrow> Q d s)"
  by (simp add: find_drawer_def wp)

text \<open>A check that passes has seen no open session, and leaves the state as it is.\<close>

lemma check_shift_ends:
  "ends (check_shift dto) (\<lambda>v t. t = s \<and> fits 2 v \<and> (\<forall>x \<in> set (cash_sessions s). \<not> same_shift dto x)) (\<lambda>_ t. t = s) s"
  by (auto simp: check_shift_def wp count_rows_def filter_empty_conv split: option.split)

lemma check_movement_ends:
  "ends (check_movement sid dto) (\<lambda>_ t. t = s \<and> (\<exists>x. session_of s sid (md_property dto) = Some x \<and> cs_status x = IsOpen))
    (\<lambda>_ t. t = s) s"
  by (simp add: check_movement_def wp split: option.split)

lemma cash_ok_events: "cash_ok s \<Longrightarrow> cash_ok (s\<lparr>events := es\<rparr>)"
  by (erule cash_ok_frame) simp_all

lemma keeps_open_session: "keeps_inv cash_ok (open_session dto)"
  unfolding keeps_inv_ends open_session_def ends_bnd
proof (intro allI impI, rule ends_weaken [OF check_shift_ends], goal_cases)
  case (1 s v t)
  then show ?case using cash_ok_opened [of s dto v] by (auto simp: insert_session_def wp intro: cash_ok_events)
qed simp

lemma keeps_record_movement: "keeps_inv cash_ok (record_movement sid dto)"
  unfolding keeps_inv_ends record_movement_def ends_bnd
proof (intro allI impI, rule ends_weaken [OF check_movement_ends], goal_cases)
  case (1 s v t)
  then show ?case using cash_ok_moved [of s sid dto] by (auto simp: insert_movement_def wp intro: cash_ok_events)
qed simp

text \<open>The final drop of a close, and the close itself.\<close>

definition drop_amount :: "close_dto \<Rightarrow> decimal" where
  "drop_amount dto = (case xd_drop dto of None \<Rightarrow> 0 | Some a \<Rightarrow> if 0 < a then cents a else 0)"

definition dropped :: "ident \<Rightarrow> close_dto \<Rightarrow> hotel \<Rightarrow> hotel" where
  "dropped sid dto s = (case xd_drop dto of
     None \<Rightarrow> s
   | Some a \<Rightarrow> if 0 < a
       then cash_movements_update (\<lambda>t. t @ [new_movement sid (final_drop dto a) (fresh s)]) (s\<lparr>fresh := Suc (fresh s)\<rparr>)
       else s)"

lemma ends_final_drop [wp]: "ends (record_final_drop sid dto) Q E s = Q () (dropped sid dto s)"
  by (simp add: record_final_drop_def dropped_def wp split: option.split)

lemma dropped_sessions [simp]: "cash_sessions (dropped sid dto s) = cash_sessions s"
  by (simp add: dropped_def split: option.split)

lemma session_of_dropped [simp]: "session_of (dropped sid dto s) = session_of s"
  by (simp add: fun_eq_iff session_of_def)

lemma cash_ok_dropped:
  assumes "cash_ok s" and "session_of s sid (xd_property dto) = Some x" and "cs_status x = IsOpen"
  shows "cash_ok (dropped sid dto s)"
  using assms cash_ok_moved [of s sid "final_drop dto a" x for a]
  by (simp add: dropped_def final_drop_def split: option.split)

lemma balance_dropped:
  assumes "session_of s sid (xd_property dto) = Some x"
  shows "drawer_balance (dropped sid dto s) x = drawer_balance s x - drop_amount dto"
  using session_of_SomeD [OF assms]
  by (simp add: dropped_def drop_amount_def drawer_balance_def sel_def movement_of_def new_movement_def final_drop_def
      movement_value_def split: option.split)

lemma close_session_ends:
  assumes new: "\<And>x. session_of s sid (xd_property dto) = Some x \<Longrightarrow> cs_status x = IsOpen \<Longrightarrow>
      let e = drawer_balance s x - drop_amount dto;
        g = (\<lambda>z. z\<lparr>cs_status := IsClosed, cs_expected := Some (cents e), cs_counted := Some (cents (xd_counted dto)),
          cs_variance := Some (cents (xd_counted dto - e)), cs_closed_at := Some now\<rparr>);
        t = cash_sessions_update (upd (is_session sid (xd_property dto)) g) (dropped sid dto s) in
      Q (g x) (t\<lparr>events := events t @ [\<lparr>e_name = ''cashdrawer.session_closed'', e_entity = ''cash_drawer_session'', e_id = sid,
          e_property = xd_property dto\<rparr>]\<rparr>)"
    and old: "\<And>e. E e s"
  shows "ends (close_session now sid dto) Q E s"
proof (cases "session_of s sid (xd_property dto)")
  case None
  then show ?thesis by (simp add: close_session_def wp old)
next
  case (Some x)
  note at = session_of_SomeD [OF Some]
  have bal: "cs_opening x + total movement_value (sel (movement_of sid (xd_property dto)) (cash_movements (dropped sid dto s)))
      = drawer_balance s x - drop_amount dto"
    using balance_dropped [OF Some] at by (simp add: drawer_balance_def)
  have first: "first_row (sel (is_session sid (xd_property dto)) (cash_sessions s)) = Some x"
    using Some by (simp add: session_of_def)
  show ?thesis
  proof (cases "cs_status x")
    case IsOpen
    show ?thesis
      using new [OF Some IsOpen] at by (simp add: close_session_def wp Some IsOpen bal first Let_def)
  qed (simp add: close_session_def wp Some old)
qed

lemma close_session_did:
  assumes ok: "cash_ok s"
  shows "ends (close_session now sid dto)
    (\<lambda>x t. cash_ok t \<and> (\<exists>y. session_of s sid (xd_property dto) = Some y \<and> cs_status y = IsOpen \<and> cs_status x = IsClosed \<and>
       session_of t sid (xd_property dto) = Some x \<and> cs_opening x = cs_opening y \<and> cs_expected x = Some (drawer_balance s y - drop_amount dto) \<and>
       cs_counted x = Some (cents (xd_counted dto)) \<and>
       cs_variance x = Some (cents (xd_counted dto - (drawer_balance s y - drop_amount dto)))))
    (\<lambda>_ t. t = s) s"
proof (rule close_session_ends, goal_cases)
  case (1 x)
  let ?d = "dropped sid dto s" and ?e = "drawer_balance s x - drop_amount dto"
  have d: "cash_ok ?d" using ok 1 by (rule cash_ok_dropped)
  have bal: "drawer_balance ?d x = ?e" using 1(1) by (rule balance_dropped)
  have at: "x \<in> set (cash_sessions s)" "is_session sid (xd_property dto) x"
    using session_of_SomeD [OF 1(1)] by (simp_all add: is_session_def)
  have exact: "cents ?e = ?e"
    using fits_drawer [OF cash_okD(1) [OF d], of x] at by (simp add: bal to_fixed_id)
  have found: "session_of (cash_sessions_update (upd (is_session sid (xd_property dto)) g) ?d\<lparr>events := es\<rparr>) sid (xd_property dto) = Some (g x)"
    if "\<And>z. is_session sid (xd_property dto) (g z) = is_session sid (xd_property dto) z" for g es
  proof -
    have "sel (is_session sid (xd_property dto)) (upd (is_session sid (xd_property dto)) g z) =
        map g (sel (is_session sid (xd_property dto)) z)" for z
      using that by (induction z) (auto simp: sel_def upd_def)
    with 1(1) show ?thesis by (simp add: session_of_def)
  qed
  show ?case
    using cash_ok_closed [OF d, of sid "xd_property dto" x] 1 at
    by (simp add: Let_def exact bal cash_ok_events found is_session_def)
qed simp

lemma keeps_close_session: "keeps_inv cash_ok (close_session now sid dto)"
  unfolding keeps_inv_ends by (intro allI impI, rule ends_weaken [OF close_session_did]) auto

lemma keeps_create_drawer: "keeps_inv cash_ok (create_drawer dto)"
  by (auto simp: keeps_inv_ends create_drawer_def wp elim!: cash_ok_frame)

section \<open>Runs\<close>

datatype cash_action =
  NewDrawer drawer_dto | OpenShift open_session_dto | MoveCash ident movement_dto | CloseShift timestamp ident close_dto

fun cash_step :: "cash_action \<Rightarrow> hotel \<Rightarrow> hotel" where
  "cash_step (NewDrawer dto) s = snd (create_drawer dto s)"
| "cash_step (OpenShift dto) s = snd (open_session dto s)"
| "cash_step (MoveCash sid dto) s = snd (record_movement sid dto s)"
| "cash_step (CloseShift now sid dto) s = snd (close_session now sid dto s)"

definition cash_run :: "cash_action list \<Rightarrow> hotel \<Rightarrow> hotel" where
  "cash_run acts s = fold cash_step acts s"

lemma cash_run_ok: "cash_ok s \<Longrightarrow> cash_ok (cash_run acts s)"
proof (induction acts arbitrary: s)
  case (Cons act acts)
  have "cash_ok (cash_step act s)"
    using Cons.prems by (cases act) (simp_all add: keeps_invD [OF keeps_create_drawer] keeps_invD [OF keeps_open_session]
        keeps_invD [OF keeps_record_movement] keeps_invD [OF keeps_close_session])
  then show ?case using Cons.IH by (simp add: cash_run_def)
qed (simp add: cash_run_def)


section \<open>The report\<close>

lemma summary_fold:
  "fold (\<lambda>(t, n, amount) summary. summary(t := (n, cents amount))) (map (\<lambda>t. (t, g t, h t)) ts) f t =
    (if t \<in> set ts then (g t, cents (h t)) else f t)"
  by (induction ts arbitrary: f) auto

lemma movement_summary_grouped:
  "movement_summary (grouped ms) t = (length (sel (\<lambda>m. cm_type m = t) ms), cents (total cm_amount (sel (\<lambda>m. cm_type m = t) ms)))"
proof (cases "t \<in> cm_type ` set ms")
  case False
  then have "sel (\<lambda>m. cm_type m = t) ms = []" by (auto simp: sel_Nil_iff)
  then show ?thesis using False unfolding movement_summary_def grouped_def summary_fold by simp
qed (simp add: movement_summary_def grouped_def summary_fold)

text \<open>The lines of the report add up to the balance of the drawer.\<close>

definition report_sum :: "cash_session \<Rightarrow> (movement_type \<Rightarrow> nat \<times> decimal) \<Rightarrow> decimal" where
  "report_sum x summary = cs_opening x + snd (summary CashPayment) - snd (summary CashRefund)
     - snd (summary CashPaidOut) - snd (summary CashDrop)"

lemma report_sum_grouped:
  assumes "\<And>m. m \<in> set ms \<Longrightarrow> fits 2 (cm_amount m)"
  shows "report_sum x (movement_summary (grouped ms)) = cs_opening x + total movement_value ms"
proof -
  let ?s = "\<lambda>t. total cm_amount (sel (\<lambda>m. cm_type m = t) ms)"
  have "cents (?s t) = ?s t" for t
    using assms by (intro to_fixed_id fits_total) (auto simp: sel_def)
  moreover have "total movement_value ms = ?s CashPayment - ?s CashRefund - ?s CashPaidOut - ?s CashDrop"
  proof (induction ms)
    case (Cons m ms)
    then show ?case by (cases "cm_type m") (simp_all add: sel_def movement_value_def)
  qed (simp add: sel_def)
  ultimately show ?thesis by (simp add: report_sum_def movement_summary_grouped)
qed

lemma report_did:
  assumes ok: "cash_ok s"
  shows "ends (make_cashier_report sid pid)
    (\<lambda>r t. t = s \<and> (\<exists>x. session_of s sid pid = Some x \<and> cr_session r = x \<and> cr_expected r = drawer_balance s x \<and>
       cr_counted r = map_option cents (cs_counted x) \<and> cr_variance r = map_option cents (cs_variance x) \<and> cr_expected r = report_sum x (cr_summary r))) (\<lambda>_ t. t = s) s"
proof (cases "session_of s sid pid")
  case None
  then show ?thesis by (simp add: make_cashier_report_def wp)
next
  case (Some x)
  have at: "x \<in> set (cash_sessions s)" "cs_id x = sid" "cs_property x = pid" using session_of_SomeD [OF Some] by simp_all
  have rows: "cash_rows s" by (rule cash_okD(1) [OF ok])
  have bal: "cs_opening x + total movement_value (sel (movement_of sid pid) (cash_movements s)) = drawer_balance s x"
    using at by (simp add: drawer_balance_def)
  have lines: "report_sum x (movement_summary (grouped (sel (movement_of sid pid) (cash_movements s)))) = drawer_balance s x"
    using rows unfolding bal [symmetric] by (intro report_sum_grouped) (auto simp: cash_rows_def sel_def)
  have "cents (drawer_balance s x) = drawer_balance s x" "cents (cs_opening x) = cs_opening x"
    using rows at fits_drawer [OF rows at(1)] by (simp_all add: to_fixed_id cash_rows_def)
  then show ?thesis
    using Some at cash_okD(3) [OF ok at(1)] bal lines
    by (cases "cs_status x"; cases "cs_expected x") (simp_all add: make_cashier_report_def wp reconciled_def)
qed

text \<open>A session that was just closed, and its report.\<close>

lemma closed_report:
  assumes ok: "cash_ok s" and run: "close_session now sid dto s = (Inr x, t)" and counted: "fits 2 (xd_counted dto)"
  shows "ends (make_cashier_report sid (xd_property dto)) (\<lambda>r _. \<exists>y. session_of s sid (xd_property dto) = Some y \<and>
      cs_status y = IsOpen \<and> cr_expected r = drawer_balance s y - drop_amount dto \<and>
      cr_expected r = report_sum y (cr_summary r) \<and> cr_counted r = Some (xd_counted dto) \<and>
      cr_variance r = Some (xd_counted dto - cr_expected r)) (\<lambda>_ _. True) t"
proof -
  obtain y where t: "cash_ok t" and y: "session_of s sid (xd_property dto) = Some y" "cs_status y = IsOpen"
    and x: "cs_status x = IsClosed" "session_of t sid (xd_property dto) = Some x" "cs_opening x = cs_opening y"
      "cs_expected x = Some (drawer_balance s y - drop_amount dto)" "cs_counted x = Some (cents (xd_counted dto))"
      "cs_variance x = Some (cents (xd_counted dto - (drawer_balance s y - drop_amount dto)))"
    using ends_InrD [OF close_session_did [OF ok] run] by blast
  have at: "x \<in> set (cash_sessions t)" using session_of_SomeD [OF x(2)] by simp
  then have bal: "drawer_balance t x = drawer_balance s y - drop_amount dto"
    using cash_okD(3) [OF t at] x(1,4) by (simp add: reconciled_def)
  have "fits 2 (drawer_balance s y - drop_amount dto)"
    using fits_drawer [OF cash_okD(1) [OF t] at] by (simp add: bal)
  then have exact: "cents (xd_counted dto - (drawer_balance s y - drop_amount dto)) = xd_counted dto - (drawer_balance s y - drop_amount dto)"
      "cents (xd_counted dto) = xd_counted dto"
    using counted by (simp_all add: to_fixed_id)
  have sums: "report_sum x v = report_sum y v" for v by (simp add: report_sum_def x(3))
  show ?thesis
    by (rule ends_weaken [OF report_did [OF t]]) (use x y bal exact sums in auto)
qed

section \<open>Overlapping requests\<close>

text \<open>Two requests of the same cashier that both look before either writes.\<close>

definition overlapping_shifts :: "open_session_dto \<Rightarrow> cash_session op" where
  "overlapping_shifts dto =
     bnd (check_shift dto) (\<lambda>v. bnd (check_shift dto) (\<lambda>w.
     bnd (insert_session dto v) (\<lambda>_. insert_session dto w)))"

theorem overlapping_shifts_double:
  assumes "check_shift dto s = (Inr v, s)"
  shows "\<exists>x t. overlapping_shifts dto s = (Inr x, t) \<and> \<not> one_shift (cash_sessions t)"
proof -
  let ?Q = "\<lambda>(_ :: cash_session) t. \<not> one_shift (cash_sessions t)"
  have "ends (bnd (insert_session dto v) (\<lambda>_. insert_session dto v)) ?Q (\<lambda>_ _. False) s"
    by (simp add: insert_session_def wp one_shift_def new_session_def)
  then have "ends (overlapping_shifts dto) ?Q (\<lambda>_ _. False) s"
    by (simp add: overlapping_shifts_def bnd_Inr [where m = "check_shift dto" and s = s, OF assms] ends_def)
  then show ?thesis by (auto simp: ends_def split: prod.splits sum.splits)
qed

text \<open>A movement that was checked before the session was closed and written after it.\<close>

definition late_movement :: "ident \<Rightarrow> movement_dto \<Rightarrow> timestamp \<Rightarrow> close_dto \<Rightarrow> cash_movement op" where
  "late_movement sid dto now close =
     bnd (check_movement sid dto) (\<lambda>_. bnd (close_session now sid close) (\<lambda>_. insert_movement sid dto))"

theorem late_movement_unreconciled:
  assumes ok: "cash_ok s" and run: "check_movement sid dto s = (Inr (), s)" "close_session now sid close s = (Inr x, u)"
    and same: "xd_property close = md_property dto" and amount: "cents (md_amount dto) \<noteq> 0"
  shows "\<exists>m t. late_movement sid dto now close s = (Inr m, t) \<and> x \<in> set (cash_sessions t) \<and> \<not> reconciled t x"
proof -
  have x: "cash_ok u" "cs_status x = IsClosed" "x \<in> set (cash_sessions u)" "cs_id x = sid" "cs_property x = md_property dto"
  proof -
    show "cash_ok u" "cs_status x = IsClosed" "x \<in> set (cash_sessions u)"
      using ends_InrD [OF close_session_did [OF ok] run(2)] by (auto dest: session_of_SomeD)
    have "ends (close_session now sid close) (\<lambda>y _. cs_id y = sid \<and> cs_property y = xd_property close) (\<lambda>_ _. True) s"
      by (rule close_session_ends) (auto simp: Let_def dest: session_of_SomeD)
    from ends_InrD [OF this run(2)] same show "cs_id x = sid" "cs_property x = md_property dto" by simp_all
  qed
  have stored: "cs_expected x = Some (drawer_balance u x)"
    using cash_okD(3) [OF x(1,3)] x(2) by (simp add: reconciled_def)
  have "ends (insert_movement sid dto) (\<lambda>_ t. x \<in> set (cash_sessions t) \<and> drawer_balance t x \<noteq> drawer_balance u x) (\<lambda>_ _. False) u"
    using x amount by (simp add: insert_movement_def wp drawer_balance_def sel_def movement_of_def new_movement_def movement_value_def)
  then have "ends (late_movement sid dto now close) (\<lambda>_ t. x \<in> set (cash_sessions t) \<and> \<not> reconciled t x) (\<lambda>_ _. False) s"
    using x(2) stored by (simp add: late_movement_def bnd_Inr [where m = "check_movement sid dto" and s = s, OF run(1)] bnd_Inr [where m = "close_session now sid close" and s = s, OF run(2)] ends_def reconciled_def
        split: prod.splits sum.splits)
  then show ?thesis by (auto simp: ends_def split: prod.splits sum.splits)
qed

section \<open>A till with an open and a closed session\<close>

definition ex_session :: cash_session where
  "ex_session = \<lparr>cs_id = 31, cs_property = 30, cs_drawer = 32, cs_cashier = 33, cs_status = IsOpen, cs_opening = 100,
     cs_expected = None, cs_counted = None, cs_variance = None, cs_closed_at = None\<rparr>"

definition ex_old_session :: cash_session where
  "ex_old_session = ex_session\<lparr>cs_id := 34, cs_status := IsClosed, cs_expected := Some 100, cs_counted := Some 100,
     cs_variance := Some 0, cs_closed_at := Some 1\<rparr>"

definition ex_movement :: cash_movement where
  "ex_movement = \<lparr>cm_id = 35, cm_property = 30, cm_session = 31, cm_type = CashPayment, cm_amount = 50,
     cm_reservation = None, cm_note = None, cm_created_by = None\<rparr>"

definition ex_till :: hotel where
  "ex_till = ex_hotel\<lparr>drawers := [\<lparr>dw_id = 32, dw_property = 30, dw_name = ''Desk'', dw_float = 100, dw_is_active = True\<rparr>],
     cash_sessions := [ex_session, ex_old_session], cash_movements := [ex_movement]\<rparr>"

lemma ex_till_tables [simp]:
  "cash_sessions ex_till = [ex_session, ex_old_session]" "cash_movements ex_till = [ex_movement]" "fresh ex_till = 40"
  by (simp_all add: ex_till_def)

lemma ex_till_ok: "cash_ok ex_till"
  using fits_of_int [of 2 100] fits_of_int [of 2 50]
  by (simp add: cash_ok_def cash_rows_def keys_ok_def one_shift_def reconciled_def drawer_balance_def movement_of_def
      ex_old_session_def ex_session_def ex_movement_def)

definition ex_close :: close_dto where
  "ex_close = \<lparr>xd_property = 30, xd_counted = 140, xd_drop = Some 5\<rparr>"

lemma ex_close_returns: "returns (close_session 2 31 ex_close) ex_till"
  by (simp add: returns_def close_session_def wp session_of_def is_session_def ex_session_def ex_close_def Let_def)

end
