(* ===== verification/Spec2Isabelle.thy ===== *)
theory Spec2Isabelle
  imports Stay_Examples Request_Effects House_Account Cashier_Facts
begin

text \<open>
  A verification library of HAIP, a hotel property management system in TypeScript: the services of
  \<open>apps/api/src/modules\<close> over the tables of \<open>packages/database\<close>, with the shared code of
  \<open>packages/shared\<close> and the money rules of \<open>packages/booking-requests\<close>.

  How the model is made. One record \<open>hotel\<close> (theory \<open>Schema\<close>) holds the tables as lists of rows, the
  next identifier and the list of emitted events. A service method is a program over it (theory
  \<open>Prelude\<close>): a function from a state to an error or a value and the state left behind. What was
  written before a \<open>throw\<close> stays written; \<open>transact\<close> is \<open>db.transaction\<close> and restores the state,
  \<open>attempt\<close> and \<open>handle\<close> are \<open>try\<close>. Exceptions are values of \<open>error\<close>. An interface without
  source here is an argument: the card gateway (record \<open>gateway\<close>), the clock, the local time of a
  property, the cipher of identity documents. Money is rational and rounded to cents where the code
  calls \<open>toFixed(2)\<close> or stores into a column of scale two; the one place that computes in binary
  floating point, the overbooking allowance, is rounded as IEEE doubles are (theory \<open>Js_Number\<close>).
  Dates are strings where strings are compared (theory \<open>Calendar\<close>) and day numbers elsewhere.

  The theories, and the code each models.
  \<^item> \<open>Prelude\<close>, \<open>Money\<close>, \<open>Tables\<close>: programs with their weakest preconditions and preservation
    rules, decimal rounding, lookup and update of rows.
  \<^item> \<open>Currency\<close>, \<open>Calendar\<close>, \<open>Js_Number\<close>: \<open>booking-request-money.ts\<close>, \<open>redsys-crypto.ts\<close>,
    \<open>stay-dates.ts\<close>, \<open>canonical-calendar-date.validator.ts\<close>.
  \<^item> \<open>Schema\<close>: the columns the services read or write, by table.
  \<^item> \<open>Lifecycle\<close>: the state machines of stays and rooms (\<open>reservation-state-machine.ts\<close>,
    \<open>room-status.service.ts\<close>) and the conditional update that claims a transition. Both machines are
    instances of the locale \<open>status_machine\<close>.
  \<^item> \<open>Availability\<close>, \<open>Rate_Plan\<close>, \<open>Tax\<close>, \<open>Policy\<close>: the services of those names.
  \<^item> \<open>Ledger\<close>, \<open>Folio\<close>, \<open>Folio_Facts\<close>: charges, folios and their balances (\<open>folio.service.ts\<close>). The
    locale \<open>account_ledger\<close> is interpreted on the folios, and its laws carry \<open>ledger_ok\<close>.
  \<^item> \<open>House_Account\<close>: \<open>house-account.service.ts\<close>, the second instance of \<open>account_ledger\<close> (invariant
    \<open>house_ok\<close>), with the catalogue and sales; runs of its operations are \<open>house_run\<close>.
  \<^item> \<open>Cashier\<close>, \<open>Cashier_Facts\<close>: \<open>cashier.service.ts\<close>. Its two operations that look before they write are
    split there: \<open>cash_run\<close> runs whole operations, \<open>overlapping_shifts\<close> and \<open>late_movement\<close> interleave them.
  \<^item> \<open>Payment\<close>, \<open>Payment_Facts\<close>: \<open>payment.service.ts\<close> and \<open>hosted-authorization-finalizer.ts\<close>; what
    a gateway may do to the state is a locale, of which the mock gateway is an instance.
  \<^item> \<open>Request_Money\<close>, \<open>Request_Ledger\<close>, \<open>Request_Payment\<close>: the payments of booking requests
    (\<open>booking-request-money.ts\<close>, \<open>booking-request-state.ts\<close>, \<open>stripe-financial-state.ts\<close>;
    \<open>booking-request-payment-ledger.ts\<close>, \<open>booking-request-allocation-reconciler.ts\<close>;
    \<open>booking-request-payment.service.ts\<close>, \<open>booking-request-payment-consequence.ts\<close>).
    \<open>Request_Accounts\<close> states what a payment brought in, gave back, promised and allocated and how each
    write changes it; \<open>Request_Reconcile\<close>, \<open>Request_Payment_Facts\<close>, \<open>Request_Allocation\<close> and
    \<open>Request_Movements\<close> carry the invariant \<open>request_books\<close> through the operations, with one rule per
    construct (\<open>vc\<close>) and every transaction of a saga on its own; \<open>Request_Effects\<close> holds sequences of
    operations, replays and provider events.
  \<^item> \<open>Deposit\<close>: \<open>deposit.service.ts\<close> and \<open>deposit-settlement.service.ts\<close>.
  \<^item> \<open>Ancillary\<close>, \<open>Ancillary_Facts\<close>: \<open>ancillary.service.ts\<close> with accepted prices.
  \<^item> \<open>Frames\<close>: what the operations of the desk leave alone, as locales over a view of the state.
  \<^item> \<open>Reservation\<close>, \<open>Reservation_Facts\<close>, \<open>Stay_Facts\<close>: \<open>reservation.service.ts\<close>, whole; runs of the
    desk are the closure of \<open>desk_step\<close>.
  \<^item> \<open>Effects\<close>: the effect of the money operations in one place; \<open>Examples\<close>, \<open>Stay_Examples\<close>: a small
    deployment on which the properties below are run.

  What the properties show. The books: every operation that touches money keeps the stored totals of
  every folio exact, refunds stay within captures, reversals and transfers balance, deposits end once.
  The requests: every captured payment is accounted for to the cent whatever operations run, allocations
  stay within what is held and what is due, and replays book nothing. The tills: house accounts store
  exactly their rows, closed sessions store exactly their movements.
  The stay: it only moves forward, whichever operations of the desk run in whatever order; creation
  and modification never oversell a night; arrival, departure and cancellation have the effect they
  report. The rest: the availability check, sellability, rates, dates, taxes and numbers do what their
  definitions promise.

  Bounds. Loops over rows are structural; the loop over dates is bounded by the calendar and proved to
  end (\<open>civil_range\<close>). Folio numbers are sequential up to 9999 per day. No fuel is used.

  Not modelled. Race conditions beyond the conditional claims and those of the tills (each method runs alone between gateway
  calls, where a gateway may do what other requests may do); the payloads of events; free text of
  error messages; audit rows, the text and delivery of mails; the workflow of booking requests apart
  from their money; authentication, notifications, reports, search, media, channel adapters, language
  models, the front ends and the migrations, which hold no rules of their own or call services
  outside this repository.
\<close>

section \<open>The ledger\<close>






text \<open>
  C4. A reversal that returns takes from the folio the charge and all its tax rows that are not
  yet reversed, records the reversal, and from then on every reversal of the same charge fails
  without effect.
\<close>

theorem reversal_nets_out:
  assumes "ledger_ok s" and "reverse_charge fid cid pid s = (Inr r, t)"
  shows "\<exists>c \<in> set (charges s). c_id c = cid \<and> c_amount r = - c_amount c \<and>
    folio_charged t (fid, pid) = folio_charged s (fid, pid) - charge_value c - total charge_value (open_parts s pid c) \<and>
    (\<exists>e. reverse_charge fid cid pid t = (Inl e, t))"
proof -
  note did = ends_InrD [OF reversal_did [OF assms(1)] assms(2)]
  then have "ends (reverse_charge fid cid pid) (\<lambda>_ _. False) (\<lambda>_ u. u = t) t"
    using reversed_twice by blast
  then have "\<exists>e. reverse_charge fid cid pid t = (Inl e, t)"
    by (auto simp: ends_def split: prod.splits sum.splits)
  with did show ?thesis by blast
qed

theorem reversal_nets_out_witness:
  "\<exists>r t. reverse_charge 8 9 30 ex_hotel = (Inr r, t) \<and> c_amount r = - 100 \<and> folio_charged t (8, 30) = 0"
proof -
  obtain r t where run: "reverse_charge 8 9 30 ex_hotel = (Inr r, t)"
    using ex_reverse_returns by (auto simp: returns_iff)
  with reversal_nets_out [OF ex_hotel_ledger run] show ?thesis
    by (auto simp: ex_rows ex_folio_sums open_parts_def run_ledger charge_value_def)
qed

text \<open>
  C5. A transfer moves the value of one charge from its folio to the target, both with exact
  totals, changes no other folio and no payment; a transfer that throws changes nothing.
\<close>

theorem transfer_conserves:
  assumes "ledger_ok s" and "transfer_charge fid pid cid target s = (r, t)"
  shows "case r of Inl e \<Rightarrow> t = s
    | Inr c' \<Rightarrow> ledger_ok t \<and> payments t = payments s \<and> (\<exists>c \<in> set (charges s). c_id c = cid \<and>
        (\<forall>k. folio_charged t k = folio_charged s k - (if k = (fid, pid) then charge_value c else 0)
           + (if k = (target, pid) then charge_value c else 0)))"
proof (cases r)
  case (Inl e)
  with transfer_did [OF assms(1), of fid pid cid target] assms(2) show ?thesis by (simp add: ends_def)
next
  case (Inr u)
  with ends_InrD [OF transfer_did [OF assms(1)]] assms(2) show ?thesis by simp
qed

theorem transfer_conserves_witness:
  "\<exists>t. transfer_charge 8 30 9 15 ex_hotel = (Inr (), t) \<and> folio_charged t (8, 30) = 10 \<and> folio_charged t (15, 30) = 100"
proof -
  obtain t where run: "transfer_charge 8 30 9 15 ex_hotel = (Inr (), t)"
    using ex_transfer_returns by (auto simp: returns_iff)
  with transfer_conserves [OF ex_hotel_ledger run] show ?thesis
    by (auto simp: ex_rows ex_folio_sums charge_value_def)
qed

text \<open>
  C6. A folio is settled only within a cent of a zero balance and with no pending or authorized
  payment outstanding; the ledger rows are untouched, and a refused settlement changes nothing.
\<close>

theorem settling_needs_zero_balance:
  "case settle_folio now fid pid s of
     (Inl e, t) \<Rightarrow> t = s
   | (Inr f, t) \<Rightarrow> f_status f = FolioSettled \<and> \<bar>f_balance f\<bar> \<le> 1 / 100 \<and>
       (\<forall>y \<in> set (payments t). \<not> outstanding t fid pid y) \<and> charges t = charges s \<and> payments t = payments s"
  using settle_did [of now fid pid s] by (simp add: ends_def split: prod.splits sum.splits)

theorem settling_needs_zero_balance_witness:
  "\<exists>f t. settle_folio 0 8 30 ex_hotel = (Inr f, t) \<and> f_status f = FolioSettled \<and> \<bar>f_balance f\<bar> \<le> 1 / 100"
proof -
  obtain f t where run: "settle_folio 0 8 30 ex_hotel = (Inr f, t)"
    using ex_settle_returns by (auto simp: returns_iff)
  with settling_needs_zero_balance [where now = 0 and fid = 8 and pid = 30 and s = ex_hotel] show ?thesis by simp
qed

text \<open>
  C7. While a property has numbered fewer than 9999 folios today and its numbers are sequential,
  the next folio for an existing reservation is created, its number is new in the property, and
  the numbers stay sequential up to 9999.
\<close>

theorem folio_number_fresh:
  assumes "numbers_sequential s day (r_property r)" and "r \<in> set (reservations s)"
    and "\<exists>b \<in> set (bookings s). b_id b = r_booking r \<and> b_property b = r_property r"
  shows "\<exists>f t n. create_auto_folio in_tx day r s = (Inr f, t) \<and> f_number f = sequence_number day n \<and> n \<le> 9999 \<and>
    folios t = folios s @ [f] \<and> (\<forall>g \<in> set (folios s). f_property g = r_property r \<longrightarrow> f_number g \<noteq> f_number f)"
proof -
  let ?dto = "\<lparr>fd_property = r_property r, fd_reservation = Some (r_id r), fd_booking = Some (r_booking r),
     fd_guest = r_guest r, fd_type = GuestFolio, fd_currency = r_currency r\<rparr>"
  obtain n where "n \<le> 9999" and run: "create_folio in_tx day ?dto s =
    (Inr (new_folio ?dto (sequence_number day n) (fresh s)), sent in_tx ''folio.created'' ''folio'' (fresh s) (fd_property ?dto)
       (folios_update (\<lambda>t. t @ [new_folio ?dto (sequence_number day n) (fresh s)]) (bump s)))"
    and new: "\<forall>f \<in> set (folios s). f_property f = fd_property ?dto \<longrightarrow> f_number f \<noteq> sequence_number day n"
    by (rule create_folio_returns [of s day ?dto in_tx]) (use assms in auto)
  have "create_auto_folio in_tx day r = create_folio in_tx day ?dto" by (simp add: create_auto_folio_def)
  with run new \<open>n \<le> 9999\<close> show ?thesis by (auto simp: new_folio_def bump_def)
qed

theorem folio_number_fresh_witness:
  "\<exists>f t n. create_auto_folio False (2020, 7, 19) ex_reservation ex_hotel = (Inr f, t) \<and>
    f_number f = sequence_number (2020, 7, 19) n \<and> n \<le> 9999"
proof -
  have "numbers_sequential ex_hotel (2020, 7, 19) 30"
    using ex_no_numbers by (simp add: numbers_sequential_def)
  then have "\<exists>f t n. create_auto_folio False (2020, 7, 19) ex_reservation ex_hotel = (Inr f, t) \<and>
    f_number f = sequence_number (2020, 7, 19) n \<and> n \<le> 9999 \<and> folios t = folios ex_hotel @ [f] \<and>
    (\<forall>g \<in> set (folios ex_hotel). f_property g = r_property ex_reservation \<longrightarrow> f_number g \<noteq> f_number f)"
    by (intro folio_number_fresh) (simp_all add: ex_reservation_def ex_booking_def)
  then show ?thesis by blast
qed

section \<open>Payments\<close>

text \<open>
  C8. Under a gateway whose calls other requests may interleave with any orderly work, authorizing,
  voiding and refunding keep the books, returning or throwing, and so does a capture that returns.
\<close>

theorem payment_operations_keep_books:
  assumes "orderly_gateway g" and "sound {} s"
  shows "ledger_ok (snd (authorize_payment g mc now dto fin s)) \<and>
    ledger_ok (snd (void_payment g mc i pid s)) \<and>
    ledger_ok (snd (refund_payment g mc now i pid amount key s)) \<and>
    (\<forall>y t. capture_payment g mc now i pid s = (Inr y, t) \<longrightarrow> ledger_ok t)"
proof (intro conjI allI impI)
  note ops = orderly_gateway.orderly_authorize [OF assms(1)] orderly_gateway.orderly_void [OF assms(1)]
    orderly_gateway.orderly_refund [OF assms(1)]
  show "ledger_ok (snd (authorize_payment g mc now dto fin s))" "ledger_ok (snd (void_payment g mc i pid s))"
    "ledger_ok (snd (refund_payment g mc now i pid amount key s))"
    using ops assms(2) by (auto intro: orderly_keeps)
  show "capture_payment g mc now i pid s = (Inr y, t) \<Longrightarrow> ledger_ok t" for y t
    using orderly_gateway.orderly_capture [OF assms] by (auto simp: sound_def ledger_ok_def)
qed

theorem payment_operations_keep_books_witness:
  "ledger_ok (snd (refund_payment (mock_gateway ''u'') ex_merchants 0 10 30 (Some 40) None ex_hotel))"
  using payment_operations_keep_books [OF mock.orderly_gateway_axioms ex_hotel_sound] by blast





text \<open>
  C11. A hosted checkout is completed at most once: after a first report has been processed, no
  second report of the same payment, whatever it says, changes anything or sends an event.
\<close>

theorem checkout_completed_once:
  assumes "wf_hotel s" and "finalize_hosted_authorization now inp s = (Inr es, t)" and "es \<noteq> []"
    and "fi_payment again = fi_payment inp" and "fi_property again = fi_property inp"
  shows "finalize_hosted_authorization later again t = (Inr [], t)"
proof -
  have "ends (finalize_hosted_authorization now inp) (\<lambda>es t. es \<noteq> [] \<longrightarrow> wf_hotel t \<and>
      (\<forall>y \<in> set (payments t). is_payment (fi_payment inp) (fi_property inp) y \<longrightarrow> y_status y \<noteq> PayPending)) (\<lambda>_ _. True) s"
  proof (rule finalizeI [OF assms(1)])
    fix y es t assume row: "payment_of s (fi_payment inp) (fi_property inp) = Some y" "awaits inp y"
      and t: "only_stay (payments_update (upd (awaits inp) (completed now inp)) s) t"
    have "wf_hotel t" using t wf_update_payments [OF assms(1), of "completed now inp"] by (simp add: only_stay_def)
    moreover have "y_status z \<noteq> PayPending"
      if "z \<in> set (payments t)" "is_payment (fi_payment inp) (fi_property inp) z" for z
      using completed_rows [OF assms(1) row t that] by simp
    ultimately show "es \<noteq> [] \<longrightarrow> wf_hotel t \<and>
        (\<forall>y \<in> set (payments t). is_payment (fi_payment inp) (fi_property inp) y \<longrightarrow> y_status y \<noteq> PayPending)"
      by blast
  qed simp_all
  from ends_InrD [OF this assms(2)] assms(3-5) show ?thesis by (intro finalize_again) auto
qed

theorem checkout_completed_once_witness:
  "finalize_hosted_authorization 7 (ex_report\<lparr>fi_success := False\<rparr>)
     (snd (finalize_hosted_authorization 5 ex_report ex_checkout)) =
   (Inr [], snd (finalize_hosted_authorization 5 ex_report ex_checkout))"
proof -
  obtain es t where run: "finalize_hosted_authorization 5 ex_report ex_checkout = (Inr es, t)" "es \<noteq> []"
    by (rule ex_report_run)
  from checkout_completed_once [OF ex_checkout_wf run, of "ex_report\<lparr>fi_success := False\<rparr>" 7] run
  show ?thesis by simp
qed

text \<open>
  Reading the state of a hosted checkout at the provider, in the middle of other requests'
  work, keeps the books and the bound on refunds.
\<close>

theorem checkout_sync_keeps_books:
  assumes "\<And>h. orderly (reading h)" and "sound {} s" and "payment_of s (y_id y) (y_property y) = Some y"
  shows "sound {} (snd (sync_worldline_hosted_checkout mc reading now y s))"
  using sync_sound [of reading, OF assms, where mc = mc and now = now] by (simp add: ends_def split: prod.splits sum.splits)

theorem checkout_sync_keeps_books_witness:
  "sound {} (snd (sync_worldline_hosted_checkout ex_merchants
     (\<lambda>h. ret \<lparr>rr_outcome = ReadCaptured, rr_payment = Some ''pay1''\<rparr>) 5 ex_payment ex_hotel))"
  by (rule checkout_sync_keeps_books [OF orderly_ret ex_hotel_sound])
    (simp add: payment_of_def is_payment_def ex_payment_def)

text \<open>
  An amount sent to the Redsys gateway is a positive number of minor units that stands for
  exactly the requested amount, which has at most two decimals.
\<close>

theorem redsys_amount_exact:
  assumes "redsys_amount major currency = Inr n"
  shows "0 < n \<and> fits 2 major \<and> (\<exists>e \<le> 2. of_int n = major * 10 ^ e)"
  using redsys_amount_units [OF assms] by blast

theorem redsys_amount_exact_witness: "0 < (1234 :: int) \<and> fits 2 (1234 / 100)"
  using redsys_amount_exact [OF redsys_eur] by blast

section \<open>Booking requests\<close>

text \<open>
  C12. Whatever operations on the payments of booking requests run, in whatever order, returning or
  failing at any point of a call of the gateway: the folios stay exact, and every captured payment
  is accounted for to the cent, as returned, retained or unresolved; what is promised is covered by
  what is unresolved, and what pays for installments by what is still held.
\<close>

theorem request_money_accounted:
  assumes "request_books s" and "\<And>c. keeps_inv request_books (cg c)"
    and "\<And>tr a key. keeps_inv request_books (gw_refund g tr a key)" and "perform_all hs cg g calls s = (r, t)"
  shows "ledger_ok t \<and> (\<forall>y \<in> set (payments t). \<forall>rid pid. payment_of_request rid pid y \<longrightarrow> is_parent y \<longrightarrow>
    ls_returned (account_of rid pid y t) + ls_retained (account_of rid pid y t) + ls_unresolved (account_of rid pid y t) = y_amount y \<and>
    0 \<le> ls_reserved (account_of rid pid y t) \<and> ls_reserved (account_of rid pid y t) \<le> ls_unresolved (account_of rid pid y t) \<and>
    ls_allocated (account_of rid pid y t) \<le> ls_net (account_of rid pid y t))"
proof -
  have t: "request_books t"
    using keeps_invD [OF keeps_perform_all [of cg g, OF assms(2,3)] assms(1)] assms(4) by (metis snd_conv)
  then show ?thesis using request_books_ledger [OF t] books_account [OF t] by blast
qed

theorem request_money_accounted_witness:
  "ledger_ok (snd (perform_all ex_hashes ex_card_gateway (mock_gateway ''u'') ex_calls ex_asked)) \<and>
   ls_returned (account_of 20 30 ex_external ex_asked) + ls_retained (account_of 20 30 ex_external ex_asked) +
     ls_unresolved (account_of 20 30 ex_external ex_asked) = 100"
proof -
  let ?run = "\<lambda>calls. perform_all ex_hashes ex_card_gateway (mock_gateway ''u'') calls ex_asked"
  note accounted = request_money_accounted [where hs = ex_hashes, OF ex_asked_state ex_card_gateway_keeps ex_gateway_keeps]
  have "ledger_ok (snd (?run ex_calls))"
    using accounted [where calls = ex_calls and r = "fst (?run ex_calls)" and t = "snd (?run ex_calls)"] by simp
  moreover have "?run [] = (Inr (), ex_asked)" by (simp add: perform_all_def)
  then show ?thesis
    using calculation accounted [where calls = "[]" and r = "Inr ()" and t = ex_asked] ex_found
    by (auto simp: payment_of_request_def is_parent_def ex_external_def)
qed

text \<open>
  C13. An allocation that returns adds its amount, which is positive, to what the payment pays for and
  to what is paid on the installment; the payment still holds what it pays for, no installment has
  more than is due, and a failed allocation changes nothing.
\<close>

theorem allocation_effect:
  assumes "request_books s" and "allocate_payment now rid i pid yid value s = (r, t)"
  shows "case r of Inl e \<Rightarrow> t = s
    | Inr _ \<Rightarrow> \<exists>v. value = Some v \<and> 0 < v \<and> allocated t (rid, pid, yid) = allocated s (rid, pid, yid) + v \<and>
        paid_on t (rid, pid, i) = paid_on s (rid, pid, i) + v \<and>
        given_back t (rid, pid, yid) + allocated t (rid, pid, yid) \<le> capacity t (rid, pid, yid) \<and> plan_states {} t"
proof (cases r)
  case (Inl e)
  with allocate_ends [OF assms(1), of now rid i pid yid "value"] assms(2) show ?thesis by (simp add: ends_def)
next
  case (Inr x)
  with allocate_ends [OF assms(1), of now rid i pid yid "value"] assms(2)
  have t: "request_books t" and "\<exists>v. value = Some v \<and> 0 < v \<and> allocated t (rid, pid, yid) = allocated s (rid, pid, yid) + v \<and>
      paid_on t (rid, pid, i) = paid_on s (rid, pid, i) + v" by (simp_all add: ends_def)
  with Inr money_butD(3,4) [OF request_stateD(4) [OF t]] show ?thesis by (auto simp: allocations_covered_def)
qed

theorem allocation_effect_witness:
  "\<exists>r t. allocate_payment 9 20 22 30 21 (Some 60) ex_asked = (Inr r, t) \<and> paid_on t (20, 30, 22) = 40 + 60"
proof -
  obtain r t where run: "allocate_payment 9 20 22 30 21 (Some 60) ex_asked = (Inr r, t)"
    using ex_allocate_returns by (auto simp: returns_iff)
  moreover have "paid_on ex_asked (20, 30, 22) = 40" by (simp add: paid_on_def pays_for_def ex_allocation_def)
  ultimately show ?thesis using allocation_effect [OF ex_asked_state run] by auto
qed

text \<open>
  C14. When money goes back, the allocations that survive add up to exactly the least of what they
  were and what the payment still holds, each between nothing and what it was, in whole cents.
\<close>

theorem surviving_allocations:
  assumes "distinct (map aa_id xs)" and "fits 2 net" and "\<forall>a \<in> set xs. 0 < aa_amount a \<and> fits 2 (aa_amount a)"
  shows "total (planned (plan_net_allocation_reconciliation net xs)) xs = min (max net 0) (total aa_amount xs) \<and>
    (\<forall>a \<in> set xs. 0 \<le> planned (plan_net_allocation_reconciliation net xs) a \<and>
       planned (plan_net_allocation_reconciliation net xs) a \<le> aa_amount a \<and>
       fits 2 (planned (plan_net_allocation_reconciliation net xs) a))"
  using plan_exact [OF assms(1,2)] assms(3) by simp

theorem surviving_allocations_witness:
  "total (planned (plan_net_allocation_reconciliation 100 [ex_allocation, ex_allocation\<lparr>aa_id := 24, aa_amount := 110\<rparr>]))
     [ex_allocation, ex_allocation\<lparr>aa_id := 24, aa_amount := 110\<rparr>] = 100"
  using surviving_allocations [of "[ex_allocation, ex_allocation\<lparr>aa_id := 24, aa_amount := 110\<rparr>]" 100] fits_ints
  by (simp add: ex_allocation_def)

text \<open>
  C15. A payment from outside is booked once: after it is recorded, recording it again with the same
  reference and data, at any later time, gives the same payment and books nothing.
\<close>

theorem external_payment_recorded_once:
  assumes "record_external_payment hs now rid pid inp s = (Inr y, t)" and "now \<le> now'"
  shows "\<exists>u. record_external_payment hs now' rid pid inp t = (Inr y, u) \<and> payments u = payments t"
proof -
  have "recorded hs now rid pid inp y t" using ends_InrD [OF recording_records assms(1)] .
  from recorded_again [OF this assms(2)] show ?thesis
    by (auto simp: ends_def split: prod.splits sum.splits)
qed

theorem external_payment_recorded_once_witness:
  "\<exists>y t u. record_external_payment ex_hashes 9 20 30 ex_transfer ex_asked = (Inr y, t) \<and>
     record_external_payment ex_hashes 50 20 30 ex_transfer t = (Inr y, u) \<and> payments u = payments t"
proof -
  obtain y t where run: "record_external_payment ex_hashes 9 20 30 ex_transfer ex_asked = (Inr y, t)"
    using ex_record_returns by (auto simp: returns_iff)
  then show ?thesis using external_payment_recorded_once [OF run, of 50] by auto
qed

text \<open>
  C16. A refund that was settled or declined is never sent again: asked for with the same identity,
  whatever the gateway would do, it gives the movement that was booked, or fails and changes nothing.
\<close>

theorem settled_refund_stands:
  assumes "scoped_key hs ''refund'' pid identity = Inr key"
    and "first_row (sel (resolution_key_is pid key) (resolutions s)) = Some c"
    and "rz_status c = ResolutionFailed \<or> rz_status c = ResolutionCompleted \<and> rz_movement c \<noteq> None"
    and "refund_request_payment hs g now later actor rid yid pid value identity s = (r, t)"
  shows "case r of Inl e \<Rightarrow> t = s
    | Inr (y, c') \<Rightarrow> c' = c \<and> rz_movement c = Some (y_id y) \<and> payments t = payments s \<and> resolutions t = resolutions s"
  using refund_stands [OF assms(1-3), of g now later actor rid yid "value"] assms(4)
  by (auto simp: ends_def same_movements_def split: sum.splits)

theorem settled_refund_stands_witness:
  "case refund_request_payment ex_hashes (mock_gateway ''u'') 50 51 None 20 21 30 (Some 10) ''k'' ex_refunded_request of
     (Inl e, t) \<Rightarrow> t = ex_refunded_request
   | (Inr (y, c'), t) \<Rightarrow> c' = ex_settled_refund \<and> payments t = payments ex_refunded_request"
proof -
  have key: "scoped_key ex_hashes ''refund'' 30 ''k'' = Inr ''booking-request-refund:k''" by code_simp
  have row: "first_row (sel (resolution_key_is 30 ''booking-request-refund:k'') (resolutions ex_refunded_request)) = Some ex_settled_refund"
    by (simp add: ex_refunded_request_def resolution_key_is_def ex_settled_refund_def)
  have done_before: "rz_status ex_settled_refund = ResolutionFailed \<or>
      rz_status ex_settled_refund = ResolutionCompleted \<and> rz_movement ex_settled_refund \<noteq> None"
    by (simp add: ex_settled_refund_def)
  obtain r t where run: "refund_request_payment ex_hashes (mock_gateway ''u'') 50 51 None 20 21 30 (Some 10) ''k'' ex_refunded_request = (r, t)"
    by (cases "refund_request_payment ex_hashes (mock_gateway ''u'') 50 51 None 20 21 30 (Some 10) ''k'' ex_refunded_request")
  show ?thesis using settled_refund_stands [OF key row done_before run] by (auto simp: run split: sum.splits)
qed

text \<open>
  C17. Events of the payment provider may be repeated and arrive in any order: the first that decides
  decides for good, which is any but a report of progress and, for a denied request, the success; the
  same holds for the events of a refund.
\<close>

theorem first_event_decides:
  "fold (deliver_intent request) evs PayPending =
     (case filter (decides request) evs of [] \<Rightarrow> PayPending | ev # _ \<Rightarrow> target_status ev) \<and>
   fold deliver_refund revs ResolutionPending =
     (case filter (\<lambda>ev. refund_target ev \<noteq> ResolutionPending) revs of [] \<Rightarrow> ResolutionPending | ev # _ \<Rightarrow> refund_target ev)"
  by (simp add: intent_first_decides refund_first_decides)

section \<open>The front desk\<close>

text \<open>
  C18. Whatever sequence of operations of the reservation service runs, returning or failing, a stay
  only moves along the state machine: its rank never falls, and a stay that has ended keeps the
  status it ended in. A card gateway may do to the state what the service itself may do.
\<close>

theorem stays_never_come_back:
  assumes "desk_step\<^sup>*\<^sup>* s t" and "status_in s k = Some q"
  shows "\<exists>q'. status_in t k = Some q' \<and> stay_rank q \<le> stay_rank q' \<and> (terminal q \<longrightarrow> q' = q)"
proof -
  obtain q' where "status_in t k = Some q'" "stay_step\<^sup>*\<^sup>* q q'"
    using desk_run_moves [OF assms(1)] assms(2) unfolding moves_def by blast
  then show ?thesis using stay_steps_rank terminal_stays by blast
qed

theorem stays_never_come_back_witness:
  "status_in (snd (assign_room ex_desk 7 30 3 ex_cancelled)) (7, 30) = Some Cancelled"
proof -
  have "terminal Cancelled" by (simp add: terminal_iff)
  moreover have "desk_step\<^sup>*\<^sup>* ex_cancelled (snd (assign_room ex_desk 7 30 3 ex_cancelled))"
    by (intro r_into_rtranclp desk_step.assign)
  ultimately show ?thesis using stays_never_come_back [OF _ ex_statuses] by blast
qed

text \<open>
  C19. A reservation that is created is pending, takes exactly one unit of its room type on each of
  its nights and nothing elsewhere, and leaves no night oversold: the search and the check run under
  the inventory lock.
\<close>

theorem creation_never_oversells:
  assumes "wf_hotel s" and "distinct (map t_id (room_types s))"
    and "create_reservation dk in_tx dto opts s = (Inr (r, b), t)"
    and "ty \<in> set (room_types s)" and "t_id ty = nr_room_type dto"
  shows "status_in t (r_id r, nr_property dto) = Some Pending \<and>
    (\<forall>d. free_units t (nr_property dto) ty d = free_units s (nr_property dto) ty d -
       (if nr_arrival dto \<le> d \<and> d < nr_departure dto then 1 else 0)) \<and>
    (\<forall>d \<in> {nr_arrival dto..<nr_departure dto}. 0 \<le> free_units t (nr_property dto) ty d)"
  using creation_sells [OF assms(1,2,3)] assms(4,5) by blast

theorem creation_never_oversells_witness:
  "\<exists>r b t. create_reservation ex_desk False ex_request ex_options ex_hotel = (Inr (r, b), t) \<and>
    free_units t 30 ex_room_type 738010 = 0"
proof -
  obtain r b t where run: "create_reservation ex_desk False ex_request ex_options ex_hotel = (Inr (r, b), t)"
    using ex_create_returns by (auto simp: returns_iff)
  have "nr_property ex_request = 30" "nr_room_type ex_request = 2" "nr_arrival ex_request = 738010" "nr_departure ex_request = 738012"
    by (simp_all add: ex_request_def)
  with creation_never_oversells [OF ex_hotel_wf _ run, of ex_room_type] ex_free [of 738010] run show ?thesis
    by (simp add: ex_room_type_def)
qed

text \<open>
  C20. A modification of dates or room type that is accepted leaves every night of every type either
  not oversold or no worse than before, although the recheck counts the stay's own units as free.
\<close>

theorem modification_never_oversells:
  assumes "wf_hotel s" and "distinct (map t_id (room_types s))"
    and "modify_reservation dk rid pid dto s = (Inr res, t)" and "ty \<in> set (room_types s)"
  shows "0 \<le> free_units t pid ty d \<or> free_units s pid ty d \<le> free_units t pid ty d"
  using assms by (rule modification_sells)

theorem modification_never_oversells_witness:
  "\<exists>res t. modify_reservation ex_desk 7 30 ex_longer ex_hotel = (Inr res, t) \<and>
    (0 \<le> free_units t 30 ex_room_type 738002 \<or> free_units ex_hotel 30 ex_room_type 738002 \<le> free_units t 30 ex_room_type 738002)"
proof -
  obtain res t where run: "modify_reservation ex_desk 7 30 ex_longer ex_hotel = (Inr res, t)"
    using ex_modify_returns by (auto simp: returns_iff)
  show ?thesis
    using modification_never_oversells [OF ex_hotel_wf _ run, of ex_room_type 738002] run by auto
qed



text \<open>
  C22. A check-in that returns has moved an assigned stay to checked in, and the room it was given is
  occupied, whatever the extras and deposits of the arrival did.
\<close>

theorem check_in_effect:
  assumes "wf_hotel s" and "quiet_gateway (dk_gateway dk)" and "check_in dk rid pid dto s = (Inr (r', folio, auth), t)"
  shows "status_in s (rid, pid) = Some Assigned \<and> reservation_of t rid pid = Some r' \<and> r_status r' = CheckedIn \<and>
    (\<exists>mid. r_room r' = Some mid \<and> room_is t mid pid Occupied)"
  using assms by (rule check_in_arrives)

theorem check_in_effect_witness:
  "\<exists>r f y t. check_in ex_late_desk 7 30 (plain_check_in None True) ex_hotel = (Inr (r, f, y), t) \<and>
    status_in t (7, 30) = Some CheckedIn"
proof -
  obtain r f y t where run: "check_in ex_late_desk 7 30 (plain_check_in None True) ex_hotel = (Inr (r, f, y), t)"
    using ex_check_in_returns by (auto simp: returns_iff)
  have "quiet_gateway (dk_gateway ex_late_desk)" using mock.quiet_gateway_axioms by (simp add: ex_late_desk_def ex_desk_def)
  from check_in_effect [OF ex_hotel_wf this run] run show ?thesis by (auto simp: status_in_def)
qed

text \<open>
  C23. A check-in into a room assigned earlier does not look at the room before it claims the stay:
  when the room cannot become occupied, the request fails and the stay is left checked in.
\<close>

theorem check_in_half_way:
  assumes "wf_hotel s" and "quiet_gateway (dk_gateway dk)" and "reservation_of s rid pid = Some r"
    and "may_check_in s r dto" and "ci_room dto = None" and "r_room r = Some mid"
    and "\<And>m. room_of s mid pid = Some m \<Longrightarrow> Occupied \<notin> set (room_transitions (m_status m))"
  shows "\<exists>e t. check_in dk rid pid dto s = (Inl e, t) \<and> status_in t (rid, pid) = Some CheckedIn"
  using assms by (rule check_in_half_done)

theorem check_in_half_way_witness:
  "\<exists>e t. check_in ex_late_desk 7 30 (plain_check_in None True) ex_dirty = (Inl e, t) \<and> status_in t (7, 30) = Some CheckedIn"
proof -
  have "quiet_gateway (dk_gateway ex_late_desk)" using mock.quiet_gateway_axioms by (simp add: ex_late_desk_def ex_desk_def)
  moreover have "reservation_of ex_dirty 7 30 = Some ex_reservation" "may_check_in ex_dirty ex_reservation (plain_check_in None True)"
    "ci_room (plain_check_in None True) = None" "r_room ex_reservation = Some 3"
    "room_of ex_dirty 3 30 = Some m \<Longrightarrow> Occupied \<notin> set (room_transitions (m_status m))" for m
    by (auto simp: reservation_of_def is_reservation_def may_check_in_def plain_check_in_def room_of_def is_room_def ex_dirty_def ex_rows)
  ultimately show ?thesis using check_in_half_way [OF ex_dirty_wf] by blast
qed

text \<open>
  C24. A check-out that returns has ended a stay of a guest in house; the room is left to be cleaned;
  and after an express check-out every folio that was open, of the hundred it looks at, is settled.
\<close>

theorem check_out_effect:
  assumes "ledger_ok s" and "quiet_gateway (dk_gateway dk)" and "check_out dk rid pid express late_fee s = (Inr (r', summary), t)"
  shows "\<exists>r. reservation_of s rid pid = Some r \<and> r_status r \<in> {CheckedIn, Stayover, DueOut} \<and>
    reservation_of t rid pid = Some r' \<and> r_status r' = CheckedOut \<and>
    departed t r (take 100 (sel (\<lambda>f. f_property f = pid \<and> f_reservation f = Some rid) (folios s))) express"
  using assms by (rule check_out_departs)

theorem check_out_effect_witness:
  "\<exists>r f t. check_out ex_desk 7 30 False None ex_in_house = (Inr (r, f), t) \<and> status_in t (7, 30) = Some CheckedOut"
proof -
  obtain r f t where run: "check_out ex_desk 7 30 False None ex_in_house = (Inr (r, f), t)"
    using ex_checkout_returns by (auto simp: returns_iff)
  have "quiet_gateway (dk_gateway ex_desk)" using mock.quiet_gateway_axioms by (simp add: ex_desk_def)
  from check_out_effect [OF ex_in_house_ok this run] run show ?thesis by (auto simp: status_in_def)
qed

text \<open>
  C25. A cancellation that returns has ended a stay not yet arrived; where its settlement went
  through, no deposit of the stay is held any more and the penalty is the one the rate plan's policy
  evaluates to.
\<close>

theorem cancellation_effect:
  assumes "ledger_ok s" and "cancel_reservation dk rid pid why reason s = (Inr (r', se), t)"
  shows "\<exists>r. reservation_of s rid pid = Some r \<and> r_status r \<in> {Pending, Confirmed, Assigned} \<and>
    reservation_of t rid pid = Some r' \<and> r_status r' = Cancelled \<and>
    (\<forall>v. se = Some v \<longrightarrow> (\<forall>d \<in> set (deposits t). \<not> held_for rid pid d) \<and>
      (\<exists>ev. evaluate_cancellation pid (r_rate_plan r) (r_arrival r) (r_total r) (int (r_nights r)) (dk_now dk) s = (Inr ev, s) \<and>
         se_penalty v = ev_penalty ev))"
  using assms by (rule cancel_settles)

theorem cancellation_effect_witness:
  "\<exists>r v t. cancel_reservation ex_desk 7 30 None None ex_hotel = (Inr (r, Some v), t) \<and>
    (\<forall>d \<in> set (deposits t). \<not> held_for 7 30 d)"
proof -
  obtain r v t where run: "cancel_reservation ex_desk 7 30 None None ex_hotel = (Inr (r, Some v), t)"
    using ex_cancel_returns by blast
  from cancellation_effect [OF ex_hotel_ledger run] run show ?thesis by blast
qed

section \<open>Extra services\<close>

text \<open>
  C26. The packages of a rate plan are attached to a stay once: a second run, by whichever path and
  at whatever time, attaches nothing and changes nothing.
\<close>

theorem packages_attached_once:
  assumes "ensure_package_components in_tx now rid pid fz s = (Inr xs, t)"
  shows "ensure_package_components in_tx' later rid pid fz' t = (Inr [], t)"
  using assms by (rule ensure_twice)

theorem packages_attached_once_witness:
  "\<exists>xs t. ensure_package_components False 0 7 30 None ex_package = (Inr xs, t) \<and>
    ensure_package_components True 9 7 30 None t = (Inr [], t)"
proof -
  obtain xs t where run: "ensure_package_components False 0 7 30 None ex_package = (Inr xs, t)"
    using ex_package_returns by (auto simp: returns_iff)
  from packages_attached_once [OF run] run show ?thesis by blast
qed



section \<open>Deposits and cancellation\<close>

text \<open>
  Every operation of the deposit ledger and of the settlement of a reservation keeps the
  books of the folios.
\<close>

theorem deposit_operations_keep_books:
  "keeps_inv ledger_ok (record_deposit dto) \<and>
   keeps_inv ledger_ok (apply_deposit ck i pid fo) \<and>
   keeps_inv ledger_ok (refund_deposit ck i pid) \<and>
   keeps_inv ledger_ok (forfeit_deposit ck i pid) \<and>
   keeps_inv ledger_ok (apply_held_deposits ck rid pid fid) \<and>
   keeps_inv ledger_ok (settle_deposits ck rid pid act) \<and>
   keeps_inv ledger_ok (settle_from_evaluation ck rid pid cur ev txt extra etxt)"
  by (intro conjI keeps)

text \<open>
  C28. Settling a reservation's deposits always returns, leaves none of them held, refunds exactly
  the refundable ones and only when the policy says so, forfeits the others, and touches no other
  deposit, charge, payment or folio.
\<close>

theorem settling_leaves_nothing_held:
  assumes "wf_hotel s"
  shows "\<exists>rs t. settle_deposits ck rid pid act s = (Inr rs, t) \<and>
    (\<forall>d \<in> set (deposits t). \<not> held_for rid pid d) \<and>
    deposits t = map (\<lambda>d. if held_for rid pid d then stamp_deposit ck
        (if act = RefundDeposits \<and> dp_refundable d then DepositRefunded else DepositForfeited) d else d) (deposits s) \<and>
    charges t = charges s \<and> payments t = payments s \<and> folios t = folios s"
proof -
  obtain rs t where run: "settle_deposits ck rid pid act s = (Inr rs, t)" "only_deposits s t"
    and d: "deposits t = map (settled_deposit ck rid pid act) (deposits s)"
    using settle_depositsI [OF assms, of ck rid pid act] by (auto simp: ends_def split: prod.splits sum.splits)
  have "\<not> held_for rid pid (settled_deposit ck rid pid act d)" for d
    by (simp add: settled_deposit_def held_for_def fate_def)
  then have held: "\<forall>d \<in> set (deposits t). \<not> held_for rid pid d" unfolding d by auto
  have "settled_deposit ck rid pid act = (\<lambda>d. if held_for rid pid d then stamp_deposit ck
        (if act = RefundDeposits \<and> dp_refundable d then DepositRefunded else DepositForfeited) d else d)"
    by (rule ext) (simp add: settled_deposit_def fate_def)
  then have "deposits t = map (\<lambda>d. if held_for rid pid d then stamp_deposit ck
        (if act = RefundDeposits \<and> dp_refundable d then DepositRefunded else DepositForfeited) d else d) (deposits s)"
    using d by (simp only:)
  with run held show ?thesis unfolding only_deposits_def only_stay_def by blast
qed

theorem settling_leaves_nothing_held_witness:
  "\<exists>rs t. settle_deposits ex_clock 7 30 RefundDeposits ex_hotel = (Inr rs, t) \<and>
    map dp_status (deposits t) = [DepositRefunded]"
  using settling_leaves_nothing_held [OF ex_hotel_wf, of ex_clock 7 30 RefundDeposits]
  by (auto simp: held_for_def ex_deposit_def stamp_deposit_def)

text \<open>
  C29. Applying a deposit to a folio takes its amount off the property's liability and credits
  the folio with it, and the books stay exact.
\<close>

theorem deposit_moves_to_folio:
  assumes "ledger_ok s" and "apply_deposit ck i pid (Some fid) s = (Inr d', t)"
  shows "\<exists>d. deposit_of s i pid = Some d \<and> dp_status d = DepositHeld \<and> ledger_ok t \<and>
    liability t pid = liability s pid - dp_amount d \<and>
    folio_charged t (fid, pid) = folio_charged s (fid, pid) - cents (dp_amount d)"
proof -
  have "ends (apply_deposit ck i pid (Some fid)) (\<lambda>_ t. \<exists>d. deposit_of s i pid = Some d \<and> dp_status d = DepositHeld \<and>
      ledger_ok t \<and> liability t pid = liability s pid - dp_amount d \<and>
      folio_charged t (fid, pid) = folio_charged s (fid, pid) - cents (dp_amount d)) (\<lambda>_ _. True) s"
    by (rule apply_deposit_folio [OF assms(1)]) blast
  from ends_InrD [OF this assms(2)] show ?thesis .
qed

theorem deposit_moves_to_folio_witness:
  "\<exists>d t. apply_deposit ex_clock 11 30 (Some 8) ex_hotel = (Inr d, t) \<and> liability t 30 = 0 \<and>
    folio_charged t (8, 30) = 60"
proof -
  obtain d t where run: "apply_deposit ex_clock 11 30 (Some 8) ex_hotel = (Inr d, t)"
    using ex_apply_returns by (auto simp: returns_iff)
  have "cents 50 = 50" using to_fixed_id [OF fits_of_int, of 2 50] by simp
  with run deposit_moves_to_folio [OF ex_hotel_ledger run] show ?thesis
    by (auto simp: ex_folio_sums deposit_of_def is_deposit_def ex_deposit_def liability_def)
qed

text \<open>
  C30. The penalty of a cancellation lies between nothing and the amount of the stay, and waiting
  never makes it smaller; evaluating it changes nothing.
\<close>

theorem cancellation_penalty:
  assumes "policies_ok s" and "0 \<le> amount" and "now \<le> later"
    and "evaluate_cancellation pid rate_plan arrival amount nights now s = (Inr ev, t)"
  shows "t = s \<and> 0 \<le> ev_penalty ev \<and> ev_penalty ev \<le> cents amount \<and>
    (\<exists>ev'. evaluate_cancellation pid rate_plan arrival amount nights later s = (Inr ev', s) \<and>
       ev_penalty ev \<le> ev_penalty ev')"
proof -
  obtain v where v: "\<forall>n. evaluate_cancellation pid rate_plan arrival amount nights n s =
      (Inr (evaluate_terms (terms_of v) arrival amount nights n), s)" and mem: "\<forall>p. v = Some p \<longrightarrow> p \<in> set (policies s)"
    using assms(4) by (rule evaluate_cancellation_terms)
  have "terms_ok (terms_of v)" using assms(1) mem by (intro terms_of_ok) auto
  with assms v show ?thesis
    using evaluated_penalty_bounds [of "terms_of v" amount arrival nights now]
      penalty_monotone [of "terms_of v" amount now later arrival nights] by auto
qed

theorem cancellation_penalty_witness:
  "\<exists>ev. evaluate_cancellation 30 4 738000 200 2 0 ex_hotel = (Inr ev, ex_hotel) \<and> ev_penalty ev \<le> cents 200"
proof -
  obtain ev t where run: "evaluate_cancellation 30 4 738000 200 2 0 ex_hotel = (Inr ev, t)"
    by (simp add: evaluate_cancellation_def resolve_policy_for_rate_plan_def bnd_assoc ex_rows)
  with cancellation_penalty [OF ex_policies_ok _ _ run, of 0] show ?thesis by simp
qed

text \<open>
  C31. Stored cancellation policies of the percentage kind hold a percentage between 0 and 100,
  whatever is created, updated or deleted.
\<close>

theorem policies_stay_valid:
  assumes "policies_ok s" and "policy_keys_ok s"
  shows "policies_ok (snd (create_policy dto s)) \<and> policies_ok (snd (update_policy i pid up s)) \<and>
    policies_ok (snd (soft_delete_policy i pid s))"
  using keeps_invD [OF keeps_create_policy assms(1)] update_policy_ok [OF assms, of i pid up]
    keeps_invD [OF keeps_soft_delete_policy assms(1)]
  by (simp add: ends_def split: prod.splits sum.splits)

theorem policies_stay_valid_witness: "policies_ok (snd (soft_delete_policy 3 30 ex_hotel))"
  using policies_stay_valid [OF ex_policies_ok] by (simp add: policy_keys_ok_def)

section \<open>House accounts and cash drawers\<close>

text \<open>
  C32. Whatever sequence of operations runs on the house accounts and the catalogue, returning or
  failing, each account stores exactly its charges less its captured payments, the guest folios stay
  exact, and an account that was closed is left as it was.
\<close>

theorem house_balance_exact:
  assumes "house_ok s" and "a \<in> set (house_accounts (house_run acts s))"
  shows "ha_balance a = house_charged (house_run acts s) (house_key a) - house_paid (house_run acts s) (house_key a) \<and>
    ledger_ok (house_run acts s) \<and>
    (\<forall>b \<in> set (house_accounts s). ha_status b = IsClosed \<longrightarrow> b \<in> set (house_accounts (house_run acts s)))"
proof -
  have ok: "house_ok (house_run acts s)" by (rule house_keptD [OF house_ok_kept assms(1)])
  have "b \<in> set (house_accounts (house_run acts s))" if "b \<in> set (house_accounts s)" "ha_status b = IsClosed" for b
    using house_keptD [OF stands_kept [OF that(2)], of s acts] that(1) assms(1) by (simp add: stands_def)
  then show ?thesis using house_exact(3) [OF ok assms(2)] house_okD(1) [OF ok] by blast
qed

theorem house_balance_exact_witness:
  "\<exists>a. a \<in> set (house_accounts (house_run ex_bar_actions ex_shop)) \<and>
     ha_balance a = house_charged (house_run ex_bar_actions ex_shop) (house_key a)
       - house_paid (house_run ex_bar_actions ex_shop) (house_key a)"
proof -
  have "stands ex_closed_account ex_shop" "ha_status ex_closed_account = IsClosed"
    by (simp_all add: stands_def ex_shop_ok ex_closed_account_def)
  then have "ex_closed_account \<in> set (house_accounts (house_run ex_bar_actions ex_shop))"
    using house_keptD [OF stands_kept] by (simp add: stands_def)
  with house_balance_exact [OF ex_shop_ok this] show ?thesis by blast
qed

text \<open>
  C33. A sale that returns charges the account the price of an active product times the quantity, to
  the cent, books a payment of the same amount exactly when a method was named, touches no other
  account, and reports the balance that results: a sale paid at once leaves the balance as it was.
\<close>

theorem sale_effect:
  assumes "house_ok s" and "sell_product now hid pid dto s = (Inr r, t)"
  shows "sa_product r \<in> set (products s) \<and> pr_is_active (sa_product r) \<and>
    sa_total r = cents (pr_price (sa_product r) * of_nat (sa_quantity r)) \<and>
    house_charged t = (house_charged s)((hid, pid) := house_charged s (hid, pid) + sa_total r) \<and>
    house_paid t = (house_paid s)((hid, pid) := house_paid s (hid, pid) + (if sd_method dto = None then 0 else sa_total r)) \<and>
    sa_balance r = house_charged t (hid, pid) - house_paid t (hid, pid)"
  using ends_InrD [OF sell_product_did [OF assms(1)] assms(2)] by (auto simp: sale_did_def house_moved_def)

theorem sale_effect_witness:
  "\<exists>r t. sell_product 9 16 30 ex_sell ex_shop = (Inr r, t) \<and>
     sa_balance r = house_charged t (16, 30) - house_paid t (16, 30) \<and> house_charged t (16, 30) = 5 + sa_total r"
proof -
  obtain r t where run: "sell_product 9 16 30 ex_sell ex_shop = (Inr r, t)"
    using ex_sell_returns by (auto simp: returns_iff)
  show ?thesis using sale_effect [OF ex_shop_ok run] run by (auto simp: ex_shop_sums)
qed

text \<open>
  Correcting a cash payment of a house account within its void window voids the row and leaves
  the account's stored totals alone: from then on its balance is not its charges less its payments.
\<close>

theorem cash_void_forgets_house:
  assumes "house_ok s" and "y \<in> set (payments s)" and "y_property y = pid" and "y_folio y = None" and "y_request y = None"
    and "y_house y = Some hid" and "y_method y = Cash" and "y_status y = PayCaptured"
    and "now - y_created y \<le> cash_void_window" and "y_amount y \<noteq> 0"
    and "a \<in> set (house_accounts s)" and "house_key a = (hid, pid)"
  shows "\<exists>r t. correct_payment g mc now today (y_id y) pid None s = (Inr r, t) \<and> a \<in> set (house_accounts t) \<and>
      house_paid t (hid, pid) = house_paid s (hid, pid) - y_amount y \<and>
      ha_balance a \<noteq> house_charged t (hid, pid) - house_paid t (hid, pid)"
proof -
  let ?t = "payments_update (upd (\<lambda>z. is_payment (y_id y) pid z \<and> y_status z = PayCaptured) (\<lambda>z. z\<lparr>y_status := PayVoided\<rparr>)) s"
  have paid: "house_paid ?t (hid, pid) = house_paid s (hid, pid) - y_amount y"
    by (rule house_paid_voided) (use assms in simp_all)
  have keys: "distinct (map y_id (payments s))"
    using house_okD(3) [OF assms(1)] by (simp add: ledger_base_def wf_hotel_def keys_ok_def)
  have found: "first_row (sel (is_payment (y_id y) pid) (payments s)) = Some y"
      "first_row (sel (\<lambda>z. is_payment (y_id y) pid z \<and> y_status z = PayCaptured) (payments s)) = Some y"
    by (rule first_sel_key [OF keys assms(2)]; simp add: assms is_payment_def)+
  have op: "legal_op now y = OpVoid" using assms by (simp add: legal_op_def)
  have "ha_balance a = house_charged s (hid, pid) - house_paid s (hid, pid)"
    using house_exact(3) [OF assms(1,11)] assms(12) by simp
  with paid assms(10) have "ha_balance a \<noteq> house_charged ?t (hid, pid) - house_paid ?t (hid, pid)"
    by (simp add: house_charged_def)
  moreover have "ends (correct_payment g mc now today (y_id y) pid None)
      (\<lambda>r t. house_accounts t = house_accounts s \<and> charges t = charges s \<and> payments t = payments ?t) (\<lambda>_ _. False) s"
    using assms by (simp add: correct_payment_def correct_by_void_def find_payment_row_def assert_generic_access_allowed_def
        wp op found recalculate_of_def is_gateway_card_def)
  then obtain r t where run: "correct_payment g mc now today (y_id y) pid None s = (Inr r, t)"
      and t: "house_accounts t = house_accounts s" "charges t = charges ?t" "payments t = payments ?t"
    by (auto simp: ends_def split: prod.splits sum.splits)
  have "house_charged t = house_charged ?t" "house_paid t = house_paid ?t"
    using t by (auto intro: house_sums_cong)
  ultimately show ?thesis using run paid assms(11) t(1) by auto
qed

theorem cash_void_forgets_house_witness:
  "\<exists>r t. correct_payment (mock_gateway ''u'') ex_merchants 1000 719528 21 30 None ex_shop = (Inr r, t) \<and>
     ha_balance ex_account \<noteq> house_charged t (16, 30) - house_paid t (16, 30)"
  using cash_void_forgets_house [OF ex_shop_ok, of ex_bar_payment 30 16 1000 ex_account "mock_gateway ''u''" ex_merchants 719528]
  by (auto simp: ex_shop_rows ex_payment_def cash_void_window_def house_key_def)

text \<open>
  C34. Whatever sequence of whole operations runs at the tills, a cashier never has two open sessions
  on one drawer, and every closed session stores as expected exactly its opening float and its cash
  movements, so nothing was moved after the close.
\<close>

theorem shifts_reconcile:
  assumes "cash_ok s" and "x \<in> set (cash_sessions (cash_run acts s))"
  shows "(cs_status x = IsClosed \<longrightarrow> cs_expected x = Some (drawer_balance (cash_run acts s) x)) \<and>
    (\<forall>y \<in> set (cash_sessions (cash_run acts s)). cs_status x = IsOpen \<and> cs_status y = IsOpen \<and>
       cs_property x = cs_property y \<and> cs_drawer x = cs_drawer y \<and> cs_cashier x = cs_cashier y \<longrightarrow> x = y)"
  using cash_run_ok [OF assms(1), of acts] assms(2) unfolding cash_ok_def reconciled_def one_shift_def by blast

theorem shifts_reconcile_witness:
  "\<exists>x. x \<in> set (cash_sessions (cash_run [CloseShift 2 31 ex_close] ex_till)) \<and>
     cs_status x = IsClosed \<and> cs_expected x = Some (drawer_balance (cash_run [CloseShift 2 31 ex_close] ex_till) x)"
proof -
  obtain x t where run: "close_session 2 31 ex_close ex_till = (Inr x, t)"
    using ex_close_returns by (auto simp: returns_iff)
  have "x \<in> set (cash_sessions (cash_run [CloseShift 2 31 ex_close] ex_till))" "cs_status x = IsClosed"
    using ends_InrD [OF close_session_did [OF ex_till_ok] run] run by (auto simp: cash_run_def dest: session_of_SomeD)
  with shifts_reconcile [OF ex_till_ok this(1)] show ?thesis by blast
qed

text \<open>
  C35. Closing a session takes the final drop out of the drawer, stores the opening float and the
  signed movements as expected, and as variance exactly what was counted less that; a report made of
  it afterwards gives the same numbers, and its lines add up to them.
\<close>

theorem close_then_report:
  assumes "cash_ok s" and "close_session now sid dto s = (Inr x, t)" and "fits 2 (xd_counted dto)"
    and "make_cashier_report sid (xd_property dto) t = (Inr r, u)"
  shows "\<exists>y. session_of s sid (xd_property dto) = Some y \<and> cs_status y = IsOpen \<and>
    cr_expected r = drawer_balance s y - drop_amount dto \<and> cr_expected r = report_sum y (cr_summary r) \<and>
    cr_counted r = Some (xd_counted dto) \<and> cr_variance r = Some (xd_counted dto - cr_expected r)"
  using ends_InrD [OF closed_report [OF assms(1-3)] assms(4)] .

theorem close_then_report_witness:
  "\<exists>x t r u. close_session 2 31 ex_close ex_till = (Inr x, t) \<and> make_cashier_report 31 30 t = (Inr r, u) \<and>
     cr_expected r = 145 \<and> cr_variance r = Some (- 5)"
proof -
  obtain x t where run: "close_session 2 31 ex_close ex_till = (Inr x, t)"
    using ex_close_returns by (auto simp: returns_iff)
  have "session_of t 31 30 = Some x" "cash_ok t"
    using ends_InrD [OF close_session_did [OF ex_till_ok] run] by (auto simp: ex_close_def)
  then have "returns (make_cashier_report 31 30) t"
    by (simp add: returns_def make_cashier_report_def wp split: open_status.split option.split)
  then obtain r u where report: "make_cashier_report 31 (xd_property ex_close) t = (Inr r, u)"
    by (auto simp: returns_iff ex_close_def)
  have amounts: "cents 5 = 5" "fits 2 (xd_counted ex_close)"
    using to_fixed_id [OF fits_of_int, of 2 5] fits_of_int [of 2 140] by (simp_all add: ex_close_def)
  have shift: "session_of ex_till 31 30 = Some ex_session" by (simp add: session_of_def is_session_def ex_session_def)
  have "drawer_balance ex_till ex_session - drop_amount ex_close = 145"
    using amounts by (simp add: drawer_balance_def drop_amount_def movement_of_def movement_value_def ex_session_def
        ex_movement_def ex_close_def)
  with close_then_report [OF ex_till_ok run amounts(2) report] shift run report show ?thesis
    by (auto simp: ex_close_def)
qed

section \<open>Stays\<close>

text \<open>
  C36. A sequence of reservation statuses joined by allowed transitions never returns to a status
  and has at most six steps: every stay ends.
\<close>

theorem stays_end:
  assumes "successively validate_transition qs"
  shows "distinct qs \<and> length qs \<le> 7"
proof (cases qs)
  case (Cons q ts)
  with assms have p: "reservation_machine.path q ts" using stay_path_iff by simp
  from reservation_machine.path_distinct [OF p] reservation_machine.path_length [OF p stay_rank_le] Cons
  show ?thesis by simp
qed simp

theorem stays_end_witness:
  "distinct [Pending, Confirmed, Assigned, CheckedIn, Stayover, DueOut, CheckedOut]"
  using stays_end [of "[Pending, Confirmed, Assigned, CheckedIn, Stayover, DueOut, CheckedOut]"]
  by (simp add: validate_transition_def)

text \<open>
  When check-in, cancellation and no-show requests for the same reservation race, in any
  number and order, at most one of them gets the reservation.
\<close>

theorem racing_reservation_claims:
  assumes "wf_hotel s" and "reservation_of s rid pid = Some r"
    and "\<And>c. c \<in> set cs \<Longrightarrow> c \<in> {([Assigned], CheckedIn), ([Pending, Confirmed, Assigned], Cancelled),
        ([Confirmed, Assigned], NoShow)}"
  shows "reservation_claims.wins (rid, pid) cs (Good s) \<le> 1"
proof (rule reservation_claims.at_most_one_win)
  show "good_status (Good s) (rid, pid) = Some (r_status r)"
    using assms(1,2) by (simp add: good_status_def status_in_def Good_inverse)
  fix f q f' q' assume "(f, q) \<in> set cs" "(f', q') \<in> set cs"
  from this [THEN assms(3)] show "q \<notin> set f'" by auto
qed

theorem racing_reservation_claims_witness:
  "reservation_claims.wins (7, 30) [([Assigned], CheckedIn), ([Pending, Confirmed, Assigned], Cancelled)]
     (Good ex_hotel) \<le> 1"
  by (rule racing_reservation_claims [OF ex_hotel_wf, where r = ex_reservation])
    (auto simp: reservation_of_def is_reservation_def ex_reservation_def)

text \<open>
  A room can be brought from every housekeeping status to every other: no status is a trap.
\<close>

theorem rooms_are_never_stuck: "room_step\<^sup>*\<^sup>* q t"
  using to_dirty from_dirty by (rule rtranclp_trans)

text \<open>
  C37. The availability check every booking path runs passes exactly when each night of the stay
  has a free unit: rooms plus the overbooking allowance, less the reservations in house and the
  blocks imported from other channels.
\<close>

theorem availability_check_exact:
  assumes "arrival < departure" and "distinct (map t_id (room_types s))"
    and "t \<in> set (room_types s)" and "t_property t = pid" and "t_is_active t"
  shows "\<exists>rows. search_availability pid arrival departure (Some (t_id t)) None s = (Inr rows, s) \<and>
    (assert_full_stay_availability rows (t_id t) arrival departure = Inr () \<longleftrightarrow>
     (\<forall>d \<in> {arrival..<departure}. 0 < free_units s pid t d))"
proof -
  have one: "searched_types s pid (Some (t_id t)) = [t]"
    using assms(2-5) by (rule searched_one_type)
  have "0 < a_available (night_row s pid None t d) \<longleftrightarrow> 0 < free_units s pid t d" for d
    using a_available_free [OF refl, of s pid t d] by linarith
  then show ?thesis
    using assert_full_stay_row [OF assms(1)]
    by (simp add: search_availability_apply [OF assms(1)] one)
qed

theorem availability_check_exact_witness:
  "\<exists>rows. search_availability 30 738002 738005 (Some 2) None ex_hotel = (Inr rows, ex_hotel) \<and>
    (assert_full_stay_availability rows 2 738002 738005 = Inr () \<longleftrightarrow>
     (\<forall>d \<in> {738002..<738005}. 0 < free_units ex_hotel 30 ex_room_type d))"
  using availability_check_exact [of 738002 738005 ex_hotel ex_room_type 30] by (simp add: ex_room_type_def)

text \<open>
  A rate plan is sellable for a stay exactly when it is active and valid for the whole stay
  and every restriction that overlaps the stay admits it: not closed, no closed arrival or
  departure day met, and the length within the minimum and maximum.
\<close>

theorem sellable_exactly:
  "assert_sellable pid plan_id arrival departure s = (Inr (), s) \<longleftrightarrow>
   arrival < departure \<and>
   (\<exists>plan. plan_of s plan_id pid = Some plan \<and> valid_for arrival departure plan) \<and>
   (\<forall>r \<in> set (restrictions_on s pid plan_id arrival departure). admits arrival departure r)"
  by (rule sellable_iff)

theorem sellable_exactly_witness: "assert_sellable 30 4 738000 738002 ex_hotel = (Inr (), ex_hotel)"
  using sellable_exactly [of 30 4 738000 738002 ex_hotel]
  by (simp add: plan_of_def is_plan_def ex_plan_def valid_for_def restrictions_on_def)

text \<open>
  The effective rate is never negative, its length-of-stay adjustment is the one with the most
  nights among those the stay qualifies for, and its occupancy band belongs to the plan.
\<close>

theorem effective_rate_rules:
  assumes "calculate_derived_rate i pid c s = (Inr er, t)"
  shows "t = s \<and> 0 \<le> er_rate er \<and> (\<exists>plan. plan_of s i pid = Some plan \<and>
    (case er_los er of
       None \<Rightarrow> nat (context_nights c) = 0 \<or> (\<forall>a \<in> set (p_los plan). nat (context_nights c) < la_min_nights a)
     | Some a \<Rightarrow> a \<in> set (p_los plan) \<and> la_min_nights a \<le> nat (context_nights c) \<and>
         (\<forall>b \<in> set (p_los plan). la_min_nights b \<le> nat (context_nights c) \<longrightarrow> la_min_nights b \<le> la_min_nights a)) \<and>
    (\<forall>b. er_band er = Some b \<longrightarrow> b \<in> set (p_bands plan)))"
  using ends_InrD [OF effective_rate_ends assms] by blast

theorem effective_rate_rules_witness:
  "\<exists>er. calculate_derived_rate 4 30 \<lparr>rc_nights = 2, rc_check_in = None, rc_check_out = None, rc_stay_date = None\<rparr>
     ex_hotel = (Inr er, ex_hotel) \<and> 0 \<le> er_rate er"
proof -
  let ?c = "\<lparr>rc_nights = 2, rc_check_in = None, rc_check_out = None, rc_stay_date = None\<rparr>"
  obtain er t where run: "calculate_derived_rate 4 30 ?c ex_hotel = (Inr er, t)"
    by (simp add: calculate_derived_rate_def find_rate_plan_def is_plan_def base_rate_of_def ex_rows Let_def)
  with effective_rate_rules [OF run] show ?thesis by blast
qed

section \<open>Dates\<close>

text \<open>
  C38. The strings the date validator accepts are exactly the printed forms of the dates of the
  calendar, leap years included.
\<close>

theorem canonical_dates: "is_canonical_calendar_date v \<longleftrightarrow> (\<exists>c. valid_civil c \<and> v = iso c)"
  by (rule canonical_iff)

text \<open>
  The string comparison of the validator and the calendar loop agree: a pair of date strings
  passes exactly when its nights can be enumerated.
\<close>

theorem stay_validation_agrees:
  "assert_canonical_stay_dates a b = Inr () \<longleftrightarrow> (\<exists>ds. stay_dates a b = Inr ds)"
  by (rule canonical_stay_iff)

text \<open>
  C39. The nights of a stay are every day from arrival to the day before departure, once each and
  in order, across month ends and leap days.
\<close>

theorem stay_nights_complete:
  assumes "stay_dates a b = Inr ds"
  shows "\<exists>x y. valid_civil x \<and> valid_civil y \<and> a = iso x \<and> b = iso y \<and> ds = map iso (civil_range x y) \<and>
    map day_number (civil_range x y) = [day_number x..<day_number y] \<and> length ds = day_number y - day_number x"
proof -
  obtain x y where xy: "valid_civil x" "valid_civil y" "a = iso x" "b = iso y" "ds = map iso (civil_range x y)"
    using assms by (rule stay_dates_InrE)
  have "map day_number (civil_range x y) = [day_number x..<day_number y]"
    using civil_range_days xy(1,2) by blast
  then show ?thesis using xy by (metis length_map length_upt)
qed

theorem stay_nights_complete_witness: "\<exists>ds. stay_dates ''2024-02-28'' ''2024-03-01'' = Inr ds \<and> length ds = 2"
proof -
  have "stay_dates ''2024-02-28'' ''2024-03-01'' = Inr [''2024-02-28'', ''2024-02-29'']" by code_simp
  with stay_nights_complete [OF this] show ?thesis by simp
qed

section \<open>Taxes\<close>

text \<open>
  The items of a charge in closed form: a further rule adds at most one item, of its tax on
  the charge or, when it compounds, on the charge plus all items before it, rounded to cents.
\<close>

theorem tax_items_compound:
  "tax_items ct guest opts amount running (rs @ [r]) =
   (let items = tax_items ct guest opts amount running rs; base = running + total ti_amount items
    in if produces ct guest opts amount base r then items @ [item_of opts amount base r] else items)"
  by (rule tax_items_snoc)



end
